(* ===== verification/Prelude.thy ===== *)
theory Prelude
  imports Complex_Main "HOL-Library.More_List"
begin

text \<open>
  Shared vocabulary of the development: the state-and-error computations in which the
  database operations are written, JavaScript's string and array helpers that several
  components call, and the collections of rewrite rules the component theories fill.

  Strings are lists of code units in the Latin-1 range. A \<open>Date\<close> or a stored timestamp
  is an integer number of milliseconds (the code keeps timestamps as fixed-width text, whose
  order is the order of the numbers). A JavaScript number that carries a cost is a rational
  number: rounding of doubles is not modelled.
\<close>

named_theorems outcome_simps \<open>evaluation of state-and-error computations\<close>
named_theorems table_simps \<open>reading a table after an update\<close>

type_synonym instant = int
type_synonym usd = rat

subsection \<open>Computations with a state and an exception\<close>

text \<open>
  A method that may throw is a function from the state to an error or a result, and the state
  it leaves behind. A throw keeps the writes made before it, as it does in the code outside a
  transaction.
\<close>

type_synonym ('s, 'e, 'a) comp = "'s \<Rightarrow> ('e + 'a) \<times> 's"

definition give :: "'a \<Rightarrow> ('s, 'e, 'a) comp" where
  "give x s = (Inr x, s)"

definition fail :: "'e \<Rightarrow> ('s, 'e, 'a) comp" where
  "fail e s = (Inl e, s)"

definition andthen :: "('s, 'e, 'a) comp \<Rightarrow> ('a \<Rightarrow> ('s, 'e, 'b) comp) \<Rightarrow> ('s, 'e, 'b) comp" where
  "andthen m k s = (case m s of (Inl e, t) \<Rightarrow> (Inl e, t) | (Inr x, t) \<Rightarrow> k x t)"

definition guard_or :: "bool \<Rightarrow> 'e \<Rightarrow> ('s, 'e, unit) comp" where
  "guard_or b e = (if b then give () else fail e)"

definition modify :: "('s \<Rightarrow> 's) \<Rightarrow> ('s, 'e, unit) comp" where
  "modify f s = (Inr (), f s)"

definition reading :: "('s \<Rightarrow> 'a) \<Rightarrow> ('s, 'e, 'a) comp" where
  "reading f s = (Inr (f s), s)"

text \<open>A transaction that throws leaves the state as it was.\<close>

definition atomically :: "('s, 'e, 'a) comp \<Rightarrow> ('s, 'e, 'a) comp" where
  "atomically m s = (case m s of (Inl e, _) \<Rightarrow> (Inl e, s) | (Inr x, t) \<Rightarrow> (Inr x, t))"

text \<open>An operation of one component run on its part of a larger state.\<close>

definition on_part :: "('w \<Rightarrow> 's) \<Rightarrow> ('s \<Rightarrow> 'w \<Rightarrow> 'w) \<Rightarrow> ('s, 'e, 'a) comp \<Rightarrow> ('w, 'e, 'a) comp" where
  "on_part sel put m w = (case m (sel w) of (r, t) \<Rightarrow> (r, put t w))"

lemma give_eq [outcome_simps]: "give x s = (Inr x, s)"
  by (simp add: give_def)

lemma fail_eq [outcome_simps]: "fail e s = (Inl e, s)"
  by (simp add: fail_def)

lemma modify_eq [outcome_simps]: "modify f s = (Inr (), f s)"
  by (simp add: modify_def)

lemma reading_eq [outcome_simps]: "reading f s = (Inr (f s), s)"
  by (simp add: reading_def)

lemma guard_or_eq [outcome_simps]:
  "guard_or b e s = (if b then (Inr (), s) else (Inl e, s))"
  by (simp add: guard_or_def give_def fail_def)

lemma andthen_Inr [outcome_simps]: "m s = (Inr x, t) \<Longrightarrow> andthen m k s = k x t"
  by (simp add: andthen_def)

lemma andthen_Inl [outcome_simps]: "m s = (Inl e, t) \<Longrightarrow> andthen m k s = (Inl e, t)"
  by (simp add: andthen_def)

lemma andthen_Inr_iff:
  "andthen m k s = (Inr y, u) \<longleftrightarrow> (\<exists>x t. m s = (Inr x, t) \<and> k x t = (Inr y, u))"
  by (auto simp: andthen_def split: prod.splits sum.splits)

lemma andthen_give [outcome_simps]: "andthen (give x) k s = k x s"
  by (simp add: andthen_def give_def)

lemma andthen_modify [outcome_simps]: "andthen (modify f) k s = k () (f s)"
  by (simp add: andthen_def modify_def)

lemma andthen_reading [outcome_simps]: "andthen (reading f) k s = k (f s) s"
  by (simp add: andthen_def reading_def)

lemma andthen_guard [outcome_simps]:
  "andthen (guard_or b e) k s = (if b then k () s else (Inl e, s))"
  by (simp add: andthen_def guard_or_def give_def fail_def)

lemma atomically_Inl: "atomically m s = (Inl e, t) \<Longrightarrow> t = s"
  by (auto simp: atomically_def split: prod.splits sum.splits)

lemma atomically_Inr_iff: "atomically m s = (Inr x, t) \<longleftrightarrow> m s = (Inr x, t)"
  by (auto simp: atomically_def split: prod.splits sum.splits)

text \<open>What holds of every state a computation can leave, thrown or returned.\<close>

definition keeps :: "('s \<Rightarrow> bool) \<Rightarrow> ('s, 'e, 'a) comp \<Rightarrow> bool" where
  "keeps I m \<longleftrightarrow> (\<forall>s. I s \<longrightarrow> I (snd (m s)))"

named_theorems keeps_intros \<open>structural rules for preserved invariants\<close>

lemma keepsI: "(\<And>s. I s \<Longrightarrow> I (snd (m s))) \<Longrightarrow> keeps I m"
  by (simp add: keeps_def)

lemma keepsD: "keeps I m \<Longrightarrow> I s \<Longrightarrow> I (snd (m s))"
  by (simp add: keeps_def)

lemma keeps_result: "keeps I m \<Longrightarrow> I s \<Longrightarrow> m s = (r, t) \<Longrightarrow> I t"
  using keepsD [of I m s] by simp

lemma keeps_give [keeps_intros]: "keeps I (give x)"
  by (simp add: keeps_def give_def)

lemma keeps_fail [keeps_intros]: "keeps I (fail e)"
  by (simp add: keeps_def fail_def)

lemma keeps_guard [keeps_intros]: "keeps I (guard_or b e)"
  by (simp add: keeps_def guard_or_def give_def fail_def)

lemma keeps_reading [keeps_intros]: "keeps I (reading f)"
  by (simp add: keeps_def reading_def)

lemma keeps_modify: "(\<And>s. I s \<Longrightarrow> I (f s)) \<Longrightarrow> keeps I (modify f)"
  by (simp add: keeps_def modify_def)

lemma keeps_andthen [keeps_intros]:
  assumes "keeps I m" and "\<And>x. keeps I (k x)"
  shows "keeps I (andthen m k)"
  using assms by (auto simp: keeps_def andthen_def split: prod.splits sum.splits)

lemma keeps_if [keeps_intros]: "(b \<Longrightarrow> keeps I m) \<Longrightarrow> (\<not> b \<Longrightarrow> keeps I n) \<Longrightarrow> keeps I (if b then m else n)"
  by simp

lemma keeps_case_option [keeps_intros]:
  "(x = None \<Longrightarrow> keeps I m) \<Longrightarrow> (\<And>y. x = Some y \<Longrightarrow> keeps I (n y)) \<Longrightarrow>
   keeps I (case x of None \<Rightarrow> m | Some y \<Rightarrow> n y)"
  by (cases x) simp_all

lemma keeps_atomically [keeps_intros]: "keeps I m \<Longrightarrow> keeps I (atomically m)"
  by (auto simp: keeps_def atomically_def split: prod.splits sum.splits)

subsection \<open>JavaScript strings\<close>

definition code_unit :: "char \<Rightarrow> int" where
  "code_unit c = of_char c"

definition in_range :: "char \<Rightarrow> char \<Rightarrow> char \<Rightarrow> bool" where
  "in_range a b c \<longleftrightarrow> code_unit a \<le> code_unit c \<and> code_unit c \<le> code_unit b"

definition is_digit :: "char \<Rightarrow> bool" where
  "is_digit c \<longleftrightarrow> in_range (CHR ''0'') (CHR ''9'') c"

definition is_upper :: "char \<Rightarrow> bool" where
  "is_upper c \<longleftrightarrow> in_range (CHR ''A'') (CHR ''Z'') c"

definition is_lower :: "char \<Rightarrow> bool" where
  "is_lower c \<longleftrightarrow> in_range (CHR ''a'') (CHR ''z'') c"

definition is_word :: "char \<Rightarrow> bool" where
  "is_word c \<longleftrightarrow> is_lower c \<or> is_upper c \<or> is_digit c \<or> c = CHR ''_''"

definition to_lower :: "char \<Rightarrow> char" where
  "to_lower c = (if is_upper c then char_of (code_unit c + 32) else c)"

definition to_upper :: "char \<Rightarrow> char" where
  "to_upper c = (if is_lower c then char_of (code_unit c - 32) else c)"

text \<open>\<open>toLowerCase\<close> of a Latin-1 text: letters with an accent are folded too.\<close>

definition lower_char :: "char \<Rightarrow> char" where
  "lower_char c = (let n = code_unit c in
     if is_upper c \<or> (192 \<le> n \<and> n \<le> 222 \<and> n \<noteq> 215) then char_of (n + 32) else c)"

definition lower_case :: "string \<Rightarrow> string" where
  "lower_case s = map lower_char s"

text \<open>The white space that \<open>String.prototype.trim\<close> strips, among the Latin-1 code units.\<close>

definition is_js_space :: "char \<Rightarrow> bool" where
  "is_js_space c \<longleftrightarrow> (let n = code_unit c in (9 \<le> n \<and> n \<le> 13) \<or> n = 32 \<or> n = 160)"

definition trim :: "string \<Rightarrow> string" where
  "trim s = rev (dropWhile is_js_space (rev (dropWhile is_js_space s)))"

definition is_blank :: "string option \<Rightarrow> bool" where
  "is_blank v = (case v of None \<Rightarrow> True | Some s \<Rightarrow> trim s = [])"

definition non_blank :: "string option \<Rightarrow> bool" where
  "non_blank v = (case v of None \<Rightarrow> False | Some s \<Rightarrow> trim s \<noteq> [])"

definition starts_with :: "string \<Rightarrow> string \<Rightarrow> bool" where
  "starts_with p s \<longleftrightarrow> take (length p) s = p"

text \<open>\<open>Array.prototype.join\<close>.\<close>

fun join_strings :: "string \<Rightarrow> string list \<Rightarrow> string" where
  "join_strings sep [] = []"
| "join_strings sep [x] = x"
| "join_strings sep (x # y # ys) = x @ sep @ join_strings sep (y # ys)"

lemma is_blank_iff: "is_blank v \<longleftrightarrow> \<not> non_blank v"
  by (cases v) (simp_all add: is_blank_def non_blank_def)

lemma starts_with_append [simp]: "starts_with p (p @ s)"
  by (simp add: starts_with_def)

lemma starts_with_iff: "starts_with p s \<longleftrightarrow> (\<exists>u. s = p @ u)"
  by (metis append_eq_conv_conj append_take_drop_id starts_with_def)

lemma dropWhile_all_iff: "(\<forall>c \<in> set (dropWhile p s). p c) \<longleftrightarrow> (\<forall>c \<in> set s. p c)"
proof (induction s)
  case (Cons a s)
  then show ?case by (cases "p a") simp_all
qed simp

lemma trim_eq_Nil_iff: "trim s = [] \<longleftrightarrow> (\<forall>c \<in> set s. is_js_space c)"
proof -
  have "trim s = [] \<longleftrightarrow> (\<forall>c \<in> set (dropWhile is_js_space s). is_js_space c)"
    unfolding trim_def rev_is_Nil_conv dropWhile_eq_Nil_conv set_rev ..
  then show ?thesis by (simp only: dropWhile_all_iff)
qed

lemma last_dropWhile_keep:
  "xs \<noteq> [] \<Longrightarrow> \<not> p (last xs) \<Longrightarrow> dropWhile p xs \<noteq> [] \<and> last (dropWhile p xs) = last xs"
  by (induction xs) (auto split: if_splits)

lemma trim_idem [simp]: "trim (trim s) = trim s"
proof (cases "trim s = []")
  case True
  then show ?thesis by (simp add: trim_def [of "[]"])
next
  case False
  let ?t = "dropWhile is_js_space s"
  have ne: "?t \<noteq> []"
  proof
    assume e: "?t = []"
    show False using False unfolding trim_def e by simp
  qed
  then have h: "\<not> is_js_space (hd ?t)" by (rule hd_dropWhile)
  have l: "dropWhile is_js_space (rev (trim s)) = rev (trim s)"
    by (simp add: trim_def dropWhile_idem)
  have "hd (trim s) = hd ?t"
  proof -
    have "\<not> is_js_space (last (rev ?t))" using h ne by (simp add: last_rev)
    then have "dropWhile is_js_space (rev ?t) \<noteq> [] \<and>
        last (dropWhile is_js_space (rev ?t)) = last (rev ?t)"
      using ne by (intro last_dropWhile_keep) simp_all
    then show ?thesis using ne by (simp add: trim_def hd_rev last_rev)
  qed
  with h False have "dropWhile is_js_space (trim s) = trim s"
    by (cases "trim s") auto
  with l show ?thesis by (simp add: trim_def [of "trim s"])
qed

subsection \<open>Tables\<close>

text \<open>
  A table is the list of its rows in rowid order. An update rewrites the rows that match; the
  number of matching rows is what \<open>assertChanges\<close> looks at.
\<close>

definition update_where :: "('r \<Rightarrow> bool) \<Rightarrow> ('r \<Rightarrow> 'r) \<Rightarrow> 'r list \<Rightarrow> 'r list" where
  "update_where p f rows = map (\<lambda>r. if p r then f r else r) rows"

lemma length_update_where [simp]: "length (update_where p f rows) = length rows"
  by (simp add: update_where_def)

lemma set_update_where: "set (update_where p f rows) = (\<lambda>r. if p r then f r else r) ` set rows"
  by (simp add: update_where_def)

lemma update_where_Nil [simp]: "update_where p f [] = []"
  by (simp add: update_where_def)

lemma update_where_Cons [simp]:
  "update_where p f (r # rows) = (if p r then f r else r) # update_where p f rows"
  by (simp add: update_where_def)

lemma map_update_where_same:
  "(\<And>r. p r \<Longrightarrow> g (f r) = g r) \<Longrightarrow> map g (update_where p f rows) = map g rows"
  by (simp add: update_where_def)

lemma find_update_where:
  assumes "\<And>r. p r \<Longrightarrow> q (f r) = q r"
  shows "find q (update_where p f rows) = map_option (\<lambda>r. if p r then f r else r) (find q rows)"
  using assms by (induction rows) auto

lemma find_Some_iff_unique:
  assumes "distinct (map k rows)"
  shows "find (\<lambda>r. k r = i) rows = Some r \<longleftrightarrow> r \<in> set rows \<and> k r = i"
  using assms by (induction rows) (auto simp: image_iff)

lemma find_None_iff_key: "find (\<lambda>r. k r = i) rows = None \<longleftrightarrow> i \<notin> k ` set rows"
  by (auto simp: find_None_iff)

lemma find_SomeD: "find p xs = Some x \<Longrightarrow> x \<in> set xs \<and> p x"
  by (auto simp: find_Some_iff)

lemma update_where_none: "(\<And>r. r \<in> set rows \<Longrightarrow> \<not> p r) \<Longrightarrow> update_where p f rows = rows"
  by (induction rows) auto

lemma distinct_map_replace:
  assumes "distinct (map key rows)" and "distinct (map k rows)" and "k l \<notin> k ` set rows"
  shows "distinct (map k (update_where (\<lambda>m. key m = a) (\<lambda>_. l) rows))"
  using assms
proof (induction rows)
  case (Cons r rows)
  show ?case
  proof (cases "key r = a")
    case True
    with Cons.prems(1) have "update_where (\<lambda>m. key m = a) (\<lambda>_. l) rows = rows"
      by (intro update_where_none) (auto simp: image_iff)
    with True Cons.prems show ?thesis by auto
  next
    case False
    with Cons show ?thesis by (auto simp: set_update_where)
  qed
qed simp

end
