(* ===== verification/Ductum_Types.thy ===== *)
theory Ductum_Types
  imports Prelude
begin

text \<open>
  The data model of \<open>packages/core/src/types.ts\<close>, \<open>lifecycle-types.ts\<close> and
  \<open>type-values.ts\<close>: closed string unions are datatypes, interfaces are records with the
  source's fields in the source's order, \<open>T | null\<close> and optional fields are options, and a
  value of type \<open>unknown\<close> that came out of a JSON column is a \<open>json\<close>. Branded ids are
  strings. The last section holds the errors the modelled methods throw and the events they
  emit.
\<close>

subsection \<open>Closed unions\<close>

datatype spec_status =
  SpecDraft | SpecReviewed | SpecApproved | SpecImplementing | SpecDone | SpecFailed

datatype task_status = Pending | Blocked | Ready | Active | TaskDone | TaskFailed

datatype spec_strategy = NormalStrategy | BestOfN

datatype task_strategy_role = NormalRole | Candidate | BlindReview

datatype workflow_stage = Understand | Implement | Ship | StageDone

datatype terminal_state = Failed | Stalled | Cancelled | Paused | Frozen | Quarantined

datatype run_latch_status = LatchPending | LatchPass | LatchFail

datatype evidence_type = EvCi | EvReview | EvTest | EvLint | EvCustom | EvExitDemo

datatype merge_mode = MergeAuto | MergeHuman

datatype harness =
  ClaudeAgentSdk | VercelAi | OpenaiAgents | CodexAppServer | CodexSdk | CopilotSdk

datatype agent_capability = CapBuild | CapTest | CapFix | CapReview | CapDocs | CapQuickFix

datatype agent_effort = Minimal | Low | Medium | High | XHigh | MaxEffort

datatype agent_role = Builder | Reviewer | Docs | Watcher

datatype task_complexity = Simple | Standard | Complex

text \<open>The stages in the order of \<open>WORKFLOW_STAGES\<close>, as a linear order.\<close>

fun stage_rank :: "workflow_stage \<Rightarrow> nat" where
  "stage_rank Understand = 0"
| "stage_rank Implement = 1"
| "stage_rank Ship = 2"
| "stage_rank StageDone = 3"

lemma stage_rank_inj: "stage_rank a = stage_rank b \<Longrightarrow> a = b"
  by (cases a; cases b) simp_all

instantiation workflow_stage :: linorder
begin

definition less_eq_workflow_stage :: "workflow_stage \<Rightarrow> workflow_stage \<Rightarrow> bool" where
  "less_eq_workflow_stage a b \<longleftrightarrow> stage_rank a \<le> stage_rank b"

definition less_workflow_stage :: "workflow_stage \<Rightarrow> workflow_stage \<Rightarrow> bool" where
  "less_workflow_stage a b \<longleftrightarrow> stage_rank a < stage_rank b"

instance
  by standard (auto simp: less_eq_workflow_stage_def less_workflow_stage_def stage_rank_inj)

end

text \<open>The names under which stages appear in columns and messages.\<close>

fun stage_name :: "workflow_stage \<Rightarrow> string" where
  "stage_name Understand = ''understand''"
| "stage_name Implement = ''implement''"
| "stage_name Ship = ''ship''"
| "stage_name StageDone = ''done''"

fun terminal_name :: "terminal_state \<Rightarrow> string" where
  "terminal_name Failed = ''failed''"
| "terminal_name Stalled = ''stalled''"
| "terminal_name Cancelled = ''cancelled''"
| "terminal_name Paused = ''paused''"
| "terminal_name Frozen = ''frozen''"
| "terminal_name Quarantined = ''quarantined''"

lemma stage_name_inj [simp]: "stage_name a = stage_name b \<longleftrightarrow> a = b"
  by (cases a; cases b) simp_all

lemma terminal_name_inj [simp]: "terminal_name a = terminal_name b \<longleftrightarrow> a = b"
  by (cases a; cases b) simp_all

subsection \<open>JSON values\<close>

datatype json =
    JNull
  | JBool bool
  | JNum rat
  | JStr string
  | JArr "json list"
  | JObj "(string \<times> json) list"

type_synonym payload = "(string \<times> json) list"

text \<open>\<open>payload[key]\<close>: the value of a property, None for \<open>undefined\<close>.\<close>

definition jget :: "payload \<Rightarrow> string \<Rightarrow> json option" where
  "jget p k = map_of p k"

definition jis :: "payload \<Rightarrow> string \<Rightarrow> string \<Rightarrow> bool" where
  "jis p k v \<longleftrightarrow> jget p k = Some (JStr v)"

definition jtrue :: "payload \<Rightarrow> string \<Rightarrow> bool" where
  "jtrue p k \<longleftrightarrow> jget p k = Some (JBool True)"

fun jstr :: "json option \<Rightarrow> string option" where
  "jstr (Some (JStr s)) = Some s"
| "jstr _ = None"

subsection \<open>Profiles and snapshots carried by a run\<close>

datatype push_requirement = RemoteCi | LocalVerify | OtherPush string

record unattended_policy =
  up_autoApprove :: bool
  up_autoMerge :: bool
  up_autoPush :: bool
  up_pushRequires :: push_requirement

record sandbox_profile =
  sp_id :: string
  sp_name :: string
  sp_projectId :: "string option"
  sp_provider :: string
  sp_mode :: string
  sp_spec :: payload

record workflow_profile =
  wp_id :: string
  wp_name :: string
  wp_projectId :: "string option"
  wp_path :: string
  wp_description :: "string option"
  wp_unattended :: "unattended_policy option"
  wp_renderedWorkflow :: "string option"
  wp_setupCommands :: "string list option"
  wp_verifyCommands :: "string list option"
  wp_preflight :: "json option"

subsection \<open>Runs\<close>

record run =
  run_id :: string
  run_taskId :: string
  run_agentId :: string
  run_parentRunId :: "string option"
  run_stage :: workflow_stage
  run_terminalState :: "terminal_state option"
  run_resetCount :: nat
  run_completedStages :: "string list"
  run_blockedReason :: "string option"
  run_pendingApproval :: bool
  run_sessionId :: "string option"
  run_branch :: "string option"
  run_commitSha :: "string option"
  run_prNumber :: "nat option"
  run_prUrl :: "string option"
  run_worktreePaths :: "string list option"
  run_runtimeModel :: "string option"
  run_runtimeHarness :: "string option"
  run_runtimeSandboxProfile :: "sandbox_profile option"
  run_runtimeWorkflowProfile :: "workflow_profile option"
  run_attemptSnapshot :: "json option"
  run_ciStatus :: "run_latch_status option"
  run_reviewStatus :: "run_latch_status option"
  run_failReason :: "string option"
  run_recoverable :: bool
  run_tokensIn :: int
  run_tokensOut :: int
  run_costUsd :: usd
  run_lastHeartbeat :: "instant option"
  run_heartbeatTimeoutSeconds :: int
  run_verifyRetries :: nat
  run_completionSummary :: "string option"
  run_createdAt :: instant
  run_updatedAt :: instant

text \<open>A run that is still being worked on: neither done nor in a terminal state.\<close>

definition is_live :: "run \<Rightarrow> bool" where
  "is_live r \<longleftrightarrow> run_stage r \<noteq> StageDone \<and> run_terminalState r = None"

record stage_transition =
  tr_id :: nat
  tr_runId :: string
  tr_fromStage :: string
  tr_toStage :: string
  tr_reason :: "string option"
  tr_createdAt :: instant

subsection \<open>Specs, tasks and evidence\<close>

datatype best_policy = QualityGated | CheapestVerified

record strategy_config =
  stc_policy :: best_policy
  stc_strategyGroup :: string
  stc_builderAgentIds :: "string list"
  stc_reviewerAgentId :: string
  stc_verify :: "string list"

record spec =
  spec_id :: string
  spec_projectId :: string
  spec_name :: string
  spec_status :: spec_status
  spec_strategy :: spec_strategy
  spec_strategyConfig :: "strategy_config option"
  spec_document :: string
  spec_source :: "json option"
  spec_maxFixIterations :: "nat option"
  spec_createdAt :: instant
  spec_updatedAt :: instant

datatype dependency_kind = Hard | Soft

record spec_dependency =
  sd_specId :: string
  sd_dependsOnId :: string
  sd_kind :: dependency_kind

record task =
  task_id :: string
  task_specId :: string
  task_targetId :: "string option"
  task_repositoryId :: "string option"
  task_componentId :: "string option"
  task_name :: string
  task_prompt :: string
  task_repos :: "string list"
  task_source :: "json option"
  task_assignedAgentId :: "string option"
  task_requiredRole :: "agent_role option"
  task_complexity :: "task_complexity option"
  task_status :: task_status
  task_strategyRole :: task_strategy_role
  task_strategyGroup :: "string option"
  task_verification :: "string list"
  task_retryCount :: nat
  task_retryAfter :: "instant option"
  task_budgetExtraUsd :: usd
  task_turnExtraCount :: int
  task_createdAt :: instant
  task_updatedAt :: instant

record task_dependency =
  td_taskId :: string
  td_dependsOnId :: string

record evidence =
  ev_id :: string
  ev_runId :: string
  ev_type :: evidence_type
  ev_payload :: payload
  ev_createdAt :: "instant option"

subsection \<open>Errors\<close>

text \<open>One constructor per message a modelled method throws.\<close>

datatype error =
    RunNotFound string
  | TaskNotFound string
  | SpecNotFound string
  | StaleFence string nat
  | ExpiredFence string nat
  | ActiveLeaseExists string string
  | LeaseNotFound string
  | LeaseNotCreated string
  | LeaseRepoRequired
  | ConstraintFailed
  | ActiveRunExists string string
  | CannotStall terminal_state
  | CannotCancel string
  | CannotQuarantine string
  | CannotHalt terminal_state string
  | CheckpointNotCreated string
  | NegativeExtra
  | RuntimeResolution string
  | RoutingFailed string
  | PrerequisitesMissing string
  | SessionNotFound string
  | DispatchFailed string
  | NotReturning

subsection \<open>Events\<close>

datatype event =
    RunStageChanged string string string "string option"
  | RunFailed string "string option"
  | RunPaused string string
  | RunFrozen string string
  | RunQuarantined string string
  | RunCompleted string
  | RunHeartbeat string
  | TaskStatusChanged string task_status task_status
  | TaskDispatchSkipped string string
  | SpecStatusChanged string spec_status spec_status
  | RunDispatched string string string string workflow_stage
  | RunResumed string string workflow_stage
  | RunFailedOver string string string string string
  | SlotAutoClosed string string

end
