(* ===== verification/Fencing.thy ===== *)
theory Fencing
  imports Ductum_Types
begin

text \<open>
  The interface between the lease table and the repositories that make fenced writes: a check
  that is run before a write, and a notion of a token that is dead for a run. The provider
  promises that a dead token is refused and that no use of the table revives it; the client
  lemmas say that a write guarded by the check is then never made, now or after any number of
  further uses of the table.
\<close>

locale fencing =
  fixes check :: "string \<Rightarrow> nat \<Rightarrow> instant \<Rightarrow> 's \<Rightarrow> (error + unit) \<times> 's"
    and step :: "'s \<Rightarrow> 's \<Rightarrow> bool"
    and inv :: "'s \<Rightarrow> bool"
    and dead :: "string \<Rightarrow> nat \<Rightarrow> 's \<Rightarrow> bool"
  assumes check_refuses: "inv s \<Longrightarrow> dead r t s \<Longrightarrow> fst (check r t now s) = Inl (StaleFence r t)"
    and check_is_step: "step s (snd (check r t now s))"
    and step_keeps_inv: "step s s' \<Longrightarrow> inv s \<Longrightarrow> inv s'"
    and step_keeps_dead: "step s s' \<Longrightarrow> inv s \<Longrightarrow> dead r t s \<Longrightarrow> dead r t s'"
begin

lemma steps_keep_inv: "step\<^sup>*\<^sup>* s s' \<Longrightarrow> inv s \<Longrightarrow> inv s'"
  by (induction rule: rtranclp_induct) (auto intro: step_keeps_inv)

lemma steps_keep_dead: "step\<^sup>*\<^sup>* s s' \<Longrightarrow> inv s \<Longrightarrow> dead r t s \<Longrightarrow> dead r t s'"
proof (induction rule: rtranclp_induct)
  case (step y z)
  then show ?case using step_keeps_dead steps_keep_inv by blast
qed simp

lemma refused_for_ever:
  "step\<^sup>*\<^sup>* s s' \<Longrightarrow> inv s \<Longrightarrow> dead r t s \<Longrightarrow> fst (check r t now s') = Inl (StaleFence r t)"
  by (rule check_refuses) (auto intro: steps_keep_inv steps_keep_dead)

text \<open>A write guarded by the check, on a state of which the table is a part.\<close>

lemma guarded_refused:
  assumes "inv (sel w)" and "dead r t (sel w)"
  shows "andthen (on_part sel put (check r t now)) k w =
    (Inl (StaleFence r t), put (snd (check r t now (sel w))) w)"
  using check_refuses [OF assms, of now]
  by (cases "check r t now (sel w)") (simp add: andthen_def on_part_def)

lemma guarded_result:
  assumes "andthen (on_part sel put (check r t now)) k w = (Inr x, w')" and "inv (sel w)"
  shows "\<not> dead r t (sel w)"
proof
  assume "dead r t (sel w)"
  with assms(2) have "fst (andthen (on_part sel put (check r t now)) k w) = Inl (StaleFence r t)"
    by (simp add: guarded_refused)
  with assms(1) show False by simp
qed

end

end
