(* ===== verification/Lease.thy ===== *)
theory Lease
  imports Fencing
begin

text \<open>
  The attempt lease table (\<open>repos/attempt-lease.ts\<close>, migration 044, and the dispatcher's
  wrappers in \<open>dispatcher-lease.ts\<close>): who may write to a run, and the fencing tokens that
  shut out an owner whose lease was superseded.

  The state is the table in rowid order and the value of the AUTOINCREMENT sequence. A query
  \<open>ORDER BY fence_token DESC LIMIT 1\<close> is the maximum of the matching rows. \<open>dbnow\<close> is
  SQLite's \<open>datetime('now')\<close>, \<open>now\<close> the clock the caller passes.
\<close>

subsection \<open>Data\<close>

datatype lease_status = LeaseActive | LeaseReleased | LeaseExpired

record lease =
  lease_attemptId :: string
  lease_runId :: string
  lease_sessionId :: "string option"
  lease_ownerProcessId :: string
  lease_fenceToken :: nat
  lease_status :: lease_status
  lease_expiresAt :: instant
  lease_renewedAt :: instant
  lease_releasedAt :: "instant option"
  lease_createdAt :: instant
  lease_updatedAt :: instant

record acquire_input =
  acq_attemptId :: string
  acq_runId :: string
  acq_sessionId :: "string option"
  acq_ownerProcessId :: string
  acq_ttlMs :: int
  acq_now :: instant

record lease_db =
  lease_rows :: "lease list"
  fence_seq :: nat

type_synonym 'a lease_comp = "(lease_db, error, 'a) comp"

abbreviation lease_is_active :: "lease \<Rightarrow> bool" where
  "lease_is_active l \<equiv> lease_status l = LeaseActive"

definition update_leases :: "(lease \<Rightarrow> bool) \<Rightarrow> (lease \<Rightarrow> lease) \<Rightarrow> lease_db \<Rightarrow> lease_db" where
  "update_leases p f db = db\<lparr>lease_rows := update_where p f (lease_rows db)\<rparr>"

subsection \<open>Queries\<close>

definition lease_by_attempt :: "string \<Rightarrow> lease_db \<Rightarrow> lease option" where
  "lease_by_attempt a db = find (\<lambda>l. lease_attemptId l = a) (lease_rows db)"

definition lease_by_fence :: "string \<Rightarrow> nat \<Rightarrow> lease_db \<Rightarrow> lease option" where
  "lease_by_fence r t db =
     find (\<lambda>l. lease_runId l = r \<and> lease_fenceToken l = t) (lease_rows db)"

text \<open>\<open>ORDER BY fence_token DESC\<close> over the selected rows, first row of equal tokens first.\<close>

definition leases_by_run :: "string \<Rightarrow> lease_db \<Rightarrow> lease list" where
  "leases_by_run r db =
     sort_key (\<lambda>l. - int (lease_fenceToken l)) (filter (\<lambda>l. lease_runId l = r) (lease_rows db))"

definition latest_lease_for_run :: "string \<Rightarrow> lease_db \<Rightarrow> lease option" where
  "latest_lease_for_run r db = (case leases_by_run r db of [] \<Rightarrow> None | l # _ \<Rightarrow> Some l)"

definition newest_where :: "(lease \<Rightarrow> bool) \<Rightarrow> lease_db \<Rightarrow> lease option" where
  "newest_where p db =
     (case sort_key (\<lambda>l. - int (lease_fenceToken l)) (filter p (lease_rows db)) of
        [] \<Rightarrow> None | l # _ \<Rightarrow> Some l)"

subsection \<open>Operations\<close>

definition expire_due_leases :: "instant \<Rightarrow> lease_db \<Rightarrow> lease_db" where
  "expire_due_leases now =
     update_leases (\<lambda>l. lease_is_active l \<and> lease_expiresAt l \<le> now)
       (\<lambda>l. l\<lparr>lease_status := LeaseExpired, lease_updatedAt := now\<rparr>)"

definition expire_run :: "string \<Rightarrow> instant \<Rightarrow> lease_db \<Rightarrow> lease_db" where
  "expire_run r now =
     update_leases (\<lambda>l. lease_runId l = r \<and> lease_is_active l)
       (\<lambda>l. l\<lparr>lease_status := LeaseExpired, lease_updatedAt := now\<rparr>)"

definition active_lease_for_run :: "string \<Rightarrow> instant \<Rightarrow> lease option lease_comp" where
  "active_lease_for_run r now =
     andthen (modify (expire_due_leases now)) (\<lambda>_.
     reading (newest_where (\<lambda>l. lease_runId l = r \<and> lease_is_active l)))"

definition active_lease_for_session :: "string \<Rightarrow> instant \<Rightarrow> lease option lease_comp" where
  "active_lease_for_session sid now =
     andthen (modify (expire_due_leases now)) (\<lambda>_.
     reading (newest_where (\<lambda>l. lease_sessionId l = Some sid \<and> lease_is_active l)))"

definition next_fence_token :: "nat lease_comp" where
  "next_fence_token db = (Inr (Suc (fence_seq db)), db\<lparr>fence_seq := Suc (fence_seq db)\<rparr>)"

text \<open>
  \<open>INSERT ... ON CONFLICT(attempt_id) DO UPDATE\<close>: an existing row keeps its place and its
  creation time. The UNIQUE constraints on the token and on the active lease of a run, and the
  foreign key to the run, make the statement fail.
\<close>

definition upsert_lease :: "bool \<Rightarrow> lease \<Rightarrow> unit lease_comp" where
  "upsert_lease run_exists l db =
     (let others = filter (\<lambda>m. lease_attemptId m \<noteq> lease_attemptId l) (lease_rows db) in
      if \<not> run_exists
         \<or> (\<exists>m \<in> set others. lease_fenceToken m = lease_fenceToken l)
         \<or> (\<exists>m \<in> set others. lease_is_active m \<and> lease_runId m = lease_runId l)
      then (Inl ConstraintFailed, db)
      else (Inr (), db\<lparr>lease_rows :=
        (if lease_by_attempt (lease_attemptId l) db = None then lease_rows db @ [l]
         else update_where (\<lambda>m. lease_attemptId m = lease_attemptId l)
                (\<lambda>m. l\<lparr>lease_createdAt := lease_createdAt m\<rparr>) (lease_rows db))\<rparr>))"

definition lease_of_input :: "acquire_input \<Rightarrow> nat \<Rightarrow> instant \<Rightarrow> lease" where
  "lease_of_input i tok dbnow =
     \<lparr>lease_attemptId = acq_attemptId i, lease_runId = acq_runId i,
      lease_sessionId = acq_sessionId i, lease_ownerProcessId = acq_ownerProcessId i,
      lease_fenceToken = tok, lease_status = LeaseActive,
      lease_expiresAt = acq_now i + acq_ttlMs i, lease_renewedAt = acq_now i,
      lease_releasedAt = None, lease_createdAt = dbnow, lease_updatedAt = acq_now i\<rparr>"

definition acquire_body :: "bool \<Rightarrow> instant \<Rightarrow> acquire_input \<Rightarrow> lease lease_comp" where
  "acquire_body run_exists dbnow i =
     andthen (modify (expire_due_leases (acq_now i))) (\<lambda>_.
     andthen (active_lease_for_run (acq_runId i) (acq_now i)) (\<lambda>active.
     case active of
       Some l \<Rightarrow>
         (if lease_attemptId l = acq_attemptId i \<and> lease_ownerProcessId l = acq_ownerProcessId i
          then give l
          else fail (ActiveLeaseExists (acq_runId i) (lease_attemptId l)))
     | None \<Rightarrow>
         andthen next_fence_token (\<lambda>tok.
         andthen (upsert_lease run_exists (lease_of_input i tok dbnow)) (\<lambda>_.
         andthen (reading (lease_by_attempt (acq_attemptId i))) (\<lambda>found.
         case found of None \<Rightarrow> fail (LeaseNotCreated (acq_attemptId i)) | Some l \<Rightarrow> give l)))))"

definition acquire :: "bool \<Rightarrow> instant \<Rightarrow> acquire_input \<Rightarrow> lease lease_comp" where
  "acquire run_exists dbnow i = atomically (acquire_body run_exists dbnow i)"

definition assert_can_write_by_attempt :: "string \<Rightarrow> nat \<Rightarrow> unit lease_comp" where
  "assert_can_write_by_attempt a t =
     andthen (reading (lease_by_attempt a)) (\<lambda>found.
     case found of
       None \<Rightarrow> fail (StaleFence ''unknown'' t)
     | Some l \<Rightarrow> guard_or (lease_fenceToken l = t \<and> lease_is_active l) (StaleFence (lease_runId l) t))"

definition attach_session :: "instant \<Rightarrow> string \<Rightarrow> nat \<Rightarrow> string \<Rightarrow> lease lease_comp" where
  "attach_session dbnow a t sid =
     andthen (assert_can_write_by_attempt a t) (\<lambda>_.
     andthen (modify (update_leases (\<lambda>l. lease_attemptId l = a)
                (\<lambda>l. l\<lparr>lease_sessionId := Some sid, lease_updatedAt := dbnow\<rparr>))) (\<lambda>_.
     andthen (reading (lease_by_attempt a)) (\<lambda>found.
     case found of None \<Rightarrow> fail (LeaseNotFound a) | Some l \<Rightarrow> give l)))"

definition assert_can_write :: "string \<Rightarrow> nat \<Rightarrow> instant \<Rightarrow> unit lease_comp" where
  "assert_can_write r t now =
     andthen (modify (expire_due_leases now)) (\<lambda>_.
     andthen (reading (lease_by_fence r t)) (\<lambda>found.
     case found of
       None \<Rightarrow> fail (StaleFence r t)
     | Some l \<Rightarrow>
         (if \<not> lease_is_active l then fail (StaleFence r t)
          else if lease_expiresAt l \<le> now
          then andthen (modify (expire_run r now)) (\<lambda>_. fail (ExpiredFence r t))
          else give ())))"

definition renew :: "string \<Rightarrow> nat \<Rightarrow> int \<Rightarrow> instant \<Rightarrow> lease lease_comp" where
  "renew r t ttl now =
     andthen (assert_can_write r t now) (\<lambda>_.
     andthen (modify (update_leases
                (\<lambda>l. lease_runId l = r \<and> lease_fenceToken l = t \<and> lease_is_active l)
                (\<lambda>l. l\<lparr>lease_expiresAt := now + ttl, lease_renewedAt := now,
                       lease_updatedAt := now\<rparr>))) (\<lambda>_.
     andthen (reading (lease_by_fence r t)) (\<lambda>found.
     case found of None \<Rightarrow> fail (LeaseNotFound r) | Some l \<Rightarrow> give l)))"

definition release :: "string \<Rightarrow> nat \<Rightarrow> instant \<Rightarrow> lease_db \<Rightarrow> lease_db" where
  "release r t now =
     update_leases (\<lambda>l. lease_runId l = r \<and> lease_fenceToken l = t \<and> lease_is_active l)
       (\<lambda>l. l\<lparr>lease_status := LeaseReleased, lease_releasedAt := Some now,
              lease_updatedAt := now\<rparr>)"

subsection \<open>The dispatcher's use of the table\<close>

definition dispatch_lease_ttl_ms :: "run \<Rightarrow> int" where
  "dispatch_lease_ttl_ms r = run_heartbeatTimeoutSeconds r * 2000"

text \<open>\<open>wired\<close> says whether the optional repository was passed.\<close>

definition acquire_dispatch_lease ::
  "bool \<Rightarrow> bool \<Rightarrow> instant \<Rightarrow> run \<Rightarrow> string \<Rightarrow> instant \<Rightarrow> lease option lease_comp" where
  "acquire_dispatch_lease wired run_exists dbnow r owner now =
     (if \<not> wired then give None
      else andthen (acquire run_exists dbnow
             \<lparr>acq_attemptId = run_id r, acq_runId = run_id r, acq_sessionId = None,
              acq_ownerProcessId = owner, acq_ttlMs = dispatch_lease_ttl_ms r, acq_now = now\<rparr>)
           (\<lambda>l. give (Some l)))"

definition attach_dispatch_lease_session ::
  "bool \<Rightarrow> instant \<Rightarrow> lease option \<Rightarrow> string \<Rightarrow> lease option lease_comp" where
  "attach_dispatch_lease_session wired dbnow lo sid =
     (case lo of None \<Rightarrow> give None
      | Some l \<Rightarrow>
          if \<not> wired then give (Some l)
          else andthen (attach_session dbnow (lease_attemptId l) (lease_fenceToken l) sid)
                 (\<lambda>l'. give (Some l')))"

definition renew_dispatch_lease ::
  "bool \<Rightarrow> run \<Rightarrow> nat option \<Rightarrow> instant \<Rightarrow> lease option lease_comp" where
  "renew_dispatch_lease wired r tok now =
     (case tok of None \<Rightarrow> give None
      | Some t \<Rightarrow>
          if \<not> wired then give None
          else andthen (renew (run_id r) t (dispatch_lease_ttl_ms r) now) (\<lambda>l. give (Some l)))"

definition release_dispatch_lease :: "bool \<Rightarrow> lease option \<Rightarrow> instant \<Rightarrow> unit lease_comp" where
  "release_dispatch_lease wired lo now =
     (case lo of None \<Rightarrow> give ()
      | Some l \<Rightarrow>
          if \<not> wired then give ()
          else modify (release (lease_runId l) (lease_fenceToken l) now))"

subsection \<open>Invariant of the table\<close>

text \<open>
  Attempts and tokens are unique, every token was drawn from the sequence, and a run has at
  most one active lease.
\<close>

definition lease_inv :: "lease_db \<Rightarrow> bool" where
  "lease_inv db \<longleftrightarrow>
     distinct (map lease_attemptId (lease_rows db)) \<and>
     distinct (map lease_fenceToken (lease_rows db)) \<and>
     (\<forall>l \<in> set (lease_rows db). lease_fenceToken l \<le> fence_seq db) \<and>
     (\<forall>l \<in> set (lease_rows db). \<forall>m \<in> set (lease_rows db).
        lease_is_active l \<and> lease_is_active m \<and> lease_runId l = lease_runId m \<longrightarrow> l = m)"

text \<open>A token that can never be used on the run again.\<close>

definition dead_token :: "string \<Rightarrow> nat \<Rightarrow> lease_db \<Rightarrow> bool" where
  "dead_token r t db \<longleftrightarrow>
     t \<le> fence_seq db \<and>
     (\<forall>l \<in> set (lease_rows db). lease_runId l = r \<longrightarrow> lease_fenceToken l = t \<longrightarrow> \<not> lease_is_active l)"

text \<open>Row updates that keep the keys and never revive a lease: all the table's UPDATEs are such.\<close>

definition tame :: "(lease \<Rightarrow> bool) \<Rightarrow> (lease \<Rightarrow> lease) \<Rightarrow> bool" where
  "tame p f \<longleftrightarrow> (\<forall>l. p l \<longrightarrow>
     lease_attemptId (f l) = lease_attemptId l \<and> lease_fenceToken (f l) = lease_fenceToken l \<and>
     lease_runId (f l) = lease_runId l \<and> (lease_is_active (f l) \<longrightarrow> lease_is_active l))"

lemma lease_invI:
  assumes "distinct (map lease_attemptId (lease_rows db))"
    and "distinct (map lease_fenceToken (lease_rows db))"
    and "\<And>l. l \<in> set (lease_rows db) \<Longrightarrow> lease_fenceToken l \<le> fence_seq db"
    and "\<And>l m. l \<in> set (lease_rows db) \<Longrightarrow> m \<in> set (lease_rows db) \<Longrightarrow> lease_is_active l \<Longrightarrow>
           lease_is_active m \<Longrightarrow> lease_runId l = lease_runId m \<Longrightarrow> l = m"
  shows "lease_inv db"
  using assms unfolding lease_inv_def by blast

lemma lease_inv_attempts: "lease_inv db \<Longrightarrow> distinct (map lease_attemptId (lease_rows db))"
  and lease_inv_tokens: "lease_inv db \<Longrightarrow> distinct (map lease_fenceToken (lease_rows db))"
  and lease_inv_drawn: "lease_inv db \<Longrightarrow> l \<in> set (lease_rows db) \<Longrightarrow> lease_fenceToken l \<le> fence_seq db"
  by (simp_all add: lease_inv_def)

lemma lease_inv_one_active:
  "lease_inv db \<Longrightarrow> l \<in> set (lease_rows db) \<Longrightarrow> m \<in> set (lease_rows db) \<Longrightarrow> lease_is_active l \<Longrightarrow>
   lease_is_active m \<Longrightarrow> lease_runId l = lease_runId m \<Longrightarrow> l = m"
  by (simp add: lease_inv_def)

lemma lease_inv_token_unique:
  "lease_inv db \<Longrightarrow> l \<in> set (lease_rows db) \<Longrightarrow> m \<in> set (lease_rows db) \<Longrightarrow>
   lease_fenceToken l = lease_fenceToken m \<Longrightarrow> l = m"
  using lease_inv_tokens by (metis distinct_map inj_onD)

lemma lease_inv_attempt_unique:
  "lease_inv db \<Longrightarrow> l \<in> set (lease_rows db) \<Longrightarrow> m \<in> set (lease_rows db) \<Longrightarrow>
   lease_attemptId l = lease_attemptId m \<Longrightarrow> l = m"
  using lease_inv_attempts by (metis distinct_map inj_onD)

lemma rows_update_leases [simp]:
  "lease_rows (update_leases p f db) = update_where p f (lease_rows db)"
  "fence_seq (update_leases p f db) = fence_seq db"
  by (simp_all add: update_leases_def)

lemma in_update_where_E:
  assumes "x \<in> set (update_where p f rows)"
  obtains r where "r \<in> set rows" and "p r" and "x = f r" | "x \<in> set rows" and "\<not> p x"
  using assms by (auto simp: set_update_where split: if_splits)

lemma tame_originE:
  assumes "tame p f" and "x \<in> set (lease_rows (update_leases p f db))"
  obtains r where "r \<in> set (lease_rows db)" and "lease_fenceToken x = lease_fenceToken r"
    and "lease_runId x = lease_runId r" and "lease_is_active x \<Longrightarrow> lease_is_active r"
    and "x = (if p r then f r else r)"
  using assms by (fastforce simp: tame_def set_update_where split: if_splits)

lemma tame_keeps_inv:
  assumes "tame p f" and inv: "lease_inv db"
  shows "lease_inv (update_leases p f db)"
proof (rule lease_invI)
  have keys: "map lease_attemptId (update_where p f rows) = map lease_attemptId rows"
    "map lease_fenceToken (update_where p f rows) = map lease_fenceToken rows" for rows
    using assms(1) by (auto simp: tame_def intro!: map_update_where_same)
  show "distinct (map lease_attemptId (lease_rows (update_leases p f db)))"
    "distinct (map lease_fenceToken (lease_rows (update_leases p f db)))"
    using lease_inv_attempts [OF inv] lease_inv_tokens [OF inv] by (simp_all add: keys)
  show "lease_fenceToken l \<le> fence_seq (update_leases p f db)"
    if "l \<in> set (lease_rows (update_leases p f db))" for l
    using that by (elim tame_originE [OF assms(1)]) (simp add: lease_inv_drawn [OF inv])
  show "l = m"
    if l: "l \<in> set (lease_rows (update_leases p f db))"
      and m: "m \<in> set (lease_rows (update_leases p f db))"
      and act: "lease_is_active l" "lease_is_active m" "lease_runId l = lease_runId m" for l m
  proof -
    obtain l0 where l0: "l0 \<in> set (lease_rows db)" "lease_runId l = lease_runId l0"
        "lease_is_active l0" "l = (if p l0 then f l0 else l0)"
      by (rule tame_originE [OF assms(1) l]) (use act in blast)
    obtain m0 where m0: "m0 \<in> set (lease_rows db)" "lease_runId m = lease_runId m0"
        "lease_is_active m0" "m = (if p m0 then f m0 else m0)"
      by (rule tame_originE [OF assms(1) m]) (use act in blast)
    have "l0 = m0" using lease_inv_one_active [OF inv] l0 m0 act by metis
    with l0 m0 show "l = m" by simp
  qed
qed

lemma tame_keeps_dead:
  assumes "tame p f" and "dead_token r t db"
  shows "dead_token r t (update_leases p f db)"
  unfolding dead_token_def
proof (intro conjI ballI impI notI)
  show "t \<le> fence_seq (update_leases p f db)" using assms(2) by (simp add: dead_token_def)
next
  fix l
  assume l: "l \<in> set (lease_rows (update_leases p f db))"
    and key: "lease_runId l = r" "lease_fenceToken l = t" "lease_is_active l"
  show False
    by (rule tame_originE [OF assms(1) l]) (use key assms(2) in \<open>auto simp: dead_token_def\<close>)
qed

lemma tame_expire_due: "tame (\<lambda>l. lease_is_active l \<and> lease_expiresAt l \<le> now)
    (\<lambda>l. l\<lparr>lease_status := LeaseExpired, lease_updatedAt := now\<rparr>)"
  by (simp add: tame_def)

lemmas expire_due_keeps_inv = tame_keeps_inv [OF tame_expire_due, folded expire_due_leases_def]
lemmas expire_due_keeps_dead = tame_keeps_dead [OF tame_expire_due, folded expire_due_leases_def]

lemma expire_run_keeps_inv: "lease_inv db \<Longrightarrow> lease_inv (expire_run r now db)"
  and expire_run_keeps_dead: "dead_token q t db \<Longrightarrow> dead_token q t (expire_run r now db)"
  unfolding expire_run_def
  by (auto simp: tame_def intro!: tame_keeps_inv tame_keeps_dead)

lemma release_keeps_inv: "lease_inv db \<Longrightarrow> lease_inv (release r t now db)"
  and release_keeps_dead: "dead_token q u db \<Longrightarrow> dead_token q u (release r t now db)"
  unfolding release_def
  by (auto simp: tame_def intro!: tame_keeps_inv tame_keeps_dead)

subsection \<open>What the queries return\<close>

lemma lease_by_fence_iff:
  assumes "lease_inv db"
  shows "lease_by_fence r t db = Some l \<longleftrightarrow>
    l \<in> set (lease_rows db) \<and> lease_runId l = r \<and> lease_fenceToken l = t"
proof
  assume "lease_by_fence r t db = Some l"
  then show "l \<in> set (lease_rows db) \<and> lease_runId l = r \<and> lease_fenceToken l = t"
    unfolding lease_by_fence_def by (auto dest: find_SomeD)
next
  assume l: "l \<in> set (lease_rows db) \<and> lease_runId l = r \<and> lease_fenceToken l = t"
  then obtain m where m: "lease_by_fence r t db = Some m"
    unfolding lease_by_fence_def by (cases "find (\<lambda>l. lease_runId l = r \<and> lease_fenceToken l = t) (lease_rows db)")
      (auto simp: find_None_iff)
  then have "m \<in> set (lease_rows db) \<and> lease_fenceToken m = t"
    unfolding lease_by_fence_def by (auto dest: find_SomeD)
  with l m lease_inv_token_unique [OF assms] show "lease_by_fence r t db = Some l" by metis
qed

lemma lease_by_attempt_iff:
  assumes "lease_inv db"
  shows "lease_by_attempt a db = Some l \<longleftrightarrow> l \<in> set (lease_rows db) \<and> lease_attemptId l = a"
  unfolding lease_by_attempt_def using find_Some_iff_unique [OF lease_inv_attempts [OF assms]] .

lemma lease_by_attempt_None_iff:
  "lease_by_attempt a db = None \<longleftrightarrow> a \<notin> lease_attemptId ` set (lease_rows db)"
  unfolding lease_by_attempt_def by (rule find_None_iff_key)

lemma newest_where_Some:
  "newest_where p db = Some l \<Longrightarrow> l \<in> set (lease_rows db) \<and> p l"
proof -
  let ?xs = "sort_key (\<lambda>l. - int (lease_fenceToken l)) (filter p (lease_rows db))"
  assume "newest_where p db = Some l"
  then have "hd ?xs = l" and "?xs \<noteq> []" by (auto simp: newest_where_def split: list.splits)
  then have "l \<in> set ?xs" using hd_in_set by metis
  then show ?thesis by simp
qed

lemma newest_where_None: "newest_where p db = None \<longleftrightarrow> (\<forall>l \<in> set (lease_rows db). \<not> p l)"
proof -
  let ?xs = "sort_key (\<lambda>l. - int (lease_fenceToken l)) (filter p (lease_rows db))"
  have "newest_where p db = None \<longleftrightarrow> ?xs = []"
    by (simp add: newest_where_def split: list.split)
  also have "\<dots> \<longleftrightarrow> set ?xs = {}" by (simp only: set_empty)
  also have "\<dots> \<longleftrightarrow> (\<forall>l \<in> set (lease_rows db). \<not> p l)" by auto
  finally show ?thesis .
qed

text \<open>The first row of a descending query is the one with the greatest token.\<close>

lemma newest_where_greatest:
  assumes "newest_where p db = Some l" and "m \<in> set (lease_rows db)" and "p m"
  shows "lease_fenceToken m \<le> lease_fenceToken l"
proof -
  let ?k = "\<lambda>l. - int (lease_fenceToken l)"
  let ?xs = "sort_key ?k (filter p (lease_rows db))"
  from assms(1) obtain ys where xs: "?xs = l # ys"
    by (auto simp: newest_where_def split: list.splits)
  have "m \<in> set ?xs" using assms(2,3) by simp
  moreover have "sorted (map ?k ?xs)" by (rule sorted_sort_key)
  ultimately show ?thesis unfolding xs by auto
qed

lemma expire_due_active:
  "x \<in> set (lease_rows (expire_due_leases now db)) \<Longrightarrow> lease_is_active x \<Longrightarrow>
   x \<in> set (lease_rows db) \<and> now < lease_expiresAt x"
  by (auto simp: expire_due_leases_def set_update_where split: if_splits)

lemma expire_due_keeps_row:
  "x \<in> set (lease_rows db) \<Longrightarrow> now < lease_expiresAt x \<Longrightarrow>
   x \<in> set (lease_rows (expire_due_leases now db))"
  by (force simp: expire_due_leases_def set_update_where)

lemma expire_due_twice [simp]:
  "expire_due_leases now (expire_due_leases now db) = expire_due_leases now db"
  by (simp add: expire_due_leases_def update_leases_def update_where_def)

lemma fence_seq_expire_due [simp]: "fence_seq (expire_due_leases now db) = fence_seq db"
  by (simp add: expire_due_leases_def)

subsection \<open>The holder of a run, and the operations in its terms\<close>

definition holder :: "lease_db \<Rightarrow> instant \<Rightarrow> string \<Rightarrow> lease option" where
  "holder db now r =
     find (\<lambda>l. lease_runId l = r \<and> lease_is_active l \<and> now < lease_expiresAt l) (lease_rows db)"

definition can_write :: "string \<Rightarrow> nat \<Rightarrow> instant \<Rightarrow> lease_db \<Rightarrow> bool" where
  "can_write r t now db \<longleftrightarrow> fst (assert_can_write r t now db) = Inr ()"

lemma holder_iff:
  assumes "lease_inv db"
  shows "holder db now r = Some l \<longleftrightarrow>
    l \<in> set (lease_rows db) \<and> lease_runId l = r \<and> lease_is_active l \<and> now < lease_expiresAt l"
    (is "_ \<longleftrightarrow> ?P l")
proof
  assume "holder db now r = Some l"
  then show "?P l" unfolding holder_def by (auto dest: find_SomeD)
next
  assume l: "?P l"
  then obtain m where m: "holder db now r = Some m"
    unfolding holder_def
    by (cases "find (\<lambda>l. lease_runId l = r \<and> lease_is_active l \<and> now < lease_expiresAt l) (lease_rows db)")
      (auto simp: find_None_iff)
  then have "?P m" unfolding holder_def by (auto dest: find_SomeD)
  with l have "m = l" by (intro lease_inv_one_active [OF assms]) auto
  with m show "holder db now r = Some l" by simp
qed

lemma holder_None_iff:
  "holder db now r = None \<longleftrightarrow>
   (\<forall>l \<in> set (lease_rows db). lease_runId l = r \<longrightarrow> lease_is_active l \<longrightarrow> lease_expiresAt l \<le> now)"
  by (auto simp: holder_def find_None_iff not_less)

lemma active_after_expiry_iff:
  "x \<in> set (lease_rows (expire_due_leases now db)) \<and> lease_is_active x \<longleftrightarrow>
   x \<in> set (lease_rows db) \<and> lease_is_active x \<and> now < lease_expiresAt x"
  using expire_due_active expire_due_keeps_row by blast

lemma newest_after_expiry:
  assumes "lease_inv db"
  shows "newest_where (\<lambda>l. lease_runId l = r \<and> lease_is_active l) (expire_due_leases now db) =
    holder db now r"
proof (cases "holder db now r")
  case None
  have "newest_where (\<lambda>l. lease_runId l = r \<and> lease_is_active l) (expire_due_leases now db) = None"
    unfolding newest_where_None
    using None expire_due_active [of _ now db] by (fastforce simp: holder_None_iff)
  with None show ?thesis by simp
next
  case (Some l)
  then have l: "l \<in> set (lease_rows (expire_due_leases now db))" "lease_runId l = r" "lease_is_active l"
    by (auto simp: holder_iff [OF assms] intro: expire_due_keeps_row)
  then obtain m where m: "newest_where (\<lambda>l. lease_runId l = r \<and> lease_is_active l)
      (expire_due_leases now db) = Some m"
    by (cases "newest_where (\<lambda>l. lease_runId l = r \<and> lease_is_active l) (expire_due_leases now db)")
      (auto simp: newest_where_None)
  from newest_where_Some [OF m] l have "m = l"
    by (intro lease_inv_one_active [OF expire_due_keeps_inv [OF assms]]) auto
  with m Some show ?thesis by simp
qed

lemma active_lease_for_run_eq:
  "lease_inv db \<Longrightarrow> active_lease_for_run r now db = (Inr (holder db now r), expire_due_leases now db)"
  by (simp add: active_lease_for_run_def outcome_simps newest_after_expiry)

lemma assert_can_write_eq:
  assumes "lease_inv db"
  shows "assert_can_write r t now db =
    (if \<exists>l \<in> set (lease_rows db). lease_runId l = r \<and> lease_fenceToken l = t \<and> lease_is_active l \<and>
          now < lease_expiresAt l
     then Inr () else Inl (StaleFence r t), expire_due_leases now db)"
proof -
  let ?db = "expire_due_leases now db"
  have inv: "lease_inv ?db" by (rule expire_due_keeps_inv [OF assms])
  show ?thesis
  proof (cases "lease_by_fence r t ?db")
    case None
    have "\<not> (\<exists>l \<in> set (lease_rows db). lease_runId l = r \<and> lease_fenceToken l = t \<and> lease_is_active l \<and>
        now < lease_expiresAt l)"
      using None expire_due_keeps_row by (auto simp: lease_by_fence_def find_None_iff)
    with None show ?thesis by (simp add: assert_can_write_def outcome_simps)
  next
    case (Some m)
    then have m: "m \<in> set (lease_rows ?db)" "lease_runId m = r" "lease_fenceToken m = t"
      by (auto simp: lease_by_fence_iff [OF inv])
    have "lease_is_active m \<longleftrightarrow> (\<exists>l \<in> set (lease_rows db). lease_runId l = r \<and> lease_fenceToken l = t \<and>
        lease_is_active l \<and> now < lease_expiresAt l)"
      using m lease_inv_token_unique [OF inv m(1)] expire_due_active [of m now db]
        expire_due_keeps_row [of _ db now] by metis
    moreover have "lease_is_active m \<Longrightarrow> now < lease_expiresAt m"
      using expire_due_active [OF m(1)] by simp
    ultimately show ?thesis using Some
      by (cases "lease_is_active m") (simp_all add: assert_can_write_def outcome_simps)
  qed
qed

lemma can_write_iff:
  assumes "lease_inv db"
  shows "can_write r t now db \<longleftrightarrow> (\<exists>l. holder db now r = Some l \<and> lease_fenceToken l = t)"
  by (auto simp: can_write_def assert_can_write_eq [OF assms] holder_iff [OF assms])

lemma can_write_not_dead: "lease_inv db \<Longrightarrow> dead_token r t db \<Longrightarrow> \<not> can_write r t now db"
  by (auto simp: can_write_iff holder_iff dead_token_def)

lemma assert_dead:
  "lease_inv db \<Longrightarrow> dead_token r t db \<Longrightarrow>
   assert_can_write r t now db = (Inl (StaleFence r t), expire_due_leases now db)"
  by (auto simp: assert_can_write_eq dead_token_def)

subsection \<open>Acquiring\<close>

definition granted_lease :: "lease_db \<Rightarrow> acquire_input \<Rightarrow> instant \<Rightarrow> lease" where
  "granted_lease db i dbnow =
     lease_of_input i (Suc (fence_seq db))
       (case lease_by_attempt (acq_attemptId i) db of None \<Rightarrow> dbnow | Some l \<Rightarrow> lease_createdAt l)"

definition rows_after_grant :: "lease_db \<Rightarrow> acquire_input \<Rightarrow> instant \<Rightarrow> lease list" where
  "rows_after_grant db i dbnow =
     (let rows = lease_rows (expire_due_leases (acq_now i) db); l = granted_lease db i dbnow in
      if lease_by_attempt (acq_attemptId i) db = None then rows @ [l]
      else update_where (\<lambda>m. lease_attemptId m = acq_attemptId i) (\<lambda>_. l) rows)"

lemma granted_lease_sel [simp]:
  "lease_attemptId (granted_lease db i dbnow) = acq_attemptId i"
  "lease_runId (granted_lease db i dbnow) = acq_runId i"
  "lease_fenceToken (granted_lease db i dbnow) = Suc (fence_seq db)"
  "lease_ownerProcessId (granted_lease db i dbnow) = acq_ownerProcessId i"
  "lease_status (granted_lease db i dbnow) = LeaseActive"
  "lease_expiresAt (granted_lease db i dbnow) = acq_now i + acq_ttlMs i"
  by (simp_all add: granted_lease_def lease_of_input_def)

lemma by_attempt_after_expiry:
  "lease_by_attempt a (expire_due_leases now db) =
   map_option (\<lambda>l. if lease_is_active l \<and> lease_expiresAt l \<le> now
     then l\<lparr>lease_status := LeaseExpired, lease_updatedAt := now\<rparr> else l) (lease_by_attempt a db)"
  unfolding lease_by_attempt_def expire_due_leases_def rows_update_leases
  by (rule find_update_where) simp

lemma created_after_expiry:
  "(case lease_by_attempt a (expire_due_leases now db) of None \<Rightarrow> d | Some l \<Rightarrow> lease_createdAt l) =
   (case lease_by_attempt a db of None \<Rightarrow> d | Some l \<Rightarrow> lease_createdAt l)"
  by (simp add: by_attempt_after_expiry split: option.split)

lemma grant_rows_eq:
  assumes inv: "lease_inv db"
  shows "update_where (\<lambda>m. lease_attemptId m = acq_attemptId i)
      (\<lambda>m. (lease_of_input i (Suc (fence_seq db)) dbnow)\<lparr>lease_createdAt := lease_createdAt m\<rparr>)
      (lease_rows (expire_due_leases (acq_now i) db)) =
    update_where (\<lambda>m. lease_attemptId m = acq_attemptId i) (\<lambda>_. granted_lease db i dbnow)
      (lease_rows (expire_due_leases (acq_now i) db))"
  unfolding update_where_def
proof (rule map_cong, rule refl)
  fix m
  assume m: "m \<in> set (lease_rows (expire_due_leases (acq_now i) db))"
  show "(if lease_attemptId m = acq_attemptId i
         then (lease_of_input i (Suc (fence_seq db)) dbnow)\<lparr>lease_createdAt := lease_createdAt m\<rparr> else m) =
        (if lease_attemptId m = acq_attemptId i then granted_lease db i dbnow else m)"
  proof (cases "lease_attemptId m = acq_attemptId i")
    case True
    with m have "lease_by_attempt (acq_attemptId i) (expire_due_leases (acq_now i) db) = Some m"
      using lease_by_attempt_iff [OF expire_due_keeps_inv [OF inv]] by blast
    then have "(case lease_by_attempt (acq_attemptId i) db of None \<Rightarrow> dbnow | Some l \<Rightarrow> lease_createdAt l) =
        lease_createdAt m"
      using created_after_expiry [of dbnow "acq_attemptId i" "acq_now i" db] by simp
    with True show ?thesis by (simp add: granted_lease_def lease_of_input_def)
  qed simp
qed

lemma in_rows_after_grant:
  assumes "lease_inv db"
  shows "x \<in> set (rows_after_grant db i dbnow) \<longleftrightarrow>
    x = granted_lease db i dbnow \<or>
    (x \<in> set (lease_rows (expire_due_leases (acq_now i) db)) \<and> lease_attemptId x \<noteq> acq_attemptId i)"
proof (cases "lease_by_attempt (acq_attemptId i) db")
  case None
  then have "lease_by_attempt (acq_attemptId i) (expire_due_leases (acq_now i) db) = None"
    by (simp add: by_attempt_after_expiry)
  then have "\<forall>x \<in> set (lease_rows (expire_due_leases (acq_now i) db)). lease_attemptId x \<noteq> acq_attemptId i"
    by (metis image_eqI lease_by_attempt_None_iff)
  with None show ?thesis
    by (auto simp: rows_after_grant_def)
next
  case (Some l)
  then obtain m where "lease_by_attempt (acq_attemptId i) (expire_due_leases (acq_now i) db) = Some m"
    by (simp add: by_attempt_after_expiry)
  then have "m \<in> set (lease_rows (expire_due_leases (acq_now i) db))" "lease_attemptId m = acq_attemptId i"
    using lease_by_attempt_iff [OF expire_due_keeps_inv [OF assms]] by blast+
  with Some show ?thesis
    by (force simp: rows_after_grant_def set_update_where)
qed

text \<open>Acquiring in terms of the holder: the same owner gets its lease back, another is refused
  and changes nothing, a free run is granted with the next token.\<close>

lemma acquire_eq:
  assumes inv: "lease_inv db"
  shows "acquire run_exists dbnow i db =
    (case holder db (acq_now i) (acq_runId i) of
       Some l \<Rightarrow>
         if lease_attemptId l = acq_attemptId i \<and> lease_ownerProcessId l = acq_ownerProcessId i
         then (Inr l, expire_due_leases (acq_now i) db)
         else (Inl (ActiveLeaseExists (acq_runId i) (lease_attemptId l)), db)
     | None \<Rightarrow>
         if run_exists
         then (Inr (granted_lease db i dbnow),
               \<lparr>lease_rows = rows_after_grant db i dbnow, fence_seq = Suc (fence_seq db)\<rparr>)
         else (Inl ConstraintFailed, db))"
proof -
  let ?db = "expire_due_leases (acq_now i) db"
  let ?l = "lease_of_input i (Suc (fence_seq db)) dbnow"
  let ?db1 = "?db\<lparr>fence_seq := Suc (fence_seq db)\<rparr>"
  have inv': "lease_inv ?db" by (rule expire_due_keeps_inv [OF inv])
  show ?thesis
  proof (cases "holder db (acq_now i) (acq_runId i)")
    case (Some l)
    then show ?thesis
      by (simp add: acquire_def acquire_body_def atomically_def outcome_simps newest_after_expiry [OF inv]
          active_lease_for_run_def)
  next
    case None
    have noact: "\<not> (\<exists>m \<in> set (lease_rows ?db). lease_is_active m \<and> lease_runId m = acq_runId i)"
      using None expire_due_active [of _ "acq_now i" db] by (fastforce simp: holder_None_iff)
    have notok: "\<not> (\<exists>m \<in> set (lease_rows ?db). lease_fenceToken m = Suc (fence_seq db))"
      using lease_inv_drawn [OF inv'] by fastforce
    have same: "lease_by_attempt a ?db1 = lease_by_attempt a ?db" for a
      by (simp add: lease_by_attempt_def)
    have ups: "upsert_lease run_exists ?l ?db1 =
        (if run_exists then (Inr (), \<lparr>lease_rows = rows_after_grant db i dbnow,
            fence_seq = Suc (fence_seq db)\<rparr>) else (Inl ConstraintFailed, ?db1))"
    proof (cases "lease_by_attempt (acq_attemptId i) db")
      case N: None
      then show ?thesis
        using noact notok
        by (auto simp: upsert_lease_def lease_of_input_def same by_attempt_after_expiry
            rows_after_grant_def granted_lease_def)
    next
      case S: (Some m)
      then show ?thesis
        using noact notok grant_rows_eq [OF inv, of i dbnow]
        by (auto simp: upsert_lease_def same by_attempt_after_expiry rows_after_grant_def)
          (auto simp: lease_of_input_def)
    qed
    have found: "lease_by_attempt (acq_attemptId i) \<lparr>lease_rows = rows_after_grant db i dbnow,
        fence_seq = Suc (fence_seq db)\<rparr> = Some (granted_lease db i dbnow)"
    proof -
      let ?p = "\<lambda>l. lease_attemptId l = acq_attemptId i"
      have "granted_lease db i dbnow \<in> set (rows_after_grant db i dbnow)"
        using in_rows_after_grant [OF inv] by blast
      then obtain x where x: "find ?p (rows_after_grant db i dbnow) = Some x"
        by (cases "find ?p (rows_after_grant db i dbnow)") (auto simp: find_None_iff)
      from find_SomeD [OF x] have "x = granted_lease db i dbnow"
        using in_rows_after_grant [OF inv] by blast
      with x show ?thesis by (simp add: lease_by_attempt_def)
    qed
    show ?thesis
      using None ups found
      by (simp add: acquire_def acquire_body_def atomically_def outcome_simps newest_after_expiry [OF inv]
          active_lease_for_run_def next_fence_token_def andthen_def)
  qed
qed

lemma grant_keeps_inv:
  assumes inv: "lease_inv db" and free: "holder db (acq_now i) (acq_runId i) = None"
  shows "lease_inv \<lparr>lease_rows = rows_after_grant db i dbnow, fence_seq = Suc (fence_seq db)\<rparr>"
    (is "lease_inv ?db'")
proof (rule lease_invI)
  let ?db = "expire_due_leases (acq_now i) db"
  have inv': "lease_inv ?db" by (rule expire_due_keeps_inv [OF inv])
  have tok: "Suc (fence_seq db) \<notin> lease_fenceToken ` set (lease_rows ?db)"
    using lease_inv_drawn [OF inv'] by fastforce
  have dis: "distinct (map lease_attemptId (lease_rows ?db))" "distinct (map lease_fenceToken (lease_rows ?db))"
    using inv' by (simp_all add: lease_inv_def)
  have noatt: "acq_attemptId i \<notin> lease_attemptId ` set (lease_rows ?db)"
    if "lease_by_attempt (acq_attemptId i) db = None"
    using that lease_by_attempt_None_iff by_attempt_after_expiry [of "acq_attemptId i" "acq_now i" db]
    by (metis option.simps(8))
  have "map lease_attemptId (update_where (\<lambda>m. lease_attemptId m = acq_attemptId i)
      (\<lambda>_. granted_lease db i dbnow) rows) = map lease_attemptId rows" for rows
    by (rule map_update_where_same) simp
  then show "distinct (map lease_attemptId (lease_rows ?db'))"
    using dis noatt by (simp add: rows_after_grant_def Let_def)
  show "distinct (map lease_fenceToken (lease_rows ?db'))"
    using dis tok by (simp add: rows_after_grant_def Let_def distinct_map_replace)
  show "lease_fenceToken l \<le> fence_seq ?db'" if "l \<in> set (lease_rows ?db')" for l
    using that lease_inv_drawn [OF inv'] by (fastforce simp: in_rows_after_grant [OF inv])
  have noact: "\<not> (lease_is_active m \<and> lease_runId m = acq_runId i)" if "m \<in> set (lease_rows ?db)" for m
    using free expire_due_active [OF that] by (force simp: holder_None_iff)
  show "l = m"
    if "l \<in> set (lease_rows ?db')" "m \<in> set (lease_rows ?db')" "lease_is_active l" "lease_is_active m"
      "lease_runId l = lease_runId m" for l m
    using that noact lease_inv_one_active [OF inv'] by (auto simp: in_rows_after_grant [OF inv]) metis+
qed

lemma acquire_keeps_inv: "keeps lease_inv (acquire ex dbnow i)"
  by (rule keepsI) (auto simp: acquire_eq expire_due_keeps_inv grant_keeps_inv split: option.split)

lemma acquire_keeps_dead:
  "lease_inv db \<Longrightarrow> dead_token r t db \<Longrightarrow> dead_token r t (snd (acquire ex dbnow i db))"
proof -
  assume inv: "lease_inv db" and dead: "dead_token r t db"
  have d: "dead_token r t (expire_due_leases (acq_now i) db)"
    by (rule expire_due_keeps_dead [OF dead])
  have "dead_token r t \<lparr>lease_rows = rows_after_grant db i dbnow, fence_seq = Suc (fence_seq db)\<rparr>"
    using d dead by (auto simp: dead_token_def in_rows_after_grant [OF inv])
  with d dead show ?thesis by (simp add: acquire_eq [OF inv] split: option.split)
qed

subsection \<open>Renewing and attaching\<close>

lemma tame_renew: "tame (\<lambda>l. lease_runId l = r \<and> lease_fenceToken l = t \<and> lease_is_active l)
    (\<lambda>l. l\<lparr>lease_expiresAt := e, lease_renewedAt := n, lease_updatedAt := n\<rparr>)"
  by (simp add: tame_def)

lemma tame_attach: "tame (\<lambda>l. lease_attemptId l = a)
    (\<lambda>l. l\<lparr>lease_sessionId := Some sid, lease_updatedAt := n\<rparr>)"
  by (simp add: tame_def)

lemma keeps_expire_due: "keeps lease_inv (modify (expire_due_leases now))"
  by (rule keeps_modify) (rule expire_due_keeps_inv)

lemma assert_can_write_keeps_inv: "keeps lease_inv (assert_can_write r t now)"
  by (rule keepsI) (simp add: assert_can_write_eq expire_due_keeps_inv)

lemma renew_keeps_inv: "keeps lease_inv (renew r t ttl now)"
  unfolding renew_def
  by (intro keeps_intros assert_can_write_keeps_inv keeps_modify tame_keeps_inv [OF tame_renew])

lemma attach_keeps_inv: "keeps lease_inv (attach_session dbnow a t sid)"
  unfolding attach_session_def assert_can_write_by_attempt_def
  by (intro keeps_intros keeps_modify tame_keeps_inv [OF tame_attach])

lemma active_for_run_keeps_inv: "keeps lease_inv (active_lease_for_run r now)"
  unfolding active_lease_for_run_def by (intro keeps_intros keeps_expire_due)

lemma active_for_session_keeps_inv: "keeps lease_inv (active_lease_for_session sid now)"
  unfolding active_lease_for_session_def by (intro keeps_intros keeps_expire_due)

text \<open>The same walk for a dead token: no operation brings it back.\<close>

lemma assert_keeps_dead: "keeps (dead_token q u) (assert_can_write r t now)"
  unfolding assert_can_write_def
  by (intro keeps_intros keeps_modify expire_due_keeps_dead expire_run_keeps_dead)

lemma renew_keeps_dead: "keeps (dead_token q u) (renew r t ttl now)"
  unfolding renew_def
  by (intro keeps_intros assert_keeps_dead keeps_modify tame_keeps_dead [OF tame_renew])

lemma attach_keeps_dead: "keeps (dead_token q u) (attach_session dbnow a t sid)"
  unfolding attach_session_def assert_can_write_by_attempt_def
  by (intro keeps_intros keeps_modify tame_keeps_dead [OF tame_attach])

lemma active_for_run_keeps_dead: "keeps (dead_token q u) (active_lease_for_run r now)"
  unfolding active_lease_for_run_def by (intro keeps_intros keeps_modify expire_due_keeps_dead)

lemma active_for_session_keeps_dead: "keeps (dead_token q u) (active_lease_for_session sid now)"
  unfolding active_lease_for_session_def by (intro keeps_intros keeps_modify expire_due_keeps_dead)

subsection \<open>Every use of the table is a step\<close>

inductive lease_step :: "lease_db \<Rightarrow> lease_db \<Rightarrow> bool" where
  acquire_step: "lease_step db (snd (acquire ex dbnow i db))"
| attach_step: "lease_step db (snd (attach_session dbnow a t sid db))"
| renew_step: "lease_step db (snd (renew r t ttl now db))"
| release_step: "lease_step db (release r t now db)"
| expire_run_step: "lease_step db (expire_run r now db)"
| expire_due_step: "lease_step db (expire_due_leases now db)"
| assert_step: "lease_step db (snd (assert_can_write r t now db))"
| active_run_step: "lease_step db (snd (active_lease_for_run r now db))"
| active_session_step: "lease_step db (snd (active_lease_for_session sid now db))"

inductive_cases lease_stepE: "lease_step db db'"

definition empty_leases :: lease_db where
  "empty_leases = \<lparr>lease_rows = [], fence_seq = 0\<rparr>"

lemma lease_inv_empty: "lease_inv empty_leases"
  by (simp add: lease_inv_def empty_leases_def)

lemma lease_step_inv: "lease_step db db' \<Longrightarrow> lease_inv db \<Longrightarrow> lease_inv db'"
  by (induction rule: lease_step.induct)
    (simp_all add: keepsD [OF acquire_keeps_inv] keepsD [OF attach_keeps_inv] keepsD [OF renew_keeps_inv]
      keepsD [OF assert_can_write_keeps_inv] keepsD [OF active_for_run_keeps_inv]
      keepsD [OF active_for_session_keeps_inv] release_keeps_inv expire_run_keeps_inv expire_due_keeps_inv)

lemma lease_step_dead:
  "lease_step db db' \<Longrightarrow> lease_inv db \<Longrightarrow> dead_token r t db \<Longrightarrow> dead_token r t db'"
  by (induction rule: lease_step.induct)
    (simp_all add: acquire_keeps_dead keepsD [OF attach_keeps_dead] keepsD [OF renew_keeps_dead]
      keepsD [OF assert_keeps_dead] keepsD [OF active_for_run_keeps_dead]
      keepsD [OF active_for_session_keeps_dead] release_keeps_dead expire_run_keeps_dead expire_due_keeps_dead)

interpretation lf: fencing assert_can_write lease_step lease_inv dead_token
proof unfold_locales
  show "fst (assert_can_write r t now db) = Inl (StaleFence r t)"
    if "lease_inv db" "dead_token r t db" for db r t now
    using that by (simp add: assert_dead)
  show "lease_step db (snd (assert_can_write r t now db))" for db r t now
    by (rule assert_step)
qed (auto intro: lease_step_inv lease_step_dead)

subsection \<open>Properties of the lease table\<close>

lemma granted_others_dead:
  assumes inv: "lease_inv db" and acq: "acquire ex dbnow i db = (Inr l, db')"
    and old: "t \<le> fence_seq db" and other: "t \<noteq> lease_fenceToken l"
  shows "dead_token (acq_runId i) t db'"
proof -
  have inv': "lease_inv db'" using keeps_result [OF acquire_keeps_inv inv acq] .
  have l: "l \<in> set (lease_rows db')" "lease_is_active l" "lease_runId l = acq_runId i"
    and seq: "fence_seq db \<le> fence_seq db'"
    using acq by (auto simp: acquire_eq [OF inv] holder_iff [OF inv] in_rows_after_grant [OF inv]
        expire_due_keeps_row split: option.splits if_splits)
  show ?thesis unfolding dead_token_def
  proof (intro conjI ballI impI)
    show "t \<le> fence_seq db'" using old seq by simp
    fix m
    assume "m \<in> set (lease_rows db')" "lease_runId m = acq_runId i" "lease_fenceToken m = t"
    then show "\<not> lease_is_active m"
      using lease_inv_one_active [OF inv' _ l(1)] l other by metis
  qed
qed

lemma lease_inv_reachable: "lease_step\<^sup>*\<^sup>* empty_leases db \<Longrightarrow> lease_inv db"
  by (erule lf.steps_keep_inv) (rule lease_inv_empty)

text \<open>C1: fencing safety. Once a lease on a run has been granted, every token drawn before it
  (other than the granted one) is refused on that run by the write check, after any further
  sequence of uses of the lease table, at any clock value: a superseded owner can never write
  again.\<close>

theorem superseded_token_refused:
  assumes "lease_step\<^sup>*\<^sup>* empty_leases db" and "acquire ex dbnow i db = (Inr l, db1)"
    and "t \<le> fence_seq db" and "t \<noteq> lease_fenceToken l" and "lease_step\<^sup>*\<^sup>* db1 db2"
  shows "fst (assert_can_write (acq_runId i) t now db2) = Inl (StaleFence (acq_runId i) t)"
proof (rule lf.refused_for_ever)
  show "lease_step\<^sup>*\<^sup>* db1 db2" by fact
  show "lease_inv db1"
    using keeps_result [OF acquire_keeps_inv lease_inv_reachable] assms(1,2) by blast
  show "dead_token (acq_runId i) t db1"
    using granted_others_dead [OF lease_inv_reachable] assms by blast
qed

text \<open>C2: mutual exclusion. In every reachable lease table, at one clock value, at most one
  token of a run passes the write check, and it is the token of the run's only active unexpired
  lease.\<close>

theorem one_writer_per_run:
  assumes "lease_step\<^sup>*\<^sup>* empty_leases db"
  shows "(\<exists>t. \<forall>u. can_write r u now db \<longrightarrow> u = t) \<and>
    (\<forall>u. can_write r u now db \<longleftrightarrow> (\<exists>l. holder db now r = Some l \<and> lease_fenceToken l = u))"
  using can_write_iff [OF lease_inv_reachable [OF assms]] by (cases "holder db now r") auto

text \<open>The abstract lock: per run the token, attempt, owner and expiry of the current holder, and the
  last token drawn.\<close>

type_synonym lock_table = "(string \<Rightarrow> (nat \<times> string \<times> string \<times> instant) option) \<times> nat"

definition lock_of :: "lease_db \<Rightarrow> instant \<Rightarrow> lock_table" where
  "lock_of db now =
     (\<lambda>r. map_option (\<lambda>l. (lease_fenceToken l, lease_attemptId l, lease_ownerProcessId l, lease_expiresAt l))
            (holder db now r), fence_seq db)"

definition lock_acquire :: "acquire_input \<Rightarrow> lock_table \<Rightarrow> (error + nat) \<times> lock_table" where
  "lock_acquire i lt =
     (let (m, n) = lt in
      case m (acq_runId i) of
        Some (t, a, ow, e) \<Rightarrow>
          (if a = acq_attemptId i \<and> ow = acq_ownerProcessId i then (Inr t, lt)
           else (Inl (ActiveLeaseExists (acq_runId i) a), lt))
      | None \<Rightarrow> (Inr (Suc n),
          (m(acq_runId i := (if 0 < acq_ttlMs i
             then Some (Suc n, acq_attemptId i, acq_ownerProcessId i, acq_now i + acq_ttlMs i)
             else None)), Suc n)))"

lemma holder_after_expiry:
  "lease_inv db \<Longrightarrow> holder (expire_due_leases now db) now r = holder db now r"
  using expire_due_active [of _ now db] expire_due_keeps_row [of _ db now]
    holder_iff [OF expire_due_keeps_inv, of db now now r] holder_iff [of db now r]
  by (intro option.expand) (metis option.exhaust_sel option.distinct(1))+

lemma option_eqI: "(\<And>y. x = Some y \<longleftrightarrow> z = Some y) \<Longrightarrow> x = z"
  by (cases x; cases z) auto

text \<open>Attempts name one run: the dispatcher passes the run's own id as the attempt id.\<close>

definition attempt_of_run :: "acquire_input \<Rightarrow> lease_db \<Rightarrow> bool" where
  "attempt_of_run i db \<longleftrightarrow>
     (\<forall>l \<in> set (lease_rows db). lease_attemptId l = acq_attemptId i \<longrightarrow> lease_runId l = acq_runId i)"

lemma holder_after_grant:
  assumes inv: "lease_inv db" and free: "holder db (acq_now i) (acq_runId i) = None"
    and own: "attempt_of_run i db"
  shows "holder \<lparr>lease_rows = rows_after_grant db i dbnow, fence_seq = Suc (fence_seq db)\<rparr> (acq_now i) r =
    (if r = acq_runId i then if 0 < acq_ttlMs i then Some (granted_lease db i dbnow) else None
     else holder db (acq_now i) r)"
proof (rule option_eqI)
  fix l
  let ?db' = "\<lparr>lease_rows = rows_after_grant db i dbnow, fence_seq = Suc (fence_seq db)\<rparr>"
  have act: "l \<in> set (lease_rows (expire_due_leases (acq_now i) db)) \<and> lease_is_active l \<longleftrightarrow>
      l \<in> set (lease_rows db) \<and> lease_is_active l \<and> acq_now i < lease_expiresAt l"
    by (rule active_after_expiry_iff)
  have free': "\<not> (l \<in> set (lease_rows db) \<and> lease_is_active l \<and> acq_now i < lease_expiresAt l \<and>
      lease_runId l = acq_runId i)"
    using free by (force simp: holder_None_iff)
  have own': "l \<in> set (lease_rows db) \<Longrightarrow> lease_attemptId l = acq_attemptId i \<Longrightarrow> lease_runId l = acq_runId i"
    using own by (simp add: attempt_of_run_def)
  show "holder ?db' (acq_now i) r = Some l \<longleftrightarrow>
    (if r = acq_runId i then if 0 < acq_ttlMs i then Some (granted_lease db i dbnow) else None
     else holder db (acq_now i) r) = Some l"
    using act free' own'
    by (auto simp: holder_iff [OF grant_keeps_inv [OF inv free]] holder_iff [OF inv]
        in_rows_after_grant [OF inv])
qed


lemma renew_eq:
  assumes inv: "lease_inv db" and h: "holder db now r = Some l" "lease_fenceToken l = t"
  shows "renew r t ttl now db =
    (Inr (l\<lparr>lease_expiresAt := now + ttl, lease_renewedAt := now, lease_updatedAt := now\<rparr>),
     update_leases (\<lambda>l. lease_runId l = r \<and> lease_fenceToken l = t \<and> lease_is_active l)
       (\<lambda>l. l\<lparr>lease_expiresAt := now + ttl, lease_renewedAt := now, lease_updatedAt := now\<rparr>)
       (expire_due_leases now db))" (is "_ = (Inr ?l, ?db')")
proof -
  have l: "l \<in> set (lease_rows (expire_due_leases now db))" "lease_runId l = r" "lease_is_active l"
    using h by (auto simp: holder_iff [OF inv] intro: expire_due_keeps_row)
  have inv': "lease_inv ?db'"
    by (intro tame_keeps_inv tame_renew expire_due_keeps_inv inv)
  have "?l \<in> set (lease_rows ?db')"
    using l h(2) by (force simp: set_update_where)
  then have "lease_by_fence r t ?db' = Some ?l"
    using l h(2) by (simp add: lease_by_fence_iff [OF inv'])
  moreover have "assert_can_write r t now db = (Inr (), expire_due_leases now db)"
    using h by (auto simp: assert_can_write_eq [OF inv] holder_iff [OF inv])
  ultimately show ?thesis by (simp add: renew_def outcome_simps)
qed

text \<open>Renewing extends exactly the caller's own lease. A renewal by the current holder
  succeeds, and afterwards the token passes the write check at precisely the clock values before
  the renewal time plus the time to live; a renewal with any other token is refused.\<close>

lemma renew_extends_holder:
  assumes "lease_inv db"
  shows "(can_write r t now db \<longrightarrow>
            (\<exists>l db'. renew r t ttl now db = (Inr l, db') \<and> lease_fenceToken l = t \<and>
               lease_expiresAt l = now + ttl \<and>
               (\<forall>later. can_write r t later db' \<longleftrightarrow> later < now + ttl))) \<and>
         (\<not> can_write r t now db \<longrightarrow> renew r t ttl now db = (Inl (StaleFence r t), expire_due_leases now db))"
proof (intro conjI impI)
  assume "can_write r t now db"
  then obtain l where h: "holder db now r = Some l" "lease_fenceToken l = t"
    by (auto simp: can_write_iff [OF assms])
  let ?u = "\<lambda>l. l\<lparr>lease_expiresAt := now + ttl, lease_renewedAt := now, lease_updatedAt := now\<rparr>"
  let ?db' = "update_leases (\<lambda>l. lease_runId l = r \<and> lease_fenceToken l = t \<and> lease_is_active l) ?u
       (expire_due_leases now db)"
  have inv': "lease_inv ?db'"
    by (intro tame_keeps_inv tame_renew expire_due_keeps_inv assms)
  have l: "l \<in> set (lease_rows (expire_due_leases now db))" "lease_runId l = r" "lease_is_active l"
    using h by (auto simp: holder_iff [OF assms] intro: expire_due_keeps_row)
  then have in': "?u l \<in> set (lease_rows ?db')"
    using h(2) by (force simp: set_update_where)
  have "can_write r t later ?db' \<longleftrightarrow> later < now + ttl" for later
  proof -
    have "can_write r t later ?db' \<longleftrightarrow> (\<exists>m \<in> set (lease_rows ?db'). lease_runId m = r \<and>
        lease_fenceToken m = t \<and> lease_is_active m \<and> later < lease_expiresAt m)"
      by (auto simp: can_write_iff [OF inv'] holder_iff [OF inv'])
    also have "\<dots> \<longleftrightarrow> later < lease_expiresAt (?u l)"
    proof
      assume "\<exists>m \<in> set (lease_rows ?db'). lease_runId m = r \<and>
        lease_fenceToken m = t \<and> lease_is_active m \<and> later < lease_expiresAt m"
      then obtain m where m: "m \<in> set (lease_rows ?db')" "lease_fenceToken m = t" "later < lease_expiresAt m"
        by blast
      have "?u l = m" by (rule lease_inv_token_unique [OF inv' in' m(1)]) (simp add: m(2) h(2))
      with m(3) show "later < lease_expiresAt (?u l)" by simp
    next
      assume "later < lease_expiresAt (?u l)"
      with in' l h(2) show "\<exists>m \<in> set (lease_rows ?db'). lease_runId m = r \<and>
        lease_fenceToken m = t \<and> lease_is_active m \<and> later < lease_expiresAt m"
        by (intro bexI [OF _ in']) simp
    qed
    finally show ?thesis by simp
  qed
  then show "\<exists>l db'. renew r t ttl now db = (Inr l, db') \<and> lease_fenceToken l = t \<and>
      lease_expiresAt l = now + ttl \<and> (\<forall>later. can_write r t later db' \<longleftrightarrow> later < now + ttl)"
    using h(2) by (simp add: renew_eq [OF assms h])
next
  assume "\<not> can_write r t now db"
  then have "assert_can_write r t now db = (Inl (StaleFence r t), expire_due_leases now db)"
    by (auto simp: can_write_def assert_can_write_eq [OF assms] split: if_splits)
  then show "renew r t ttl now db = (Inl (StaleFence r t), expire_due_leases now db)"
    by (simp add: renew_def outcome_simps)
qed

end
