(* ===== verification/Store.thy ===== *)
theory Store
  imports Lease "HOL-Library.Char_ord" "HOL-Library.List_Lexorder"
begin

text \<open>
  The factory database as one state: the tables the modelled components read and write, the
  event stream they emit to, and the value \<open>datetime('now')\<close> reads. Operations of the
  repositories are computations over this state. The settings a process is wired with are a
  separate record: whether the optional repositories were passed, and the redactor of
  \<open>public-redaction.ts\<close>, which is any function here.
\<close>

text \<open>\<open>run-checkpoint.ts\<close>: the durable checkpoint of a run.\<close>

record run_checkpoint =
  cp_runId :: string
  cp_taskId :: string
  cp_attemptId :: string
  cp_stage :: workflow_stage
  cp_completedStages :: "string list"
  cp_worktreePaths :: "string list option"
  cp_branch :: "string option"
  cp_commitSha :: "string option"
  cp_costUsd :: usd
  cp_schemaVersion :: nat
  cp_committedAt :: instant
  cp_updatedAt :: instant

record dispatch_skip =
  ds_taskId :: string
  ds_reason :: string

record project_agent =
  pa_projectId :: string
  pa_agentId :: string
  pa_role :: agent_role

record store =
  st_clock :: instant
  st_agents :: "string list"
  st_projectAgents :: "project_agent list"
  st_specs :: "spec list"
  st_specDeps :: "spec_dependency list"
  st_tasks :: "task list"
  st_taskDeps :: "task_dependency list"
  st_skips :: "dispatch_skip list"
  st_runs :: "run list"
  st_sessions :: "(string \<times> string) list"
  st_history :: "stage_transition list"
  st_checkpoints :: "run_checkpoint list"
  st_leases :: lease_db
  st_evidence :: "evidence list"
  st_events :: "event list"

record config =
  cfg_redact :: "string \<Rightarrow> string"
  cfg_leaseRepo :: bool
  cfg_checkpointRepo :: bool

type_synonym 'a db = "(store, error, 'a) comp"

text \<open>\<open>DuctumEventEmitter.record\<close> as the state machine and the DAG see it: the event joins the
  stream.\<close>

definition emit :: "event \<Rightarrow> unit db" where
  "emit e = modify (\<lambda>s. s\<lparr>st_events := st_events s @ [e]\<rparr>)"

text \<open>A lease operation on the lease table of the database.\<close>

definition on_leases :: "'a lease_comp \<Rightarrow> 'a db" where
  "on_leases = on_part st_leases (\<lambda>l s. s\<lparr>st_leases := l\<rparr>)"

text \<open>SQL's \<open>LIKE\<close>: \<open>%\<close> is any text, \<open>_\<close> any one character, letters match in either case.\<close>

fun sql_like :: "string \<Rightarrow> string \<Rightarrow> bool" where
  "sql_like [] s = (s = [])"
| "sql_like (p # ps) [] = (p = CHR ''%'' \<and> sql_like ps [])"
| "sql_like (p # ps) (c # cs) =
     (if p = CHR ''%'' then sql_like ps (c # cs) \<or> sql_like (p # ps) cs
      else (p = CHR ''_'' \<or> to_lower p = to_lower c) \<and> sql_like ps cs)"

lemma emit_eq [outcome_simps]: "emit e s = (Inr (), s\<lparr>st_events := st_events s @ [e]\<rparr>)"
  by (simp add: emit_def modify_def)

lemma on_leases_eq [outcome_simps]:
  "on_leases m s = (fst (m (st_leases s)), s\<lparr>st_leases := snd (m (st_leases s))\<rparr>)"
  by (simp add: on_leases_def on_part_def split: prod.split)

end
