(* ===== verification/Samples.thy ===== *)
theory Samples
  imports Store
begin

text \<open>
  Concrete rows on which the properties are instantiated: a root run of a task of an approved
  spec, and a database that holds them. The witnesses of the component theories vary these.
\<close>

definition sample_run :: "string \<Rightarrow> run" where
  "sample_run i =
     \<lparr>run_id = i, run_taskId = ''task1'', run_agentId = ''agent1'', run_parentRunId = None,
      run_stage = Understand, run_terminalState = None, run_resetCount = 0, run_completedStages = [],
      run_blockedReason = None, run_pendingApproval = False, run_sessionId = None, run_branch = None,
      run_commitSha = None, run_prNumber = None, run_prUrl = None, run_worktreePaths = Some [''/w/a-abc123''],
      run_runtimeModel = None, run_runtimeHarness = None, run_runtimeSandboxProfile = None,
      run_runtimeWorkflowProfile = None, run_attemptSnapshot = None, run_ciStatus = None,
      run_reviewStatus = None, run_failReason = None, run_recoverable = True, run_tokensIn = 0,
      run_tokensOut = 0, run_costUsd = 0, run_lastHeartbeat = None, run_heartbeatTimeoutSeconds = 60,
      run_verifyRetries = 0, run_completionSummary = None, run_createdAt = 0, run_updatedAt = 0\<rparr>"

definition sample_task :: "string \<Rightarrow> task" where
  "sample_task i =
     \<lparr>task_id = i, task_specId = ''spec1'', task_targetId = None, task_repositoryId = None,
      task_componentId = None, task_name = ''P1-BUILD'', task_prompt = [], task_repos = [],
      task_source = None, task_assignedAgentId = None, task_requiredRole = None, task_complexity = None,
      task_status = Ready, task_strategyRole = NormalRole, task_strategyGroup = None,
      task_verification = [], task_retryCount = 0, task_retryAfter = None, task_budgetExtraUsd = 0,
      task_turnExtraCount = 0, task_createdAt = 0, task_updatedAt = 0\<rparr>"

definition sample_spec :: "string \<Rightarrow> spec" where
  "sample_spec i =
     \<lparr>spec_id = i, spec_projectId = ''proj1'', spec_name = ''Spec'', spec_status = SpecApproved,
      spec_strategy = NormalStrategy, spec_strategyConfig = None, spec_document = [], spec_source = None,
      spec_maxFixIterations = None, spec_createdAt = 0, spec_updatedAt = 0\<rparr>"

definition sample_store :: "run list \<Rightarrow> store" where
  "sample_store rs =
     \<lparr>st_clock = 100, st_agents = [''agent1''], st_projectAgents = [], st_specs = [sample_spec ''spec1''],
      st_specDeps = [], st_tasks = [sample_task ''task1''], st_taskDeps = [], st_skips = [],
      st_runs = rs, st_sessions = [], st_history = [], st_checkpoints = [],
      st_leases = empty_leases, st_evidence = [], st_events = []\<rparr>"

definition sample_config :: config where
  "sample_config = \<lparr>cfg_redact = id, cfg_leaseRepo = True, cfg_checkpointRepo = True\<rparr>"

text \<open>Two owners of one run: the second asks when the lease of the first has run out.\<close>

definition first_claim :: acquire_input where
  "first_claim = \<lparr>acq_attemptId = ''run1'', acq_runId = ''run1'', acq_sessionId = None,
     acq_ownerProcessId = ''p1'', acq_ttlMs = 10, acq_now = 0\<rparr>"

definition second_claim :: acquire_input where
  "second_claim = \<lparr>acq_attemptId = ''run1'', acq_runId = ''run1'', acq_sessionId = None,
     acq_ownerProcessId = ''p2'', acq_ttlMs = 10, acq_now = 20\<rparr>"

end
