(* ===== verification/Run_Repo.thy ===== *)
theory Run_Repo
  imports Store
begin

text \<open>
  \<open>SqliteRunRepo\<close> and \<open>SqliteRunStageHistoryRepo\<close> (\<open>repos/run.ts\<close>) over the database state:
  every query and every write, with the errors \<open>assertChanges\<close> and \<open>assertFound\<close> throw, the
  guard against a second active root run, and the fenced variants that consult the lease table
  first.
\<close>

subsection \<open>Queries\<close>

definition run_get :: "string \<Rightarrow> store \<Rightarrow> run option" where
  "run_get i s = find (\<lambda>r. run_id r = i) (st_runs s)"

definition run_list :: "string \<Rightarrow> store \<Rightarrow> run list" where
  "run_list t s = sort_key run_createdAt (filter (\<lambda>r. run_taskId r = t) (st_runs s))"

definition run_list_by_task_ids :: "string list \<Rightarrow> store \<Rightarrow> run list" where
  "run_list_by_task_ids ts s =
     (if ts = [] then []
      else sort_key run_createdAt (filter (\<lambda>r. run_taskId r \<in> set ts) (st_runs s)))"

text \<open>\<open>listAll\<close>: \<open>limit\<close> is None when it was not given (50 rows), Some None when it is null.\<close>

definition run_list_all :: "workflow_stage option \<Rightarrow> nat option option \<Rightarrow> store \<Rightarrow> run list" where
  "run_list_all stage limit s =
     (let rows = sort_key (\<lambda>r. - run_createdAt r)
            (filter (\<lambda>r. case stage of None \<Rightarrow> True | Some g \<Rightarrow> run_stage r = g) (st_runs s))
      in case limit of None \<Rightarrow> take 50 rows | Some None \<Rightarrow> rows | Some (Some n) \<Rightarrow> take n rows)"

definition run_get_by_session :: "string \<Rightarrow> store \<Rightarrow> run option" where
  "run_get_by_session sid s =
     (case find (\<lambda>m. fst m = sid \<and> run_get (snd m) s \<noteq> None) (st_sessions s) of
        None \<Rightarrow> None | Some m \<Rightarrow> run_get (snd m) s)"

definition run_get_active :: "store \<Rightarrow> run list" where
  "run_get_active s = sort_key run_createdAt (filter is_live (st_runs s))"

definition run_list_failed_with_budget_reason :: "store \<Rightarrow> run list" where
  "run_list_failed_with_budget_reason s =
     sort_key (\<lambda>r. - run_createdAt r)
       (filter (\<lambda>r. case run_failReason r of None \<Rightarrow> False
          | Some f \<Rightarrow> sql_like ''cost_budget_%'' f \<or> sql_like ''spec_cost_budget_%'' f
                       \<or> sql_like ''max_turns_%'' f) (st_runs s))"

text \<open>\<open>getStalled\<close> names \<open>failed\<close> and \<open>stalled\<close> among the stages it leaves out; no stage has
  those names.\<close>

definition run_get_stalled :: "instant \<Rightarrow> store \<Rightarrow> run list" where
  "run_get_stalled cutoff s =
     sort_key run_createdAt
       (filter (\<lambda>r. stage_name (run_stage r) \<notin> {''done'', ''failed'', ''stalled''} \<and>
          (case run_lastHeartbeat r of None \<Rightarrow> run_createdAt r | Some h \<Rightarrow> h) < cutoff) (st_runs s))"

definition run_get_required :: "string \<Rightarrow> run db" where
  "run_get_required i s =
     (case run_get i s of None \<Rightarrow> (Inl (RunNotFound i), s) | Some r \<Rightarrow> (Inr r, s))"

subsection \<open>Writes\<close>

text \<open>The shape of every UPDATE by id: no matching row is an error, a write stamps
  \<open>updated_at\<close>, the updated row is read back.\<close>

definition write_runs :: "string \<Rightarrow> (run \<Rightarrow> run) \<Rightarrow> store \<Rightarrow> store" where
  "write_runs i f s = s\<lparr>st_runs :=
     update_where (\<lambda>r. run_id r = i) (\<lambda>r. (f r)\<lparr>run_updatedAt := st_clock s\<rparr>) (st_runs s)\<rparr>"

definition run_write :: "string \<Rightarrow> (run \<Rightarrow> run) \<Rightarrow> run db" where
  "run_write i f =
     andthen (reading (run_get i)) (\<lambda>found.
     andthen (guard_or (found \<noteq> None) (RunNotFound i)) (\<lambda>_.
     andthen (modify (write_runs i f)) (\<lambda>_.
     run_get_required i)))"

definition run_create :: "run \<Rightarrow> run db" where
  "run_create r =
     atomically
       (andthen (reading (\<lambda>s. find (\<lambda>x. run_taskId x = run_taskId r \<and> run_parentRunId x = None \<and> is_live x)
                                (st_runs s))) (\<lambda>existing.
        andthen (case existing of
            None \<Rightarrow> give ()
          | Some x \<Rightarrow> guard_or (run_parentRunId r \<noteq> None) (ActiveRunExists (run_taskId r) (run_id x))) (\<lambda>_.
        andthen (reading (\<lambda>s. run_get (run_id r) s = None
            \<and> run_taskId r \<in> task_id ` set (st_tasks s)
            \<and> run_agentId r \<in> set (st_agents s)
            \<and> (case run_parentRunId r of None \<Rightarrow> True | Some p \<Rightarrow> p \<in> run_id ` set (st_runs s) \<or> p = run_id r)))
          (\<lambda>ok.
        andthen (guard_or ok ConstraintFailed) (\<lambda>_.
        andthen (modify (\<lambda>s. s\<lparr>st_runs := st_runs s @
          [r\<lparr>run_completionSummary := None, run_createdAt := st_clock s, run_updatedAt := st_clock s\<rparr>]\<rparr>)) (\<lambda>_.
        run_get_required (run_id r)))))))"

definition run_update_session :: "string \<Rightarrow> string option \<Rightarrow> run db" where
  "run_update_session i sid = run_write i (\<lambda>r. r\<lparr>run_sessionId := sid\<rparr>)"

definition run_update_worktree_paths :: "string \<Rightarrow> string list option \<Rightarrow> run db" where
  "run_update_worktree_paths i ps = run_write i (\<lambda>r. r\<lparr>run_worktreePaths := ps\<rparr>)"

definition run_update_stage :: "config \<Rightarrow> string \<Rightarrow> workflow_stage \<Rightarrow> string option \<Rightarrow> run db" where
  "run_update_stage c i g reason =
     run_write i (\<lambda>r. r\<lparr>run_stage := g, run_failReason := map_option (cfg_redact c) reason\<rparr>)"

definition run_update_terminal_state :: "string \<Rightarrow> terminal_state option \<Rightarrow> run db" where
  "run_update_terminal_state i t = run_write i (\<lambda>r. r\<lparr>run_terminalState := t\<rparr>)"

definition run_assert_fence :: "config \<Rightarrow> string \<Rightarrow> nat \<Rightarrow> instant \<Rightarrow> unit db" where
  "run_assert_fence c i tok now =
     (if \<not> cfg_leaseRepo c then fail LeaseRepoRequired
      else on_leases (assert_can_write i tok now))"

definition run_update_terminal_state_fenced ::
  "config \<Rightarrow> string \<Rightarrow> terminal_state option \<Rightarrow> nat \<Rightarrow> instant \<Rightarrow> run db" where
  "run_update_terminal_state_fenced c i t tok now =
     andthen (run_assert_fence c i tok now) (\<lambda>_. run_update_terminal_state i t)"

definition run_update_attempt_snapshot :: "string \<Rightarrow> json \<Rightarrow> run db" where
  "run_update_attempt_snapshot i j = run_write i (\<lambda>r. r\<lparr>run_attemptSnapshot := Some j\<rparr>)"

text \<open>The optional fields of \<open>updateWorkflowState\<close> and \<open>updateGitArtifacts\<close>: None is
  \<open>undefined\<close>, which leaves the column alone.\<close>

record workflow_fields =
  wf_completedStages :: "string list option"
  wf_blockedReason :: "string option option"
  wf_pendingApproval :: "bool option"

definition set_if :: "'v option \<Rightarrow> ('v \<Rightarrow> 'r \<Rightarrow> 'r) \<Rightarrow> 'r \<Rightarrow> 'r" where
  "set_if v f r = (case v of None \<Rightarrow> r | Some x \<Rightarrow> f x r)"

definition run_update_workflow_state :: "config \<Rightarrow> string \<Rightarrow> workflow_fields \<Rightarrow> run db" where
  "run_update_workflow_state c i w =
     (if wf_completedStages w = None \<and> wf_blockedReason w = None \<and> wf_pendingApproval w = None
      then run_get_required i
      else run_write i (\<lambda>r.
        set_if (wf_pendingApproval w) (\<lambda>v r. r\<lparr>run_pendingApproval := v\<rparr>)
        (set_if (wf_blockedReason w) (\<lambda>v r. r\<lparr>run_blockedReason := map_option (cfg_redact c) v\<rparr>)
        (set_if (wf_completedStages w) (\<lambda>v r. r\<lparr>run_completedStages := v\<rparr>) r))))"

definition run_increment_reset_count :: "string \<Rightarrow> run db" where
  "run_increment_reset_count i = run_write i (\<lambda>r. r\<lparr>run_resetCount := Suc (run_resetCount r)\<rparr>)"

record git_fields =
  gf_branch :: "string option option"
  gf_commitSha :: "string option option"
  gf_prNumber :: "nat option option"
  gf_prUrl :: "string option option"

definition run_update_git_artifacts :: "string \<Rightarrow> git_fields \<Rightarrow> run db" where
  "run_update_git_artifacts i g =
     (if gf_branch g = None \<and> gf_commitSha g = None \<and> gf_prNumber g = None \<and> gf_prUrl g = None
      then run_get_required i
      else run_write i (\<lambda>r.
        set_if (gf_prUrl g) (\<lambda>v r. r\<lparr>run_prUrl := v\<rparr>)
        (set_if (gf_prNumber g) (\<lambda>v r. r\<lparr>run_prNumber := v\<rparr>)
        (set_if (gf_commitSha g) (\<lambda>v r. r\<lparr>run_commitSha := v\<rparr>)
        (set_if (gf_branch g) (\<lambda>v r. r\<lparr>run_branch := v\<rparr>) r)))))"

datatype latch_field = CiStatus | ReviewStatus

definition run_update_latch_status :: "string \<Rightarrow> latch_field \<Rightarrow> run_latch_status \<Rightarrow> run db" where
  "run_update_latch_status i f v =
     run_write i (\<lambda>r. case f of CiStatus \<Rightarrow> r\<lparr>run_ciStatus := Some v\<rparr>
                              | ReviewStatus \<Rightarrow> r\<lparr>run_reviewStatus := Some v\<rparr>)"

definition run_update_heartbeat :: "string \<Rightarrow> run db" where
  "run_update_heartbeat i s =
     run_write i (\<lambda>r. r\<lparr>run_lastHeartbeat := Some (st_clock s)\<rparr>) s"

definition run_increment_verify_retries :: "string \<Rightarrow> run db" where
  "run_increment_verify_retries i = run_write i (\<lambda>r. r\<lparr>run_verifyRetries := Suc (run_verifyRetries r)\<rparr>)"

definition run_update_tokens :: "string \<Rightarrow> int \<Rightarrow> int \<Rightarrow> usd \<Rightarrow> run db" where
  "run_update_tokens i ti to cost =
     run_write i (\<lambda>r. r\<lparr>run_tokensIn := run_tokensIn r + ti, run_tokensOut := run_tokensOut r + to,
                        run_costUsd := run_costUsd r + cost\<rparr>)"

definition run_update_tokens_fenced ::
  "config \<Rightarrow> string \<Rightarrow> int \<Rightarrow> int \<Rightarrow> usd \<Rightarrow> nat \<Rightarrow> instant \<Rightarrow> run db" where
  "run_update_tokens_fenced c i ti to cost tok now =
     andthen (run_assert_fence c i tok now) (\<lambda>_. run_update_tokens i ti to cost)"

definition run_set_tokens :: "string \<Rightarrow> int \<Rightarrow> int \<Rightarrow> usd \<Rightarrow> run db" where
  "run_set_tokens i ti to cost =
     run_write i (\<lambda>r. r\<lparr>run_tokensIn := ti, run_tokensOut := to, run_costUsd := cost\<rparr>)"

definition run_set_tokens_fenced ::
  "config \<Rightarrow> string \<Rightarrow> int \<Rightarrow> int \<Rightarrow> usd \<Rightarrow> nat \<Rightarrow> instant \<Rightarrow> run db" where
  "run_set_tokens_fenced c i ti to cost tok now =
     andthen (run_assert_fence c i tok now) (\<lambda>_. run_set_tokens i ti to cost)"

definition run_update_failure :: "config \<Rightarrow> string \<Rightarrow> string option \<Rightarrow> bool \<Rightarrow> run db" where
  "run_update_failure c i reason recoverable =
     run_write i (\<lambda>r. r\<lparr>run_failReason := map_option (cfg_redact c) reason,
                        run_recoverable := recoverable\<rparr>)"

definition run_update_completion_summary :: "config \<Rightarrow> string \<Rightarrow> string option \<Rightarrow> run db" where
  "run_update_completion_summary c i summary =
     run_write i (\<lambda>r. r\<lparr>run_completionSummary := map_option (cfg_redact c) summary\<rparr>)"

subsection \<open>Stage history\<close>

definition history_list :: "string \<Rightarrow> store \<Rightarrow> stage_transition list" where
  "history_list i s = sort_key tr_id (filter (\<lambda>t. tr_runId t = i) (st_history s))"

text \<open>The foreign key to the run makes the insert of an unknown run fail.\<close>

definition history_add :: "config \<Rightarrow> string \<Rightarrow> string \<Rightarrow> string \<Rightarrow> string option \<Rightarrow> unit db" where
  "history_add c i from_stage to_stage reason =
     andthen (reading (run_get i)) (\<lambda>found.
     andthen (guard_or (found \<noteq> None) ConstraintFailed) (\<lambda>_.
     modify (\<lambda>s. s\<lparr>st_history := st_history s @
       [\<lparr>tr_id = Suc (foldr max (map tr_id (st_history s)) 0), tr_runId = i,
         tr_fromStage = from_stage, tr_toStage = to_stage,
         tr_reason = map_option (cfg_redact c) reason, tr_createdAt = st_clock s\<rparr>]\<rparr>)))"

subsection \<open>What a write leaves\<close>

lemma store_write_runs [simp]:
  "st_runs (write_runs i f s) =
     update_where (\<lambda>r. run_id r = i) (\<lambda>r. (f r)\<lparr>run_updatedAt := st_clock s\<rparr>) (st_runs s)"
  "st_history (write_runs i f s) = st_history s"
  "st_checkpoints (write_runs i f s) = st_checkpoints s"
  "st_leases (write_runs i f s) = st_leases s"
  "st_events (write_runs i f s) = st_events s"
  "st_clock (write_runs i f s) = st_clock s"
  "st_tasks (write_runs i f s) = st_tasks s"
  "st_specs (write_runs i f s) = st_specs s"
  "st_taskDeps (write_runs i f s) = st_taskDeps s"
  "st_evidence (write_runs i f s) = st_evidence s"
  by (simp_all add: write_runs_def)

lemma run_get_id: "run_get i s = Some r \<Longrightarrow> run_id r = i"
  by (auto simp: run_get_def dest!: find_SomeD)

lemma run_get_write [table_simps]:
  assumes "\<And>r. run_id (f r) = run_id r"
  shows "run_get j (write_runs i f s) =
    (if j = i then map_option (\<lambda>r. (f r)\<lparr>run_updatedAt := st_clock s\<rparr>) (run_get j s) else run_get j s)"
proof -
  have "run_get j (write_runs i f s) =
      map_option (\<lambda>r. if run_id r = i then (f r)\<lparr>run_updatedAt := st_clock s\<rparr> else r) (run_get j s)"
    unfolding run_get_def store_write_runs by (rule find_update_where) (simp add: assms)
  also have "\<dots> = (if j = i then map_option (\<lambda>r. (f r)\<lparr>run_updatedAt := st_clock s\<rparr>) (run_get j s)
      else run_get j s)"
    by (cases "run_get j s") (auto dest: run_get_id)
  finally show ?thesis .
qed

lemma run_get_other_tables [table_simps]:
  "run_get i (s\<lparr>st_history := h\<rparr>) = run_get i s"
  "run_get i (s\<lparr>st_events := e\<rparr>) = run_get i s"
  "run_get i (s\<lparr>st_leases := l\<rparr>) = run_get i s"
  "run_get i (s\<lparr>st_checkpoints := k\<rparr>) = run_get i s"
  "run_get i (s\<lparr>st_tasks := t\<rparr>) = run_get i s"
  "run_get i (s\<lparr>st_specs := p\<rparr>) = run_get i s"
  by (simp_all add: run_get_def)

lemma run_write_eq:
  assumes "\<And>r. run_id (f r) = run_id r"
  shows "run_write i f s =
    (case run_get i s of None \<Rightarrow> (Inl (RunNotFound i), s)
     | Some r \<Rightarrow> (Inr ((f r)\<lparr>run_updatedAt := st_clock s\<rparr>), write_runs i f s))"
  using assms
  by (simp add: run_write_def outcome_simps run_get_required_def table_simps split: option.split)

lemma run_write_Inl: "run_write i f s = (Inl e, s') \<Longrightarrow> (\<And>r. run_id (f r) = run_id r) \<Longrightarrow> s' = s"
  by (auto simp: run_write_eq split: option.splits)

lemma andthen_run_write [outcome_simps]:
  assumes "\<And>r. run_id (f r) = run_id r"
  shows "andthen (run_write i f) k s =
    (case run_get i s of None \<Rightarrow> (Inl (RunNotFound i), s)
     | Some r \<Rightarrow> k ((f r)\<lparr>run_updatedAt := st_clock s\<rparr>) (write_runs i f s))"
  by (simp add: andthen_def run_write_eq [OF assms] split: option.split)

lemma history_add_eq [outcome_simps]:
  "history_add c i a b why s =
    (case run_get i s of None \<Rightarrow> (Inl ConstraintFailed, s)
     | Some _ \<Rightarrow> (Inr (), s\<lparr>st_history := st_history s @
       [\<lparr>tr_id = Suc (foldr max (map tr_id (st_history s)) 0), tr_runId = i,
         tr_fromStage = a, tr_toStage = b,
         tr_reason = map_option (cfg_redact c) why, tr_createdAt = st_clock s\<rparr>]\<rparr>))"
  by (simp add: history_add_def outcome_simps split: option.split)

lemma run_assert_fence_eq [outcome_simps]:
  "run_assert_fence c i tok now s =
    (if \<not> cfg_leaseRepo c then (Inl LeaseRepoRequired, s)
     else (fst (assert_can_write i tok now (st_leases s)),
           s\<lparr>st_leases := snd (assert_can_write i tok now (st_leases s))\<rparr>))"
  by (simp add: run_assert_fence_def outcome_simps)

text \<open>Every fenced write, of runs or of checkpoints, has this shape.\<close>

lemma fenced_write_refused:
  assumes "lease_inv (st_leases s)" and "dead_token i tok (st_leases s)" and "cfg_leaseRepo c"
  shows "andthen (run_assert_fence c i tok now) k s =
    (Inl (StaleFence i tok), s\<lparr>st_leases := expire_due_leases now (st_leases s)\<rparr>)"
proof -
  have "andthen (on_part st_leases (\<lambda>l s. s\<lparr>st_leases := l\<rparr>) (assert_can_write i tok now)) k s =
    (Inl (StaleFence i tok), s\<lparr>st_leases := snd (assert_can_write i tok now (st_leases s))\<rparr>)"
    by (rule lf.guarded_refused) (use assms in auto)
  then show ?thesis
    using assms by (simp add: run_assert_fence_def on_leases_def assert_dead)
qed

end
