(* ===== verification/Task_Repo.thy ===== *)
theory Task_Repo
  imports Run_Repo
begin

text \<open>
  \<open>SqliteTaskRepo\<close> and \<open>SqliteTaskDependencyRepo\<close> (\<open>repos/task.ts\<close>), the spec status column
  (\<open>repos/spec.ts\<close>) and the prerequisite block (\<open>dispatcher-prerequisite-block.ts\<close>) over the
  database state. \<open>getReady\<close> is the query that decides what may be dispatched; its properties
  say what a task it returns has going for it.
\<close>

subsection \<open>Queries\<close>

definition task_list :: "string \<Rightarrow> store \<Rightarrow> task list" where
  "task_list sp s = sort_key task_createdAt (filter (\<lambda>t. task_specId t = sp) (st_tasks s))"

definition task_list_by_spec_ids :: "string list \<Rightarrow> store \<Rightarrow> task list" where
  "task_list_by_spec_ids sps s =
     (if sps = [] then []
      else sort_key task_createdAt (filter (\<lambda>t. task_specId t \<in> set sps) (st_tasks s)))"

definition task_get :: "string \<Rightarrow> store \<Rightarrow> task option" where
  "task_get i s = find (\<lambda>t. task_id t = i) (st_tasks s)"

definition spec_get :: "string \<Rightarrow> store \<Rightarrow> spec option" where
  "spec_get i s = find (\<lambda>p. spec_id p = i) (st_specs s)"

definition spec_list :: "string \<Rightarrow> store \<Rightarrow> spec list" where
  "spec_list pr s = sort_key spec_createdAt (filter (\<lambda>p. spec_projectId p = pr) (st_specs s))"

definition spec_dep_list :: "string \<Rightarrow> store \<Rightarrow> spec_dependency list" where
  "spec_dep_list sp s = sort_key sd_dependsOnId (filter (\<lambda>d. sd_specId d = sp) (st_specDeps s))"

text \<open>\<open>ORDER BY depends_on_id\<close>: text order.\<close>

definition task_dep_list :: "string \<Rightarrow> store \<Rightarrow> task_dependency list" where
  "task_dep_list t s = sort_key td_dependsOnId (filter (\<lambda>d. td_taskId d = t) (st_taskDeps s))"

subsection \<open>The ready query\<close>

definition prerequisite_blocked_skip_reason :: string where
  "prerequisite_blocked_skip_reason = ''prerequisite-blocked''"

definition may_be_ready :: "store \<Rightarrow> task \<Rightarrow> bool" where
  "may_be_ready s t \<longleftrightarrow>
     task_status t = Ready \<or>
     (task_status t = Blocked \<and> task_strategyRole t = BlindReview \<and>
      list_ex (\<lambda>d. td_taskId d = task_id t) (st_taskDeps s) \<and>
      \<not> list_ex (\<lambda>k. ds_taskId k = task_id t \<and> ds_reason k = prerequisite_blocked_skip_reason) (st_skips s))"

definition role_admits :: "store \<Rightarrow> spec \<Rightarrow> task \<Rightarrow> agent_role option \<Rightarrow> bool" where
  "role_admits s p t role =
     (case role of
        None \<Rightarrow> True
      | Some r \<Rightarrow>
          (task_assignedAgentId t = None \<and>
           (case task_requiredRole t of None \<Rightarrow> Builder | Some q \<Rightarrow> q) = r) \<or>
          list_ex (\<lambda>a. pa_projectId a = spec_projectId p \<and> Some (pa_agentId a) = task_assignedAgentId t
                       \<and> pa_role a = r) (st_projectAgents s))"

definition dependency_unmet :: "store \<Rightarrow> task \<Rightarrow> task_dependency \<Rightarrow> bool" where
  "dependency_unmet s t d \<longleftrightarrow>
     td_taskId d = task_id t \<and>
     list_ex (\<lambda>dep. task_id dep = td_dependsOnId d \<and>
       (if task_strategyRole t = BlindReview then task_status dep \<notin> {TaskDone, TaskFailed}
        else task_status dep \<noteq> TaskDone)) (st_tasks s)"

definition is_ready_row :: "store \<Rightarrow> string option \<Rightarrow> agent_role option \<Rightarrow> spec \<Rightarrow> task \<Rightarrow> bool" where
  "is_ready_row s project role p t \<longleftrightarrow>
     may_be_ready s t \<and>
     spec_status p \<in> {SpecApproved, SpecImplementing} \<and>
     (case project of None \<Rightarrow> True | Some q \<Rightarrow> spec_projectId p = q) \<and>
     role_admits s p t role \<and>
     \<not> list_ex (dependency_unmet s t) (st_taskDeps s) \<and>
     \<not> list_ex (\<lambda>r. run_taskId r = task_id t \<and> is_live r) (st_runs s)"

definition task_get_ready :: "string option \<Rightarrow> agent_role option \<Rightarrow> store \<Rightarrow> task list" where
  "task_get_ready project role s =
     concat (map (\<lambda>p. sort_key task_createdAt
         (filter (\<lambda>t. task_specId t = spec_id p \<and> is_ready_row s project role p t) (st_tasks s)))
       (sort_key spec_createdAt (st_specs s)))"

subsection \<open>Writes\<close>

definition task_get_required :: "string \<Rightarrow> task db" where
  "task_get_required i s =
     (case task_get i s of None \<Rightarrow> (Inl (TaskNotFound i), s) | Some t \<Rightarrow> (Inr t, s))"

definition write_tasks :: "string \<Rightarrow> (task \<Rightarrow> task) \<Rightarrow> store \<Rightarrow> store" where
  "write_tasks i f s = s\<lparr>st_tasks :=
     update_where (\<lambda>t. task_id t = i) (\<lambda>t. (f t)\<lparr>task_updatedAt := st_clock s\<rparr>) (st_tasks s)\<rparr>"

definition task_write :: "string \<Rightarrow> (task \<Rightarrow> task) \<Rightarrow> task db" where
  "task_write i f =
     andthen (reading (task_get i)) (\<lambda>found.
     andthen (guard_or (found \<noteq> None) (TaskNotFound i)) (\<lambda>_.
     andthen (modify (write_tasks i f)) (\<lambda>_.
     task_get_required i)))"

text \<open>The columns a creation may leave out take the table's defaults (\<open>?? null\<close>, \<open>?? 0\<close>,
  \<open>?? 'normal'\<close>) before this call; the row gets the current time. The tables of targets,
  repositories and components are not in the state: their foreign keys are taken to hold.\<close>

definition task_create :: "task \<Rightarrow> task db" where
  "task_create t =
     andthen (reading (\<lambda>s. task_get (task_id t) s = None \<and> task_specId t \<in> spec_id ` set (st_specs s)
        \<and> (case task_assignedAgentId t of None \<Rightarrow> True | Some a \<Rightarrow> a \<in> set (st_agents s)))) (\<lambda>ok.
     andthen (guard_or ok ConstraintFailed) (\<lambda>_.
     andthen (modify (\<lambda>s. s\<lparr>st_tasks := st_tasks s @
        [t\<lparr>task_createdAt := st_clock s, task_updatedAt := st_clock s\<rparr>]\<rparr>)) (\<lambda>_.
     task_get_required (task_id t))))"

definition task_update_status :: "string \<Rightarrow> task_status \<Rightarrow> task db" where
  "task_update_status i st = task_write i (\<lambda>t. t\<lparr>task_status := st\<rparr>)"

definition task_update_prompt :: "string \<Rightarrow> string \<Rightarrow> task db" where
  "task_update_prompt i p = task_write i (\<lambda>t. t\<lparr>task_prompt := p\<rparr>)"

definition task_update_retry :: "string \<Rightarrow> nat \<Rightarrow> instant option \<Rightarrow> task db" where
  "task_update_retry i n after = task_write i (\<lambda>t. t\<lparr>task_retryCount := n, task_retryAfter := after\<rparr>)"

definition task_assign_agent :: "string \<Rightarrow> string \<Rightarrow> task db" where
  "task_assign_agent i a =
     andthen (reading (\<lambda>s. task_get i s = None \<or> a \<in> set (st_agents s))) (\<lambda>ok.
     andthen (guard_or ok ConstraintFailed) (\<lambda>_.
     task_write i (\<lambda>t. t\<lparr>task_assignedAgentId := Some a\<rparr>)))"

definition task_increment_budget_extra :: "string \<Rightarrow> usd \<Rightarrow> task db" where
  "task_increment_budget_extra i by_usd =
     andthen (guard_or (\<not> by_usd < 0) NegativeExtra) (\<lambda>_.
     task_write i (\<lambda>t. t\<lparr>task_budgetExtraUsd := task_budgetExtraUsd t + by_usd\<rparr>))"

definition task_increment_turn_extra :: "string \<Rightarrow> int \<Rightarrow> task db" where
  "task_increment_turn_extra i by_count =
     andthen (guard_or (\<not> by_count < 0) NegativeExtra) (\<lambda>_.
     task_write i (\<lambda>t. t\<lparr>task_turnExtraCount := task_turnExtraCount t + by_count\<rparr>))"

definition spec_write_status :: "string \<Rightarrow> spec_status \<Rightarrow> store \<Rightarrow> store" where
  "spec_write_status i st s = s\<lparr>st_specs :=
     update_where (\<lambda>p. spec_id p = i) (\<lambda>p. p\<lparr>spec_status := st, spec_updatedAt := st_clock s\<rparr>) (st_specs s)\<rparr>"

definition spec_update_status :: "string \<Rightarrow> spec_status \<Rightarrow> spec db" where
  "spec_update_status i st =
     andthen (reading (spec_get i)) (\<lambda>found.
     andthen (guard_or (found \<noteq> None) (SpecNotFound i)) (\<lambda>_.
     andthen (modify (spec_write_status i st)) (\<lambda>_.
     (\<lambda>s. case spec_get i s of None \<Rightarrow> (Inl (SpecNotFound i), s) | Some p \<Rightarrow> (Inr p, s)))))"

definition task_dep_add :: "task_dependency \<Rightarrow> unit db" where
  "task_dep_add d =
     andthen (reading (\<lambda>s. d \<notin> set (st_taskDeps s) \<and> td_taskId d \<in> task_id ` set (st_tasks s)
        \<and> td_dependsOnId d \<in> task_id ` set (st_tasks s))) (\<lambda>ok.
     andthen (guard_or ok ConstraintFailed) (\<lambda>_.
     modify (\<lambda>s. s\<lparr>st_taskDeps := st_taskDeps s @ [d]\<rparr>)))"

definition task_dep_remove :: "string \<Rightarrow> string \<Rightarrow> unit db" where
  "task_dep_remove t u =
     modify (\<lambda>s. s\<lparr>st_taskDeps := filter (\<lambda>d. \<not> (td_taskId d = t \<and> td_dependsOnId d = u)) (st_taskDeps s)\<rparr>)"

text \<open>\<open>TaskDispatchSkipRepo.record\<close> keeps one row per task (\<open>ON CONFLICT(task_id)\<close>); of its columns
  the ready query reads the reason.\<close>

definition skip_record :: "string \<Rightarrow> string \<Rightarrow> store \<Rightarrow> store" where
  "skip_record t reason s =
     s\<lparr>st_skips := (if list_ex (\<lambda>k. ds_taskId k = t) (st_skips s)
        then update_where (\<lambda>k. ds_taskId k = t) (\<lambda>k. k\<lparr>ds_reason := reason\<rparr>) (st_skips s)
        else st_skips s @ [\<lparr>ds_taskId = t, ds_reason = reason\<rparr>])\<rparr>"

definition block_task_for_prerequisites :: "bool \<Rightarrow> string \<Rightarrow> unit db" where
  "block_task_for_prerequisites wired t =
     andthen (task_update_status t Blocked) (\<lambda>_.
     if wired then modify (skip_record t prerequisite_blocked_skip_reason) else give ())"

subsection \<open>Reading after a write\<close>

lemma task_get_id: "task_get i s = Some t \<Longrightarrow> task_id t = i"
  by (auto simp: task_get_def dest!: find_SomeD)

lemma spec_get_id: "spec_get i s = Some p \<Longrightarrow> spec_id p = i"
  by (auto simp: spec_get_def dest!: find_SomeD)

lemma store_write_tasks [simp]:
  "st_tasks (write_tasks i f s) =
     update_where (\<lambda>t. task_id t = i) (\<lambda>t. (f t)\<lparr>task_updatedAt := st_clock s\<rparr>) (st_tasks s)"
  "st_runs (write_tasks i f s) = st_runs s"
  "st_history (write_tasks i f s) = st_history s"
  "st_checkpoints (write_tasks i f s) = st_checkpoints s"
  "st_leases (write_tasks i f s) = st_leases s"
  "st_events (write_tasks i f s) = st_events s"
  "st_clock (write_tasks i f s) = st_clock s"
  "st_specs (write_tasks i f s) = st_specs s"
  "st_specDeps (write_tasks i f s) = st_specDeps s"
  "st_taskDeps (write_tasks i f s) = st_taskDeps s"
  "st_skips (write_tasks i f s) = st_skips s"
  by (simp_all add: write_tasks_def)

lemma task_get_write [table_simps]:
  assumes "\<And>t. task_id (f t) = task_id t"
  shows "task_get j (write_tasks i f s) =
    (if j = i then map_option (\<lambda>t. (f t)\<lparr>task_updatedAt := st_clock s\<rparr>) (task_get j s) else task_get j s)"
proof -
  have "task_get j (write_tasks i f s) =
      map_option (\<lambda>t. if task_id t = i then (f t)\<lparr>task_updatedAt := st_clock s\<rparr> else t) (task_get j s)"
    unfolding task_get_def store_write_tasks by (rule find_update_where) (simp add: assms)
  also have "\<dots> = (if j = i then map_option (\<lambda>t. (f t)\<lparr>task_updatedAt := st_clock s\<rparr>) (task_get j s)
      else task_get j s)"
    by (cases "task_get j s") (auto dest: task_get_id)
  finally show ?thesis .
qed

lemma task_write_eq:
  assumes "\<And>t. task_id (f t) = task_id t"
  shows "task_write i f s =
    (case task_get i s of None \<Rightarrow> (Inl (TaskNotFound i), s)
     | Some t \<Rightarrow> (Inr ((f t)\<lparr>task_updatedAt := st_clock s\<rparr>), write_tasks i f s))"
  using assms
  by (simp add: task_write_def outcome_simps task_get_required_def table_simps split: option.split)

lemma andthen_task_write [outcome_simps]:
  assumes "\<And>t. task_id (f t) = task_id t"
  shows "andthen (task_write i f) k s =
    (case task_get i s of None \<Rightarrow> (Inl (TaskNotFound i), s)
     | Some t \<Rightarrow> k ((f t)\<lparr>task_updatedAt := st_clock s\<rparr>) (write_tasks i f s))"
  by (simp add: andthen_def task_write_eq [OF assms] split: option.split)

lemma spec_get_write:
  "spec_get j (spec_write_status i st s) =
    (if j = i then map_option (\<lambda>p. p\<lparr>spec_status := st, spec_updatedAt := st_clock s\<rparr>) (spec_get j s)
     else spec_get j s)"
proof -
  have "spec_get j (spec_write_status i st s) =
      map_option (\<lambda>p. if spec_id p = i then p\<lparr>spec_status := st, spec_updatedAt := st_clock s\<rparr> else p)
        (spec_get j s)"
    unfolding spec_get_def spec_write_status_def by (simp add: find_update_where)
  then show ?thesis by (cases "spec_get j s") (auto dest: spec_get_id)
qed

lemma spec_update_status_eq:
  "spec_update_status i st s =
    (case spec_get i s of None \<Rightarrow> (Inl (SpecNotFound i), s)
     | Some p \<Rightarrow> (Inr (p\<lparr>spec_status := st, spec_updatedAt := st_clock s\<rparr>), spec_write_status i st s))"
  by (simp add: spec_update_status_def outcome_simps spec_get_write split: option.split)

subsection \<open>Properties of the ready query\<close>

lemma in_task_get_ready:
  "t \<in> set (task_get_ready project role s) \<longleftrightarrow>
   t \<in> set (st_tasks s) \<and>
   (\<exists>p \<in> set (st_specs s). spec_id p = task_specId t \<and> is_ready_row s project role p t)"
  unfolding task_get_ready_def by auto metis

definition deps_met :: "store \<Rightarrow> task \<Rightarrow> bool" where
  "deps_met s t \<longleftrightarrow>
     (\<forall>d \<in> set (st_taskDeps s). \<forall>dep \<in> set (st_tasks s).
        td_taskId d = task_id t \<and> td_dependsOnId d = task_id dep \<longrightarrow>
        (if task_strategyRole t = BlindReview then task_status dep \<in> {TaskDone, TaskFailed}
         else task_status dep = TaskDone))"

lemma deps_met_iff: "deps_met s t \<longleftrightarrow> \<not> list_ex (dependency_unmet s t) (st_taskDeps s)"
  by (auto simp: deps_met_def dependency_unmet_def list_ex_iff split: if_splits) metis+


lemma run_create_Inr:
  assumes "run_create r s = (Inr r', s')"
  shows "st_runs s' = st_runs s @ [r\<lparr>run_completionSummary := None, run_createdAt := st_clock s,
      run_updatedAt := st_clock s\<rparr>] \<and>
    st_tasks s' = st_tasks s \<and> run_get (run_id r) s = None \<and> run_taskId r \<in> task_id ` set (st_tasks s) \<and>
    (run_parentRunId r = None \<longrightarrow>
       (\<forall>x \<in> set (st_runs s). run_taskId x = run_taskId r \<longrightarrow> run_parentRunId x = None \<longrightarrow> \<not> is_live x))"
  using assms unfolding run_create_def atomically_Inr_iff
  by (cases "find (\<lambda>x. run_taskId x = run_taskId r \<and> run_parentRunId x = None \<and> is_live x) (st_runs s)";
      cases "run_parentRunId r")
    (auto simp: outcome_simps run_get_required_def find_None_iff split: option.splits if_splits)

text \<open>C25: no double dispatch. Once a run in a live state has been created for a task, the ready
  query does not return that task, whatever the project and role asked for; and creating a root
  run succeeds only when the task had no other live root run.\<close>

theorem created_run_blocks_dispatch:
  assumes "run_create r s = (Inr r', s')" and "is_live r"
  shows "(\<forall>t \<in> set (task_get_ready project role s'). task_id t \<noteq> run_taskId r) \<and>
    (run_parentRunId r = None \<longrightarrow>
      (\<forall>x \<in> set (st_runs s). run_taskId x = run_taskId r \<longrightarrow> run_parentRunId x = None \<longrightarrow> \<not> is_live x))"
  using run_create_Inr [OF assms(1)] assms(2)
  by (auto simp: in_task_get_ready is_ready_row_def is_live_def list_ex_iff)

text \<open>Creating a run is all or nothing. A failed creation (a second live root run for the task,
  a taken id, an unknown task, agent or parent) leaves the database exactly as it was.\<close>

theorem run_create_all_or_nothing: "fst (run_create r s) = Inl e \<Longrightarrow> snd (run_create r s) = s"
  unfolding run_create_def by (auto simp: atomically_def split: prod.splits sum.splits)

end
