(* ===== verification/Checkpoint.thy ===== *)
theory Checkpoint
  imports Task_Repo
begin

text \<open>
  Durable checkpoints and what is resumed from them: \<open>run-checkpoint.ts\<close>, the repository in
  \<open>repos/run-checkpoint.ts\<close>, and the recovery helpers of \<open>dispatcher-resume.ts\<close>. Whether a
  path exists on disk is a parameter (\<open>existsSync\<close>).
\<close>

subsection \<open>Building and classifying checkpoints\<close>

record checkpoint_input =
  ci_runId :: string
  ci_taskId :: string
  ci_attemptId :: "string option"
  ci_stage :: workflow_stage
  ci_completedStages :: "string list option"
  ci_worktreePaths :: "string list option"
  ci_branch :: "string option"
  ci_commitSha :: "string option"
  ci_costUsd :: "usd option"
  ci_schemaVersion :: "nat option"

definition run_checkpoint_schema_version :: nat where
  "run_checkpoint_schema_version = 1"

definition resumable_stages :: "workflow_stage set" where
  "resumable_stages = {Understand, Implement}"

definition is_resumable_checkpoint :: "run_checkpoint option \<Rightarrow> bool" where
  "is_resumable_checkpoint co =
     (case co of None \<Rightarrow> False
      | Some c \<Rightarrow> cp_stage c \<in> resumable_stages \<and>
          (case cp_worktreePaths c of None \<Rightarrow> False | Some ps \<Rightarrow> 0 < length ps))"

definition build_checkpoint_input :: "run \<Rightarrow> workflow_stage option \<Rightarrow> checkpoint_input" where
  "build_checkpoint_input r stage =
     \<lparr>ci_runId = run_id r, ci_taskId = run_taskId r, ci_attemptId = Some (run_id r),
      ci_stage = (case stage of None \<Rightarrow> run_stage r | Some g \<Rightarrow> g),
      ci_completedStages = Some (run_completedStages r), ci_worktreePaths = run_worktreePaths r,
      ci_branch = run_branch r, ci_commitSha = run_commitSha r, ci_costUsd = Some (run_costUsd r),
      ci_schemaVersion = Some run_checkpoint_schema_version\<rparr>"

subsection \<open>The repository\<close>

definition checkpoint_get :: "string \<Rightarrow> store \<Rightarrow> run_checkpoint option" where
  "checkpoint_get i s = find (\<lambda>c. cp_runId c = i) (st_checkpoints s)"

definition checkpoint_row :: "checkpoint_input \<Rightarrow> instant \<Rightarrow> run_checkpoint" where
  "checkpoint_row ci now =
     \<lparr>cp_runId = ci_runId ci, cp_taskId = ci_taskId ci,
      cp_attemptId = (case ci_attemptId ci of None \<Rightarrow> ci_runId ci | Some a \<Rightarrow> a),
      cp_stage = ci_stage ci,
      cp_completedStages = (case ci_completedStages ci of None \<Rightarrow> [] | Some gs \<Rightarrow> gs),
      cp_worktreePaths = ci_worktreePaths ci, cp_branch = ci_branch ci, cp_commitSha = ci_commitSha ci,
      cp_costUsd = (case ci_costUsd ci of None \<Rightarrow> 0 | Some c \<Rightarrow> c),
      cp_schemaVersion = (case ci_schemaVersion ci of None \<Rightarrow> run_checkpoint_schema_version | Some v \<Rightarrow> v),
      cp_committedAt = now, cp_updatedAt = now\<rparr>"

text \<open>On a conflict the task, the attempt and the first commit time of the row stay.\<close>

definition checkpoint_merge :: "run_checkpoint \<Rightarrow> run_checkpoint \<Rightarrow> run_checkpoint" where
  "checkpoint_merge new old =
     new\<lparr>cp_taskId := cp_taskId old, cp_attemptId := cp_attemptId old, cp_committedAt := cp_committedAt old\<rparr>"

definition checkpoint_upsert :: "checkpoint_input \<Rightarrow> run_checkpoint db" where
  "checkpoint_upsert ci =
     andthen (reading (\<lambda>s. ci_runId ci \<in> run_id ` set (st_runs s) \<and> ci_taskId ci \<in> task_id ` set (st_tasks s)))
       (\<lambda>ok.
     andthen (guard_or ok ConstraintFailed) (\<lambda>_.
     andthen (modify (\<lambda>s. s\<lparr>st_checkpoints :=
        (if checkpoint_get (ci_runId ci) s = None
         then st_checkpoints s @ [checkpoint_row ci (st_clock s)]
         else update_where (\<lambda>c. cp_runId c = ci_runId ci) (checkpoint_merge (checkpoint_row ci (st_clock s)))
                (st_checkpoints s))\<rparr>)) (\<lambda>_.
     andthen (reading (checkpoint_get (ci_runId ci))) (\<lambda>found.
     case found of None \<Rightarrow> fail (CheckpointNotCreated (ci_runId ci)) | Some c \<Rightarrow> give c))))"

definition checkpoint_upsert_fenced ::
  "config \<Rightarrow> checkpoint_input \<Rightarrow> nat \<Rightarrow> instant \<Rightarrow> run_checkpoint db" where
  "checkpoint_upsert_fenced c ci tok now =
     andthen (run_assert_fence c (ci_runId ci) tok now) (\<lambda>_. checkpoint_upsert ci)"

text \<open>The join with the runs, newest run first (\<open>created_at DESC, rowid DESC\<close>).\<close>

definition checkpoints_of_runs :: "(run \<Rightarrow> bool) \<Rightarrow> store \<Rightarrow> run_checkpoint list" where
  "checkpoints_of_runs p s =
     List.map_filter (\<lambda>r. if p r then checkpoint_get (run_id r) s else None)
       (rev (sort_key run_createdAt (st_runs s)))"

definition checkpoint_list :: "string \<Rightarrow> store \<Rightarrow> run_checkpoint list" where
  "checkpoint_list t s = filter (\<lambda>c. cp_taskId c = t) (checkpoints_of_runs (\<lambda>_. True) s)"

definition latest_stalled_checkpoint :: "string \<Rightarrow> store \<Rightarrow> run_checkpoint option" where
  "latest_stalled_checkpoint t s =
     (case filter (\<lambda>c. cp_taskId c = t) (checkpoints_of_runs (\<lambda>r. run_terminalState r = Some Stalled) s) of
        [] \<Rightarrow> None | c # _ \<Rightarrow> Some c)"

definition checkpoints_by_terminal_states :: "terminal_state list \<Rightarrow> store \<Rightarrow> run_checkpoint list" where
  "checkpoints_by_terminal_states states =
     checkpoints_of_runs (\<lambda>r. case run_terminalState r of None \<Rightarrow> False | Some t \<Rightarrow> t \<in> set states)"

definition list_stalled_checkpoints :: "store \<Rightarrow> run_checkpoint list" where
  "list_stalled_checkpoints = checkpoints_by_terminal_states [Stalled]"

definition list_halted_resumable_checkpoints :: "store \<Rightarrow> run_checkpoint list" where
  "list_halted_resumable_checkpoints = checkpoints_by_terminal_states [Paused, Frozen]"

definition checkpoint_delete :: "string \<Rightarrow> unit db" where
  "checkpoint_delete i =
     modify (\<lambda>s. s\<lparr>st_checkpoints := filter (\<lambda>c. cp_runId c \<noteq> i) (st_checkpoints s)\<rparr>)"

subsection \<open>Resuming\<close>

definition resume_needs_seed :: "workflow_stage \<Rightarrow> bool" where
  "resume_needs_seed g \<longleftrightarrow> g \<noteq> Understand"

definition worktree_on_disk :: "(string \<Rightarrow> bool) \<Rightarrow> run_checkpoint \<Rightarrow> bool" where
  "worktree_on_disk on_disk c =
     (let ps = (case cp_worktreePaths c of None \<Rightarrow> [] | Some ps \<Rightarrow> ps)
      in 0 < length ps \<and> list_all on_disk ps)"

text \<open>\<open>wired\<close>: the checkpoint repository is present.\<close>

definition can_resume_stalled_run :: "(string \<Rightarrow> bool) \<Rightarrow> bool \<Rightarrow> run \<Rightarrow> bool \<Rightarrow> store \<Rightarrow> bool" where
  "can_resume_stalled_run on_disk wired r has_seed_hook s =
     (let co = (if wired then checkpoint_get (run_id r) s else None) in
      case co of
        None \<Rightarrow> False
      | Some c \<Rightarrow>
          if \<not> is_resumable_checkpoint co then False
          else if \<not> worktree_on_disk on_disk c then False
          else \<not> resume_needs_seed (cp_stage c) \<or> has_seed_hook)"

definition resolve_resume_options ::
  "(string \<Rightarrow> bool) \<Rightarrow> bool \<Rightarrow> task \<Rightarrow> bool \<Rightarrow> store \<Rightarrow> (string \<times> workflow_stage) option" where
  "resolve_resume_options on_disk wired t has_seed_hook s =
     (let co = (if wired then latest_stalled_checkpoint (task_id t) s else None) in
      case co of
        None \<Rightarrow> None
      | Some c \<Rightarrow>
          if \<not> is_resumable_checkpoint co then None
          else if \<not> worktree_on_disk on_disk c then None
          else if resume_needs_seed (cp_stage c) \<and> \<not> has_seed_hook then None
          else Some (cp_runId c, cp_stage c))"

record dispatch_start =
  start_stage :: workflow_stage
  start_completedStages :: "string list"
  start_seedStage :: "workflow_stage option"

definition resolve_dispatch_start ::
  "bool \<Rightarrow> workflow_stage option \<Rightarrow> string option \<Rightarrow> store \<Rightarrow> dispatch_start" where
  "resolve_dispatch_start wired resume_from_stage reuse_from_run s =
     (case (resume_from_stage, reuse_from_run) of
        (Some g, Some i) \<Rightarrow>
          \<lparr>start_stage = g,
           start_completedStages = (case if wired then checkpoint_get i s else None of
              None \<Rightarrow> [] | Some c \<Rightarrow> cp_completedStages c),
           start_seedStage = (if resume_needs_seed g then Some g else None)\<rparr>
      | _ \<Rightarrow> \<lparr>start_stage = Understand, start_completedStages = [], start_seedStage = None\<rparr>)"

subsection \<open>Worktrees the garbage collector must keep\<close>

text \<open>\<open>/-([A-Za-z0-9_-]{6})$/\<close>: a dash and six id characters end the segment.\<close>

definition is_id_char :: "char \<Rightarrow> bool" where
  "is_id_char c \<longleftrightarrow> (let n = of_char c :: nat in
     (65 \<le> n \<and> n \<le> 90) \<or> (97 \<le> n \<and> n \<le> 122) \<or> (48 \<le> n \<and> n \<le> 57) \<or> n = 95 \<or> n = 45)"

definition segment_short_id :: "string \<Rightarrow> string option" where
  "segment_short_id seg =
     (let n = length seg in
      if 7 \<le> n \<and> seg ! (n - 7) = CHR ''-'' \<and> list_all is_id_char (drop (n - 6) seg)
      then Some (drop (n - 6) seg) else None)"

fun split_on :: "char \<Rightarrow> string \<Rightarrow> string list" where
  "split_on d [] = [[]]"
| "split_on d (c # cs) =
     (if c = d then [] # split_on d cs
      else case split_on d cs of [] \<Rightarrow> [[c]] | w # ws \<Rightarrow> (c # w) # ws)"

definition worktree_short_ids :: "string list \<Rightarrow> string list" where
  "worktree_short_ids paths =
     concat (map (\<lambda>p. List.map_filter segment_short_id (split_on CHR ''/'' p)) paths)"

definition paths_or_none :: "string list option \<Rightarrow> string list" where
  "paths_or_none ps = (case ps of None \<Rightarrow> [] | Some xs \<Rightarrow> xs)"

definition is_live_checkpoint_task :: "store \<Rightarrow> run_checkpoint \<Rightarrow> bool" where
  "is_live_checkpoint_task s c =
     (case task_get (cp_taskId c) s of None \<Rightarrow> False
      | Some t \<Rightarrow> task_status t \<noteq> TaskFailed \<and> task_status t \<noteq> TaskDone)"

definition protect_checkpoint :: "run_checkpoint \<Rightarrow> string list" where
  "protect_checkpoint c = take 6 (cp_runId c) # worktree_short_ids (paths_or_none (cp_worktreePaths c))"

text \<open>The set is the list of what was added to it.\<close>

definition collect_protected_worktree_short_ids :: "bool \<Rightarrow> store \<Rightarrow> string list" where
  "collect_protected_worktree_short_ids wired s =
     concat (map (\<lambda>r. take 6 (run_id r) # worktree_short_ids (paths_or_none (run_worktreePaths r)))
       (run_get_active s)) @
     concat (map (\<lambda>r.
         if run_terminalState r \<noteq> Some Failed \<or> \<not> run_recoverable r then []
         else if paths_or_none (run_worktreePaths r) = [] then []
         else take 6 (run_id r) # worktree_short_ids (paths_or_none (run_worktreePaths r)))
       (run_list_all None (Some (Some 10000)) s)) @
     map (\<lambda>r. take 6 (run_id r)) (run_list_failed_with_budget_reason s) @
     concat (map (\<lambda>c.
         if \<not> is_resumable_checkpoint (Some c) \<or> \<not> is_live_checkpoint_task s c then []
         else protect_checkpoint c)
       (if wired then list_stalled_checkpoints s else [])) @
     concat (map (\<lambda>c.
         if paths_or_none (cp_worktreePaths c) = [] \<or> \<not> is_live_checkpoint_task s c then []
         else protect_checkpoint c)
       (if wired then list_halted_resumable_checkpoints s else []))"

subsection \<open>Reading a checkpoint back\<close>

lemma checkpoint_get_id: "checkpoint_get i s = Some c \<Longrightarrow> cp_runId c = i"
  by (auto simp: checkpoint_get_def dest!: find_SomeD)

lemma checkpoint_merge_run [simp]: "cp_runId (checkpoint_merge new old) = cp_runId new"
  by (simp add: checkpoint_merge_def)

lemma checkpoint_row_run [simp]: "cp_runId (checkpoint_row ci now) = ci_runId ci"
  by (simp add: checkpoint_row_def)

definition checkpoint_write :: "checkpoint_input \<Rightarrow> store \<Rightarrow> store" where
  "checkpoint_write ci s = s\<lparr>st_checkpoints :=
        (if checkpoint_get (ci_runId ci) s = None
         then st_checkpoints s @ [checkpoint_row ci (st_clock s)]
         else update_where (\<lambda>c. cp_runId c = ci_runId ci) (checkpoint_merge (checkpoint_row ci (st_clock s)))
                (st_checkpoints s))\<rparr>"

lemma find_append_None: "find p xs = None \<Longrightarrow> find p (xs @ ys) = find p ys"
  by (induction xs) (auto split: if_splits)

lemma find_append_Some: "find p xs = Some x \<Longrightarrow> find p (xs @ ys) = Some x"
  by (induction xs) (auto split: if_splits)

lemma checkpoint_get_write:
  "checkpoint_get i (checkpoint_write ci s) =
    (if i = ci_runId ci
     then Some (case checkpoint_get i s of None \<Rightarrow> checkpoint_row ci (st_clock s)
                | Some old \<Rightarrow> checkpoint_merge (checkpoint_row ci (st_clock s)) old)
     else checkpoint_get i s)"
proof (cases "checkpoint_get (ci_runId ci) s")
  case None
  then show ?thesis
    by (cases "checkpoint_get i s")
      (auto simp: checkpoint_get_def checkpoint_write_def find_append_None find_append_Some)
next
  case (Some old)
  have "checkpoint_get i (checkpoint_write ci s) = map_option (\<lambda>c. if cp_runId c = ci_runId ci
      then checkpoint_merge (checkpoint_row ci (st_clock s)) c else c) (checkpoint_get i s)"
    using Some unfolding checkpoint_get_def checkpoint_write_def
    by simp (rule find_update_where, simp)
  with Some show ?thesis
    by (cases "checkpoint_get i s") (auto dest: checkpoint_get_id)
qed

lemma checkpoint_upsert_eq:
  "checkpoint_upsert ci s =
    (if ci_runId ci \<in> run_id ` set (st_runs s) \<and> ci_taskId ci \<in> task_id ` set (st_tasks s)
     then (Inr (the (checkpoint_get (ci_runId ci) (checkpoint_write ci s))), checkpoint_write ci s)
     else (Inl ConstraintFailed, s))"
  by (simp add: checkpoint_upsert_def outcome_simps flip: checkpoint_write_def)
    (simp add: checkpoint_get_write outcome_simps)

subsection \<open>Properties of checkpoints\<close>

lemma in_checkpoints_of_runs:
  "c \<in> set (checkpoints_of_runs p s) \<longleftrightarrow>
   (\<exists>r \<in> set (st_runs s). p r \<and> checkpoint_get (run_id r) s = Some c)"
  by (force simp: checkpoints_of_runs_def map_filter_def)

lemma is_resumable_Some:
  "is_resumable_checkpoint (Some c) \<longleftrightarrow> cp_stage c \<in> {Understand, Implement} \<and> paths_or_none (cp_worktreePaths c) \<noteq> []"
  by (auto simp: is_resumable_checkpoint_def resumable_stages_def paths_or_none_def split: option.splits)

text \<open>C28: a checkpoint mirrors the run. Storing the checkpoint built from a run at a stage and reading
  it back gives that stage and the run's completed stages, worktrees, branch, commit and cost;
  the checkpoints of other runs and all runs are untouched.\<close>

theorem checkpoint_roundtrip:
  assumes "checkpoint_upsert (build_checkpoint_input r (Some g)) s = (Inr c, s')"
  shows "checkpoint_get (run_id r) s' = Some c \<and> cp_stage c = g \<and>
    cp_completedStages c = run_completedStages r \<and> cp_worktreePaths c = run_worktreePaths r \<and>
    cp_branch c = run_branch r \<and> cp_commitSha c = run_commitSha r \<and> cp_costUsd c = run_costUsd r \<and>
    (\<forall>i. i \<noteq> run_id r \<longrightarrow> checkpoint_get i s' = checkpoint_get i s) \<and> st_runs s' = st_runs s"
proof -
  let ?ci = "build_checkpoint_input r (Some g)"
  have ci: "ci_runId ?ci = run_id r" by (simp add: build_checkpoint_input_def)
  have s': "s' = checkpoint_write ?ci s" and c: "c = the (checkpoint_get (run_id r) s')"
    using assms by (auto simp: checkpoint_upsert_eq ci split: if_splits)
  have get: "checkpoint_get (run_id r) s' = Some (case checkpoint_get (run_id r) s of
      None \<Rightarrow> checkpoint_row ?ci (st_clock s) | Some old \<Rightarrow> checkpoint_merge (checkpoint_row ?ci (st_clock s)) old)"
    and others: "\<And>i. i \<noteq> run_id r \<Longrightarrow> checkpoint_get i s' = checkpoint_get i s"
    by (simp_all add: s' checkpoint_get_write ci)
  have "st_runs s' = st_runs s" by (simp add: s' checkpoint_write_def)
  with get others c show ?thesis
    by (cases "checkpoint_get (run_id r) s")
      (simp_all add: checkpoint_merge_def checkpoint_row_def build_checkpoint_input_def)
qed

text \<open>C26: only safe stages are resumed. What \<open>resolveResumeOptions\<close> offers is the checkpoint of a
  stalled run of the task, at \<open>understand\<close> or \<open>implement\<close>, whose worktrees are all on disk, and
  at \<open>implement\<close> only when the workflow can be seeded; the dispatch then starts at that stage
  with the checkpoint's completed stages.\<close>

theorem resume_is_safe:
  assumes "resolve_resume_options on_disk wired t seed s = Some (i, g)"
  shows "\<exists>c. checkpoint_get i s = Some c \<and> cp_taskId c = task_id t \<and> cp_stage c = g \<and>
    g \<in> {Understand, Implement} \<and> (g = Implement \<longrightarrow> seed) \<and>
    (\<exists>ps. cp_worktreePaths c = Some ps \<and> ps \<noteq> [] \<and> list_all on_disk ps) \<and>
    (\<exists>r \<in> set (st_runs s). run_id r = i \<and> run_terminalState r = Some Stalled) \<and>
    resolve_dispatch_start wired (Some g) (Some i) s =
      \<lparr>start_stage = g, start_completedStages = cp_completedStages c,
       start_seedStage = (if g = Understand then None else Some g)\<rparr>"
proof -
  let ?co = "if wired then latest_stalled_checkpoint (task_id t) s else None"
  obtain c where co: "?co = Some c"
    using assms by (cases ?co) (simp_all add: resolve_resume_options_def Let_def)
  then have w: wired and l: "latest_stalled_checkpoint (task_id t) s = Some c"
    by (simp_all split: if_splits)
  have res: "is_resumable_checkpoint (Some c)" "worktree_on_disk on_disk c"
      "\<not> resume_needs_seed (cp_stage c) \<or> seed" and ig: "i = cp_runId c" "g = cp_stage c"
    using assms by (simp_all add: resolve_resume_options_def w l Let_def split: if_splits)
  from l have "c \<in> set (filter (\<lambda>c. cp_taskId c = task_id t)
      (checkpoints_of_runs (\<lambda>r. run_terminalState r = Some Stalled) s))"
    unfolding latest_stalled_checkpoint_def
    by (cases "filter (\<lambda>c. cp_taskId c = task_id t)
        (checkpoints_of_runs (\<lambda>r. run_terminalState r = Some Stalled) s)") simp_all
  then have t: "cp_taskId c = task_id t"
    and "c \<in> set (checkpoints_of_runs (\<lambda>r. run_terminalState r = Some Stalled) s)"
    by simp_all
  then obtain r where r: "r \<in> set (st_runs s)" "run_terminalState r = Some Stalled"
      "checkpoint_get (run_id r) s = Some c"
    unfolding in_checkpoints_of_runs by blast
  have i: "run_id r = i" using ig checkpoint_get_id [OF r(3)] by simp
  have get: "checkpoint_get i s = Some c" using r(3) i by simp
  have run: "\<exists>r \<in> set (st_runs s). run_id r = i \<and> run_terminalState r = Some Stalled"
    using r(1,2) i by blast
  have stage: "cp_stage c = g" using ig(2) by simp
  have ps: "\<exists>ps. cp_worktreePaths c = Some ps \<and> ps \<noteq> [] \<and> list_all on_disk ps"
    using res(2) by (cases "cp_worktreePaths c") (simp_all add: worktree_on_disk_def)
  have g: "g \<in> {Understand, Implement}" "g = Implement \<longrightarrow> seed"
    using res ig by (auto simp: is_resumable_Some resume_needs_seed_def)
  have start: "resolve_dispatch_start wired (Some g) (Some i) s =
      \<lparr>start_stage = g, start_completedStages = cp_completedStages c,
       start_seedStage = (if g = Understand then None else Some g)\<rparr>"
    using get w by (simp add: resolve_dispatch_start_def resume_needs_seed_def)
  show ?thesis
    by (rule exI [of _ c], intro conjI) (fact get t stage g ps run start)+
qed

text \<open>C27: a resumable worktree is never collected. When a stalled run of a live task can be resumed
  from its checkpoint, the short ids of the run and of the checkpoint's worktree directories are
  among those the stale-worktree collector must preserve.\<close>

theorem resumable_worktree_protected:
  assumes "r \<in> set (st_runs s)" and "run_terminalState r = Some Stalled"
    and "can_resume_stalled_run on_disk True r seed s"
    and "checkpoint_get (run_id r) s = Some c" and "is_live_checkpoint_task s c"
  shows "take 6 (run_id r) \<in> set (collect_protected_worktree_short_ids True s) \<and>
    set (worktree_short_ids (paths_or_none (cp_worktreePaths c)))
      \<subseteq> set (collect_protected_worktree_short_ids True s)"
proof -
  have res: "is_resumable_checkpoint (Some c)"
    using assms(3,4) by (auto simp: can_resume_stalled_run_def split: if_splits)
  have "c \<in> set (list_stalled_checkpoints s)"
    using assms(1,2,4)
    unfolding list_stalled_checkpoints_def checkpoints_by_terminal_states_def in_checkpoints_of_runs
    by (intro bexI [of _ r]) simp_all
  then have "set (protect_checkpoint c) \<subseteq> set (collect_protected_worktree_short_ids True s)"
    using res assms(5) by (fastforce simp: collect_protected_worktree_short_ids_def)
  then show ?thesis using checkpoint_get_id [OF assms(4)] by (simp add: protect_checkpoint_def)
qed

end
