(* ===== verification/Witnesses.thy ===== *)
theory Witnesses
  imports Samples Checkpoint
begin

text \<open>
  The properties that have hypotheses, applied at concrete inputs: each witness discharges the
  hypotheses by evaluation and states what the property then says.
\<close>

subsection \<open>Leases\<close>

definition lease_table_1 :: lease_db where
  "lease_table_1 = snd (acquire True 0 first_claim empty_leases)"

definition lease_table_2 :: lease_db where
  "lease_table_2 = snd (acquire True 0 second_claim lease_table_1)"

lemma lease_table_1_reachable: "lease_step\<^sup>*\<^sup>* empty_leases lease_table_1"
  unfolding lease_table_1_def by (rule r_into_rtranclp) (rule acquire_step)

lemma second_acquired:
  "acquire True 0 second_claim lease_table_1 = (Inr (lease_of_input second_claim 2 0), lease_table_2)"
  by code_simp

lemma superseded_token_refused_witness:
  "fst (assert_can_write (acq_runId second_claim) 1 25 lease_table_2) =
   Inl (StaleFence (acq_runId second_claim) 1)"
proof (rule superseded_token_refused [OF lease_table_1_reachable second_acquired])
  show "(1::nat) \<le> fence_seq lease_table_1" by code_simp
  show "(1::nat) \<noteq> lease_fenceToken (lease_of_input second_claim 2 0)" by code_simp
  show "lease_step\<^sup>*\<^sup>* lease_table_2 lease_table_2" by simp
qed

lemma one_writer_per_run_witness:
  "can_write ''run1'' 1 5 lease_table_1 \<and>
   (\<exists>l. holder lease_table_1 5 ''run1'' = Some l \<and> lease_fenceToken l = 1)"
proof -
  have "can_write ''run1'' 1 5 lease_table_1" by code_simp
  then show ?thesis using one_writer_per_run [OF lease_table_1_reachable, of "''run1''" 5] by blast
qed


lemma renew_extends_holder_witness:
  "\<exists>l db'. renew ''run1'' 1 50 5 lease_table_1 = (Inr l, db') \<and> lease_fenceToken l = 1 \<and>
     lease_expiresAt l = 55 \<and> (\<forall>later. can_write ''run1'' 1 later db' \<longleftrightarrow> later < 55)"
proof -
  have "lease_inv lease_table_1" "can_write ''run1'' 1 5 lease_table_1" by code_simp+
  then show ?thesis using renew_extends_holder [of lease_table_1 "''run1''" 1 5 50] by simp
qed

subsection \<open>Dispatch and run creation\<close>


definition created_store :: store where
  "created_store = snd (run_create (sample_run ''run1'') (sample_store []))"

lemma run_created:
  "run_create (sample_run ''run1'') (sample_store []) =
     (Inr ((sample_run ''run1'')\<lparr>run_createdAt := 100, run_updatedAt := 100\<rparr>), created_store)"
  by (simp add: created_store_def run_create_def outcome_simps atomically_def sample_store_def run_get_def
      sample_run_def sample_task_def run_get_required_def)

lemma created_run_blocks_dispatch_witness:
  "sample_task ''task1'' \<notin> set (task_get_ready None None created_store)"
  using created_run_blocks_dispatch [OF run_created, of None None]
  by (auto simp: is_live_def sample_run_def sample_task_def)

lemma run_create_all_or_nothing_witness:
  "snd (run_create (sample_run ''run2'') created_store) = created_store"
proof (rule run_create_all_or_nothing)
  show "fst (run_create (sample_run ''run2'') created_store) = Inl (ActiveRunExists ''task1'' ''run1'')"
    by (simp add: created_store_def run_create_def outcome_simps atomically_def sample_store_def
        run_get_def sample_run_def sample_task_def run_get_required_def is_live_def)
qed

subsection \<open>Checkpoints\<close>

definition checkpointed_store :: store where
  "checkpointed_store = checkpoint_write (build_checkpoint_input (sample_run ''run1'') (Some Implement))
     (sample_store [(sample_run ''run1'')\<lparr>run_terminalState := Some Stalled\<rparr>])"

definition sample_checkpoint :: run_checkpoint where
  "sample_checkpoint = checkpoint_row (build_checkpoint_input (sample_run ''run1'') (Some Implement)) 100"

lemma checkpoint_in_store: "checkpoint_get ''run1'' checkpointed_store = Some sample_checkpoint"
  by code_simp

lemma checkpoint_stored:
  "checkpoint_upsert (build_checkpoint_input (sample_run ''run1'') (Some Implement))
     (sample_store [(sample_run ''run1'')\<lparr>run_terminalState := Some Stalled\<rparr>]) =
   (Inr sample_checkpoint, checkpointed_store)"
  using checkpoint_in_store unfolding checkpoint_upsert_eq checkpointed_store_def
  by (simp add: build_checkpoint_input_def sample_store_def sample_run_def sample_task_def)

lemma checkpoint_roundtrip_witness:
  "checkpoint_get ''run1'' checkpointed_store = Some sample_checkpoint \<and> cp_stage sample_checkpoint = Implement"
  using checkpoint_roundtrip [OF checkpoint_stored] by (simp add: sample_run_def)

lemma resume_is_safe_witness:
  "resolve_dispatch_start True (Some Implement) (Some ''run1'') checkpointed_store =
     \<lparr>start_stage = Implement, start_completedStages = [], start_seedStage = Some Implement\<rparr>"
proof -
  have offer: "resolve_resume_options (\<lambda>_. True) True (sample_task ''task1'') True checkpointed_store =
      Some (''run1'', Implement)"
    by code_simp
  have "cp_completedStages sample_checkpoint = []" by code_simp
  then show ?thesis using resume_is_safe [OF offer] checkpoint_in_store by auto
qed

lemma resumable_worktree_protected_witness:
  "''abc123'' \<in> set (collect_protected_worktree_short_ids True checkpointed_store)"
proof -
  have r: "(sample_run ''run1'')\<lparr>run_terminalState := Some Stalled\<rparr> \<in> set (st_runs checkpointed_store)"
    by code_simp
  have h: "can_resume_stalled_run (\<lambda>_. True) True ((sample_run ''run1'')\<lparr>run_terminalState := Some Stalled\<rparr>)
      True checkpointed_store"
    by code_simp
  have l: "is_live_checkpoint_task checkpointed_store sample_checkpoint" by code_simp
  have ids: "''abc123'' \<in> set (worktree_short_ids (paths_or_none (cp_worktreePaths sample_checkpoint)))"
    by code_simp
  have c: "checkpoint_get (run_id ((sample_run ''run1'')\<lparr>run_terminalState := Some Stalled\<rparr>)) checkpointed_store =
      Some sample_checkpoint"
    using checkpoint_in_store by (simp add: sample_run_def)
  show ?thesis
    using resumable_worktree_protected [OF r _ h c l] ids by auto
qed

end
