(* ===== verification/Dag_Graph.thy ===== *)
theory Dag_Graph
  imports Ductum_Types
begin

text \<open>
  The graph algorithms of the task DAG: \<open>findTaskCycle\<close> (\<open>dag-cycle.ts\<close>) and the topological
  count of \<open>validateDAG\<close> (\<open>dag.ts\<close>), over the task ids of a spec and the map from a task to the
  tasks it depends on.
\<close>

type_synonym dependency_map = "string \<Rightarrow> string list option"

text \<open>\<open>dependencies.get(id) ?? []\<close>\<close>

definition deps_get :: "dependency_map \<Rightarrow> string \<Rightarrow> string list" where
  "deps_get m i = (case m i of None \<Rightarrow> [] | Some ds \<Rightarrow> ds)"

subsection \<open>Finding a cycle\<close>

text \<open>
  The depth-first walk. The set \<open>stack\<close> always holds the elements of \<open>path\<close>, so the path alone is
  kept. A result is the cycle found or None, with the visited ids. The recursion descends only
  into unvisited ids of \<open>remaining\<close>; the fuel counts the calls still allowed on the way down, and
  None is running out of it.
\<close>

fun walk :: "nat \<Rightarrow> dependency_map \<Rightarrow> string list \<Rightarrow> string \<Rightarrow> string list \<Rightarrow> string list \<Rightarrow>
    (string list option \<times> string list) option"
  and walk_deps :: "nat \<Rightarrow> dependency_map \<Rightarrow> string list \<Rightarrow> string list \<Rightarrow> string list \<Rightarrow> string list \<Rightarrow>
    (string list option \<times> string list) option" where
  "walk 0 m remaining t visited path = None"
| "walk (Suc n) m remaining t visited path =
     walk_deps n m remaining (deps_get m t) (t # visited) (path @ [t])"
| "walk_deps n m remaining [] visited path = Some (None, visited)"
| "walk_deps n m remaining (d # ds) visited path =
     (if d \<notin> set remaining then walk_deps n m remaining ds visited path
      else if d \<notin> set visited then
        (case walk n m remaining d visited path of
           None \<Rightarrow> None
         | Some (Some cycle, v) \<Rightarrow> Some (Some cycle, v)
         | Some (None, v) \<Rightarrow> walk_deps n m remaining ds v path)
      else if d \<in> set path then Some (Some (dropWhile (\<lambda>x. x \<noteq> d) path @ [d]), visited)
      else walk_deps n m remaining ds visited path)"

fun walk_all :: "nat \<Rightarrow> dependency_map \<Rightarrow> string list \<Rightarrow> string list \<Rightarrow> string list \<Rightarrow>
    string list option option" where
  "walk_all n m remaining [] visited = Some None"
| "walk_all n m remaining (t # ts) visited =
     (if t \<in> set visited then walk_all n m remaining ts visited
      else case walk n m remaining t visited [] of
        None \<Rightarrow> None
      | Some (Some cycle, _) \<Rightarrow> Some (Some cycle)
      | Some (None, v) \<Rightarrow> walk_all n m remaining ts v)"

text \<open>The fuel is one more than the number of ids, which is enough (\<open>find_task_cycle_total\<close>).\<close>

definition find_task_cycle :: "dependency_map \<Rightarrow> string list \<Rightarrow> string list option" where
  "find_task_cycle m remaining =
     (case walk_all (Suc (length remaining)) m remaining remaining [] of
        None \<Rightarrow> None
      | Some (Some cycle) \<Rightarrow> Some cycle
      | Some None \<Rightarrow> Some remaining)"

subsection \<open>Counting off the graph\<close>

text \<open>\<open>outgoing.get(id) ?? []\<close>: the dependents of an id of the spec, once per dependency.\<close>

definition outgoing :: "string list \<Rightarrow> dependency_map \<Rightarrow> string \<Rightarrow> string list" where
  "outgoing ids m d =
     (if d \<in> set ids
      then concat (map (\<lambda>t. map (\<lambda>_. t) (filter (\<lambda>x. x = d) (deps_get m t))) ids) else [])"

definition initial_indegree :: "dependency_map \<Rightarrow> string \<Rightarrow> int" where
  "initial_indegree m t = int (length (deps_get m t))"

fun relax :: "string list \<Rightarrow> (string \<Rightarrow> int) \<Rightarrow> string list \<Rightarrow> (string \<Rightarrow> int) \<times> string list" where
  "relax [] indegree queue = (indegree, queue)"
| "relax (t # ts) indegree queue =
     (let n = indegree t - 1 in
      relax ts (indegree(t := n)) (if n = 0 then queue @ [t] else queue))"

text \<open>The ids that can still be queued.\<close>

definition pending_ids :: "string list \<Rightarrow> (string \<Rightarrow> int) \<Rightarrow> string set" where
  "pending_ids ids indegree = {t \<in> set ids. 0 < indegree t}"

lemma pending_ids_dec:
  "t \<in> set ids \<Longrightarrow> card (pending_ids ids (g(t := g t - 1))) + (if g t - 1 = 0 then 1 else 0)
     = card (pending_ids ids g)"
proof (cases "g t = 1")
  case True
  assume "t \<in> set ids"
  then have "pending_ids ids g = insert t (pending_ids ids (g(t := g t - 1)))" "t \<notin> pending_ids ids (g(t := g t - 1))"
    using True by (auto simp: pending_ids_def)
  moreover have "finite (pending_ids ids (g(t := g t - 1)))" by (simp add: pending_ids_def)
  ultimately show ?thesis using True by simp
next
  case False
  have "pending_ids ids (g(t := g t - 1)) = pending_ids ids g"
    using False by (auto simp: pending_ids_def)
  with False show ?thesis by simp
qed

lemma relax_measure:
  "set ts \<subseteq> set ids \<Longrightarrow> relax ts g q = (g', q') \<Longrightarrow>
   length q' + card (pending_ids ids g') = length q + card (pending_ids ids g)"
proof (induction ts arbitrary: g q)
  case (Cons t ts)
  define h p where hp: "h = g(t := g t - 1)" "p = (if g t - 1 = 0 then q @ [t] else q)"
  have t: "t \<in> set ids" and r: "relax ts h p = (g', q')" and ts: "set ts \<subseteq> set ids"
    using Cons.prems by (simp_all add: Let_def hp)
  have "card (pending_ids ids h) + (if g t - 1 = 0 then 1 else 0) = card (pending_ids ids g)"
    unfolding hp by (rule pending_ids_dec [OF t])
  moreover have "length p = length q + (if g t - 1 = 0 then 1 else 0)" by (simp add: hp)
  ultimately show ?case using Cons.IH [OF ts r] by linarith
qed simp

lemma set_outgoing: "set (outgoing ids m d) \<subseteq> set ids"
  by (auto simp: outgoing_def)

function kahn :: "string list \<Rightarrow> dependency_map \<Rightarrow> (string \<Rightarrow> int) \<Rightarrow> string list \<Rightarrow> string list \<Rightarrow>
    string list \<times> (string \<Rightarrow> int)" where
  "kahn ids m indegree [] visited = (visited, indegree)"
| "kahn ids m indegree (t # queue) visited =
     (case relax (outgoing ids m t) indegree queue of
        (indegree', queue') \<Rightarrow> kahn ids m indegree' queue' (visited @ [t]))"
  by pat_completeness auto
termination
proof (relation "measure (\<lambda>(ids, m, g, q, v). length q + card (pending_ids ids g))")
  show "wf (measure (\<lambda>(ids, m, g, q, v). length q + card (pending_ids ids g)))" by simp
qed (use relax_measure [OF set_outgoing] in \<open>auto dest!: sym\<close>)

text \<open>\<open>DAGValidationResult\<close>: None is \<open>valid: true\<close>, Some the reported cycle.\<close>

definition validate_graph :: "string list \<Rightarrow> dependency_map \<Rightarrow> string list option option" where
  "validate_graph ids m =
     (case kahn ids m (initial_indegree m) (filter (\<lambda>t. initial_indegree m t = 0) ids) [] of
        (visited, indegree) \<Rightarrow>
          if length visited = length ids then None
          else Some (find_task_cycle m (filter (\<lambda>t. 0 < indegree t) ids)))"

subsection \<open>The walk finds cycles\<close>

abbreviation edge :: "dependency_map \<Rightarrow> string \<Rightarrow> string \<Rightarrow> bool" where
  "edge m a b \<equiv> b \<in> set (deps_get m a)"

text \<open>A closed path along dependencies: what a reported cycle has to be.\<close>

definition is_cycle :: "dependency_map \<Rightarrow> string list \<Rightarrow> bool" where
  "is_cycle m c \<longleftrightarrow> 2 \<le> length c \<and> hd c = last c \<and> successively (edge m) c"

lemma walk_total:
  "t \<in> set remaining - set visited \<Longrightarrow> card (set remaining - set visited) \<le> n \<Longrightarrow>
   \<exists>r v. walk n m remaining t visited path = Some (r, v) \<and> set visited \<subseteq> set v"
  "card (set remaining - set visited) \<le> n \<Longrightarrow>
   \<exists>r v. walk_deps n m remaining ds visited path = Some (r, v) \<and> set visited \<subseteq> set v"
proof (induction n m remaining t visited path and n m remaining ds visited path rule: walk_walk_deps.induct)
  case (1 m remaining t visited path)
  then have "card (set remaining - set visited) = 0" by simp
  then have "set remaining - set visited = {}" by simp
  with 1(1) show ?case by simp
next
  case (2 n m remaining t visited path)
  have "set remaining - set (t # visited) = (set remaining - set visited) - {t}" by auto
  then have "card (set remaining - set (t # visited)) \<le> n"
    using 2(2,3) by (simp add: card_Diff_singleton_if)
  from 2(1) [OF this] show ?case by fastforce
next
  case (3 n m remaining visited path)
  then show ?case by simp
next
  case (4 n m remaining d ds visited path)
  show ?case
  proof (cases "d \<in> set remaining \<and> d \<notin> set visited")
    case True
    have "\<exists>r v. walk n m remaining d visited path = Some (r, v) \<and> set visited \<subseteq> set v"
      by (rule "4.IH"(2)) (use True "4.prems" in auto)
    then obtain r v where w: "walk n m remaining d visited path = Some (r, v)" "set visited \<subseteq> set v"
      by blast
    have "set remaining - set v \<subseteq> set remaining - set visited" using w(2) by blast
    then have c: "card (set remaining - set v) \<le> n"
      using "4.prems" card_mono by (metis List.finite_set finite_Diff le_trans)
    show ?thesis
    proof (cases r)
      case None
      with True w "4.IH"(3) [of "(None, v)" None v] c show ?thesis by fastforce
    qed (use True w in auto)
  next
    case False
    with "4.IH"(1,4) "4.prems" show ?thesis by auto
  qed
qed

lemma walk_finds_cycle:
  "walk n m remaining t visited path = Some (Some c, v) \<Longrightarrow> successively (edge m) (path @ [t]) \<Longrightarrow>
   set path \<subseteq> set remaining \<Longrightarrow> t \<in> set remaining \<Longrightarrow> is_cycle m c \<and> set c \<subseteq> set remaining"
  "walk_deps n m remaining ds visited path = Some (Some c, v) \<Longrightarrow> successively (edge m) path \<Longrightarrow>
   set path \<subseteq> set remaining \<Longrightarrow> path \<noteq> [] \<Longrightarrow> set ds \<subseteq> set (deps_get m (last path)) \<Longrightarrow>
   is_cycle m c \<and> set c \<subseteq> set remaining"
proof (induction n m remaining t visited path and n m remaining ds visited path
    arbitrary: c v and c v rule: walk_walk_deps.induct)
  case (4 n m remaining d ds visited path)
  consider (skip) "d \<notin> set remaining \<or> (d \<in> set visited \<and> d \<notin> set path)"
    | (down) "d \<in> set remaining" "d \<notin> set visited"
    | (closing) "d \<in> set remaining" "d \<in> set visited" "d \<in> set path" by blast
  then show ?case
  proof cases
    case skip
    then have "walk_deps n m remaining ds visited path = Some (Some c, v)" using "4.prems"(1) by (simp split: if_splits)
    with skip "4.IH"(1,4) "4.prems"(2-5) show ?thesis by auto
  next
    case down
    have ext: "successively (edge m) (path @ [d])"
      using "4.prems"(2,4,5) by (auto simp: successively_append_iff)
    obtain r w where w: "walk n m remaining d visited path = Some (r, w)"
      using down "4.prems"(1) by (auto split: option.splits)
    show ?thesis
    proof (cases r)
      case None
      then have "walk_deps n m remaining ds w path = Some (Some c, v)" using w down "4.prems"(1) by simp
      with "4.IH"(3) [of "(r, w)" r w] None w down "4.prems"(2-5) show ?thesis by simp
    next
      case (Some c')
      with w down "4.prems"(1) have "c' = c" by simp
      with "4.IH"(2) [OF _ _ _ ext] Some w down "4.prems"(3) show ?thesis by simp
    qed
  next
    case closing
    then have c: "c = dropWhile (\<lambda>x. x \<noteq> d) path @ [d]" using "4.prems"(1) by simp
    let ?l = "dropWhile (\<lambda>x. x \<noteq> d) path"
    have ne: "?l \<noteq> []" using closing(3) by (auto simp: dropWhile_eq_Nil_conv)
    have hd: "hd ?l = d" using hd_dropWhile [OF ne] by simp
    have l: "last ?l = last path" using ne by (metis last_appendR takeWhile_dropWhile_id)
    have "successively (edge m) ?l"
      using "4.prems"(2) ne by (metis successively_append_iff takeWhile_dropWhile_id)
    moreover have "edge m (last path) d" using "4.prems"(5) by simp
    ultimately have "successively (edge m) c" using c l by (auto simp: successively_append_iff)
    moreover have "hd c = last c" "2 \<le> length c" using c hd ne by (auto simp: hd_append Suc_le_eq)
    moreover have "set c \<subseteq> set remaining" using c closing(1) "4.prems"(3) by (auto dest: set_dropWhileD)
    ultimately show ?thesis by (simp add: is_cycle_def)
  qed
qed auto

text \<open>An id from which every chain of dependencies inside \<open>remaining\<close> ends.\<close>

inductive ends :: "dependency_map \<Rightarrow> string set \<Rightarrow> string \<Rightarrow> bool" for m R where
  "(\<And>d. edge m t d \<Longrightarrow> d \<in> R \<Longrightarrow> ends m R d) \<Longrightarrow> ends m R t"

lemma walk_mono:
  "walk n m remaining t visited path = Some (r, v) \<Longrightarrow> insert t (set visited) \<subseteq> set v"
  "walk_deps n m remaining ds visited path = Some (r, v) \<Longrightarrow> set visited \<subseteq> set v"
proof (induction n m remaining t visited path and n m remaining ds visited path
    arbitrary: r v and r v rule: walk_walk_deps.induct)
  case (4 n m remaining d ds visited path)
  show ?case
  proof (cases "d \<in> set remaining \<and> d \<notin> set visited")
    case True
    then obtain r' w where w: "walk n m remaining d visited path = Some (r', w)"
      using "4.prems" by (auto split: option.splits)
    then have vw: "set visited \<subseteq> set w" using "4.IH"(2) True by blast
    show ?thesis
    proof (cases r')
      case None
      then have "walk_deps n m remaining ds w path = Some (r, v)" using w True "4.prems" by simp
      with "4.IH"(3) [of "(r', w)" r' w] None w True vw show ?thesis by auto
    qed (use w True "4.prems" vw in simp)
  next
    case False
    with "4.IH"(1,4) "4.prems" show ?thesis by (auto split: if_splits)
  qed
qed auto

lemma walk_no_cycle:
  "walk n m remaining t visited path = Some (None, v) \<Longrightarrow> set path \<subseteq> set visited \<Longrightarrow> t \<notin> set visited \<Longrightarrow>
   \<forall>x \<in> set visited - set path. ends m (set remaining) x \<Longrightarrow>
   \<forall>x \<in> set v - set path. ends m (set remaining) x"
  "walk_deps n m remaining ds visited path = Some (None, v) \<Longrightarrow> set path \<subseteq> set visited \<Longrightarrow>
   \<forall>x \<in> set visited - set path. ends m (set remaining) x \<Longrightarrow>
   (\<forall>x \<in> set v - set path. ends m (set remaining) x) \<and>
   (\<forall>d \<in> set ds. d \<in> set remaining \<longrightarrow> ends m (set remaining) d)"
proof (induction n m remaining t visited path and n m remaining ds visited path
    arbitrary: v and v rule: walk_walk_deps.induct)
  case (2 n m remaining t visited path)
  have "\<forall>x \<in> set (t # visited) - set (path @ [t]). ends m (set remaining) x" using "2.prems"(4) by auto
  then have deps: "\<forall>x \<in> set v - set (path @ [t]). ends m (set remaining) x"
      "\<forall>d \<in> set (deps_get m t). d \<in> set remaining \<longrightarrow> ends m (set remaining) d"
    using "2.IH" [of v] "2.prems"(1,2) by auto
  from deps(2) have "ends m (set remaining) t" by (intro ends.intros [of m t]) blast
  with deps(1) show ?case by auto
next
  case (4 n m remaining d ds visited path)
  consider (out) "d \<notin> set remaining" | (old) "d \<in> set remaining" "d \<in> set visited" "d \<notin> set path"
    | (down) "d \<in> set remaining" "d \<notin> set visited"
    | (closing) "d \<in> set remaining" "d \<in> set visited" "d \<in> set path" by blast
  then show ?case
  proof cases
    case down
    then obtain v1 where w: "walk n m remaining d visited path = Some (None, v1)"
        "walk_deps n m remaining ds v1 path = Some (None, v)"
      using "4.prems"(1) by (auto split: option.splits)
    have v1: "\<forall>x \<in> set v1 - set path. ends m (set remaining) x"
      using "4.IH"(2) [of v1] down w(1) "4.prems"(2,3) by blast
    have "insert d (set visited) \<subseteq> set v1" using walk_mono(1) [OF w(1)] .
    moreover have "d \<notin> set path" using down(2) "4.prems"(2) by blast
    ultimately have "ends m (set remaining) d" "set path \<subseteq> set v1" using v1 "4.prems"(2) by auto
    with "4.IH"(3) [of "(None, v1)" None v1 v] down w v1 show ?thesis by auto
  next
    case old
    then have e: "ends m (set remaining) d" using "4.prems"(3) by blast
    have "walk_deps n m remaining ds visited path = Some (None, v)" using old "4.prems"(1) by simp
    with "4.IH"(4) [of v] old e "4.prems"(2,3) show ?thesis by auto
  next
    case out
    then have "walk_deps n m remaining ds visited path = Some (None, v)" using "4.prems"(1) by simp
    with "4.IH"(1) [of v] out "4.prems"(2,3) show ?thesis by auto
  qed (use "4.prems" in auto)
qed auto

lemma walk_all_result:
  assumes "set ts \<subseteq> set remaining" and "length remaining \<le> n"
    and "\<forall>x \<in> set visited. ends m (set remaining) x"
  shows "(\<exists>c. walk_all n m remaining ts visited = Some (Some c) \<and> is_cycle m c \<and> set c \<subseteq> set remaining) \<or>
    (walk_all n m remaining ts visited = Some None \<and> (\<forall>t \<in> set ts. ends m (set remaining) t))"
  using assms
proof (induction ts arbitrary: visited)
  case (Cons t ts)
  show ?case
  proof (cases "t \<in> set visited")
    case True
    with Cons show ?thesis by auto
  next
    case False
    have "card (set remaining - set visited) \<le> card (set remaining)" by (intro card_mono) auto
    then have "card (set remaining - set visited) \<le> n"
      using Cons.prems(2) card_length [of remaining] by linarith
    then obtain r v where w: "walk n m remaining t visited [] = Some (r, v)"
      using walk_total(1) [of t remaining visited n m "[]"] False Cons.prems(1) by auto
    show ?thesis
    proof (cases r)
      case None
      have e: "\<forall>x \<in> set v. ends m (set remaining) x"
        using walk_no_cycle(1) [of n m remaining t visited "[]" v] w None False Cons.prems(3) by auto
      moreover have "t \<in> set v" using walk_mono(1) w by blast
      ultimately show ?thesis using Cons.IH [OF _ Cons.prems(2) e] Cons.prems(1) False w None by auto
    next
      case (Some c)
      have "is_cycle m c \<and> set c \<subseteq> set remaining"
        using walk_finds_cycle(1) [of n m remaining t visited "[]" c v] w Some Cons.prems(1) by simp
      with w Some False show ?thesis by simp
    qed
  qed
qed simp

lemma find_task_cycle_total: "find_task_cycle m remaining \<noteq> None"
  using walk_all_result [of remaining remaining "Suc (length remaining)" "[]" m]
  by (auto simp: find_task_cycle_def)

text \<open>Where every id has a dependency inside the set, no chain ends, so the walk finds a cycle.\<close>

lemma no_chain_ends: "ends m R t \<Longrightarrow> \<forall>x \<in> R. \<exists>d \<in> R. edge m x d \<Longrightarrow> t \<notin> R"
  by (induction rule: ends.induct) blast

lemma find_task_cycle_finds:
  assumes "remaining \<noteq> []" and "\<forall>x \<in> set remaining. \<exists>d \<in> set remaining. edge m x d"
  shows "\<exists>c. find_task_cycle m remaining = Some c \<and> is_cycle m c \<and> set c \<subseteq> set remaining"
proof -
  obtain t where t: "t \<in> set remaining" using assms(1) by (cases remaining) auto
  have "\<not> ends m (set remaining) t" using no_chain_ends [OF _ assms(2)] t by blast
  then show ?thesis
    using walk_all_result [of remaining remaining "Suc (length remaining)" "[]" m] t
    by (auto simp: find_task_cycle_def)
qed

subsection \<open>The count is right\<close>

lemma relax_indegree: "relax ts g q = (g', q') \<Longrightarrow> g' t = g t - int (count_list ts t)"
  by (induction ts arbitrary: g q) (auto simp: Let_def)

lemma relax_queue:
  "relax ts g q = (g', q') \<Longrightarrow> \<forall>t \<in> set ts. int (count_list ts t) \<le> g t \<Longrightarrow>
   distinct q \<Longrightarrow> set q \<inter> set ts = {} \<Longrightarrow>
   set q' = set q \<union> {t \<in> set ts. g t = int (count_list ts t)} \<and> distinct q'"
proof (induction ts arbitrary: g q)
  case (Cons t ts)
  define h p where hp: "h = g(t := g t - 1)" "p = (if g t - 1 = 0 then q @ [t] else q)"
  have r: "relax ts h p = (g', q')" using Cons.prems(1) by (simp add: Let_def hp)
  have t: "int (count_list ts t) \<le> g t - 1" using Cons.prems(2) by simp
  have b: "\<forall>x \<in> set ts. int (count_list ts x) \<le> h x"
  proof
    fix x assume "x \<in> set ts"
    then show "int (count_list ts x) \<le> h x" using Cons.prems(2) t by (cases "x = t") (auto simp: hp split: if_splits)
  qed
  have zero: "g t - 1 = 0 \<Longrightarrow> t \<notin> set ts"
    using t by (auto simp: count_list_0_iff)
  have d: "distinct p" "set p \<inter> set ts = {}" using Cons.prems(3,4) zero by (auto simp: hp)
  from Cons.IH [OF r b d] have q': "set q' = set p \<union> {x \<in> set ts. h x = int (count_list ts x)}" "distinct q'"
    by simp_all
  have "x \<in> set q' \<longleftrightarrow> x \<in> set q \<union> {x \<in> set (t # ts). g x = int (count_list (t # ts) x)}" for x
  proof (cases "x = t")
    case True
    have "t \<notin> set q" using Cons.prems(4) by auto
    moreover have "t \<notin> set ts \<Longrightarrow> count_list ts t = 0" by (simp add: count_list_0_iff)
    ultimately show ?thesis using True q'(1) zero t by (cases "t \<in> set ts") (auto simp: hp)
  next
    case False
    then show ?thesis using q'(1) by (auto simp: hp)
  qed
  with q'(2) show ?case by blast
qed simp

lemma count_list_map_const: "count_list (map (\<lambda>_. t) xs) x = (if x = t then length xs else 0)"
  by (induction xs) auto

lemma length_filter_count: "length (filter (\<lambda>d. d = x) ds) = count_list ds x"
  by (induction ds) auto

lemma count_outgoing:
  assumes "distinct ids" and "x \<in> set ids"
  shows "count_list (outgoing ids m x) t = (if t \<in> set ids then count_list (deps_get m t) x else 0)"
proof -
  have "count_list (concat (map (\<lambda>t. map (\<lambda>_. t) (filter (\<lambda>d. d = x) (deps_get m t))) ts)) t =
      (if t \<in> set ts then count_list (deps_get m t) x else 0)" if "distinct ts" for ts
    using that by (induction ts) (auto simp: count_list_map_const length_filter_count)
  with assms show ?thesis by (simp add: outgoing_def)
qed

text \<open>An id is cleared once all its dependencies are.\<close>

inductive clears :: "string list \<Rightarrow> dependency_map \<Rightarrow> string \<Rightarrow> bool" for ids m where
  "t \<in> set ids \<Longrightarrow> (\<And>d. edge m t d \<Longrightarrow> clears ids m d) \<Longrightarrow> clears ids m t"

definition kahn_inv :: "string list \<Rightarrow> dependency_map \<Rightarrow> (string \<Rightarrow> int) \<Rightarrow> string list \<Rightarrow> string list \<Rightarrow> bool" where
  "kahn_inv ids m g q v \<longleftrightarrow>
     distinct (v @ q) \<and> set (v @ q) \<subseteq> set ids \<and>
     (\<forall>t \<in> set ids. g t = int (length (filter (\<lambda>d. d \<notin> set v) (deps_get m t)))) \<and>
     (\<forall>t \<in> set ids. g t = 0 \<longleftrightarrow> t \<in> set (v @ q)) \<and>
     (\<forall>t \<in> set v. clears ids m t)"

lemma kahn_inv_start:
  "distinct ids \<Longrightarrow> kahn_inv ids m (initial_indegree m) (filter (\<lambda>t. initial_indegree m t = 0) ids) []"
  by (auto simp: kahn_inv_def initial_indegree_def)

lemma filter_not_mem_length:
  "x \<notin> set v \<Longrightarrow> length (filter (\<lambda>d. d \<notin> set (v @ [x])) ds) + count_list ds x = length (filter (\<lambda>d. d \<notin> set v) ds)"
  by (induction ds) auto

lemma kahn_inv_step:
  assumes d: "distinct ids" and inv: "kahn_inv ids m g (x # q) v"
    and r: "relax (outgoing ids m x) g q = (g', q')"
  shows "kahn_inv ids m g' q' (v @ [x])"
proof -
  have x: "x \<in> set ids" "x \<notin> set v" "g x = 0" using inv by (auto simp: kahn_inv_def)
  have gv: "\<And>t. t \<in> set ids \<Longrightarrow> g t = int (length (filter (\<lambda>d. d \<notin> set v) (deps_get m t)))"
    and zero: "\<And>t. t \<in> set ids \<Longrightarrow> g t = 0 \<longleftrightarrow> t \<in> set (v @ x # q)"
    using inv by (auto simp: kahn_inv_def)
  have g': "g' t = int (length (filter (\<lambda>d. d \<notin> set (v @ [x])) (deps_get m t)))" if "t \<in> set ids" for t
    using relax_indegree [OF r, of t] gv [OF that] filter_not_mem_length [OF x(2), of "deps_get m t"] that
    by (simp add: count_outgoing [OF d x(1)])
  have le: "\<forall>t \<in> set (outgoing ids m x). int (count_list (outgoing ids m x) t) \<le> g t"
    using g' relax_indegree [OF r] set_outgoing [of ids m x] by (metis diff_ge_0_iff_ge of_nat_0_le_iff subsetD)
  have pos: "t \<in> set (outgoing ids m x) \<Longrightarrow> 0 < count_list (outgoing ids m x) t" for t
    by (metis count_list_0_iff gr0I)
  have dq: "distinct q" "set q \<inter> set (outgoing ids m x) = {}"
  proof -
    show "distinct q" using inv by (simp add: kahn_inv_def)
    have "t \<notin> set q" if "t \<in> set (outgoing ids m x)" for t
    proof
      assume "t \<in> set q"
      then have "g t = 0" using zero [of t] that set_outgoing [of ids m x] by auto
      then show False using le pos [OF that] that by auto
    qed
    then show "set q \<inter> set (outgoing ids m x) = {}" by blast
  qed
  from relax_queue [OF r le dq] have q': "distinct q'"
      "set q' = set q \<union> {t \<in> set (outgoing ids m x). g t = int (count_list (outgoing ids m x) t)}"
    by simp_all
  have new: "t \<in> set q' \<longleftrightarrow> t \<in> set q \<or> (g' t = 0 \<and> g t \<noteq> 0)" if "t \<in> set ids" for t
  proof (cases "t \<in> set (outgoing ids m x)")
    case True
    with q'(2) relax_indegree [OF r, of t] pos [OF True] show ?thesis by auto
  next
    case False
    then have "count_list (outgoing ids m x) t = 0" by (simp add: count_list_0_iff)
    with q'(2) relax_indegree [OF r, of t] False show ?thesis by auto
  qed
  have cx: "clears ids m x"
  proof (rule clears.intros [OF x(1)])
    fix y assume y: "edge m x y"
    have "filter (\<lambda>d. d \<notin> set v) (deps_get m x) = []" using gv [OF x(1)] x(3) by simp
    with y have "y \<in> set v" by (auto simp: filter_empty_conv)
    then show "clears ids m y" using inv by (simp add: kahn_inv_def)
  qed
  have sub: "set q' \<subseteq> set ids"
    using q'(2) set_outgoing [of ids m x] inv by (auto simp: kahn_inv_def)
  have dist: "set q' \<inter> set (v @ [x]) = {}"
  proof -
    have "t \<notin> set (v @ [x])" if "t \<in> set q'" for t
      using new [of t] zero [of t] that sub inv by (auto simp: kahn_inv_def)
    then show ?thesis by blast
  qed
  have dec: "g' t \<le> g t" for t using relax_indegree [OF r, of t] by simp
  have nonneg: "0 \<le> g' t" if "t \<in> set ids" for t using g' [OF that] by simp
  have z': "g' t = 0 \<longleftrightarrow> t \<in> set ((v @ [x]) @ q')" if "t \<in> set ids" for t
    using new [OF that] zero [OF that] dec [of t] nonneg [OF that] by auto
  show ?thesis
    using g' z' cx sub dist q'(1) inv x by (auto simp: kahn_inv_def)
qed

lemma kahn_result:
  "distinct ids \<Longrightarrow> kahn_inv ids m g q v \<Longrightarrow> kahn ids m g q v = (v', g') \<Longrightarrow> kahn_inv ids m g' [] v'"
proof (induction ids m g q v rule: kahn.induct)
  case (2 ids m g t q v)
  obtain h p where r: "relax (outgoing ids m t) g q = (h, p)" by (cases "relax (outgoing ids m t) g q")
  have "kahn ids m h p (v @ [t]) = (v', g')" using 2(4) r by simp
  with 2(1) [OF r [symmetric] 2(2) kahn_inv_step [OF 2(2,3) r]] show ?case .
qed simp

lemma kahn_visits_cleared:
  assumes "kahn_inv ids m g [] v"
  shows "set v = {t. clears ids m t}"
proof -
  have all: "t \<in> set ids \<Longrightarrow> (\<forall>d. edge m t d \<longrightarrow> d \<in> set v) \<Longrightarrow> t \<in> set v" for t
    using assms by (auto simp: kahn_inv_def filter_empty_conv)
  have "t \<in> set v" if "clears ids m t" for t
    using that by (induction rule: clears.induct) (blast intro: all)
  then show ?thesis using assms by (auto simp: kahn_inv_def)
qed

text \<open>The dependency graph of the spec: from a dependency to the task that waits for it.\<close>

definition dependency_graph :: "string list \<Rightarrow> dependency_map \<Rightarrow> (string \<times> string) set" where
  "dependency_graph ids m = {(d, t). t \<in> set ids \<and> edge m t d}"

definition internal :: "string list \<Rightarrow> dependency_map \<Rightarrow> bool" where
  "internal ids m \<longleftrightarrow> (\<forall>t \<in> set ids. set (deps_get m t) \<subseteq> set ids)"

lemma finite_dependency_graph: "finite (dependency_graph ids m)"
proof -
  have "dependency_graph ids m = (\<Union>t \<in> set ids. (\<lambda>d. (d, t)) ` set (deps_get m t))"
    by (auto simp: dependency_graph_def)
  then show ?thesis by simp
qed

lemma clears_member: "clears ids m t \<Longrightarrow> t \<in> set ids"
  by (erule clears.cases) simp

lemma clears_acc: "clears ids m t \<Longrightarrow> t \<in> Wellfounded.acc (dependency_graph ids m)"
  by (induction rule: clears.induct) (auto simp: dependency_graph_def intro: accI)

lemma all_clear_iff:
  "(\<forall>t \<in> set ids. clears ids m t) \<longleftrightarrow> internal ids m \<and> acyclic (dependency_graph ids m)"
proof
  assume all: "\<forall>t \<in> set ids. clears ids m t"
  have "internal ids m" unfolding internal_def
  proof (intro ballI subsetI)
    fix t d assume "t \<in> set ids" "d \<in> set (deps_get m t)"
    with all have "clears ids m d" by (auto elim: clears.cases)
    then show "d \<in> set ids" by (rule clears_member)
  qed
  moreover have "t \<in> Wellfounded.acc (dependency_graph ids m)" for t
    using all clears_acc by (cases "t \<in> set ids") (auto simp: dependency_graph_def intro: accI)
  then have "wf (dependency_graph ids m)" by (intro acc_wfI) blast
  then have "acyclic (dependency_graph ids m)" by (rule wf_acyclic)
  ultimately show "internal ids m \<and> acyclic (dependency_graph ids m)" by blast
next
  assume h: "internal ids m \<and> acyclic (dependency_graph ids m)"
  then have "wf (dependency_graph ids m)" using finite_dependency_graph finite_acyclic_wf by blast
  then have "t \<in> set ids \<longrightarrow> clears ids m t" for t
  proof (induction t rule: wf_induct_rule)
    case (less t)
    show ?case
    proof
      assume t: "t \<in> set ids"
      show "clears ids m t"
      proof (rule clears.intros [OF t])
        fix d assume d: "edge m t d"
        then have "(d, t) \<in> dependency_graph ids m" "d \<in> set ids"
          using t h by (auto simp: dependency_graph_def internal_def)
        then show "clears ids m d" using less by blast
      qed
    qed
  qed
  then show "\<forall>t \<in> set ids. clears ids m t" by blast
qed

lemma validate_graph_cases:
  assumes "distinct ids"
  shows "if \<forall>t \<in> set ids. clears ids m t then validate_graph ids m = None
    else validate_graph ids m = Some (find_task_cycle m (filter (\<lambda>t. \<not> clears ids m t) ids))"
proof -
  obtain v g where k: "kahn ids m (initial_indegree m) (filter (\<lambda>t. initial_indegree m t = 0) ids) [] = (v, g)"
    by fastforce
  have inv: "kahn_inv ids m g [] v" using kahn_result [OF assms kahn_inv_start [OF assms] k] .
  have v: "set v = {t. clears ids m t}" using kahn_visits_cleared [OF inv] .
  have "length v = length ids \<longleftrightarrow> set v = set ids"
    using inv assms by (auto simp: kahn_inv_def) (metis card_subset_eq distinct_card List.finite_set, metis distinct_card)
  moreover have "set v = set ids \<longleftrightarrow> (\<forall>t \<in> set ids. clears ids m t)"
    using v clears_member by auto
  moreover have "0 < g t \<longleftrightarrow> \<not> clears ids m t" if "t \<in> set ids" for t
  proof -
    have "g t = int (length (filter (\<lambda>d. d \<notin> set v) (deps_get m t)))" "g t = 0 \<longleftrightarrow> t \<in> set v"
      using inv that unfolding kahn_inv_def append_Nil2 by blast+
    then show ?thesis using v by (metis less_int_code(1) mem_Collect_eq of_nat_0_le_iff order_le_imp_less_or_eq)
  qed
  then have "filter (\<lambda>t. 0 < g t) ids = filter (\<lambda>t. \<not> clears ids m t) ids"
    by (intro filter_cong) simp_all
  ultimately show ?thesis using k by (auto simp: validate_graph_def)
qed

lemma validate_graph_iff:
  "distinct ids \<Longrightarrow> validate_graph ids m = None \<longleftrightarrow> internal ids m \<and> acyclic (dependency_graph ids m)"
  using validate_graph_cases [of ids m] all_clear_iff [of ids m] by (auto split: if_splits)

lemma validate_graph_cycle:
  assumes "distinct ids" and "internal ids m" and "validate_graph ids m \<noteq> None"
  shows "\<exists>c. validate_graph ids m = Some (Some c) \<and> is_cycle m c \<and> set c \<subseteq> set ids"
proof -
  let ?r = "filter (\<lambda>t. \<not> clears ids m t) ids"
  have n: "\<not> (\<forall>t \<in> set ids. clears ids m t)" using validate_graph_cases [OF assms(1), of m] assms(3) by (metis (full_types))
  then have "?r \<noteq> []" by (auto simp: filter_empty_conv)
  moreover have "\<forall>x \<in> set ?r. \<exists>d \<in> set ?r. edge m x d"
  proof
    fix x assume "x \<in> set ?r"
    then have x: "x \<in> set ids" "\<not> clears ids m x" by simp_all
    then obtain d where "edge m x d" "\<not> clears ids m d" by (meson clears.intros)
    then show "\<exists>d \<in> set ?r. edge m x d" using assms(2) x(1) by (auto simp: internal_def)
  qed
  ultimately obtain c where "find_task_cycle m ?r = Some c" "is_cycle m c" "set c \<subseteq> set ?r"
    using find_task_cycle_finds by blast
  then show ?thesis using validate_graph_cases [OF assms(1), of m] n by auto
qed

end
