(* ===== verification/State_Machine.thy ===== *)
theory State_Machine
  imports Checkpoint
begin

text \<open>
  \<open>RunStateMachine\<close> (\<open>state-machine.ts\<close>, \<open>state-machine-fenced.ts\<close>): the terminal states of a run,
  the history of its stages, its heartbeat and the stall sweep, with or without a fencing token.
  The stages passed to \<open>recordStageAdvance\<close> come from the workflow runtime; the destination is
  one of the four stages here, the origin any string.
\<close>

subsection \<open>Fenced writes\<close>

text \<open>\<open>FencedWriteOptions\<close>: the token, and the clock the check reads (the current time when the
  caller gives none).\<close>

record fenced_options =
  fo_token :: "nat option"
  fo_now :: instant

definition apply_terminal_state ::
  "config \<Rightarrow> string \<Rightarrow> terminal_state option \<Rightarrow> fenced_options \<Rightarrow> run db" where
  "apply_terminal_state c i t opts =
     (case fo_token opts of
        Some tok \<Rightarrow> run_update_terminal_state_fenced c i t tok (fo_now opts)
      | None \<Rightarrow> run_update_terminal_state i t)"

definition assert_fenced_terminal_state ::
  "config \<Rightarrow> string \<Rightarrow> terminal_state option \<Rightarrow> fenced_options \<Rightarrow> unit db" where
  "assert_fenced_terminal_state c i t opts =
     (case fo_token opts of
        Some tok \<Rightarrow> andthen (run_update_terminal_state_fenced c i t tok (fo_now opts)) (\<lambda>_. give ())
      | None \<Rightarrow> give ())"

definition write_stage_checkpoint ::
  "config \<Rightarrow> string \<Rightarrow> workflow_stage \<Rightarrow> fenced_options \<Rightarrow> unit db" where
  "write_stage_checkpoint c i to_stage opts =
     (if \<not> cfg_checkpointRepo c \<or> to_stage = StageDone then give ()
      else andthen (reading (run_get i)) (\<lambda>found.
        case found of
          None \<Rightarrow> give ()
        | Some r \<Rightarrow>
            if run_terminalState r \<noteq> None then give ()
            else case fo_token opts of
              Some tok \<Rightarrow> andthen (checkpoint_upsert_fenced c (build_checkpoint_input r (Some to_stage))
                            tok (fo_now opts)) (\<lambda>_. give ())
            | None \<Rightarrow> andthen (checkpoint_upsert (build_checkpoint_input r (Some to_stage))) (\<lambda>_. give ())))"

subsection \<open>The machine\<close>

definition no_block :: workflow_fields where
  "no_block = \<lparr>wf_completedStages = None, wf_blockedReason = Some None, wf_pendingApproval = Some False\<rparr>"

text \<open>\<open>recordTransition\<close>: \<open>from\<close> is the run as it was read before the writes.\<close>

definition record_transition :: "config \<Rightarrow> run \<Rightarrow> workflow_stage \<Rightarrow> string \<Rightarrow> unit db" where
  "record_transition c r to_stage reason =
     andthen (history_add c (run_id r) (stage_name (run_stage r)) (stage_name to_stage) (Some reason)) (\<lambda>_.
     emit (RunStageChanged (run_id r) (stage_name (run_stage r)) (stage_name to_stage) (Some reason)))"

definition failed_reason :: "string option \<Rightarrow> string" where
  "failed_reason reason = (case reason of None \<Rightarrow> ''run failed'' | Some x \<Rightarrow> x)"

definition mark_failed :: "config \<Rightarrow> string \<Rightarrow> string option \<Rightarrow> fenced_options \<Rightarrow> run db" where
  "mark_failed c i reason opts =
     andthen (run_get_required i) (\<lambda>r.
     andthen (apply_terminal_state c (run_id r) (Some Failed) opts) (\<lambda>_.
     andthen (run_update_workflow_state c (run_id r) no_block) (\<lambda>_.
     andthen (run_update_failure c (run_id r) (Some (failed_reason reason)) False) (\<lambda>_.
     andthen (record_transition c r (run_stage r) (''failed: '' @ failed_reason reason)) (\<lambda>_.
     andthen (run_get_required i) (\<lambda>updated.
     andthen (emit (RunFailed (run_id r) (run_failReason updated))) (\<lambda>_.
     give updated)))))))"

definition mark_stalled :: "config \<Rightarrow> string \<Rightarrow> fenced_options \<Rightarrow> run db" where
  "mark_stalled c i opts =
     andthen (run_get_required i) (\<lambda>r.
     case run_terminalState r of
       Some t \<Rightarrow> fail (CannotStall t)
     | None \<Rightarrow>
         andthen (apply_terminal_state c (run_id r) (Some Stalled) opts) (\<lambda>_.
         andthen (record_transition c r (run_stage r) ''heartbeat timeout'') (\<lambda>_.
         run_get_required i)))"

definition mark_cancelled :: "config \<Rightarrow> string \<Rightarrow> string \<Rightarrow> fenced_options \<Rightarrow> run db" where
  "mark_cancelled c i reason opts =
     andthen (run_get_required i) (\<lambda>r.
     case run_terminalState r of
       Some t \<Rightarrow> fail (CannotCancel (terminal_name t))
     | None \<Rightarrow>
         andthen (guard_or (run_stage r \<noteq> StageDone) (CannotCancel ''done'')) (\<lambda>_.
         andthen (apply_terminal_state c (run_id r) (Some Cancelled) opts) (\<lambda>_.
         andthen (run_update_workflow_state c (run_id r) no_block) (\<lambda>_.
         andthen (run_update_failure c (run_id r) None False) (\<lambda>_.
         andthen (record_transition c r (run_stage r) (''cancelled: '' @ reason)) (\<lambda>_.
         run_get_required i))))))"

definition halt_resumable ::
  "config \<Rightarrow> string \<Rightarrow> terminal_state \<Rightarrow> string \<Rightarrow> event \<Rightarrow> fenced_options \<Rightarrow> run db" where
  "halt_resumable c i state reason ev opts =
     andthen (run_get_required i) (\<lambda>r.
     case run_terminalState r of
       Some t \<Rightarrow> fail (CannotHalt state (terminal_name t))
     | None \<Rightarrow>
         andthen (guard_or (run_stage r \<noteq> StageDone) (CannotHalt state ''done'')) (\<lambda>_.
         andthen (apply_terminal_state c (run_id r) (Some state) opts) (\<lambda>_.
         andthen (run_update_workflow_state c (run_id r) no_block) (\<lambda>_.
         andthen (run_update_failure c (run_id r) (Some reason) True) (\<lambda>_.
         andthen (record_transition c r (run_stage r) (terminal_name state @ '': '' @ reason)) (\<lambda>_.
         andthen (emit ev) (\<lambda>_.
         run_get_required i)))))))"

definition mark_paused :: "config \<Rightarrow> string \<Rightarrow> string \<Rightarrow> fenced_options \<Rightarrow> run db" where
  "mark_paused c i reason opts = halt_resumable c i Paused reason (RunPaused i reason) opts"

definition mark_frozen :: "config \<Rightarrow> string \<Rightarrow> string \<Rightarrow> fenced_options \<Rightarrow> run db" where
  "mark_frozen c i reason opts = halt_resumable c i Frozen reason (RunFrozen i reason) opts"

definition mark_quarantined :: "config \<Rightarrow> string \<Rightarrow> string \<Rightarrow> fenced_options \<Rightarrow> run db" where
  "mark_quarantined c i reason opts =
     andthen (run_get_required i) (\<lambda>r.
     andthen (guard_or (run_stage r \<noteq> StageDone) (CannotQuarantine ''done'')) (\<lambda>_.
     andthen (guard_or (run_terminalState r = Some Stalled \<or> run_terminalState r = Some Failed)
       (CannotQuarantine (case run_terminalState r of None \<Rightarrow> ''active'' | Some t \<Rightarrow> terminal_name t))) (\<lambda>_.
     andthen (apply_terminal_state c (run_id r) (Some Quarantined) opts) (\<lambda>_.
     andthen (run_update_workflow_state c (run_id r) no_block) (\<lambda>_.
     andthen (run_update_failure c (run_id r) (Some reason) False) (\<lambda>_.
     andthen (record_transition c r (run_stage r) (''quarantined: '' @ reason)) (\<lambda>_.
     andthen (emit (RunQuarantined (run_id r) reason)) (\<lambda>_.
     run_get_required i))))))))"

definition mark_done :: "config \<Rightarrow> string \<Rightarrow> string option \<Rightarrow> fenced_options \<Rightarrow> run db" where
  "mark_done c i reason opts =
     andthen (run_get_required i) (\<lambda>r.
     andthen (assert_fenced_terminal_state c (run_id r) (run_terminalState r) opts) (\<lambda>_.
     andthen (run_update_stage c (run_id r) StageDone None) (\<lambda>_.
     andthen (run_update_terminal_state (run_id r) None) (\<lambda>_.
     andthen (run_update_workflow_state c (run_id r) no_block) (\<lambda>_.
     andthen (run_update_failure c (run_id r) None True) (\<lambda>_.
     andthen (history_add c (run_id r) (stage_name (run_stage r)) ''done'' reason) (\<lambda>_.
     andthen (emit (RunStageChanged (run_id r) (stage_name (run_stage r)) ''done'' reason)) (\<lambda>_.
     andthen (run_get_required i) (\<lambda>updated.
     andthen (emit (RunCompleted (run_id r))) (\<lambda>_.
     give updated))))))))))"

definition record_stage_advance ::
  "config \<Rightarrow> string \<Rightarrow> string \<Rightarrow> workflow_stage \<Rightarrow> string option \<Rightarrow> fenced_options \<Rightarrow> unit db" where
  "record_stage_advance c i from_stage to_stage reason opts =
     andthen (history_add c i from_stage (stage_name to_stage) reason) (\<lambda>_.
     andthen (write_stage_checkpoint c i to_stage opts) (\<lambda>_.
     emit (RunStageChanged i from_stage (stage_name to_stage) reason)))"

definition record_stage_reset ::
  "config \<Rightarrow> string \<Rightarrow> string \<Rightarrow> workflow_stage \<Rightarrow> string option \<Rightarrow> fenced_options \<Rightarrow> unit db" where
  "record_stage_reset c i from_stage to_stage reason opts =
     andthen (history_add c i from_stage (stage_name to_stage) reason) (\<lambda>_.
     andthen (write_stage_checkpoint c i to_stage opts) (\<lambda>_.
     emit (RunStageChanged i from_stage (stage_name to_stage) reason)))"

definition clear_terminal_state :: "string \<Rightarrow> run db" where
  "clear_terminal_state i =
     andthen (run_get_required i) (\<lambda>r.
     andthen (run_update_terminal_state (run_id r) None) (\<lambda>_.
     run_get_required i))"

definition heartbeat :: "string \<Rightarrow> unit db" where
  "heartbeat i = andthen (run_update_heartbeat i) (\<lambda>_. emit (RunHeartbeat i))"

definition is_heartbeat_expired :: "instant \<Rightarrow> run \<Rightarrow> bool" where
  "is_heartbeat_expired now r \<longleftrightarrow>
     (case run_lastHeartbeat r of None \<Rightarrow> run_createdAt r | Some h \<Rightarrow> h)
       + run_heartbeatTimeoutSeconds r * 1000 < now"

definition unfenced :: fenced_options where
  "unfenced = \<lparr>fo_token = None, fo_now = 0\<rparr>"

fun mark_all_stalled :: "config \<Rightarrow> run list \<Rightarrow> run list db" where
  "mark_all_stalled c [] = give []"
| "mark_all_stalled c (r # rs) =
     andthen (mark_stalled c (run_id r) unfenced) (\<lambda>x.
     andthen (mark_all_stalled c rs) (\<lambda>xs. give (x # xs)))"

text \<open>\<open>skip\<close> is constantly false when the caller passes no predicate.\<close>

definition stall_candidates :: "(string \<Rightarrow> bool) \<Rightarrow> instant \<Rightarrow> store \<Rightarrow> run list" where
  "stall_candidates skip now s =
     filter (is_heartbeat_expired now)
       (filter (\<lambda>r. \<not> skip (run_id r))
         (filter (\<lambda>r. run_terminalState r = None) (run_get_active s)))"

definition check_stalled_runs :: "config \<Rightarrow> (string \<Rightarrow> bool) \<Rightarrow> instant \<Rightarrow> run list db" where
  "check_stalled_runs c skip now =
     andthen (reading (stall_candidates skip now)) (mark_all_stalled c)"

subsection \<open>The shape all marks share\<close>

text \<open>The check a mark makes before its first write.\<close>

definition fence_check :: "config \<Rightarrow> string \<Rightarrow> fenced_options \<Rightarrow> unit db" where
  "fence_check c i opts =
     (case fo_token opts of None \<Rightarrow> give () | Some tok \<Rightarrow> run_assert_fence c i tok (fo_now opts))"

lemma fence_check_leases:
  "fence_check c i opts s = (x, s1) \<Longrightarrow> s1 = s\<lparr>st_leases := st_leases s1\<rparr>"
  by (auto simp: fence_check_def outcome_simps split: option.splits if_splits)

lemma fence_check_dead:
  "fo_token opts = Some tok \<Longrightarrow> lease_inv (st_leases s) \<Longrightarrow> dead_token i tok (st_leases s) \<Longrightarrow>
   cfg_leaseRepo c \<Longrightarrow> fence_check c i opts s =
     (Inl (StaleFence i tok), s\<lparr>st_leases := expire_due_leases (fo_now opts) (st_leases s)\<rparr>)"
  by (simp add: fence_check_def outcome_simps assert_dead)

lemma fence_check_none: "fo_token opts = None \<Longrightarrow> fence_check c i opts s = (Inr (), s)"
  by (simp add: fence_check_def outcome_simps)

text \<open>What a mark leaves: one run rewritten, one row of history, some events.\<close>

definition settled ::
  "config \<Rightarrow> run \<Rightarrow> (run \<Rightarrow> run) \<Rightarrow> workflow_stage \<Rightarrow> string option \<Rightarrow> event list \<Rightarrow> store \<Rightarrow> store" where
  "settled c r f to_stage reason evs s =
     (write_runs (run_id r) f s)\<lparr>
        st_history := st_history s @
          [\<lparr>tr_id = Suc (foldr max (map tr_id (st_history s)) 0), tr_runId = run_id r,
            tr_fromStage = stage_name (run_stage r), tr_toStage = stage_name to_stage,
            tr_reason = map_option (cfg_redact c) reason, tr_createdAt = st_clock s\<rparr>],
        st_events := st_events s @ evs\<rparr>"

definition settling ::
  "config \<Rightarrow> fenced_options \<Rightarrow> run \<Rightarrow> (run \<Rightarrow> run) \<Rightarrow> workflow_stage \<Rightarrow> string option \<Rightarrow> event list \<Rightarrow> run db" where
  "settling c opts r f to_stage reason evs s =
     (case fence_check c (run_id r) opts s of
        (Inl e, s1) \<Rightarrow> (Inl e, s1)
      | (Inr _, s1) \<Rightarrow> (Inr ((f r)\<lparr>run_updatedAt := st_clock s\<rparr>), settled c r f to_stage reason evs s1))"

lemma write_runs_write_runs:
  assumes "\<And>r. run_id (f r) = run_id r"
  shows "write_runs i g (write_runs i f s) = write_runs i (\<lambda>r. g ((f r)\<lparr>run_updatedAt := st_clock s\<rparr>)) s"
  by (simp add: write_runs_def update_where_def assms comp_def if_distrib [of run_id] cong: if_cong)

lemma run_get_required_eq [outcome_simps]:
  "run_get_required i s = (case run_get i s of None \<Rightarrow> (Inl (RunNotFound i), s) | Some r \<Rightarrow> (Inr r, s))"
  by (simp add: run_get_required_def)

lemma andthen_get_required [outcome_simps]:
  "andthen (run_get_required i) k s =
    (case run_get i s of None \<Rightarrow> (Inl (RunNotFound i), s) | Some r \<Rightarrow> k r s)"
  by (simp add: andthen_def run_get_required_def split: option.split)

lemma andthen_history_add [outcome_simps]:
  "run_get i s = Some r \<Longrightarrow> andthen (history_add c i a b why) k s = k () (s\<lparr>st_history := st_history s @
       [\<lparr>tr_id = Suc (foldr max (map tr_id (st_history s)) 0), tr_runId = i,
         tr_fromStage = a, tr_toStage = b,
         tr_reason = map_option (cfg_redact c) why, tr_createdAt = st_clock s\<rparr>]\<rparr>)"
  by (simp add: andthen_def history_add_eq)

lemma andthen_emit [outcome_simps]: "andthen (emit e) k s = k () (s\<lparr>st_events := st_events s @ [e]\<rparr>)"
  by (simp add: andthen_def emit_eq)

lemma andthen_record_transition [outcome_simps]:
  "run_get (run_id r) s = Some r' \<Longrightarrow> andthen (record_transition c r g why) k s =
     k () (s\<lparr>st_history := st_history s @
         [\<lparr>tr_id = Suc (foldr max (map tr_id (st_history s)) 0), tr_runId = run_id r,
           tr_fromStage = stage_name (run_stage r), tr_toStage = stage_name g,
           tr_reason = Some (cfg_redact c why), tr_createdAt = st_clock s\<rparr>],
       st_events := st_events s @ [RunStageChanged (run_id r) (stage_name (run_stage r)) (stage_name g) (Some why)]\<rparr>)"
  by (simp add: andthen_def record_transition_def history_add_eq emit_eq)

lemma andthen_apply_terminal:
  "run_get i s = Some r \<Longrightarrow> andthen (apply_terminal_state c i t opts) k s =
    (case fence_check c i opts s of
       (Inl e, s1) \<Rightarrow> (Inl e, s1)
     | (Inr _, s1) \<Rightarrow> k (r\<lparr>run_terminalState := t, run_updatedAt := st_clock s\<rparr>)
         (write_runs i (\<lambda>r. r\<lparr>run_terminalState := t\<rparr>) s1))"
  by (cases "fo_token opts")
    (auto simp: apply_terminal_state_def fence_check_def run_update_terminal_state_def
      run_update_terminal_state_fenced_def andthen_def give_def run_write_eq table_simps outcome_simps
      split: prod.splits sum.splits option.splits if_splits)

text \<open>The run as each mark leaves it.\<close>

definition terminated :: "config \<Rightarrow> terminal_state \<Rightarrow> string option \<Rightarrow> bool \<Rightarrow> run \<Rightarrow> run" where
  "terminated c t reason recoverable r =
     r\<lparr>run_terminalState := Some t, run_blockedReason := None, run_pendingApproval := False, run_failReason := map_option (cfg_redact c) reason,
        run_recoverable := recoverable\<rparr>"

definition finished :: "run \<Rightarrow> run" where
  "finished r = r\<lparr>run_stage := StageDone, run_terminalState := None, run_blockedReason := None,
     run_pendingApproval := False, run_failReason := None, run_recoverable := True\<rparr>"

lemmas run_changes = run_update_workflow_state_def no_block_def run_update_failure_def run_update_stage_def
  run_update_terminal_state_def set_if_def

lemma settling_split:
  assumes i: "run_id r = i" and k: "\<And>l. k (s\<lparr>st_leases := l\<rparr>) =
      (Inr ((f r)\<lparr>run_updatedAt := st_clock s\<rparr>), settled c r f g reason evs (s\<lparr>st_leases := l\<rparr>))"
  shows "(case fence_check c i opts s of (Inl e, s1) \<Rightarrow> (Inl e, s1) | (Inr _, s1) \<Rightarrow> k s1) =
    settling c opts r f g reason evs s"
proof (cases "fence_check c i opts s")
  case (Pair x s1)
  then have "s1 = s\<lparr>st_leases := st_leases s1\<rparr>" by (rule fence_check_leases)
  with k [of "st_leases s1"] Pair i show ?thesis by (simp add: settling_def split: sum.split)
qed

lemmas mark_shape = outcome_simps table_simps run_changes write_runs_write_runs settled_def terminated_def
  finished_def

lemmas run_shape = write_runs_def terminated_def finished_def

definition stays :: "run \<Rightarrow> string \<Rightarrow> event" where
  "stays r why = RunStageChanged (run_id r) (stage_name (run_stage r)) (stage_name (run_stage r)) (Some why)"

lemma mark_failed_eq:
  assumes "run_get i s = Some r"
  shows "mark_failed c i reason opts s =
    settling c opts r (terminated c Failed (Some (failed_reason reason)) False) (run_stage r)
      (Some (''failed: '' @ failed_reason reason))
      [stays r (''failed: '' @ failed_reason reason),
       RunFailed i (Some (cfg_redact c (failed_reason reason)))] s"
  using assms run_get_id [OF assms]
  by (simp add: mark_failed_def outcome_simps andthen_apply_terminal stays_def)
    (rule settling_split, assumption, (simp add: mark_shape; simp add: run_shape))

lemma mark_stalled_eq:
  assumes "run_get i s = Some r"
  shows "mark_stalled c i opts s =
    (case run_terminalState r of
       Some t \<Rightarrow> (Inl (CannotStall t), s)
     | None \<Rightarrow> settling c opts r (\<lambda>r. r\<lparr>run_terminalState := Some Stalled\<rparr>) (run_stage r)
         (Some ''heartbeat timeout'') [stays r ''heartbeat timeout''] s)"
  using assms run_get_id [OF assms]
  by (simp add: mark_stalled_def outcome_simps andthen_apply_terminal stays_def split: option.split)
    (intro impI, rule settling_split, assumption, (simp add: mark_shape; simp add: run_shape))

lemma mark_cancelled_eq:
  assumes "run_get i s = Some r"
  shows "mark_cancelled c i reason opts s =
    (case run_terminalState r of
       Some t \<Rightarrow> (Inl (CannotCancel (terminal_name t)), s)
     | None \<Rightarrow>
         if run_stage r = StageDone then (Inl (CannotCancel ''done''), s)
         else settling c opts r (terminated c Cancelled None False) (run_stage r)
           (Some (''cancelled: '' @ reason)) [stays r (''cancelled: '' @ reason)] s)"
  using assms run_get_id [OF assms]
  by (simp add: mark_cancelled_def outcome_simps andthen_apply_terminal stays_def split: option.split)
    (intro impI, rule settling_split, assumption, (simp add: mark_shape; simp add: run_shape))

lemma halt_resumable_eq:
  assumes "run_get i s = Some r"
  shows "halt_resumable c i state reason ev opts s =
    (case run_terminalState r of
       Some t \<Rightarrow> (Inl (CannotHalt state (terminal_name t)), s)
     | None \<Rightarrow>
         if run_stage r = StageDone then (Inl (CannotHalt state ''done''), s)
         else settling c opts r (terminated c state (Some reason) True) (run_stage r)
           (Some (terminal_name state @ '': '' @ reason))
           [stays r (terminal_name state @ '': '' @ reason), ev] s)"
  using assms run_get_id [OF assms]
  by (simp add: halt_resumable_def outcome_simps andthen_apply_terminal stays_def split: option.split)
    (intro impI, rule settling_split, assumption, (simp add: mark_shape; simp add: run_shape))

lemma mark_quarantined_eq:
  assumes "run_get i s = Some r"
  shows "mark_quarantined c i reason opts s =
    (if run_stage r = StageDone then (Inl (CannotQuarantine ''done''), s)
     else if run_terminalState r \<noteq> Some Stalled \<and> run_terminalState r \<noteq> Some Failed
     then (Inl (CannotQuarantine (case run_terminalState r of None \<Rightarrow> ''active'' | Some t \<Rightarrow> terminal_name t)), s)
     else settling c opts r (terminated c Quarantined (Some reason) False) (run_stage r)
       (Some (''quarantined: '' @ reason))
       [stays r (''quarantined: '' @ reason), RunQuarantined i reason] s)"
  using assms run_get_id [OF assms]
  by (simp add: mark_quarantined_def outcome_simps andthen_apply_terminal stays_def)
    (intro conjI impI; rule settling_split, assumption, (simp add: mark_shape; simp add: run_shape))

lemma terminal_unchanged: "r\<lparr>run_terminalState := run_terminalState r\<rparr> = r"
  by (cases r) simp

lemma mark_done_eq:
  assumes "run_get i s = Some r"
  shows "mark_done c i reason opts s =
    settling c opts r finished StageDone reason
      [RunStageChanged i (stage_name (run_stage r)) ''done'' reason, RunCompleted i] s"
proof (cases "fo_token opts")
  case None
  with assms run_get_id [OF assms] show ?thesis
    by (simp add: mark_done_def assert_fenced_terminal_state_def settling_def fence_check_def mark_shape; simp add: run_shape)
next
  case (Some tok)
  have "assert_fenced_terminal_state c i (run_terminalState r) opts =
      andthen (apply_terminal_state c i (run_terminalState r) opts) (\<lambda>_. give ())"
    using Some by (simp add: assert_fenced_terminal_state_def apply_terminal_state_def)
  moreover have "andthen (andthen (apply_terminal_state c i (run_terminalState r) opts) (\<lambda>_. give ())) k s =
      andthen (apply_terminal_state c i (run_terminalState r) opts) (\<lambda>_. k ()) s" for k :: "unit \<Rightarrow> run db"
    by (simp add: andthen_def give_def split: prod.split sum.split)
  ultimately show ?thesis
    using assms run_get_id [OF assms]
    by (simp add: mark_done_def outcome_simps andthen_apply_terminal)
      (rule settling_split, assumption, (simp add: mark_shape; simp add: run_shape))
qed

lemma clear_terminal_state_eq:
  assumes "run_get i s = Some r"
  shows "clear_terminal_state i s =
    (Inr (r\<lparr>run_terminalState := None, run_updatedAt := st_clock s\<rparr>),
     write_runs i (\<lambda>r. r\<lparr>run_terminalState := None\<rparr>) s)"
  using assms run_get_id [OF assms] by (simp add: clear_terminal_state_def mark_shape)

subsection \<open>The lifecycle the machine implements\<close>

text \<open>The terminal operations of the machine as one datatype, and the abstract machine they
  implement: stage and terminal state, with what each operation admits.\<close>

datatype machine_op =
    Fail "string option"
  | Stall
  | Cancel string
  | Pause string
  | Freeze string
  | Quarantine string
  | Finish "string option"
  | Clear

definition exec_op :: "config \<Rightarrow> machine_op \<Rightarrow> string \<Rightarrow> fenced_options \<Rightarrow> run db" where
  "exec_op c op i opts =
     (case op of
        Fail why \<Rightarrow> mark_failed c i why opts
      | Stall \<Rightarrow> mark_stalled c i opts
      | Cancel why \<Rightarrow> mark_cancelled c i why opts
      | Pause why \<Rightarrow> mark_paused c i why opts
      | Freeze why \<Rightarrow> mark_frozen c i why opts
      | Quarantine why \<Rightarrow> mark_quarantined c i why opts
      | Finish why \<Rightarrow> mark_done c i why opts
      | Clear \<Rightarrow> clear_terminal_state i)"

type_synonym lifecycle = "workflow_stage \<times> terminal_state option"

fun next_lifecycle :: "machine_op \<Rightarrow> lifecycle \<Rightarrow> lifecycle option" where
  "next_lifecycle (Fail _) (g, t) = Some (g, Some Failed)"
| "next_lifecycle Stall (g, t) = (if t = None then Some (g, Some Stalled) else None)"
| "next_lifecycle (Cancel _) (g, t) =
     (if t = None \<and> g \<noteq> StageDone then Some (g, Some Cancelled) else None)"
| "next_lifecycle (Pause _) (g, t) =
     (if t = None \<and> g \<noteq> StageDone then Some (g, Some Paused) else None)"
| "next_lifecycle (Freeze _) (g, t) =
     (if t = None \<and> g \<noteq> StageDone then Some (g, Some Frozen) else None)"
| "next_lifecycle (Quarantine _) (g, t) =
     (if (t = Some Stalled \<or> t = Some Failed) \<and> g \<noteq> StageDone then Some (g, Some Quarantined) else None)"
| "next_lifecycle (Finish _) (g, t) = Some (StageDone, None)"
| "next_lifecycle Clear (g, t) = Some (g, None)"

definition lifecycle_of :: "string \<Rightarrow> store \<Rightarrow> lifecycle option" where
  "lifecycle_of i s = map_option (\<lambda>r. (run_stage r, run_terminalState r)) (run_get i s)"

text \<open>The run an operation leaves and its guard, read off the run it found.\<close>

definition op_result :: "config \<Rightarrow> machine_op \<Rightarrow> run \<Rightarrow> run" where
  "op_result c op =
     (case op of
        Fail why \<Rightarrow> terminated c Failed (Some (failed_reason why)) False
      | Stall \<Rightarrow> (\<lambda>r. r\<lparr>run_terminalState := Some Stalled\<rparr>)
      | Cancel why \<Rightarrow> terminated c Cancelled None False
      | Pause why \<Rightarrow> terminated c Paused (Some why) True
      | Freeze why \<Rightarrow> terminated c Frozen (Some why) True
      | Quarantine why \<Rightarrow> terminated c Quarantined (Some why) False
      | Finish why \<Rightarrow> finished
      | Clear \<Rightarrow> (\<lambda>r. r\<lparr>run_terminalState := None\<rparr>))"

lemma op_result_id [simp]: "run_id (op_result c op r) = run_id r"
  by (simp add: op_result_def terminated_def finished_def split: machine_op.split)

lemma op_result_lifecycle:
  "next_lifecycle op (run_stage r, run_terminalState r) = Some l \<Longrightarrow>
   (run_stage (op_result c op r), run_terminalState (op_result c op r)) = l"
  by (cases op) (auto simp: op_result_def terminated_def finished_def split: if_splits)

lemma exec_op_refused:
  assumes "run_get i s = Some r" and "next_lifecycle op (run_stage r, run_terminalState r) = None"
  shows "\<exists>e. exec_op c op i opts s = (Inl e, s)"
  using assms
  by (cases op)
    (auto simp: exec_op_def mark_stalled_eq mark_cancelled_eq mark_paused_def mark_frozen_def
      halt_resumable_eq mark_quarantined_eq split: if_splits option.splits)

lemma exec_op_settles:
  assumes r: "run_get i s = Some r" and l: "next_lifecycle op (run_stage r, run_terminalState r) = Some l"
    and op: "op \<noteq> Clear"
  shows "\<exists>why evs. exec_op c op i opts s = settling c opts r (op_result c op) (fst l) why evs s"
proof (cases op)
  case (Fail x)
  with r l show ?thesis by (clarsimp simp: exec_op_def mark_failed_eq op_result_def) (intro exI, rule refl)
next
  case Stall
  with r l show ?thesis by (clarsimp simp: exec_op_def mark_stalled_eq op_result_def split: if_splits) (intro exI, rule refl)
next
  case (Cancel x)
  with r l show ?thesis by (clarsimp simp: exec_op_def mark_cancelled_eq op_result_def split: if_splits) (intro exI, rule refl)
next
  case (Pause x)
  with r l show ?thesis
    by (clarsimp simp: exec_op_def mark_paused_def halt_resumable_eq op_result_def split: if_splits) (intro exI, rule refl)
next
  case (Freeze x)
  with r l show ?thesis
    by (clarsimp simp: exec_op_def mark_frozen_def halt_resumable_eq op_result_def split: if_splits) (intro exI, rule refl)
next
  case (Quarantine x)
  with r l show ?thesis by (clarsimp simp: exec_op_def mark_quarantined_eq op_result_def split: if_splits) (intro conjI impI exI; (rule refl | simp))
next
  case (Finish x)
  with r l show ?thesis by (clarsimp simp: exec_op_def mark_done_eq op_result_def) (intro exI, rule refl)
qed (use op in simp)

lemma exec_op_missing: "run_get i s = None \<Longrightarrow> exec_op c op i opts s = (Inl (RunNotFound i), s)"
  by (cases op)
    (simp_all add: exec_op_def mark_failed_def mark_stalled_def mark_cancelled_def mark_paused_def
      mark_frozen_def halt_resumable_def mark_quarantined_def mark_done_def clear_terminal_state_def outcome_simps)

lemma exec_op_clear:
  "run_get i s = Some r \<Longrightarrow> exec_op c Clear i opts s =
    (Inr (r\<lparr>run_terminalState := None, run_updatedAt := st_clock s\<rparr>), write_runs i (op_result c Clear) s)"
  by (simp add: exec_op_def clear_terminal_state_eq op_result_def)

lemma run_get_settled:
  assumes "run_get (run_id r) s = Some r" and "\<And>r. run_id (f r) = run_id r"
  shows "run_get j (settled c r f g why evs s) =
    (if j = run_id r then Some ((f r)\<lparr>run_updatedAt := st_clock s\<rparr>) else run_get j s)"
  using assms by (simp add: settled_def table_simps)

lemma settled_others [simp]:
  "st_checkpoints (settled c r f g why evs s) = st_checkpoints s"
  "st_tasks (settled c r f g why evs s) = st_tasks s"
  "st_leases (settled c r f g why evs s) = st_leases s"
  by (simp_all add: settled_def)

text \<open>Every outcome of an operation: an error that touched at most the leases, or the settled run.\<close>

lemma exec_op_outcome:
  obtains (error) e l where "exec_op c op i opts s = (Inl e, s\<lparr>st_leases := l\<rparr>)"
  | (marked) r l why evs l' where "run_get i s = Some r"
      "next_lifecycle op (run_stage r, run_terminalState r) = Some l" "op \<noteq> Clear"
      "exec_op c op i opts s = (Inr ((op_result c op r)\<lparr>run_updatedAt := st_clock s\<rparr>),
         settled c r (op_result c op) (fst l) why evs (s\<lparr>st_leases := l'\<rparr>))"
  | (cleared) r where "run_get i s = Some r" "op = Clear"
      "exec_op c op i opts s = (Inr (r\<lparr>run_terminalState := None, run_updatedAt := st_clock s\<rparr>),
         write_runs i (op_result c Clear) s)"
proof (cases "run_get i s")
  case None
  then show ?thesis using error [of _ "st_leases s"] by (simp add: exec_op_missing)
next
  case (Some r)
  show ?thesis
  proof (cases "next_lifecycle op (run_stage r, run_terminalState r)")
    case None
    then obtain e where "exec_op c op i opts s = (Inl e, s\<lparr>st_leases := st_leases s\<rparr>)"
      using exec_op_refused [OF Some None] by auto
    then show ?thesis by (rule error)
  next
    fix l
    assume l: "next_lifecycle op (run_stage r, run_terminalState r) = Some l"
    show ?thesis
    proof (cases "op = Clear")
      case True
      then show ?thesis using cleared [OF Some True] exec_op_clear [OF Some] by simp
    next
      case False
      then obtain why evs where eq: "exec_op c op i opts s = settling c opts r (op_result c op) (fst l) why evs s"
        using exec_op_settles [OF Some l False] by blast
      obtain x s1 where f: "fence_check c (run_id r) opts s = (x, s1)" by (cases "fence_check c (run_id r) opts s")
      have s1: "s1 = s\<lparr>st_leases := st_leases s1\<rparr>" using f by (rule fence_check_leases)
      show ?thesis
      proof (cases x)
        case (Inl e)
        then show ?thesis using error [of e "st_leases s1"] eq f s1 by (simp add: settling_def)
      next
        case (Inr u)
        then show ?thesis using marked [OF Some l False, of why evs "st_leases s1"] eq f s1
          by (simp add: settling_def)
      qed
    qed
  qed
qed

subsection \<open>The stall sweep\<close>

lemma lifecycle_of_settled:
  assumes "run_get (run_id r) s = Some r" and "\<And>r. run_id (f r) = run_id r"
  shows "lifecycle_of j (settled c r f g why evs s) =
    (if j = run_id r then Some (run_stage (f r), run_terminalState (f r)) else lifecycle_of j s)"
  using assms by (simp add: lifecycle_of_def run_get_settled)

lemma run_get_leases [simp]: "run_get i (s\<lparr>st_leases := l\<rparr>) = run_get i s"
  by (simp add: run_get_def)

lemma lifecycle_of_leases [simp]: "lifecycle_of i (s\<lparr>st_leases := l\<rparr>) = lifecycle_of i s"
  by (simp add: lifecycle_of_def)

lemma mark_stalled_live:
  assumes "lifecycle_of i s = Some (g, None)"
  shows "\<exists>x s'. mark_stalled c i unfenced s = (Inr x, s') \<and> run_id x = i \<and>
    (\<forall>j. lifecycle_of j s' = (if j = i then Some (g, Some Stalled) else lifecycle_of j s))"
proof -
  obtain r where r: "run_get i s = Some r" "run_stage r = g" "run_terminalState r = None"
    using assms by (auto simp: lifecycle_of_def)
  then have "mark_stalled c i unfenced s =
      (Inr (r\<lparr>run_terminalState := Some Stalled, run_updatedAt := st_clock s\<rparr>),
       settled c r (\<lambda>r. r\<lparr>run_terminalState := Some Stalled\<rparr>) g (Some ''heartbeat timeout'')
         [stays r ''heartbeat timeout''] s)"
    by (simp add: mark_stalled_eq settling_def fence_check_def unfenced_def give_eq)
  then show ?thesis using r run_get_id [OF r(1)] by (simp add: lifecycle_of_settled)
qed

lemma mark_all_stalled_result:
  assumes "distinct (map run_id rs)" and "\<forall>r \<in> set rs. \<exists>g. lifecycle_of (run_id r) s = Some (g, None)"
  shows "\<exists>xs s'. mark_all_stalled c rs s = (Inr xs, s') \<and> map run_id xs = map run_id rs \<and>
    (\<forall>j. lifecycle_of j s' = (if j \<in> run_id ` set rs
       then map_option (\<lambda>l. (fst l, Some Stalled)) (lifecycle_of j s) else lifecycle_of j s))"
  using assms
proof (induction rs arbitrary: s)
  case Nil
  then show ?case by (simp add: give_eq)
next
  case (Cons r rs)
  then obtain g where g: "lifecycle_of (run_id r) s = Some (g, None)" by auto
  from mark_stalled_live [OF g] obtain x s1 where
    x: "mark_stalled c (run_id r) unfenced s = (Inr x, s1)" "run_id x = run_id r" and
    l: "\<forall>j. lifecycle_of j s1 = (if j = run_id r then Some (g, Some Stalled) else lifecycle_of j s)"
    by blast
  have "\<forall>q \<in> set rs. \<exists>g. lifecycle_of (run_id q) s1 = Some (g, None)"
    using Cons.prems l by (auto simp: image_iff)
  then obtain xs s2 where xs: "mark_all_stalled c rs s1 = (Inr xs, s2)" "map run_id xs = map run_id rs" and
    l2: "\<forall>j. lifecycle_of j s2 = (if j \<in> run_id ` set rs
       then map_option (\<lambda>l. (fst l, Some Stalled)) (lifecycle_of j s1) else lifecycle_of j s1)"
    using Cons.IH [of s1] Cons.prems(1) by auto
  have "mark_all_stalled c (r # rs) s = (Inr (x # xs), s2)"
    using x xs by (simp add: outcome_simps)
  moreover have "\<forall>j. lifecycle_of j s2 = (if j \<in> run_id ` set (r # rs)
       then map_option (\<lambda>l. (fst l, Some Stalled)) (lifecycle_of j s) else lifecycle_of j s)"
    using l l2 g Cons.prems(1) by auto
  ultimately show ?case using x(2) xs(2) by auto
qed

lemma in_stall_candidates:
  "r \<in> set (stall_candidates skip now s) \<longleftrightarrow>
   r \<in> set (st_runs s) \<and> is_live r \<and> \<not> skip (run_id r) \<and> is_heartbeat_expired now r"
  by (auto simp: stall_candidates_def run_get_active_def is_live_def)

lemma distinct_map_sort_key: "distinct (map f xs) \<Longrightarrow> distinct (map f (sort_key k xs))"
  by (metis distinct_map distinct_sort set_sort)

lemma run_get_iff:
  "distinct (map run_id (st_runs s)) \<Longrightarrow> run_get i s = Some r \<longleftrightarrow> r \<in> set (st_runs s) \<and> run_id r = i"
  by (simp add: run_get_def find_Some_iff_unique)

text \<open>C19: the stall sweep is exact. When run ids are unique, \<open>checkStalledRuns\<close> returns, and it turns
  into \<open>stalled\<close> precisely the runs that are live, not skipped and whose heartbeat is older than
  their timeout, keeping their stage; the lifecycle of every other run is unchanged.\<close>

theorem stall_sweep_exact:
  assumes "distinct (map run_id (st_runs s))"
  shows "\<exists>rs s'. check_stalled_runs c skip now s = (Inr rs, s') \<and>
    run_id ` set rs = run_id ` {r \<in> set (st_runs s).
       is_live r \<and> \<not> skip (run_id r) \<and> is_heartbeat_expired now r} \<and>
    (\<forall>j. lifecycle_of j s' = (if j \<in> run_id ` set rs
       then map_option (\<lambda>l. (fst l, Some Stalled)) (lifecycle_of j s) else lifecycle_of j s))"
proof -
  let ?cs = "stall_candidates skip now s"
  have d: "distinct (map run_id ?cs)"
    using assms unfolding stall_candidates_def run_get_active_def
    by (intro distinct_map_filter distinct_map_sort_key)
  have live: "\<forall>r \<in> set ?cs. \<exists>g. lifecycle_of (run_id r) s = Some (g, None)"
    using run_get_iff [OF assms] by (auto simp: in_stall_candidates lifecycle_of_def is_live_def)
  have set_cs: "set ?cs = {r \<in> set (st_runs s). is_live r \<and> \<not> skip (run_id r) \<and> is_heartbeat_expired now r}"
    by (auto simp: in_stall_candidates)
  obtain xs s' where x: "mark_all_stalled c ?cs s = (Inr xs, s')" "map run_id xs = map run_id ?cs"
      "\<forall>j. lifecycle_of j s' = (if j \<in> run_id ` set ?cs
       then map_option (\<lambda>l. (fst l, Some Stalled)) (lifecycle_of j s) else lifecycle_of j s)"
    using mark_all_stalled_result [OF d live, of c] by blast
  have ids: "run_id ` set xs = run_id ` set ?cs" using x(2) by (metis list.set_map)
  show ?thesis
    using x ids set_cs by (intro exI [of _ xs] exI [of _ s']) (simp add: check_stalled_runs_def outcome_simps)
qed

subsection \<open>Properties of the machine\<close>


subsection \<open>Halted runs are consistent\<close>

text \<open>What the flags of a run say about the terminal state it is in.\<close>

definition run_consistent :: "run \<Rightarrow> bool" where
  "run_consistent r \<longleftrightarrow>
     (run_stage r = StageDone \<longrightarrow> run_terminalState r \<in> {None, Some Failed, Some Stalled}) \<and>
     (run_terminalState r \<in> {Some Paused, Some Frozen} \<longrightarrow> run_recoverable r) \<and>
     (run_terminalState r \<in> {Some Failed, Some Cancelled, Some Quarantined} \<longrightarrow> \<not> run_recoverable r) \<and>
     (run_terminalState r \<notin> {None, Some Stalled} \<longrightarrow> run_blockedReason r = None \<and> \<not> run_pendingApproval r)"

definition runs_consistent :: "store \<Rightarrow> bool" where
  "runs_consistent s \<longleftrightarrow> distinct (map run_id (st_runs s)) \<and> list_all run_consistent (st_runs s)"

text \<open>Every use of the machine, and the creation of a fresh run.\<close>

inductive machine_step :: "config \<Rightarrow> store \<Rightarrow> store \<Rightarrow> bool" for c where
  op_step: "machine_step c s (snd (exec_op c op i opts s))"
| advance_step: "machine_step c s (snd (record_stage_advance c i a b why opts s))"
| reset_step: "machine_step c s (snd (record_stage_reset c i a b why opts s))"
| heartbeat_step: "machine_step c s (snd (heartbeat i s))"
| sweep_step: "machine_step c s (snd (check_stalled_runs c skip now s))"
| create_step: "run_terminalState r = None \<Longrightarrow> machine_step c s (snd (run_create r s))"

inductive_cases machine_stepE: "machine_step c s s'"

lemma op_result_consistent:
  "next_lifecycle op (run_stage r, run_terminalState r) = Some l \<Longrightarrow> run_consistent r \<Longrightarrow>
   run_consistent (op_result c op r)"
  by (cases op)
    (auto simp: op_result_def terminated_def finished_def run_consistent_def split: if_splits)

lemma run_consistent_stamp [simp]:
  "run_consistent (r\<lparr>run_updatedAt := t\<rparr>) = run_consistent r"
  "run_consistent (r\<lparr>run_lastHeartbeat := h\<rparr>) = run_consistent r"
  by (simp_all add: run_consistent_def)

lemma write_runs_consistent:
  assumes "runs_consistent s" and "\<And>r. run_id (f r) = run_id r"
    and "\<And>r. r \<in> set (st_runs s) \<Longrightarrow> run_id r = i \<Longrightarrow> run_consistent r \<Longrightarrow> run_consistent (f r)"
  shows "runs_consistent (write_runs i f s)"
proof -
  have "map run_id (update_where (\<lambda>r. run_id r = i) (\<lambda>r. (f r)\<lparr>run_updatedAt := st_clock s\<rparr>) (st_runs s)) =
      map run_id (st_runs s)"
    by (rule map_update_where_same) (simp add: assms(2))
  with assms(1,3) show ?thesis
    by (auto simp: runs_consistent_def list_all_iff set_update_where)
qed

lemma runs_consistent_cong: "st_runs s' = st_runs s \<Longrightarrow> runs_consistent s' = runs_consistent s"
  by (simp add: runs_consistent_def)

lemma exec_op_consistent: "keeps runs_consistent (exec_op c op i opts)"
proof (rule keepsI)
  fix s assume inv: "runs_consistent s"
  then have uniq: "run_get j s = Some r \<Longrightarrow> q \<in> set (st_runs s) \<Longrightarrow> run_id q = j \<Longrightarrow> q = r" for j q r
    by (auto simp: runs_consistent_def run_get_def find_Some_iff_unique distinct_map inj_onD)
  show "runs_consistent (snd (exec_op c op i opts s))"
  proof (cases rule: exec_op_outcome [where c = c and op = op and i = i and opts = opts and s = s])
    case (error e l)
    with inv show ?thesis by (simp add: runs_consistent_def)
  next
    case (marked r l why evs l')
    have "runs_consistent (write_runs i (op_result c op) s)"
      using uniq [OF marked(1)] marked(2)
      by (intro write_runs_consistent [OF inv]) (auto intro: op_result_consistent)
    then show ?thesis using marked run_get_id [OF marked(1)]
      by (simp add: runs_consistent_def settled_def)
  next
    case (cleared r)
    have "runs_consistent (write_runs i (op_result c Clear) s)"
      by (intro write_runs_consistent [OF inv]) (auto simp: op_result_def run_consistent_def)
    then show ?thesis using cleared by simp
  qed
qed

lemma mark_all_stalled_consistent: "keeps runs_consistent (mark_all_stalled c rs)"
proof (induction rs)
  case (Cons r rs)
  have "keeps runs_consistent (mark_stalled c (run_id r) unfenced)"
    using exec_op_consistent [of c Stall] by (simp add: exec_op_def)
  with Cons show ?case by (simp add: keeps_intros)
qed (simp add: keeps_intros)

lemma stage_record_runs:
  "st_runs (snd (record_stage_advance c i a b why opts s)) = st_runs s"
  "record_stage_reset = record_stage_advance"
proof -
  have up: "st_runs (snd (checkpoint_upsert ci s)) = st_runs s" for ci s
    by (simp add: checkpoint_upsert_eq checkpoint_write_def)
  have upf: "st_runs (snd (checkpoint_upsert_fenced c ci tok now s)) = st_runs s" for ci tok now s
    using up by (auto simp: checkpoint_upsert_fenced_def andthen_def run_assert_fence_eq split: prod.splits sum.splits)
  have w: "st_runs (snd (write_stage_checkpoint c i b opts s)) = st_runs s" for s
    using up upf unfolding write_stage_checkpoint_def
    by (auto simp: andthen_def give_def reading_def split: prod.splits sum.splits option.splits) (metis snd_conv)+
  show "st_runs (snd (record_stage_advance c i a b why opts s)) = st_runs s"
  proof (cases "run_get i s")
    case None
    then show ?thesis by (simp add: record_stage_advance_def andthen_def history_add_eq)
  next
    case (Some r)
    let ?s = "snd (history_add c i a (stage_name b) why s)"
    have "snd (record_stage_advance c i a b why opts s) =
        (case write_stage_checkpoint c i b opts ?s of (Inl e, t) \<Rightarrow> t
         | (Inr _, t) \<Rightarrow> t\<lparr>st_events := st_events t @ [RunStageChanged i a (stage_name b) why]\<rparr>)"
      using Some by (simp add: record_stage_advance_def andthen_def history_add_eq emit_eq split: prod.split sum.split)
    moreover have "st_runs ?s = st_runs s" using Some by (simp add: history_add_eq)
    ultimately show ?thesis using w [of ?s] by (auto split: prod.splits sum.splits)
  qed
  show "record_stage_reset = record_stage_advance"
    by (intro ext) (simp add: record_stage_reset_def record_stage_advance_def)
qed

lemma heartbeat_consistent: "runs_consistent s \<Longrightarrow> runs_consistent (snd (heartbeat i s))"
proof -
  assume inv: "runs_consistent s"
  have "runs_consistent (write_runs i (\<lambda>r. r\<lparr>run_lastHeartbeat := Some (st_clock s)\<rparr>) s)"
    by (rule write_runs_consistent [OF inv]) simp_all
  with inv show ?thesis
    by (simp add: heartbeat_def andthen_def run_update_heartbeat_def run_write_eq emit_eq split: option.split)
      (simp add: runs_consistent_def)
qed

lemma run_create_consistent:
  assumes "runs_consistent s" and "run_terminalState r = None"
  shows "runs_consistent (snd (run_create r s))"
proof (cases "run_create r s")
  case (Pair x s')
  show ?thesis
  proof (cases x)
    case (Inl e)
    with Pair have "s' = s" unfolding run_create_def by (auto dest: atomically_Inl)
    with Pair assms show ?thesis by simp
  next
    case (Inr r')
    with Pair run_create_Inr [of r s r' s'] assms show ?thesis
      by (auto simp: runs_consistent_def run_get_def find_None_iff run_consistent_def)
  qed
qed

text \<open>C6: halted runs stay consistent. Starting from an empty run table, whatever sequence of terminal
  operations (fenced or not, successful or refused), stage records, heartbeats, stall sweeps and
  run creations is carried out: run ids are unique, a paused or frozen run is recoverable, a
  failed, cancelled or quarantined run is not, none of them waits for an approval, and a done
  run is never cancelled, paused, frozen or quarantined.\<close>

theorem halted_runs_consistent:
  assumes "(machine_step c)\<^sup>*\<^sup>* s s'" and "st_runs s = []"
  shows "distinct (map run_id (st_runs s')) \<and> list_all run_consistent (st_runs s')"
proof -
  have "runs_consistent s'"
    using assms(1)
  proof (induction rule: rtranclp_induct)
    case base
    then show ?case using assms(2) by (simp add: runs_consistent_def)
  next
    case (step t u)
    from step.hyps(2) show ?case
      by (cases rule: machine_step.cases)
        (use step.IH in \<open>simp_all add: keepsD [OF exec_op_consistent] stage_record_runs
          runs_consistent_cong [OF stage_record_runs(1)] heartbeat_consistent run_create_consistent
          keepsD [OF mark_all_stalled_consistent] check_stalled_runs_def andthen_reading\<close>)
  qed
  then show ?thesis by (simp add: runs_consistent_def)
qed

subsection \<open>A superseded owner\<close>

text \<open>The writes that carry a fencing token.\<close>

datatype fenced_write =
    MarkWrite machine_op
  | AddTokens int int usd
  | SetTokens int int usd
  | CheckpointWrite checkpoint_input

definition fenced_write_of :: "config \<Rightarrow> string \<Rightarrow> nat \<Rightarrow> instant \<Rightarrow> fenced_write \<Rightarrow> unit db" where
  "fenced_write_of c i tok now w =
     (case w of
        MarkWrite op \<Rightarrow> andthen (exec_op c op i \<lparr>fo_token = Some tok, fo_now = now\<rparr>) (\<lambda>_. give ())
      | AddTokens ti to cost \<Rightarrow> andthen (run_update_tokens_fenced c i ti to cost tok now) (\<lambda>_. give ())
      | SetTokens ti to cost \<Rightarrow> andthen (run_set_tokens_fenced c i ti to cost tok now) (\<lambda>_. give ())
      | CheckpointWrite ci \<Rightarrow> andthen (checkpoint_upsert_fenced c (ci\<lparr>ci_runId := i\<rparr>) tok now) (\<lambda>_. give ()))"

lemma exec_op_dead:
  assumes "lease_inv (st_leases s)" and "dead_token i tok (st_leases s)" and "cfg_leaseRepo c"
    and "op \<noteq> Clear" and "fo_token opts = Some tok"
  shows "\<exists>e l. exec_op c op i opts s = (Inl e, s\<lparr>st_leases := l\<rparr>)"
proof (cases rule: exec_op_outcome [where c = c and op = op and i = i and opts = opts and s = s])
  case (marked r l why evs l')
  then obtain why' evs' where "exec_op c op i opts s = settling c opts r (op_result c op) (fst l) why' evs' s"
    using exec_op_settles [of i s r op l c opts] assms(4) by blast
  then show ?thesis
    using fence_check_dead [OF assms(5,1,2,3)] run_get_id [OF marked(1)] by (simp add: settling_def) (rule exI, rule refl)
qed (use assms(4) in auto)

lemma fenced_write_dead:
  assumes "lease_inv (st_leases s)" and "dead_token i tok (st_leases s)" and "cfg_leaseRepo c"
    and "w \<noteq> MarkWrite Clear"
  shows "\<exists>e l. fenced_write_of c i tok now w s = (Inl e, s\<lparr>st_leases := l\<rparr>)"
proof (cases w)
  case (MarkWrite op)
  with assms(4) have "op \<noteq> Clear" by simp
  from exec_op_dead [OF assms(1-3) this, of "\<lparr>fo_token = Some tok, fo_now = now\<rparr>"]
  show ?thesis using MarkWrite by (auto simp: fenced_write_of_def andthen_def)
qed (simp add: fenced_write_of_def run_update_tokens_fenced_def run_set_tokens_fenced_def
    checkpoint_upsert_fenced_def outcome_simps fenced_write_refused [OF assms(1-3)] andthen_Inl, rule exI, rule refl)+

text \<open>C4: a superseded owner cannot finalize. Once a lease on a run has been granted, and after any
  further uses of the lease table, every write that carries a token drawn earlier on that run
  (a terminal mark, a token update, a checkpoint) throws, and leaves runs, history, checkpoints and
  events as they were.\<close>

theorem superseded_owner_cannot_write:
  assumes "lease_step\<^sup>*\<^sup>* empty_leases db" and "acquire ex dbnow claim db = (Inr l, db1)"
    and "t \<le> fence_seq db" and "t \<noteq> lease_fenceToken l" and "lease_step\<^sup>*\<^sup>* db1 (st_leases s)"
    and "cfg_leaseRepo c" and "w \<noteq> MarkWrite Clear"
  shows "\<exists>e leases. fenced_write_of c (acq_runId claim) t now w s = (Inl e, s\<lparr>st_leases := leases\<rparr>)"
proof -
  have inv1: "lease_inv db1"
    using keeps_result [OF acquire_keeps_inv lease_inv_reachable] assms(1,2) by blast
  have "dead_token (acq_runId claim) t db1"
    using granted_others_dead [OF lease_inv_reachable] assms(1-4) by blast
  then have "dead_token (acq_runId claim) t (st_leases s)"
    using lf.steps_keep_dead assms(5) inv1 by blast
  moreover have "lease_inv (st_leases s)" using lf.steps_keep_inv assms(5) inv1 by blast
  ultimately show ?thesis using fenced_write_dead assms(6,7) by blast
qed

end
