(* ===== verification/Dag.thy ===== *)
theory Dag
  imports Dag_Graph State_Machine
begin

text \<open>
  \<open>DAGEvaluator\<close> (\<open>dag.ts\<close>) with the bakeoff predicates of \<open>bakeoff.ts\<close>: resolving the status of
  tasks from their dependencies, reconciling the status of a spec, what happens when a run
  completes, and the validation of the graph.

  \<open>evaluateTaskDAG\<close> repeats sweeps over the tasks of a spec until one changes nothing. On a cyclic
  graph it may go on for ever, so the loop has fuel and running out of it is the error
  \<open>NotReturning\<close>; on an acyclic graph one sweep more than there are tasks is enough.
\<close>

subsection \<open>Bakeoff roles\<close>

definition is_bakeoff_spec :: "spec option \<Rightarrow> bool" where
  "is_bakeoff_spec p \<longleftrightarrow> (case p of None \<Rightarrow> False | Some q \<Rightarrow> spec_strategy q = BestOfN)"

definition is_bakeoff_candidate_task :: "spec option \<Rightarrow> task \<Rightarrow> bool" where
  "is_bakeoff_candidate_task p t \<longleftrightarrow> is_bakeoff_spec p \<and> task_strategyRole t = Candidate"

definition is_bakeoff_blind_review_task :: "spec option \<Rightarrow> task \<Rightarrow> bool" where
  "is_bakeoff_blind_review_task p t \<longleftrightarrow> is_bakeoff_spec p \<and> task_strategyRole t = BlindReview"

subsection \<open>Resolving one task\<close>

text \<open>The map \<open>taskById\<close> and the dependency map of the tasks of a spec; ids are unique.\<close>

type_synonym task_map = "string \<Rightarrow> task option"

definition task_map_of :: "task list \<Rightarrow> task_map" where
  "task_map_of ts = map_of (map (\<lambda>t. (task_id t, t)) ts)"

definition list_task_dependencies :: "task list \<Rightarrow> store \<Rightarrow> dependency_map" where
  "list_task_dependencies ts s =
     map_of (map (\<lambda>t. (task_id t, map td_dependsOnId (task_dep_list (task_id t) s))) ts)"

definition is_terminal_run :: "run \<Rightarrow> bool" where
  "is_terminal_run r \<longleftrightarrow> run_stage r = StageDone \<or> run_terminalState r \<noteq> None"

definition dependency_statuses :: "task \<Rightarrow> task_map \<Rightarrow> dependency_map \<Rightarrow> task_status option list" where
  "dependency_statuses t by_id deps = map (\<lambda>d. map_option task_status (by_id d)) (deps_get deps (task_id t))"

definition resolve_task_status :: "store \<Rightarrow> task \<Rightarrow> task_map \<Rightarrow> dependency_map \<Rightarrow> task_status" where
  "resolve_task_status s t by_id deps =
     (let sts = dependency_statuses t by_id deps in
      if task_status t = Blocked \<and> sts = [] then Blocked
      else if is_bakeoff_blind_review_task (spec_get (task_specId t) s) t \<and> sts \<noteq> []
      then (if list_all (\<lambda>x. x = Some TaskDone \<or> x = Some TaskFailed) sts then Ready else Blocked)
      else if list_ex (\<lambda>x. x = Some TaskFailed) sts then TaskFailed
      else if list_all (\<lambda>x. x = Some TaskDone) sts then Ready
      else Blocked)"

definition can_resolve_task_status :: "store \<Rightarrow> task \<Rightarrow> task_map \<Rightarrow> dependency_map \<Rightarrow> bool" where
  "can_resolve_task_status s t by_id deps =
     (if task_status t \<in> {Pending, Blocked} then True
      else if task_status t \<noteq> TaskFailed \<or> 0 < length (run_list (task_id t) s) then False
      else if deps_get deps (task_id t) = [] then False
      else list_all (\<lambda>x. x \<noteq> Some TaskFailed) (dependency_statuses t by_id deps))"

definition dag_update_task_status :: "task \<Rightarrow> task_status \<Rightarrow> task db" where
  "dag_update_task_status t next =
     andthen (task_update_status (task_id t) next) (\<lambda>updated.
     andthen (emit (TaskStatusChanged (task_id t) (task_status t) next)) (\<lambda>_.
     give updated))"

subsection \<open>Sweeping\<close>

record sweep_state =
  sw_byId :: task_map
  sw_ready :: "string list"
  sw_changed :: bool

definition sweep_task :: "dependency_map \<Rightarrow> task \<Rightarrow> sweep_state \<Rightarrow> sweep_state db" where
  "sweep_task deps t w s =
     (case sw_byId w (task_id t) of
        None \<Rightarrow> (Inr w, s)
      | Some current \<Rightarrow>
          if \<not> can_resolve_task_status s current (sw_byId w) deps then (Inr w, s)
          else let next = resolve_task_status s current (sw_byId w) deps in
            if next = task_status current then (Inr w, s)
            else andthen (dag_update_task_status current next) (\<lambda>updated.
              give \<lparr>sw_byId = (sw_byId w)(task_id updated \<mapsto> updated),
                    sw_ready = (if next = Ready then sw_ready w @ [task_id updated] else sw_ready w),
                    sw_changed = True\<rparr>) s)"

fun sweep :: "dependency_map \<Rightarrow> task list \<Rightarrow> sweep_state \<Rightarrow> sweep_state db" where
  "sweep deps [] w = give w"
| "sweep deps (t # ts) w = andthen (sweep_task deps t w) (sweep deps ts)"

fun sweeps :: "nat \<Rightarrow> dependency_map \<Rightarrow> task list \<Rightarrow> sweep_state \<Rightarrow> sweep_state db" where
  "sweeps 0 deps ts w = fail NotReturning"
| "sweeps (Suc n) deps ts w =
     andthen (sweep deps ts (w\<lparr>sw_changed := False\<rparr>)) (\<lambda>w'.
     if sw_changed w' then sweeps n deps ts w' else give w')"

subsection \<open>Specs\<close>

definition require_spec :: "string \<Rightarrow> spec db" where
  "require_spec i s = (case spec_get i s of None \<Rightarrow> (Inl (SpecNotFound i), s) | Some p \<Rightarrow> (Inr p, s))"

definition dag_update_spec_status :: "string \<Rightarrow> spec_status \<Rightarrow> unit db" where
  "dag_update_spec_status i next =
     andthen (require_spec i) (\<lambda>current.
     if spec_status current = next then give ()
     else andthen (spec_update_status i next) (\<lambda>_.
       emit (SpecStatusChanged i (spec_status current) next)))"

text \<open>The status is tested on the spec as it was read first.\<close>

definition reconcile_spec_status :: "string \<Rightarrow> unit db" where
  "reconcile_spec_status i =
     andthen (require_spec i) (\<lambda>p.
     andthen (reading (task_list (spec_id p))) (\<lambda>ts.
     if ts = [] then give ()
     else if list_all (\<lambda>t. task_status t = TaskDone) ts then dag_update_spec_status (spec_id p) SpecDone
     else if list_ex (\<lambda>t. task_status t = TaskFailed) ts \<and>
             list_all (\<lambda>t. task_status t = TaskDone \<or> task_status t = TaskFailed) ts
     then dag_update_spec_status (spec_id p) SpecFailed
     else
       andthen (if spec_status p = SpecApproved \<and>
                   list_ex (\<lambda>t. task_status t \<in> {Active, TaskDone, TaskFailed}) ts
                then dag_update_spec_status (spec_id p) SpecImplementing else give ()) (\<lambda>_.
       andthen (reading (\<lambda>s. list_ex (\<lambda>t. 0 < length (run_list (task_id t) s)) ts)) (\<lambda>history.
       if spec_status p \<in> {SpecFailed, SpecDraft} \<and>
          list_ex (\<lambda>t. task_status t = Ready \<or> task_status t = Active) ts \<and> history
       then dag_update_spec_status (spec_id p) SpecImplementing else give ()))))"

definition evaluate_spec_dag :: "string \<Rightarrow> store \<Rightarrow> string list" where
  "evaluate_spec_dag project s =
     (let specs = spec_list project s;
          by_id = map_of (map (\<lambda>p. (spec_id p, p)) specs) in
      map spec_id (filter (\<lambda>p. spec_status p = SpecApproved \<and>
        list_all (\<lambda>d. map_option spec_status (by_id (sd_dependsOnId d)) = Some SpecDone)
          (filter (\<lambda>d. sd_kind d = Hard) (spec_dep_list (spec_id p) s))) specs))"

subsection \<open>Entry points\<close>

definition evaluate_task_dag :: "nat \<Rightarrow> string \<Rightarrow> string list db" where
  "evaluate_task_dag fuel sp =
     andthen (reading (task_list sp)) (\<lambda>ts.
     andthen (reading (list_task_dependencies ts)) (\<lambda>deps.
     andthen (sweeps fuel deps ts \<lparr>sw_byId = task_map_of ts, sw_ready = [], sw_changed = True\<rparr>) (\<lambda>w.
     andthen (reconcile_spec_status sp) (\<lambda>_.
     give (sw_ready w)))))"

definition get_latest_run :: "string \<Rightarrow> store \<Rightarrow> run option" where
  "get_latest_run t s = (case rev (run_list t s) of [] \<Rightarrow> None | r # _ \<Rightarrow> Some r)"

text \<open>The status a task takes from its latest run, if that run has ended.\<close>

definition settled_task_status :: "run \<Rightarrow> task_status" where
  "settled_task_status r =
     (if run_stage r = StageDone \<and> run_terminalState r = None then TaskDone else TaskFailed)"

definition on_run_complete :: "nat \<Rightarrow> string \<Rightarrow> unit db" where
  "on_run_complete fuel i =
     andthen (run_get_required i) (\<lambda>r.
     andthen (task_get_required (run_taskId r)) (\<lambda>t.
     andthen (reading (get_latest_run (task_id t))) (\<lambda>latest.
     andthen (case latest of
         None \<Rightarrow> give ()
       | Some l \<Rightarrow>
           if is_terminal_run l \<and> task_status t \<noteq> settled_task_status l
           then andthen (dag_update_task_status t (settled_task_status l)) (\<lambda>_. give ())
           else give ()) (\<lambda>_.
     andthen (evaluate_task_dag fuel (task_specId t)) (\<lambda>_.
     andthen (require_spec (task_specId t)) (\<lambda>p.
     reconcile_spec_status (spec_id p)))))))"

definition next_task :: "string option \<Rightarrow> agent_role option \<Rightarrow> store \<Rightarrow> task option" where
  "next_task project role s = (case task_get_ready project role s of [] \<Rightarrow> None | t # _ \<Rightarrow> Some t)"

definition validate_dag :: "string \<Rightarrow> store \<Rightarrow> string list option option" where
  "validate_dag sp s =
     (let ts = task_list sp s in validate_graph (map task_id ts) (list_task_dependencies ts s))"

subsection \<open>Sweeps over statuses\<close>

text \<open>What a sweep does, read off the statuses alone: the rest of the database enters only through
  which tasks have runs, which are blind reviews, and the dependencies, and no sweep changes
  those.\<close>

record dag_context =
  dc_deps :: "string \<Rightarrow> string list"
  dc_blind :: "string \<Rightarrow> bool"
  dc_hasRuns :: "string \<Rightarrow> bool"

type_synonym status_map = "string \<Rightarrow> task_status option"

definition can_resolve :: "dag_context \<Rightarrow> status_map \<Rightarrow> string \<Rightarrow> bool" where
  "can_resolve k m i \<longleftrightarrow>
     m i \<in> {Some Pending, Some Blocked} \<or>
     (m i = Some TaskFailed \<and> \<not> dc_hasRuns k i \<and> dc_deps k i \<noteq> [] \<and>
      (\<forall>d \<in> set (dc_deps k i). m d \<noteq> Some TaskFailed))"

definition resolve :: "dag_context \<Rightarrow> status_map \<Rightarrow> string \<Rightarrow> task_status" where
  "resolve k m i =
     (if m i = Some Blocked \<and> dc_deps k i = [] then Blocked
      else if dc_blind k i \<and> dc_deps k i \<noteq> []
      then (if \<forall>d \<in> set (dc_deps k i). m d \<in> {Some TaskDone, Some TaskFailed} then Ready else Blocked)
      else if \<exists>d \<in> set (dc_deps k i). m d = Some TaskFailed then TaskFailed
      else if \<forall>d \<in> set (dc_deps k i). m d = Some TaskDone then Ready
      else Blocked)"

definition status_step :: "dag_context \<Rightarrow> string \<Rightarrow> status_map \<Rightarrow> status_map" where
  "status_step k i m = (if can_resolve k m i then m(i \<mapsto> resolve k m i) else m)"

lemma status_step_other [simp]: "j \<noteq> i \<Longrightarrow> status_step k i m j = m j"
  by (simp add: status_step_def)

lemma status_step_dom [simp]: "dom (status_step k i m) = dom m"
  by (auto simp: status_step_def can_resolve_def)

lemma status_step_idem:
  assumes "i \<notin> set (dc_deps k i)"
  shows "status_step k i (status_step k i m) = status_step k i m"
proof -
  let ?m = "m(i \<mapsto> resolve k m i)"
  have same: "\<And>d. d \<in> set (dc_deps k i) \<Longrightarrow> ?m d = m d" using assms by auto
  have "resolve k ?m i = resolve k m i" if "can_resolve k ?m i" "can_resolve k m i"
    using that same unfolding resolve_def can_resolve_def by (auto split: if_splits)
  then show ?thesis by (auto simp: status_step_def)
qed

text \<open>A set of tasks that no step changes, and that is closed under dependencies within the spec.\<close>

definition settled_set :: "dag_context \<Rightarrow> string set \<Rightarrow> status_map \<Rightarrow> bool" where
  "settled_set k D m \<longleftrightarrow> D \<subseteq> dom m \<and>
     (\<forall>i \<in> D. status_step k i m = m \<and> set (dc_deps k i) \<inter> dom m \<subseteq> D)"

lemma status_step_local:
  assumes "m i = n i" and "\<And>d. d \<in> set (dc_deps k i) \<Longrightarrow> m d = n d"
  shows "status_step k i m i = status_step k i n i"
proof -
  have "can_resolve k m i = can_resolve k n i" "resolve k m i = resolve k n i"
    using assms by (auto simp: can_resolve_def resolve_def)
  with assms(1) show ?thesis by (simp add: status_step_def)
qed

lemma status_step_fix: "status_step k i m i = m i \<Longrightarrow> status_step k i m = m"
  by (auto simp: status_step_def fun_upd_idem)

lemma settled_kept:
  assumes "settled_set k D m"
  shows "settled_set k D (status_step k j m)"
proof (cases "j \<in> D")
  case True
  with assms show ?thesis by (simp add: settled_set_def)
next
  case False
  have "status_step k i (status_step k j m) = status_step k j m" if i: "i \<in> D" for i
  proof (rule status_step_fix)
    have ne: "i \<noteq> j" using i False by blast
    have "d \<noteq> j \<or> m j = None" if "d \<in> set (dc_deps k i)" for d
      using assms i that False by (auto simp: settled_set_def)
    then have same: "\<And>d. d \<in> set (dc_deps k i) \<Longrightarrow> status_step k j m d = m d"
      by (metis status_step_other status_step_def can_resolve_def insert_iff option.distinct(1) empty_iff)
    have "status_step k i (status_step k j m) i = status_step k i m i"
      by (rule status_step_local) (use ne same in auto)
    also have "\<dots> = m i" using assms i by (simp add: settled_set_def)
    finally show "status_step k i (status_step k j m) i = status_step k j m i" using ne by simp
  qed
  with assms show ?thesis by (simp add: settled_set_def)
qed

lemma settled_extend:
  assumes "settled_set k D m" and "j \<in> dom m" and "set (dc_deps k j) \<inter> dom m \<subseteq> D" and "j \<notin> set (dc_deps k j)"
  shows "settled_set k (insert j D) (status_step k j m)"
  using settled_kept [OF assms(1), of j] assms(2-3) status_step_idem [OF assms(4)]
  unfolding settled_set_def status_step_dom by blast

definition status_sweep :: "dag_context \<Rightarrow> string list \<Rightarrow> status_map \<Rightarrow> status_map" where
  "status_sweep k is m = fold (status_step k) is m"

lemma status_sweep_dom [simp]: "dom (status_sweep k is m) = dom m"
  unfolding status_sweep_def by (induction "is" arbitrary: m) (simp_all del: fun_upd_apply)

lemma settled_sweep_kept: "settled_set k D m \<Longrightarrow> settled_set k D (status_sweep k is m)"
  unfolding status_sweep_def by (induction "is" arbitrary: m) (simp_all add: settled_kept)

lemma settled_sweep:
  assumes "settled_set k D m" and "j \<in> set is" and "j \<in> dom m"
    and "set (dc_deps k j) \<inter> dom m \<subseteq> D" and "j \<notin> set (dc_deps k j)"
  shows "settled_set k (insert j D) (status_sweep k is m)"
proof -
  obtain xs ys where split: "is = xs @ j # ys" using assms(2) by (meson split_list)
  let ?m = "status_sweep k xs m"
  have "settled_set k (insert j D) (status_step k j ?m)"
    using settled_extend [OF settled_sweep_kept [OF assms(1)], of j xs] assms(3-5) by simp
  then have "settled_set k (insert j D) (status_sweep k ys (status_step k j ?m))"
    by (rule settled_sweep_kept)
  then show ?thesis by (simp add: split status_sweep_def)
qed

text \<open>Progress: while some task is not settled, a sweep settles another one.\<close>

definition context_graph :: "dag_context \<Rightarrow> string set \<Rightarrow> (string \<times> string) set" where
  "context_graph k A = {(d, t). t \<in> A \<and> d \<in> A \<and> d \<in> set (dc_deps k t)}"

lemma settled_progress:
  assumes "settled_set k D m" and "D \<noteq> dom m" and "set is = dom m" and "acyclic (context_graph k (dom m))"
  shows "\<exists>j \<in> dom m - D. settled_set k (insert j D) (status_sweep k is m)"
proof -
  have fin: "finite (dom m)" using assms(3) by (metis List.finite_set)
  have "context_graph k (dom m) \<subseteq> dom m \<times> dom m" by (auto simp: context_graph_def)
  then have "finite (context_graph k (dom m))" using fin finite_subset by blast
  then have wf: "wf (context_graph k (dom m))" using assms(4) finite_acyclic_wf by blast
  have "dom m - D \<noteq> {}" using assms(1,2) by (auto simp: settled_set_def)
  then obtain j where j: "j \<in> dom m - D" "\<And>d. (d, j) \<in> context_graph k (dom m) \<Longrightarrow> d \<notin> dom m - D"
    using wfE_min [OF wf] by (metis ex_in_conv)
  have "set (dc_deps k j) \<inter> dom m \<subseteq> D" using j by (auto simp: context_graph_def)
  moreover have "j \<notin> set (dc_deps k j)" using j by (auto simp: context_graph_def)
  ultimately show ?thesis using settled_sweep [OF assms(1)] j(1) assms(3) by blast
qed

subsection \<open>The database sweep is the status sweep\<close>

definition statuses :: "task_map \<Rightarrow> status_map" where
  "statuses by_id = (\<lambda>i. map_option task_status (by_id i))"

text \<open>What of a task a sweep never touches.\<close>

definition task_core :: "task \<Rightarrow> task" where
  "task_core t = t\<lparr>task_status := Pending, task_updatedAt := 0\<rparr>"

text \<open>The sweep's map agrees with the database, and the context describes the database.\<close>

definition sweep_agrees :: "dag_context \<Rightarrow> dependency_map \<Rightarrow> store \<Rightarrow> task_map \<Rightarrow> bool" where
  "sweep_agrees k deps s by_id \<longleftrightarrow>
     dc_deps k = deps_get deps \<and>
     (\<forall>i. dc_hasRuns k i \<longleftrightarrow> 0 < length (run_list i s)) \<and>
     (\<forall>i t. by_id i = Some t \<longrightarrow> task_get i s = Some t \<and>
        dc_blind k i = is_bakeoff_blind_review_task (spec_get (task_specId t) s) t)"

definition sweep_frame :: "store \<Rightarrow> store \<Rightarrow> bool" where
  "sweep_frame s s' \<longleftrightarrow> st_runs s' = st_runs s \<and> st_specs s' = st_specs s \<and>
     st_taskDeps s' = st_taskDeps s \<and> map task_core (st_tasks s') = map task_core (st_tasks s)"

lemma sweep_frame_refl [simp]: "sweep_frame s s"
  by (simp add: sweep_frame_def)

lemma sweep_frame_trans: "sweep_frame s t \<Longrightarrow> sweep_frame t u \<Longrightarrow> sweep_frame s u"
  by (simp add: sweep_frame_def)

lemma sweep_agrees_resolves:
  assumes "sweep_agrees k deps s by_id" and "by_id i = Some t"
  shows "can_resolve_task_status s t by_id deps = can_resolve k (statuses by_id) i"
    and "resolve_task_status s t by_id deps = resolve k (statuses by_id) i"
proof -
  have t: "task_id t = i" using assms by (auto simp: sweep_agrees_def dest: task_get_id)
  have sts: "dependency_statuses t by_id deps = map (statuses by_id) (dc_deps k i)"
    using assms(1) t by (simp add: dependency_statuses_def statuses_def sweep_agrees_def)
  have st: "statuses by_id i = Some (task_status t)" using assms(2) by (simp add: statuses_def)
  have d: "deps_get deps i = dc_deps k i" using assms(1) by (simp add: sweep_agrees_def)
  have runs: "(0 < length (run_list i s)) = dc_hasRuns k i" using assms(1) by (simp add: sweep_agrees_def)
  have b: "is_bakeoff_blind_review_task (spec_get (task_specId t) s) t = dc_blind k i"
    using assms by (simp add: sweep_agrees_def)
  show "can_resolve_task_status s t by_id deps = can_resolve k (statuses by_id) i"
    unfolding can_resolve_task_status_def can_resolve_def t sts st d runs
    by (cases "task_status t") (auto simp: list_all_iff)
  show "resolve_task_status s t by_id deps = resolve k (statuses by_id) i"
    unfolding resolve_task_status_def resolve_def t sts st b Let_def
    by (auto simp: list_all_iff list_ex_iff) (metis image_eqI)+
qed

lemma dag_update_task_status_eq:
  "task_get (task_id t) s = Some t \<Longrightarrow> dag_update_task_status t st s =
    (Inr (t\<lparr>task_status := st, task_updatedAt := st_clock s\<rparr>),
     (write_tasks (task_id t) (\<lambda>t. t\<lparr>task_status := st\<rparr>) s)
       \<lparr>st_events := st_events s @ [TaskStatusChanged (task_id t) (task_status t) st]\<rparr>)"
  by (simp add: dag_update_task_status_def task_update_status_def outcome_simps)

lemma task_get_events [simp]: "task_get i (s\<lparr>st_events := e\<rparr>) = task_get i s"
  by (simp add: task_get_def)

lemma sweep_task_sim:
  assumes "sweep_agrees k deps s (sw_byId w)"
  shows "\<exists>w' s'. sweep_task deps t w s = (Inr w', s') \<and> sweep_agrees k deps s' (sw_byId w') \<and>
    statuses (sw_byId w') = status_step k (task_id t) (statuses (sw_byId w)) \<and>
    sw_changed w' = (sw_changed w \<or> statuses (sw_byId w') \<noteq> statuses (sw_byId w)) \<and>
    set (sw_ready w') = set (sw_ready w) \<union>
      {i. statuses (sw_byId w) i \<noteq> Some Ready \<and> statuses (sw_byId w') i = Some Ready} \<and>
    sweep_frame s s'"
proof (cases "sw_byId w (task_id t)")
  case None
  then have "status_step k (task_id t) (statuses (sw_byId w)) = statuses (sw_byId w)"
    by (simp add: status_step_def can_resolve_def statuses_def)
  with None assms show ?thesis by (simp add: sweep_task_def)
next
  case (Some cur)
  let ?i = "task_id t" and ?m = "statuses (sw_byId w)"
  have get: "task_get ?i s = Some cur" and id: "task_id cur = ?i"
    using assms Some by (auto simp: sweep_agrees_def dest: task_get_id)
  note eqs = sweep_agrees_resolves [OF assms Some]
  have st: "?m ?i = Some (task_status cur)" using Some by (simp add: statuses_def)
  show ?thesis
  proof (cases "can_resolve k ?m ?i \<and> resolve k ?m ?i \<noteq> task_status cur")
    case False
    then have "status_step k ?i ?m = ?m" using st by (auto simp: status_step_def fun_upd_idem)
    with False Some assms eqs show ?thesis by (auto simp: sweep_task_def Let_def)
  next
    case True
    let ?st = "resolve k ?m ?i"
    let ?u = "cur\<lparr>task_status := ?st, task_updatedAt := st_clock s\<rparr>"
    let ?s' = "(write_tasks ?i (\<lambda>t. t\<lparr>task_status := ?st\<rparr>) s)
       \<lparr>st_events := st_events s @ [TaskStatusChanged ?i (task_status cur) ?st]\<rparr>"
    let ?w' = "\<lparr>sw_byId = (sw_byId w)(?i \<mapsto> ?u),
      sw_ready = (if ?st = Ready then sw_ready w @ [?i] else sw_ready w), sw_changed = True\<rparr>"
    have run: "sweep_task deps t w s = (Inr ?w', ?s')"
      using True Some eqs get id
      by (simp add: sweep_task_def Let_def andthen_def dag_update_task_status_eq give_def)
    have m': "statuses (sw_byId ?w') = ?m(?i \<mapsto> ?st)" by (auto simp: statuses_def)
    have step: "status_step k ?i ?m = ?m(?i \<mapsto> ?st)" using True by (simp add: status_step_def)
    have rel: "sweep_agrees k deps ?s' (sw_byId ?w')"
      using assms get Some unfolding sweep_agrees_def
      by (auto simp: task_get_write run_list_def spec_get_def is_bakeoff_blind_review_task_def)
    have frame: "sweep_frame s ?s'"
      by (simp add: sweep_frame_def update_where_def task_core_def comp_def)
    have ch: "?m(?i \<mapsto> ?st) \<noteq> ?m" using True st by (metis fun_upd_same option.inject)
    have "task_status cur \<noteq> Ready" using True st by (auto simp: can_resolve_def)
    then have rdy: "set (sw_ready ?w') = set (sw_ready w) \<union>
      {i. ?m i \<noteq> Some Ready \<and> statuses (sw_byId ?w') i = Some Ready}"
      unfolding m' using st by auto
    show ?thesis using run rel m' step frame ch rdy by (intro exI [of _ ?w'] exI [of _ ?s']) simp
  qed
qed

lemma status_step_keeps_ready: "m i = Some Ready \<Longrightarrow> status_step k j m i = Some Ready"
  by (auto simp: status_step_def can_resolve_def)

lemma status_sweep_Cons: "status_sweep k (i # is) m = status_sweep k is (status_step k i m)"
  by (simp add: status_sweep_def)

lemma status_sweep_keeps_ready: "m i = Some Ready \<Longrightarrow> status_sweep k is m i = Some Ready"
  unfolding status_sweep_def by (induction "is" arbitrary: m) (simp_all add: status_step_keeps_ready)

text \<open>Steps that change something and then change it back still count as a change, so a sweep reports
  no change only when every step was idle.\<close>

definition idle_sweep :: "dag_context \<Rightarrow> string list \<Rightarrow> status_map \<Rightarrow> bool" where
  "idle_sweep k is m \<longleftrightarrow> (\<forall>i \<in> set is. status_step k i m = m)"

lemma sweep_sim:
  assumes "sweep_agrees k deps s (sw_byId w)"
  shows "\<exists>w' s'. sweep deps ts w s = (Inr w', s') \<and> sweep_agrees k deps s' (sw_byId w') \<and>
    statuses (sw_byId w') = status_sweep k (map task_id ts) (statuses (sw_byId w)) \<and>
    sw_changed w' = (sw_changed w \<or> \<not> idle_sweep k (map task_id ts) (statuses (sw_byId w))) \<and>
    set (sw_ready w') = set (sw_ready w) \<union>
      {i. statuses (sw_byId w) i \<noteq> Some Ready \<and> statuses (sw_byId w') i = Some Ready} \<and>
    sweep_frame s s'"
  using assms
proof (induction ts arbitrary: w s)
  case Nil
  then show ?case by (simp add: give_eq status_sweep_def idle_sweep_def)
next
  case (Cons t ts)
  from sweep_task_sim [OF Cons.prems, of t] obtain w1 s1 where
    one: "sweep_task deps t w s = (Inr w1, s1)" "sweep_agrees k deps s1 (sw_byId w1)"
      "statuses (sw_byId w1) = status_step k (task_id t) (statuses (sw_byId w))"
      "sw_changed w1 = (sw_changed w \<or> statuses (sw_byId w1) \<noteq> statuses (sw_byId w))"
      "set (sw_ready w1) = set (sw_ready w) \<union>
        {i. statuses (sw_byId w) i \<noteq> Some Ready \<and> statuses (sw_byId w1) i = Some Ready}"
      "sweep_frame s s1"
    by auto
  from Cons.IH [OF one(2)] obtain w2 s2 where
    rest: "sweep deps ts w1 s1 = (Inr w2, s2)" "sweep_agrees k deps s2 (sw_byId w2)"
      "statuses (sw_byId w2) = status_sweep k (map task_id ts) (statuses (sw_byId w1))"
      "sw_changed w2 = (sw_changed w1 \<or> \<not> idle_sweep k (map task_id ts) (statuses (sw_byId w1)))"
      "set (sw_ready w2) = set (sw_ready w1) \<union>
        {i. statuses (sw_byId w1) i \<noteq> Some Ready \<and> statuses (sw_byId w2) i = Some Ready}"
      "sweep_frame s1 s2"
    by auto
  have "sweep deps (t # ts) w s = (Inr w2, s2)" using one(1) rest(1) by (simp add: outcome_simps)
  moreover have "statuses (sw_byId w2) = status_sweep k (map task_id (t # ts)) (statuses (sw_byId w))"
    using one(3) rest(3) by (simp add: status_sweep_Cons)
  moreover have "sw_changed w2 = (sw_changed w \<or> \<not> idle_sweep k (map task_id (t # ts)) (statuses (sw_byId w)))"
    using one(3,4) rest(4) by (auto simp: idle_sweep_def)
  moreover have "set (sw_ready w2) = set (sw_ready w) \<union>
      {i. statuses (sw_byId w) i \<noteq> Some Ready \<and> statuses (sw_byId w2) i = Some Ready}"
  proof -
    have "statuses (sw_byId w2) i = Some Ready" if "statuses (sw_byId w1) i = Some Ready" for i
      using that rest(3) status_sweep_keeps_ready by simp
    moreover have "statuses (sw_byId w1) i = Some Ready" if "statuses (sw_byId w) i = Some Ready" for i
      using that one(3) status_step_keeps_ready by simp
    ultimately show ?thesis using one(5) rest(5) by auto
  qed
  ultimately show ?case using rest(2) sweep_frame_trans [OF one(6) rest(6)] by blast
qed

subsection \<open>Enough sweeps\<close>

text \<open>What sweeps promise of the statuses they reach from \<open>m0\<close>.\<close>

definition swept :: "dag_context \<Rightarrow> status_map \<Rightarrow> status_map \<Rightarrow> bool" where
  "swept k m0 m \<longleftrightarrow>
     (\<forall>i. m0 i \<in> {Some Ready, Some Active, Some TaskDone} \<longrightarrow> m i = m0 i) \<and>
     (\<forall>i. m i = Some Ready \<longrightarrow> m0 i \<noteq> Some Ready \<longrightarrow> \<not> dc_blind k i \<longrightarrow>
        (\<forall>d \<in> set (dc_deps k i). m d = Some TaskDone))"

lemma swept_refl [simp]: "swept k m m"
  by (simp add: swept_def)

lemma swept_step: "swept k m0 m \<Longrightarrow> swept k m0 (status_step k i m)"
proof (cases "can_resolve k m i")
  case True
  assume sw: "swept k m0 m"
  let ?m = "m(i \<mapsto> resolve k m i)"
  have i: "m i \<notin> {Some Ready, Some Active, Some TaskDone}" using True by (auto simp: can_resolve_def)
  then have i0: "m0 i \<notin> {Some Ready, Some Active, Some TaskDone}" using sw by (metis swept_def)
  have done_kept: "?m d = Some TaskDone" if "m d = Some TaskDone" for d using that i by auto
  have "\<forall>d \<in> set (dc_deps k i). m d = Some TaskDone" if "resolve k m i = Ready" "\<not> dc_blind k i"
    using that by (auto simp: resolve_def split: if_splits)
  then have new: "\<forall>d \<in> set (dc_deps k i). ?m d = Some TaskDone" if "resolve k m i = Ready" "\<not> dc_blind k i"
    using that done_kept by blast
  have "swept k m0 ?m" unfolding swept_def
  proof (intro conjI allI impI)
    fix j assume j: "m0 j \<in> {Some Ready, Some Active, Some TaskDone}"
    then have "j \<noteq> i" using i0 by blast
    then show "?m j = m0 j" using sw j by (auto simp: swept_def)
  next
    fix j assume j: "?m j = Some Ready" "m0 j \<noteq> Some Ready" "\<not> dc_blind k j"
    show "\<forall>d \<in> set (dc_deps k j). ?m d = Some TaskDone"
    proof (cases "j = i")
      case True
      with j new show ?thesis by simp
    next
      case False
      with j sw have "\<forall>d \<in> set (dc_deps k j). m d = Some TaskDone" by (simp add: swept_def)
      then show ?thesis using done_kept by blast
    qed
  qed
  then show ?thesis using True by (simp add: status_step_def)
qed (simp add: status_step_def)

lemma swept_sweep: "swept k m0 m \<Longrightarrow> swept k m0 (status_sweep k is m)"
  unfolding status_sweep_def by (induction "is" arbitrary: m) (simp_all add: swept_step)

lemma idle_sweep_fix: "idle_sweep k is m \<Longrightarrow> status_sweep k is m = m"
  unfolding status_sweep_def idle_sweep_def by (induction "is") simp_all

lemma sweeps_settle:
  assumes "sweep_agrees k deps s (sw_byId w)" and "settled_set k D (statuses (sw_byId w))"
    and "task_id ` set ts = dom (sw_byId w)" and "acyclic (context_graph k (dom (sw_byId w)))"
    and "card (dom (sw_byId w) - D) < n"
  shows "\<exists>w' s'. sweeps n deps ts w s = (Inr w', s') \<and> sweep_agrees k deps s' (sw_byId w') \<and>
    dom (sw_byId w') = dom (sw_byId w) \<and>
    (\<forall>i. status_step k i (statuses (sw_byId w')) = statuses (sw_byId w')) \<and>
    (\<forall>m0. swept k m0 (statuses (sw_byId w)) \<longrightarrow> swept k m0 (statuses (sw_byId w'))) \<and>
    set (sw_ready w') = set (sw_ready w) \<union>
      {i. statuses (sw_byId w) i \<noteq> Some Ready \<and> statuses (sw_byId w') i = Some Ready} \<and>
    sweep_frame s s'"
  using assms
proof (induction n arbitrary: w s D)
  case (Suc n)
  let ?m = "statuses (sw_byId w)" and ?is = "map task_id ts" and ?w = "w\<lparr>sw_changed := False\<rparr>"
  have dom_m: "dom (statuses b) = dom b" for b by (auto simp: statuses_def)
  from sweep_sim [of k deps s ?w ts] Suc.prems(1) obtain w1 s1 where
    one: "sweep deps ts ?w s = (Inr w1, s1)" "sweep_agrees k deps s1 (sw_byId w1)"
      "statuses (sw_byId w1) = status_sweep k ?is ?m" "sw_changed w1 = (\<not> idle_sweep k ?is ?m)"
      "set (sw_ready w1) = set (sw_ready w) \<union>
        {i. ?m i \<noteq> Some Ready \<and> statuses (sw_byId w1) i = Some Ready}" "sweep_frame s s1"
    by auto
  have d1: "dom (sw_byId w1) = dom (sw_byId w)"
    using one(3) dom_m status_sweep_dom by metis
  have sw: "\<And>m0. swept k m0 ?m \<Longrightarrow> swept k m0 (statuses (sw_byId w1))"
    unfolding one(3) by (rule swept_sweep)
  show ?case
  proof (cases "idle_sweep k ?is ?m")
    case True
    then have m1: "statuses (sw_byId w1) = ?m" using one(3) idle_sweep_fix by simp
    have "status_step k i ?m = ?m" for i
    proof (cases "i \<in> set ?is")
      case False
      then have "?m i = None" using Suc.prems(3) by (auto simp: statuses_def)
      then show ?thesis by (simp add: status_step_def can_resolve_def)
    qed (use True in \<open>auto simp: idle_sweep_def\<close>)
    moreover have "sweeps (Suc n) deps ts w s = (Inr w1, s1)"
      using one(1,4) True by (simp add: outcome_simps)
    ultimately show ?thesis using one m1 d1 sw by (intro exI [of _ w1] exI [of _ s1]) auto
  next
    case False
    have ne: "D \<noteq> dom ?m"
    proof
      assume "D = dom ?m"
      then have "idle_sweep k ?is ?m"
        using Suc.prems(2,3) dom_m by (auto simp: settled_set_def idle_sweep_def)
      with False show False by simp
    qed
    have "set ?is = dom ?m" using Suc.prems(3) dom_m by simp
    then obtain j where j: "j \<in> dom ?m - D" "settled_set k (insert j D) (status_sweep k ?is ?m)"
      using settled_progress [OF Suc.prems(2) ne, of ?is] Suc.prems(4) unfolding dom_m by blast
    have fin: "finite (dom (sw_byId w))" using Suc.prems(3) by (metis List.finite_set finite_imageI)
    have "dom (sw_byId w1) - insert j D \<subset> dom (sw_byId w) - D" using j(1) unfolding d1 dom_m by blast
    then have c: "card (dom (sw_byId w1) - insert j D) < n"
      using Suc.prems(5) psubset_card_mono [OF finite_Diff [OF fin]] by (meson less_Suc_eq_le less_le_trans)
    have ts: "task_id ` set ts = dom (sw_byId w1)" "acyclic (context_graph k (dom (sw_byId w1)))"
      using Suc.prems(3,4) d1 by simp_all
    have set': "settled_set k (insert j D) (statuses (sw_byId w1))" using j(2) one(3) by simp
    from Suc.IH [OF one(2) set' ts c] obtain w2 s2 where
      rest: "sweeps n deps ts w1 s1 = (Inr w2, s2)" "sweep_agrees k deps s2 (sw_byId w2)"
        "dom (sw_byId w2) = dom (sw_byId w1)"
        "\<forall>i. status_step k i (statuses (sw_byId w2)) = statuses (sw_byId w2)"
        "\<forall>m0. swept k m0 (statuses (sw_byId w1)) \<longrightarrow> swept k m0 (statuses (sw_byId w2))"
        "set (sw_ready w2) = set (sw_ready w1) \<union>
          {i. statuses (sw_byId w1) i \<noteq> Some Ready \<and> statuses (sw_byId w2) i = Some Ready}"
        "sweep_frame s1 s2"
      by auto
    have "sweeps (Suc n) deps ts w s = (Inr w2, s2)"
      using one(1,4) False rest(1) by (simp add: outcome_simps)
    moreover have "set (sw_ready w2) = set (sw_ready w) \<union>
        {i. ?m i \<noteq> Some Ready \<and> statuses (sw_byId w2) i = Some Ready}"
    proof -
      have "statuses (sw_byId w2) i = Some Ready" if "statuses (sw_byId w1) i = Some Ready" for i
        using that rest(5) by (metis swept_refl swept_def insertI1)
      moreover have "statuses (sw_byId w1) i = Some Ready" if "?m i = Some Ready" for i
        using that one(3) status_sweep_keeps_ready by simp
      ultimately show ?thesis using one(5) rest(6) by auto
    qed
    ultimately show ?thesis
      using rest(2-5) d1 sw sweep_frame_trans [OF one(6) rest(7)] by (intro exI [of _ w2] exI [of _ s2]) auto
  qed
qed simp

subsection \<open>Reconciling a spec\<close>

text \<open>The status a spec takes from its tasks.\<close>

definition reconciled_status :: "spec_status \<Rightarrow> task_status list \<Rightarrow> bool \<Rightarrow> spec_status" where
  "reconciled_status st sts history =
     (if sts = [] then st
      else if \<forall>x \<in> set sts. x = TaskDone then SpecDone
      else if \<forall>x \<in> set sts. x \<in> {TaskDone, TaskFailed} then SpecFailed
      else if st = SpecApproved \<and> (\<exists>x \<in> set sts. x \<in> {Active, TaskDone, TaskFailed}) then SpecImplementing
      else if st \<in> {SpecFailed, SpecDraft} \<and> (\<exists>x \<in> set sts. x \<in> {Ready, Active}) \<and> history
      then SpecImplementing
      else st)"

definition spec_statuses :: "string \<Rightarrow> store \<Rightarrow> task_status list" where
  "spec_statuses sp s = map task_status (task_list sp s)"

definition spec_has_history :: "string \<Rightarrow> store \<Rightarrow> bool" where
  "spec_has_history sp s \<longleftrightarrow> (\<exists>t \<in> set (task_list sp s). run_list (task_id t) s \<noteq> [])"

text \<open>What reconciling leaves alone.\<close>

definition spec_frame :: "store \<Rightarrow> store \<Rightarrow> bool" where
  "spec_frame s s' \<longleftrightarrow> st_tasks s' = st_tasks s \<and> st_runs s' = st_runs s \<and> st_taskDeps s' = st_taskDeps s \<and>
     (\<forall>j. is_bakeoff_spec (spec_get j s') = is_bakeoff_spec (spec_get j s))"

lemma spec_get_events [simp]: "spec_get i (s\<lparr>st_events := e\<rparr>) = spec_get i s"
  by (simp add: spec_get_def)

lemma spec_write_frame: "spec_frame s ((spec_write_status i st s)\<lparr>st_events := e\<rparr>)"
proof -
  have "is_bakeoff_spec (spec_get j (spec_write_status i st s)) = is_bakeoff_spec (spec_get j s)" for j
    by (simp add: spec_get_write is_bakeoff_spec_def split: option.split)
  then show ?thesis by (simp add: spec_frame_def) (simp add: spec_write_status_def)
qed

lemma dag_update_spec_status_result:
  assumes "spec_get i s = Some p"
  shows "\<exists>s'. dag_update_spec_status i st s = (Inr (), s') \<and> spec_frame s s' \<and>
    map_option spec_status (spec_get i s') = Some st \<and> (\<forall>j. j \<noteq> i \<longrightarrow> spec_get j s' = spec_get j s)"
proof (cases "spec_status p = st")
  case True
  with assms show ?thesis
    by (simp add: dag_update_spec_status_def require_spec_def andthen_def give_def spec_frame_def)
next
  case False
  let ?s' = "(spec_write_status i st s)\<lparr>st_events := st_events (spec_write_status i st s) @
    [SpecStatusChanged i (spec_status p) st]\<rparr>"
  have "dag_update_spec_status i st s = (Inr (), ?s')"
    using assms False
    by (simp add: dag_update_spec_status_def require_spec_def andthen_def spec_update_status_eq emit_eq)
  then show ?thesis using assms spec_write_frame by (simp add: spec_get_write)
qed

lemma reconcile_spec_status_result:
  assumes p: "spec_get i s = Some p"
  shows "\<exists>s'. reconcile_spec_status i s = (Inr (), s') \<and> spec_frame s s' \<and>
    map_option spec_status (spec_get i s') =
      Some (reconciled_status (spec_status p) (spec_statuses i s) (spec_has_history i s)) \<and>
    (\<forall>j. j \<noteq> i \<longrightarrow> spec_get j s' = spec_get j s)"
proof -
  let ?ts = "task_list i s"
  have id: "spec_id p = i" using p by (rule spec_get_id)
  have keep: "\<exists>s'. give () s = (Inr (), s') \<and> spec_frame s s' \<and>
      map_option spec_status (spec_get i s') = Some (spec_status p) \<and> (\<forall>j. j \<noteq> i \<longrightarrow> spec_get j s' = spec_get j s)"
    using p by (simp add: give_eq spec_frame_def)
  have hist: "list_ex (\<lambda>t. run_list (task_id t) s \<noteq> []) ?ts = spec_has_history i s"
    by (simp add: spec_has_history_def list_ex_iff)
  have req: "andthen (require_spec i) k s = k p s" for k :: "spec \<Rightarrow> unit db"
    using p by (simp add: require_spec_def andthen_def)
  have all_done: "list_all (\<lambda>t. task_status t = TaskDone) ?ts = (\<forall>x \<in> set (spec_statuses i s). x = TaskDone)"
    by (simp add: spec_statuses_def list_all_iff)
  have all_over: "list_all (\<lambda>t. task_status t = TaskDone \<or> task_status t = TaskFailed) ?ts =
      (\<forall>x \<in> set (spec_statuses i s). x \<in> {TaskDone, TaskFailed})"
    by (simp add: spec_statuses_def list_all_iff)
  have some_failed: "list_ex (\<lambda>t. task_status t = TaskFailed) ?ts = (\<exists>x \<in> set (spec_statuses i s). x = TaskFailed)"
    by (force simp: spec_statuses_def list_ex_iff)
  have some_started: "list_ex (\<lambda>t. task_status t \<in> {Active, TaskDone, TaskFailed}) ?ts =
      (\<exists>x \<in> set (spec_statuses i s). x \<in> {Active, TaskDone, TaskFailed})"
    by (simp add: spec_statuses_def list_ex_iff)
  have some_queued: "list_ex (\<lambda>t. task_status t = Ready \<or> task_status t = Active) ?ts =
      (\<exists>x \<in> set (spec_statuses i s). x \<in> {Ready, Active})"
    by (simp add: spec_statuses_def list_ex_iff)
  have nil: "(?ts = []) = (spec_statuses i s = [])" by (simp add: spec_statuses_def)
  note tests = nil all_done all_over some_failed some_started some_queued
  show ?thesis
  proof (cases "spec_status p = SpecApproved")
    case False
    have eq: "reconcile_spec_status i s =
      (if spec_statuses i s = [] then give () s
       else if \<forall>x \<in> set (spec_statuses i s). x = TaskDone then dag_update_spec_status i SpecDone s
       else if \<forall>x \<in> set (spec_statuses i s). x \<in> {TaskDone, TaskFailed} then dag_update_spec_status i SpecFailed s
       else if spec_status p \<in> {SpecFailed, SpecDraft} \<and> (\<exists>x \<in> set (spec_statuses i s). x \<in> {Ready, Active}) \<and>
          spec_has_history i s then dag_update_spec_status i SpecImplementing s
       else give () s)"
      unfolding reconcile_spec_status_def req andthen_reading id tests
      using False by (auto simp: andthen_give andthen_reading hist)
    show ?thesis unfolding eq reconciled_status_def
      using keep dag_update_spec_status_result [OF p] False by (auto simp: give_eq)
  next
    case True
    have eq: "reconcile_spec_status i s =
      (if spec_statuses i s = [] then give () s
       else if \<forall>x \<in> set (spec_statuses i s). x = TaskDone then dag_update_spec_status i SpecDone s
       else if \<forall>x \<in> set (spec_statuses i s). x \<in> {TaskDone, TaskFailed} then dag_update_spec_status i SpecFailed s
       else if \<exists>x \<in> set (spec_statuses i s). x \<in> {Active, TaskDone, TaskFailed}
       then dag_update_spec_status i SpecImplementing s
       else give () s)"
      unfolding reconcile_spec_status_def req andthen_reading id tests
      using True dag_update_spec_status_result [OF p, of SpecImplementing]
      by (auto simp: andthen_give andthen_reading andthen_Inr give_eq)
    show ?thesis unfolding eq reconciled_status_def
      using keep dag_update_spec_status_result [OF p] True by (auto simp: give_eq)
  qed
qed

subsection \<open>Evaluating the DAG of a spec\<close>

definition statuses_of :: "string \<Rightarrow> store \<Rightarrow> status_map" where
  "statuses_of sp s = statuses (task_map_of (task_list sp s))"

definition dependencies_of :: "string \<Rightarrow> store \<Rightarrow> dependency_map" where
  "dependencies_of sp s = list_task_dependencies (task_list sp s) s"

definition context_of :: "string \<Rightarrow> store \<Rightarrow> dag_context" where
  "context_of sp s =
     \<lparr>dc_deps = deps_get (dependencies_of sp s),
      dc_blind = (\<lambda>i. case task_get i s of None \<Rightarrow> False
        | Some t \<Rightarrow> is_bakeoff_blind_review_task (spec_get (task_specId t) s) t),
      dc_hasRuns = (\<lambda>i. 0 < length (run_list i s))\<rparr>"

lemma set_task_list [simp]: "set (task_list sp s) = {t \<in> set (st_tasks s). task_specId t = sp}"
  by (auto simp: task_list_def)

lemma task_ids_distinct:
  "distinct (map task_id (st_tasks s)) \<Longrightarrow> distinct (map task_id (task_list sp s))"
  by (simp add: task_list_def distinct_map_sort_key distinct_map_filter)

lemma task_get_iff:
  "distinct (map task_id (st_tasks s)) \<Longrightarrow> task_get i s = Some t \<longleftrightarrow> t \<in> set (st_tasks s) \<and> task_id t = i"
  by (simp add: task_get_def find_Some_iff_unique)

lemma task_map_of_iff:
  assumes "distinct (map task_id (st_tasks s))"
  shows "task_map_of (task_list sp s) i = Some t \<longleftrightarrow> task_get i s = Some t \<and> task_specId t = sp"
proof -
  have "distinct (map fst (map (\<lambda>t. (task_id t, t)) (task_list sp s)))"
    using task_ids_distinct [OF assms] by (simp add: comp_def)
  then have "task_map_of (task_list sp s) i = Some t \<longleftrightarrow> (i, t) \<in> set (map (\<lambda>t. (task_id t, t)) (task_list sp s))"
    unfolding task_map_of_def by (rule map_of_eq_Some_iff)
  then show ?thesis by (auto simp: task_get_def find_Some_iff_unique [OF assms])
qed

lemma dependencies_of_Some:
  "distinct (map task_id (st_tasks s)) \<Longrightarrow> t \<in> set (task_list sp s) \<Longrightarrow>
   dependencies_of sp s (task_id t) = Some (map td_dependsOnId (task_dep_list (task_id t) s))"
  unfolding dependencies_of_def list_task_dependencies_def
  using task_ids_distinct [of s sp] by (subst map_of_eq_Some_iff) (auto simp: comp_def)

lemma dependencies_of_None:
  "i \<notin> task_id ` set (task_list sp s) \<Longrightarrow> dependencies_of sp s i = None"
  unfolding dependencies_of_def list_task_dependencies_def by (auto simp: map_of_eq_None_iff image_iff)

lemma task_core_fields:
  "task_core t = task_core u \<Longrightarrow> task_id t = task_id u \<and> task_specId t = task_specId u \<and>
     task_strategyRole t = task_strategyRole u \<and> task_createdAt t = task_createdAt u"
  by (cases t; cases u) (simp add: task_core_def)

lemma task_id_core [simp]: "task_id (task_core t) = task_id t"
  by (simp add: task_core_def)

lemma frame_task_get:
  assumes "sweep_frame s s'"
  shows "map_option task_core (task_get i s') = map_option task_core (task_get i s)"
proof -
  have f: "map_option task_core (find (\<lambda>t. task_id t = i) ts) = find (\<lambda>t. task_id t = i) (map task_core ts)" for ts
    by (induction ts) auto
  show ?thesis using assms unfolding task_get_def f sweep_frame_def by simp
qed

lemma frame_ids: "sweep_frame s s' \<Longrightarrow> map task_id (st_tasks s') = map task_id (st_tasks s)"
  unfolding sweep_frame_def by (metis (no_types, lifting) list.map_comp comp_apply map_cong task_id_core)

lemma frame_members:
  assumes "sweep_frame s s'" and "distinct (map task_id (st_tasks s))"
  shows "task_id ` set (task_list sp s') = task_id ` set (task_list sp s)"
proof -
  have d': "distinct (map task_id (st_tasks s'))" using assms frame_ids by simp
  have char: "i \<in> task_id ` set (task_list sp u) \<longleftrightarrow> map_option task_specId (task_get i u) = Some sp"
    if "distinct (map task_id (st_tasks u))" for i u
    using task_get_iff [OF that, of i] by (auto simp: image_iff)
  have core: "map_option task_specId x = map_option task_specId (map_option task_core x)" for x
    by (cases x) (simp_all add: task_core_def)
  have "map_option task_specId (task_get i s') = map_option task_specId (task_get i s)" for i
    using frame_task_get [OF assms(1), of i] core by metis
  then have "i \<in> task_id ` set (task_list sp s') \<longleftrightarrow> i \<in> task_id ` set (task_list sp s)" for i
    using char [OF d', of i] char [OF assms(2), of i] by simp
  then show ?thesis by blast
qed

lemma frame_dependencies:
  assumes "sweep_frame s s'" and d: "distinct (map task_id (st_tasks s))"
  shows "dependencies_of sp s' = dependencies_of sp s"
proof
  fix i
  have d': "distinct (map task_id (st_tasks s'))" using assms frame_ids by simp
  have td: "task_dep_list i s' = task_dep_list i s" for i
    using assms(1) by (simp add: task_dep_list_def sweep_frame_def)
  show "dependencies_of sp s' i = dependencies_of sp s i"
  proof (cases "i \<in> task_id ` set (task_list sp s)")
    case True
    then have "i \<in> task_id ` set (task_list sp s')" using frame_members [OF assms] by simp
    with True dependencies_of_Some [OF d] dependencies_of_Some [OF d'] td show ?thesis by force
  next
    case False
    then have "i \<notin> task_id ` set (task_list sp s')" using frame_members [OF assms] by simp
    with False show ?thesis by (metis dependencies_of_None)
  qed
qed

lemma context_graph_acyclic:
  assumes "acyclic (dependency_graph ids m)" and "A = set ids" and "dc_deps k = deps_get m"
  shows "acyclic (context_graph k A)"
  by (rule acyclic_subset [OF assms(1)]) (auto simp: context_graph_def dependency_graph_def assms(2,3))

lemma start_agrees:
  assumes "distinct (map task_id (st_tasks s))"
  shows "sweep_agrees (context_of sp s) (dependencies_of sp s) s (task_map_of (task_list sp s))"
  by (auto simp: sweep_agrees_def context_of_def task_map_of_iff [OF assms])

lemma distinct_key_eq: "distinct (map f xs) \<Longrightarrow> x \<in> set xs \<Longrightarrow> y \<in> set xs \<Longrightarrow> f x = f y \<Longrightarrow> x = y"
  by (auto simp: distinct_map inj_on_def)

lemma agrees_statuses_of:
  assumes "sweep_agrees k deps s' by_id" and "sweep_frame s s'" and d: "distinct (map task_id (st_tasks s))"
    and "dom by_id = task_id ` set (task_list sp s)"
  shows "by_id = task_map_of (task_list sp s')"
proof
  fix i
  have d': "distinct (map task_id (st_tasks s'))" using assms(2) d frame_ids by simp
  show "by_id i = task_map_of (task_list sp s') i"
  proof (cases "by_id i")
    case None
    then have "i \<notin> task_id ` set (task_list sp s')" using assms(4) frame_members [OF assms(2) d] by blast
    then have "task_map_of (task_list sp s') i = None"
      by (auto simp: task_map_of_def map_of_eq_None_iff image_iff)
    with None show ?thesis by simp
  next
    case (Some t)
    then have "task_get i s' = Some t" using assms(1) by (simp add: sweep_agrees_def)
    moreover have "i \<in> task_id ` set (task_list sp s')" using Some assms(4) frame_members [OF assms(2) d] by blast
    then have "task_specId t = sp" using \<open>task_get i s' = Some t\<close>
      by (auto simp: task_get_iff [OF d'] dest: distinct_key_eq [OF d'])
    ultimately show ?thesis using Some task_map_of_iff [OF d'] by metis
  qed
qed

lemma spec_frame_statuses: "spec_frame s s' \<Longrightarrow> statuses_of sp s' = statuses_of sp s"
  by (simp add: statuses_of_def spec_frame_def task_list_def)

text \<open>The outcome of an evaluation on an acyclic graph.\<close>

lemma evaluate_task_dag_result:
  assumes d: "distinct (map task_id (st_tasks s))" and p: "spec_get sp s = Some p"
    and acyc: "acyclic (dependency_graph (map task_id (task_list sp s)) (dependencies_of sp s))"
    and fuel: "length (task_list sp s) < n"
  shows "\<exists>ready s1 s'. evaluate_task_dag n sp s = (Inr ready, s') \<and>
    (\<forall>i. status_step (context_of sp s) i (statuses_of sp s') = statuses_of sp s') \<and>
    swept (context_of sp s) (statuses_of sp s) (statuses_of sp s') \<and>
    set ready = {i. statuses_of sp s i \<noteq> Some Ready \<and> statuses_of sp s' i = Some Ready} \<and>
    sweep_frame s s1 \<and> statuses_of sp s1 = statuses_of sp s' \<and> spec_frame s1 s' \<and>
    map_option spec_status (spec_get sp s') =
      Some (reconciled_status (spec_status p) (spec_statuses sp s') (spec_has_history sp s'))"
proof -
  let ?k = "context_of sp s" and ?deps = "dependencies_of sp s" and ?ts = "task_list sp s"
  let ?w = "\<lparr>sw_byId = task_map_of ?ts, sw_ready = [], sw_changed = True\<rparr>"
  have dom: "dom (task_map_of ?ts) = task_id ` set ?ts"
    by (auto simp: task_map_of_def dom_map_of_conv_image_fst image_iff)
  have "settled_set ?k {} (statuses (sw_byId ?w))" by (simp add: settled_set_def)
  moreover have "acyclic (context_graph ?k (dom (sw_byId ?w)))"
    using context_graph_acyclic [OF acyc, of "dom (task_map_of ?ts)" ?k] dom by (simp add: context_of_def)
  moreover have "card (dom (sw_byId ?w) - {}) < n"
    using fuel card_length [of "map task_id ?ts"] dom by (simp del: set_task_list)
  ultimately obtain w1 s1 where w1: "sweeps n ?deps ?ts ?w s = (Inr w1, s1)"
      "sweep_agrees ?k ?deps s1 (sw_byId w1)" "dom (sw_byId w1) = dom (task_map_of ?ts)"
      "\<forall>i. status_step ?k i (statuses (sw_byId w1)) = statuses (sw_byId w1)"
      "swept ?k (statuses (task_map_of ?ts)) (statuses (sw_byId w1))"
      "set (sw_ready w1) = {i. statuses (task_map_of ?ts) i \<noteq> Some Ready \<and> statuses (sw_byId w1) i = Some Ready}"
      "sweep_frame s s1"
    using sweeps_settle [of ?k ?deps s ?w "{}" ?ts n] start_agrees [OF d] dom
    by (auto simp del: set_task_list)
  have by_id: "sw_byId w1 = task_map_of (task_list sp s1)"
    using agrees_statuses_of [OF w1(2,7) d] w1(3) dom by simp
  have p1: "spec_get sp s1 = Some p" using p w1(7) by (simp add: spec_get_def sweep_frame_def)
  from reconcile_spec_status_result [OF p1] obtain s' where rec: "reconcile_spec_status sp s1 = (Inr (), s')"
      "spec_frame s1 s'" "map_option spec_status (spec_get sp s') =
        Some (reconciled_status (spec_status p) (spec_statuses sp s1) (spec_has_history sp s1))"
    by blast
  have st': "statuses_of sp s' = statuses_of sp s1" by (rule spec_frame_statuses [OF rec(2)])
  have same: "spec_statuses sp s' = spec_statuses sp s1" "spec_has_history sp s' = spec_has_history sp s1"
    using rec(2) by (simp_all add: spec_frame_def spec_statuses_def spec_has_history_def task_list_def run_list_def)
  have "evaluate_task_dag n sp s = (Inr (sw_ready w1), s')"
    using w1(1) rec(1) by (simp add: evaluate_task_dag_def outcome_simps dependencies_of_def)
  moreover have "statuses_of sp s1 = statuses (sw_byId w1)" by (simp add: statuses_of_def by_id)
  moreover have "statuses_of sp s = statuses (task_map_of ?ts)" by (simp add: statuses_of_def)
  ultimately show ?thesis using w1(4,5,6,7) rec(2,3) st' same
    by (intro exI [of _ "sw_ready w1"] exI [of _ s1] exI [of _ s']) simp
qed

subsection \<open>Properties of the evaluator\<close>

text \<open>C20: evaluating an acyclic DAG terminates and settles it. On a spec whose dependency graph has no
  cycle, one sweep more than there are tasks is enough: \<open>evaluateTaskDAG\<close> returns, leaving nothing
  to resolve (another evaluation of any task changes nothing); ready, active and done tasks are
  untouched; the returned ids are exactly the tasks that became ready, and each of them that is
  not a blind review has all its dependencies done.\<close>

theorem evaluate_task_dag_settles:
  assumes "distinct (map task_id (st_tasks s))" and "spec_get sp s = Some p"
    and "acyclic (dependency_graph (map task_id (task_list sp s)) (dependencies_of sp s))"
    and "length (task_list sp s) < n"
  shows "\<exists>ready s'. evaluate_task_dag n sp s = (Inr ready, s') \<and>
    (\<forall>i. status_step (context_of sp s) i (statuses_of sp s') = statuses_of sp s') \<and>
    (\<forall>i. statuses_of sp s i \<in> {Some Ready, Some Active, Some TaskDone} \<longrightarrow>
       statuses_of sp s' i = statuses_of sp s i) \<and>
    set ready = {i. statuses_of sp s i \<noteq> Some Ready \<and> statuses_of sp s' i = Some Ready} \<and>
    (\<forall>i \<in> set ready. \<not> dc_blind (context_of sp s) i \<longrightarrow>
       (\<forall>d \<in> set (deps_get (dependencies_of sp s) i). statuses_of sp s' d = Some TaskDone))"
proof -
  from evaluate_task_dag_result [OF assms] obtain ready s1 s' where e: "evaluate_task_dag n sp s = (Inr ready, s')"
      "\<forall>i. status_step (context_of sp s) i (statuses_of sp s') = statuses_of sp s'"
      "swept (context_of sp s) (statuses_of sp s) (statuses_of sp s')"
      "set ready = {i. statuses_of sp s i \<noteq> Some Ready \<and> statuses_of sp s' i = Some Ready}"
    by blast
  have deps: "dc_deps (context_of sp s) = deps_get (dependencies_of sp s)" by (simp add: context_of_def)
  show ?thesis
    using e unfolding swept_def deps by (intro exI [of _ ready] exI [of _ s'] conjI) blast+
qed

text \<open>The status of a spec is rolled up from its tasks. Reconciling an existing spec returns and
  gives it the status that its tasks determine: done when all are done, failed when all ended and
  some failed, implementing when an approved spec has started or a failed or draft spec with run
  history has work queued again, unchanged otherwise; tasks, runs and other specs stay as they are.\<close>

theorem spec_status_rolled_up:
  assumes "spec_get i s = Some p"
  shows "\<exists>s'. reconcile_spec_status i s = (Inr (), s') \<and>
    map_option spec_status (spec_get i s') =
      Some (reconciled_status (spec_status p) (spec_statuses i s) (spec_has_history i s)) \<and>
    (\<forall>j. j \<noteq> i \<longrightarrow> spec_get j s' = spec_get j s) \<and> st_tasks s' = st_tasks s \<and> st_runs s' = st_runs s"
  using reconcile_spec_status_result [OF assms] by (auto simp: spec_frame_def)

lemma dependency_graph_cong: "set a = set b \<Longrightarrow> dependency_graph a m = dependency_graph b m"
  by (simp add: dependency_graph_def)

lemma on_run_complete_update:
  assumes d: "distinct (map task_id (st_tasks s))" and t: "task_get i s = Some t" "task_specId t = sp"
  shows "\<exists>s1. (if task_status t \<noteq> st then andthen (dag_update_task_status t st) (\<lambda>_. give ()) else give ()) s =
      (Inr (), s1) \<and> sweep_frame s s1 \<and> statuses_of sp s1 i = Some st"
proof (cases "task_status t = st")
  case True
  with t task_map_of_iff [OF d] show ?thesis
    by (auto simp: give_eq statuses_of_def statuses_def)
next
  case False
  have id: "task_id t = i" using t(1) by (rule task_get_id)
  let ?s1 = "(write_tasks i (\<lambda>t. t\<lparr>task_status := st\<rparr>) s)
       \<lparr>st_events := st_events s @ [TaskStatusChanged i (task_status t) st]\<rparr>"
  have run: "andthen (dag_update_task_status t st) (\<lambda>_. give ()) s = (Inr (), ?s1)"
    using dag_update_task_status_eq [of t s st] t(1) id by (simp add: andthen_def give_def)
  have frame: "sweep_frame s ?s1" by (simp add: sweep_frame_def update_where_def task_core_def comp_def)
  then have d1: "distinct (map task_id (st_tasks ?s1))" using d frame_ids by metis
  have "task_get i ?s1 = Some (t\<lparr>task_status := st, task_updatedAt := st_clock s\<rparr>)"
    using t(1) by (simp add: task_get_write)
  then have "task_map_of (task_list sp ?s1) i = Some (t\<lparr>task_status := st, task_updatedAt := st_clock s\<rparr>)"
    using task_map_of_iff [OF d1] t(2) by simp
  then show ?thesis using False run frame by (simp add: statuses_of_def statuses_def)
qed


text \<open>C22: validation accepts exactly the acyclic graphs. \<open>validateDAG\<close> answers valid if and only if every
  dependency of a task of the spec is a task of the spec and the dependency graph has no cycle; when
  it rejects a graph whose dependencies stay inside the spec, the tasks it reports form a genuine
  dependency cycle: a closed path along dependencies, of tasks of the spec.\<close>

theorem validate_dag_correct:
  assumes "distinct (map task_id (st_tasks s))"
  shows "(validate_dag sp s = None \<longleftrightarrow>
      internal (map task_id (task_list sp s)) (dependencies_of sp s) \<and>
      acyclic (dependency_graph (map task_id (task_list sp s)) (dependencies_of sp s))) \<and>
    (internal (map task_id (task_list sp s)) (dependencies_of sp s) \<longrightarrow> validate_dag sp s \<noteq> None \<longrightarrow>
      (\<exists>c. validate_dag sp s = Some (Some c) \<and> is_cycle (dependencies_of sp s) c \<and>
         set c \<subseteq> task_id ` set (task_list sp s)))"
proof -
  have v: "validate_dag sp s = validate_graph (map task_id (task_list sp s)) (dependencies_of sp s)"
    by (simp add: validate_dag_def dependencies_of_def Let_def)
  show ?thesis
    using validate_graph_iff [OF task_ids_distinct [OF assms]] validate_graph_cycle [OF task_ids_distinct [OF assms]]
    unfolding v list.set_map by metis
qed

end
