(* ===== verification/Machine_Witnesses.thy ===== *)
theory Machine_Witnesses
  imports Witnesses Dag
begin

text \<open>Witnesses of the state machine and the DAG evaluator, and a graph on which evaluation never
  ends.\<close>

subsection \<open>The state machine\<close>


lemma stall_sweep_exact_witness:
  "\<exists>rs s'. check_stalled_runs sample_config (\<lambda>_. False) 90000 (sample_store [sample_run ''run1'']) = (Inr rs, s') \<and>
     lifecycle_of ''run1'' s' = Some (Understand, Some Stalled)"
proof -
  let ?s = "sample_store [sample_run ''run1'']"
  have d: "distinct (map run_id (st_runs ?s))" by code_simp
  have "sample_run ''run1'' \<in> {r \<in> set (st_runs ?s). is_live r \<and> \<not> False \<and> is_heartbeat_expired 90000 r}"
    by (simp add: sample_store_def is_live_def sample_run_def is_heartbeat_expired_def)
  then have "''run1'' \<in> run_id ` {r \<in> set (st_runs ?s). is_live r \<and> \<not> False \<and> is_heartbeat_expired 90000 r}"
    by (rule rev_image_eqI) (simp add: sample_run_def)
  moreover have "lifecycle_of ''run1'' ?s = Some (Understand, None)" by code_simp
  ultimately show ?thesis
    using stall_sweep_exact [OF d, where c = sample_config and skip = "\<lambda>_. False" and now = 90000]
    by (elim exE conjE) (rule exI, rule exI, auto)
qed

lemma halted_runs_consistent_witness:
  "list_all run_consistent (st_runs (snd (exec_op sample_config (Pause ''why'') ''run1'' unfenced created_store)))"
proof -
  have "machine_step sample_config (sample_store []) created_store"
    unfolding created_store_def by (rule create_step) (simp add: sample_run_def)
  then have "(machine_step sample_config)\<^sup>*\<^sup>* (sample_store [])
      (snd (exec_op sample_config (Pause ''why'') ''run1'' unfenced created_store))"
    by (rule rtranclp.rtrancl_into_rtrancl [OF r_into_rtranclp]) (rule op_step)
  moreover have "st_runs (sample_store []) = []" by (simp add: sample_store_def)
  ultimately show ?thesis using halted_runs_consistent by blast
qed

lemma superseded_owner_cannot_write_witness:
  "\<exists>e leases. fenced_write_of sample_config (acq_runId second_claim) 1 25 (MarkWrite (Fail None))
     ((sample_store [sample_run ''run1''])\<lparr>st_leases := lease_table_2\<rparr>) =
   (Inl e, ((sample_store [sample_run ''run1''])\<lparr>st_leases := lease_table_2\<rparr>)\<lparr>st_leases := leases\<rparr>)"
proof (rule superseded_owner_cannot_write [OF lease_table_1_reachable second_acquired])
  show "(1::nat) \<le> fence_seq lease_table_1" by code_simp
  show "(1::nat) \<noteq> lease_fenceToken (lease_of_input second_claim 2 0)" by code_simp
  show "lease_step\<^sup>*\<^sup>* lease_table_2 (st_leases ((sample_store [sample_run ''run1''])\<lparr>st_leases := lease_table_2\<rparr>))"
    by simp
  show "cfg_leaseRepo sample_config" by (simp add: sample_config_def)
qed simp

subsection \<open>The DAG evaluator\<close>

text \<open>A chain: the second task waits for the first.\<close>

definition chain_store :: store where
  "chain_store = (sample_store [(sample_run ''run1'')\<lparr>run_stage := StageDone\<rparr>])
     \<lparr>st_tasks := [(sample_task ''task1'')\<lparr>task_status := Active\<rparr>, (sample_task ''task2'')\<lparr>task_status := Blocked\<rparr>],
      st_taskDeps := [\<lparr>td_taskId = ''task2'', td_dependsOnId = ''task1''\<rparr>]\<rparr>"

lemma acyclic_by_rank:
  assumes "\<forall>p \<in> r. f (fst p) < (f (snd p) :: nat)"
  shows "acyclic r"
proof -
  have "r \<subseteq> measure f" using assms by auto
  then show ?thesis using acyclic_subset wf_acyclic wf_measure by metis
qed

lemma chain_facts:
  "distinct (map task_id (st_tasks chain_store))"
  "spec_get ''spec1'' chain_store = Some (sample_spec ''spec1'')"
  "length (task_list ''spec1'' chain_store) < 3"
  "map task_id (task_list ''spec1'' chain_store) = [''task1'', ''task2'']"
  "deps_get (dependencies_of ''spec1'' chain_store) ''task1'' = []"
  "deps_get (dependencies_of ''spec1'' chain_store) ''task2'' = [''task1'']"
  by code_simp+

lemma chain_acyclic:
  "acyclic (dependency_graph (map task_id (task_list ''spec1'' chain_store)) (dependencies_of ''spec1'' chain_store))"
  by (rule acyclic_by_rank [where f = "\<lambda>i. if i = ''task1'' then 0 else 1"])
    (auto simp: dependency_graph_def chain_facts)

lemma evaluate_task_dag_settles_witness:
  "\<exists>ready s'. evaluate_task_dag 3 ''spec1'' chain_store = (Inr ready, s') \<and>
     statuses_of ''spec1'' s' ''task1'' = Some Active"
proof -
  have "statuses_of ''spec1'' chain_store ''task1'' = Some Active" by code_simp
  moreover obtain ready s' where "evaluate_task_dag 3 ''spec1'' chain_store = (Inr ready, s')"
    "\<forall>i. statuses_of ''spec1'' chain_store i \<in> {Some Ready, Some Active, Some TaskDone} \<longrightarrow>
       statuses_of ''spec1'' s' i = statuses_of ''spec1'' chain_store i"
    using evaluate_task_dag_settles [OF chain_facts(1,2) chain_acyclic chain_facts(3)] by blast
  ultimately show ?thesis by simp
qed


lemma spec_status_rolled_up_witness:
  "\<exists>s'. reconcile_spec_status ''spec1'' chain_store = (Inr (), s') \<and>
     map_option spec_status (spec_get ''spec1'' s') = Some SpecImplementing"
proof -
  have "reconciled_status (spec_status (sample_spec ''spec1'')) (spec_statuses ''spec1'' chain_store)
      (spec_has_history ''spec1'' chain_store) = SpecImplementing"
    by code_simp
  then show ?thesis using spec_status_rolled_up [OF chain_facts(2)] by auto
qed

subsection \<open>A cyclic graph\<close>

definition cyclic_store :: store where
  "cyclic_store = (sample_store [])
     \<lparr>st_tasks := [(sample_task ''a'')\<lparr>task_status := Blocked\<rparr>, (sample_task ''b'')\<lparr>task_status := TaskFailed\<rparr>,
        (sample_task ''c'')\<lparr>task_status := Blocked\<rparr>],
      st_taskDeps := [\<lparr>td_taskId = ''a'', td_dependsOnId = ''b''\<rparr>, \<lparr>td_taskId = ''b'', td_dependsOnId = ''c''\<rparr>,
        \<lparr>td_taskId = ''c'', td_dependsOnId = ''a''\<rparr>]\<rparr>"

lemma validate_dag_correct_witness:
  "\<exists>c. validate_dag ''spec1'' cyclic_store = Some (Some c) \<and> is_cycle (dependencies_of ''spec1'' cyclic_store) c"
proof -
  have d: "distinct (map task_id (st_tasks cyclic_store))" by code_simp
  have i: "internal (map task_id (task_list ''spec1'' cyclic_store)) (dependencies_of ''spec1'' cyclic_store)"
    by code_simp
  have v: "validate_dag ''spec1'' cyclic_store \<noteq> None" by code_simp
  show ?thesis using validate_dag_correct [OF d, of "''spec1''"] i v by blast
qed

text \<open>Two sweeps bring this graph back to the statuses it started from.\<close>

definition cyclic_context :: dag_context where
  "cyclic_context = \<lparr>dc_deps = deps_get (dependencies_of ''spec1'' cyclic_store), dc_blind = (\<lambda>_. False),
     dc_hasRuns = (\<lambda>_. False)\<rparr>"

definition cycle_start :: status_map where
  "cycle_start = [''a'' \<mapsto> Blocked, ''b'' \<mapsto> TaskFailed, ''c'' \<mapsto> Blocked]"

definition cycle_turn :: status_map where
  "cycle_turn = [''a'' \<mapsto> TaskFailed, ''b'' \<mapsto> Blocked, ''c'' \<mapsto> TaskFailed]"

lemma cyclic_deps:
  "dc_deps cyclic_context ''a'' = [''b'']" "dc_deps cyclic_context ''b'' = [''c'']"
  "dc_deps cyclic_context ''c'' = [''a'']"
  by code_simp+

lemma cyclic_flags: "dc_blind cyclic_context i = False" "dc_hasRuns cyclic_context i = False"
  by (simp_all add: cyclic_context_def)

lemma cycle_sweeps:
  "status_sweep cyclic_context [''a'', ''b'', ''c''] cycle_start = cycle_turn"
  "status_sweep cyclic_context [''a'', ''b'', ''c''] cycle_turn = cycle_start"
  "\<not> idle_sweep cyclic_context [''a'', ''b'', ''c''] cycle_start"
  "\<not> idle_sweep cyclic_context [''a'', ''b'', ''c''] cycle_turn"
  by (auto simp: status_sweep_def idle_sweep_def status_step_def can_resolve_def resolve_def cyclic_deps
      cyclic_flags cycle_start_def cycle_turn_def fun_eq_iff)

lemma cyclic_sweeps:
  assumes "sweep_agrees cyclic_context deps s (sw_byId w)" and "map task_id ts = [''a'', ''b'', ''c'']"
    and "statuses (sw_byId w) \<in> {cycle_start, cycle_turn}"
  shows "fst (sweeps n deps ts w s) = Inl NotReturning"
  using assms(1,3)
proof (induction n arbitrary: w s)
  case 0
  show ?case by (simp add: fail_eq)
next
  case (Suc n)
  let ?w = "w\<lparr>sw_changed := False\<rparr>"
  from sweep_sim [of cyclic_context deps s ?w ts] Suc.prems(1) assms(2) obtain w1 s1 where
    one: "sweep deps ts ?w s = (Inr w1, s1)" "sweep_agrees cyclic_context deps s1 (sw_byId w1)"
      "statuses (sw_byId w1) = status_sweep cyclic_context [''a'', ''b'', ''c''] (statuses (sw_byId w))"
      "sw_changed w1 = (\<not> idle_sweep cyclic_context [''a'', ''b'', ''c''] (statuses (sw_byId w)))"
    by auto
  have "sw_changed w1" "statuses (sw_byId w1) \<in> {cycle_start, cycle_turn}"
    using one(3,4) Suc.prems(2) cycle_sweeps by auto
  with Suc.IH [OF one(2)] one(1) show ?case by (simp add: outcome_simps)
qed

text \<open>C23: on a cyclic graph the evaluation may never end. Three tasks that wait for each other in a
  circle, one of them failed without ever having run and the others blocked, keep \<open>evaluateTaskDAG\<close>
  sweeping for ever: no number of sweeps is enough.\<close>

theorem cyclic_dag_diverges: "fst (evaluate_task_dag n ''spec1'' cyclic_store) = Inl NotReturning"
proof -
  let ?ts = "task_list ''spec1'' cyclic_store" and ?deps = "dependencies_of ''spec1'' cyclic_store"
  let ?w = "\<lparr>sw_byId = task_map_of ?ts, sw_ready = [], sw_changed = True\<rparr>"
  have d: "distinct (map task_id (st_tasks cyclic_store))" by code_simp
  have ts: "map task_id ?ts = [''a'', ''b'', ''c'']" by code_simp
  have plain: "is_bakeoff_blind_review_task (spec_get (task_specId t) cyclic_store) t = False"
    if "task_get i cyclic_store = Some t" for i t
    using that
    by (auto simp: task_get_def cyclic_store_def sample_store_def sample_task_def is_bakeoff_blind_review_task_def
        split: if_splits)
  have "sweep_agrees cyclic_context ?deps cyclic_store (task_map_of ?ts)"
    unfolding sweep_agrees_def
  proof (intro conjI allI impI)
    fix i
    have "st_runs cyclic_store = []" by (simp add: cyclic_store_def sample_store_def)
    then show "dc_hasRuns cyclic_context i = (0 < length (run_list i cyclic_store))"
      by (simp add: cyclic_context_def run_list_def)
    fix t assume "task_map_of ?ts i = Some t"
    then have "task_get i cyclic_store = Some t" using task_map_of_iff [OF d] by simp
    then show "task_get i cyclic_store = Some t"
      and "dc_blind cyclic_context i = is_bakeoff_blind_review_task (spec_get (task_specId t) cyclic_store) t"
      using plain by (simp_all add: cyclic_context_def)
  qed (simp add: cyclic_context_def)
  moreover have "statuses (task_map_of ?ts) = cycle_start"
  proof -
    have "?ts = [(sample_task ''a'')\<lparr>task_status := Blocked\<rparr>, (sample_task ''b'')\<lparr>task_status := TaskFailed\<rparr>,
        (sample_task ''c'')\<lparr>task_status := Blocked\<rparr>]"
      by (simp add: task_list_def cyclic_store_def sample_store_def sample_task_def)
    then show ?thesis
      by (simp add: statuses_def task_map_of_def cycle_start_def fun_eq_iff sample_task_def)
  qed
  ultimately have "fst (sweeps n ?deps ?ts ?w cyclic_store) = Inl NotReturning"
    using cyclic_sweeps [OF _ ts, of ?deps cyclic_store ?w n] by simp
  then obtain t where "sweeps n ?deps ?ts ?w cyclic_store = (Inl NotReturning, t)"
    by (metis prod.collapse)
  then show ?thesis
    by (simp add: evaluate_task_dag_def dependencies_of_def outcome_simps)
qed

end
