(* ===== verification/Approval.thy ===== *)
theory Approval
  imports Store "HOL-Library.Multiset"
begin

text \<open>
  Who may approve a finished run: trusted evidence (\<open>evidence-provenance.ts\<close>), strict CI
  (\<open>strict-ci.ts\<close>), the policy for approving without an operator
  (\<open>unattended-approval-policy.ts\<close>), the lineage of a run (\<open>approval-eligibility.ts\<close>) and approvals
  gone stale (\<open>stale-approval.ts\<close>).

  The reasons of a refusal are the constructors of a datatype, one per message; a message that
  shows an amount keeps the amounts themselves.
\<close>

text \<open>\<open>EvidenceRepo.list\<close>: the evidence of a run in the order of its creation.\<close>

definition evidence_list :: "store \<Rightarrow> string \<Rightarrow> evidence list" where
  "evidence_list s i = sort_key (\<lambda>e. case ev_createdAt e of None \<Rightarrow> 0 | Some t \<Rightarrow> t)
     (filter (\<lambda>e. ev_runId e = i) (st_evidence s))"

subsection \<open>Evidence\<close>

definition trusted_producer_field :: string where
  "trusted_producer_field = ''ductumEvidenceProducer''"

datatype trusted_producer = RuntimeProducer | WatcherProducer | ApprovalProducer

fun producer_name :: "trusted_producer \<Rightarrow> string" where
  "producer_name RuntimeProducer = ''ductum.runtime''"
| "producer_name WatcherProducer = ''ductum.watcher''"
| "producer_name ApprovalProducer = ''ductum.approval''"

definition with_trusted_producer :: "payload \<Rightarrow> trusted_producer \<Rightarrow> payload" where
  "with_trusted_producer p who =
     (trusted_producer_field, JStr (producer_name who)) # filter (\<lambda>kv. fst kv \<noteq> trusted_producer_field) p"

definition is_trusted_payload :: "payload \<Rightarrow> bool" where
  "is_trusted_payload p \<longleftrightarrow>
     jis p trusted_producer_field ''ductum.runtime'' \<or>
     jis p trusted_producer_field ''ductum.watcher'' \<or>
     jis p trusted_producer_field ''ductum.approval''"

subsection \<open>Strict CI\<close>

datatype ci_class = CiPending | CiPass | CiFail

definition is_strict_ci_status :: "json option \<Rightarrow> bool" where
  "is_strict_ci_status v \<longleftrightarrow> v \<in> {Some (JStr ''queued''), Some (JStr ''in_progress''), Some (JStr ''completed'')}"

definition is_strict_ci_conclusion :: "json option \<Rightarrow> bool" where
  "is_strict_ci_conclusion v \<longleftrightarrow> v \<in> {Some JNull, Some (JStr ''success''), Some (JStr ''failure''),
     Some (JStr ''neutral''), Some (JStr ''skipped''), Some (JStr ''timed_out'')}"

definition is_strict_ci_check :: "json \<Rightarrow> bool" where
  "is_strict_ci_check j \<longleftrightarrow> (case j of JObj f \<Rightarrow>
     is_strict_ci_status (jget f ''status'') \<and> is_strict_ci_conclusion (jget f ''conclusion'') | _ \<Rightarrow> False)"

text \<open>\<open>check.status\<close> of a value that passed \<open>isStrictCiCheck\<close>.\<close>

definition check_field :: "json \<Rightarrow> string \<Rightarrow> json option" where
  "check_field j k = (case j of JObj f \<Rightarrow> jget f k | _ \<Rightarrow> None)"

fun classify_checks :: "json list \<Rightarrow> bool \<Rightarrow> ci_class" where
  "classify_checks [] pending = (if pending then CiPending else CiPass)"
| "classify_checks (c # cs) pending =
     (if \<not> is_strict_ci_check c then CiFail
      else if check_field c ''status'' \<noteq> Some (JStr ''completed'') then classify_checks cs True
      else if check_field c ''conclusion'' \<noteq> Some (JStr ''success'') then CiFail
      else classify_checks cs pending)"

definition classify_ci_checks :: "json option \<Rightarrow> ci_class" where
  "classify_ci_checks v =
     (case v of Some (JArr cs) \<Rightarrow> if cs = [] then CiPending else classify_checks cs False | _ \<Rightarrow> CiPending)"

definition ci_evidence_has_strict_pass :: "payload \<Rightarrow> bool" where
  "ci_evidence_has_strict_pass p \<longleftrightarrow> classify_ci_checks (jget p ''checks'') = CiPass"

subsection \<open>What evidence shows\<close>

text \<open>\<open>evidenceCommitSha\<close>: the first of the four keys that holds a non-blank string.\<close>

definition evidence_commit_sha :: "payload \<Rightarrow> string option" where
  "evidence_commit_sha p =
     (case List.map_filter (\<lambda>k. case jget p k of
          Some (JStr v) \<Rightarrow> if trim v \<noteq> [] then Some (trim v) else None
        | _ \<Rightarrow> None) [''commitSha'', ''commit'', ''headCommitSha'', ''headSha''] of
        [] \<Rightarrow> None | v # _ \<Rightarrow> Some v)"

definition is_current_commit_evidence :: "run \<Rightarrow> evidence \<Rightarrow> bool" where
  "is_current_commit_evidence r e =
     (let c = evidence_commit_sha (ev_payload e) in
      if \<not> is_blank (run_commitSha r) then c = run_commitSha r
      else case (c, ev_createdAt e) of
          (None, Some created) \<Rightarrow> created \<ge> run_updatedAt r
        | _ \<Rightarrow> True)"

definition current_commit_evidence :: "run \<Rightarrow> evidence list \<Rightarrow> evidence list" where
  "current_commit_evidence r es = filter (is_current_commit_evidence r) es"

definition exit_code_zero :: "json option \<Rightarrow> bool" where
  "exit_code_zero v \<longleftrightarrow> (case v of Some (JObj f) \<Rightarrow> jget f ''exitCode'' = Some (JNum 0) | _ \<Rightarrow> False)"

definition is_successful_verification :: "evidence \<Rightarrow> bool" where
  "is_successful_verification e =
     (let p = ev_payload e in
      if ev_type e \<in> {EvTest, EvLint} \<and> jtrue p ''passed'' then True
      else if ev_type e \<noteq> EvCustom then False
      else if jis p ''kind'' ''verify'' \<and> jtrue p ''passed'' then True
      else if \<not> jis p ''kind'' ''worktree.snapshot'' then False
      else exit_code_zero (jget p ''verifyOutput''))"

definition is_successful_review :: "evidence \<Rightarrow> bool" where
  "is_successful_review e =
     (let p = ev_payload e in
      if ev_type e = EvReview \<and> jtrue p ''passed'' then True
      else if ev_type e \<noteq> EvCustom \<or> \<not> jis p ''kind'' ''internal-review'' then False
      else jtrue p ''passed'' \<or> jis p ''verdict'' ''pass'')"

text \<open>The two passes repeat the tests of the two predicates above behind the trust check.\<close>

definition has_verification_pass :: "evidence list \<Rightarrow> bool" where
  "has_verification_pass es = list_ex (\<lambda>e.
     let p = ev_payload e in
     if \<not> is_trusted_payload p then False
     else if ev_type e \<in> {EvTest, EvLint} \<and> jtrue p ''passed'' then True
     else if ev_type e \<noteq> EvCustom then False
     else if jis p ''kind'' ''verify'' \<and> jtrue p ''passed'' then True
     else if \<not> jis p ''kind'' ''worktree.snapshot'' then False
     else exit_code_zero (jget p ''verifyOutput'')) es"

definition has_remote_ci_pass :: "evidence list \<Rightarrow> bool" where
  "has_remote_ci_pass es = list_ex (\<lambda>e.
     ev_type e = EvCi \<and> jtrue (ev_payload e) ''passed'' \<and> is_trusted_payload (ev_payload e) \<and>
     ci_evidence_has_strict_pass (ev_payload e)) es"

definition has_review_pass :: "evidence list \<Rightarrow> bool" where
  "has_review_pass es = list_ex (\<lambda>e.
     let p = ev_payload e in
     if \<not> is_trusted_payload p then False
     else if ev_type e = EvReview \<and> jtrue p ''passed'' then True
     else if ev_type e \<noteq> EvCustom \<or> \<not> jis p ''kind'' ''internal-review'' then False
     else jtrue p ''passed'' \<or> jis p ''verdict'' ''pass'') es"

definition has_current_commit_remote_ci_pass :: "run \<Rightarrow> evidence list \<Rightarrow> bool" where
  "has_current_commit_remote_ci_pass r es = has_remote_ci_pass (current_commit_evidence r es)"

definition has_current_commit_review_pass :: "run \<Rightarrow> evidence list \<Rightarrow> bool" where
  "has_current_commit_review_pass r es = has_review_pass (current_commit_evidence r es)"

definition has_stop_flag :: "evidence list \<Rightarrow> string \<Rightarrow> bool" where
  "has_stop_flag es flag = list_ex (\<lambda>e.
     let p = ev_payload e in
     jtrue p (flag @ ''Flag'') \<or> jis p ''kind'' (flag @ ''-flag'') \<or>
     jis p ''kind'' (flag @ ''_flag'') \<or> jis p flag ''flagged'') es"

subsection \<open>The unattended policy\<close>

datatype approval_reason =
    NoPolicy
  | NoAutoApprove
  | NoAutoMerge
  | NoAutoPush
  | NotInShip workflow_stage
  | GateNotCompleted string
  | NotWaiting
  | IsTerminal terminal_state
  | IsBlocked string
  | DescendantsActive
  | MissingBranch
  | MissingCommit
  | WorktreeDirty
  | GitStateUnknown
  | UntrustedVerification
  | UntrustedReview
  | UntrustedCi
  | VerificationMissing
  | ReviewMissing
  | SecurityFlagged
  | ScopeFlagged
  | RunBudgetMissing
  | RunOverBudget usd usd
  | SpecOverBudget usd usd
  | PushRequirementInvalid
  | RemoteCiNotGreen
  | LocalVerifyNotGreen

record approval_budget =
  ab_perRunHardUsd :: "usd option"
  ab_perSpecHardUsd :: "usd option"
  ab_specCostUsd :: "usd option"

record approval_input =
  ai_run :: run
  ai_evidence :: "evidence list"
  ai_push :: bool
  ai_budget :: "approval_budget option"
  ai_hasOpenDescendants :: "bool option"
  ai_gitClean :: "bool option"

datatype approval_recovery = Continue | ConfigureBudget | FixBlocker

record approval_decision =
  ad_allowed :: bool
  ad_reasons :: "approval_reason list"
  ad_recovery :: approval_recovery

definition only_if :: "bool \<Rightarrow> 'a \<Rightarrow> 'a list" where
  "only_if b x = (if b then [x] else [])"

definition unattended_blocked_prefix :: string where
  "unattended_blocked_prefix = ''Action Needed: unattended approval blocked:''"

definition legacy_unattended_blocked_prefix :: string where
  "legacy_unattended_blocked_prefix = ''Needs Attention: unattended approval blocked:''"

definition is_unattended_blocked_reason :: "string option \<Rightarrow> bool" where
  "is_unattended_blocked_reason v =
     (case v of None \<Rightarrow> False
      | Some x \<Rightarrow> starts_with unattended_blocked_prefix (trim x) \<or>
          starts_with legacy_unattended_blocked_prefix (trim x))"

text \<open>The reasons are a set there: each at most once, in order of first occurrence.\<close>

definition untrusted_reasons_of :: "evidence \<Rightarrow> approval_reason list" where
  "untrusted_reasons_of e =
     (if is_trusted_payload (ev_payload e) then []
      else only_if (is_successful_verification e) UntrustedVerification @
        only_if (is_successful_review e) UntrustedReview @
        only_if (ev_type e = EvCi \<and> jtrue (ev_payload e) ''passed'') UntrustedCi)"

definition untrusted_gate_reasons :: "evidence list \<Rightarrow> approval_reason list" where
  "untrusted_gate_reasons es = rev (remdups (rev (concat (map untrusted_reasons_of es))))"

definition budget_reasons :: "run \<Rightarrow> approval_budget option \<Rightarrow> approval_reason list" where
  "budget_reasons r b =
     (let run_cap = (case b of None \<Rightarrow> None | Some x \<Rightarrow> ab_perRunHardUsd x);
          spec_cap = (case b of None \<Rightarrow> None | Some x \<Rightarrow> ab_perSpecHardUsd x);
          spec_cost = (case b of None \<Rightarrow> None | Some x \<Rightarrow> ab_specCostUsd x) in
      (case run_cap of None \<Rightarrow> [RunBudgetMissing]
       | Some cap \<Rightarrow> only_if (cap \<le> run_costUsd r) (RunOverBudget (run_costUsd r) cap)) @
      (case (spec_cap, spec_cost) of
         (Some cap, Some cost) \<Rightarrow> only_if (cap \<le> cost) (SpecOverBudget cost cap)
       | _ \<Rightarrow> []))"

definition is_valid_push_requirement :: "push_requirement \<Rightarrow> bool" where
  "is_valid_push_requirement q \<longleftrightarrow> q = RemoteCi \<or> q = LocalVerify"

definition approval_policy :: "run \<Rightarrow> unattended_policy option" where
  "approval_policy r =
     (case run_runtimeWorkflowProfile r of None \<Rightarrow> None | Some w \<Rightarrow> wp_unattended w)"

definition unattended_reasons :: "approval_input \<Rightarrow> approval_reason list" where
  "unattended_reasons i =
     (let r = ai_run i; policy = approval_policy r; cur = current_commit_evidence r (ai_evidence i) in
      (case policy of
         None \<Rightarrow> [NoPolicy]
       | Some p \<Rightarrow> only_if (\<not> up_autoApprove p) NoAutoApprove @ only_if (\<not> up_autoMerge p) NoAutoMerge @
           only_if (ai_push i \<and> \<not> up_autoPush p) NoAutoPush) @
      only_if (run_stage r \<noteq> Ship) (NotInShip (run_stage r)) @
      concat (map (\<lambda>g. only_if (g \<notin> set (run_completedStages r)) (GateNotCompleted g)) [''understand'', ''implement'']) @
      only_if (\<not> run_pendingApproval r) NotWaiting @
      (case run_terminalState r of None \<Rightarrow> [] | Some t \<Rightarrow> [IsTerminal t]) @
      (case run_blockedReason r of None \<Rightarrow> []
       | Some b \<Rightarrow> only_if (trim b \<noteq> [] \<and> \<not> is_unattended_blocked_reason (Some b)) (IsBlocked b)) @
      only_if (ai_hasOpenDescendants i = Some True) DescendantsActive @
      only_if (is_blank (run_branch r)) MissingBranch @
      only_if (is_blank (run_commitSha r)) MissingCommit @
      only_if (ai_gitClean i \<noteq> Some True)
        (if ai_gitClean i = Some False then WorktreeDirty else GitStateUnknown) @
      untrusted_gate_reasons cur @
      only_if (\<not> has_verification_pass cur) VerificationMissing @
      only_if (\<not> has_review_pass cur) ReviewMissing @
      only_if (has_stop_flag (ai_evidence i) ''security'') SecurityFlagged @
      only_if (has_stop_flag (ai_evidence i) ''scope'') ScopeFlagged @
      budget_reasons r (ai_budget i) @
      (case policy of
         None \<Rightarrow> []
       | Some p \<Rightarrow> only_if (\<not> is_valid_push_requirement (up_pushRequires p)) PushRequirementInvalid) @
      (case policy of
         None \<Rightarrow> []
       | Some p \<Rightarrow>
           if ai_push i \<and> is_valid_push_requirement (up_pushRequires p) then
             (if up_pushRequires p = RemoteCi \<and> \<not> has_remote_ci_pass cur then [RemoteCiNotGreen]
              else only_if (up_pushRequires p = LocalVerify \<and> \<not> has_verification_pass cur) LocalVerifyNotGreen)
           else []))"

definition build_recovery :: "approval_reason list \<Rightarrow> approval_recovery" where
  "build_recovery rs = (if RunBudgetMissing \<in> set rs then ConfigureBudget else FixBlocker)"

definition evaluate_unattended_approval :: "approval_input \<Rightarrow> approval_decision" where
  "evaluate_unattended_approval i =
     (let rs = unattended_reasons i in
      \<lparr>ad_allowed = (length rs = 0), ad_reasons = rs,
       ad_recovery = (if length rs = 0 then Continue else build_recovery rs)\<rparr>)"

subsection \<open>Lineage\<close>

definition is_open_lineage_run :: "run \<Rightarrow> bool" where
  "is_open_lineage_run r \<longleftrightarrow> run_terminalState r = None \<and> run_stage r \<noteq> StageDone"

definition children_of :: "run list \<Rightarrow> string \<Rightarrow> run list" where
  "children_of rs p = filter (\<lambda>r. run_parentRunId r = Some p) rs"

text \<open>The loop over the stack, whose top is its last element. It has no end when a run is its own
  ancestor.\<close>

partial_function (option) collect_open :: "run list \<Rightarrow> run list \<Rightarrow> run list \<Rightarrow> run list option" where
  "collect_open rs stack acc =
     (if stack = [] then Some acc
      else let child = last stack in
        collect_open rs (butlast stack @ children_of rs (run_id child))
          (if is_open_lineage_run child then acc @ [child] else acc))"

definition list_open_descendant_runs :: "run list \<Rightarrow> string \<Rightarrow> run list option" where
  "list_open_descendant_runs rs i = collect_open rs (children_of rs i) []"

definition has_open_descendant_run :: "run list \<Rightarrow> string \<Rightarrow> bool option" where
  "has_open_descendant_run rs i = map_option (\<lambda>xs. 0 < length xs) (list_open_descendant_runs rs i)"

definition is_actionable_approval_run :: "run \<Rightarrow> run list \<Rightarrow> bool option" where
  "is_actionable_approval_run r rs =
     (if run_stage r = Ship \<and> run_pendingApproval r \<and> run_terminalState r = None
      then map_option Not (has_open_descendant_run rs (run_id r)) else Some False)"

subsection \<open>Properties of the policy\<close>

lemma only_if_Nil [simp]: "only_if b x = [] \<longleftrightarrow> \<not> b"
  by (simp add: only_if_def)

lemma set_only_if [simp]: "set (only_if b x) = (if b then {x} else {})"
  by (cases b) (simp_all add: only_if_def)

lemma trusted_with_producer: "is_trusted_payload (with_trusted_producer p who)"
  by (cases who) (simp_all add: is_trusted_payload_def with_trusted_producer_def jis_def jget_def)

text \<open>A single check that passed.\<close>

definition check_green :: "json \<Rightarrow> bool" where
  "check_green c \<longleftrightarrow> is_strict_ci_check c \<and> check_field c ''status'' = Some (JStr ''completed'') \<and>
     check_field c ''conclusion'' = Some (JStr ''success'')"

definition check_red :: "json \<Rightarrow> bool" where
  "check_red c \<longleftrightarrow> \<not> is_strict_ci_check c \<or> (check_field c ''status'' = Some (JStr ''completed'') \<and>
     check_field c ''conclusion'' \<noteq> Some (JStr ''success''))"

lemma classify_checks_iff:
  "classify_checks cs b = CiPass \<longleftrightarrow> \<not> b \<and> (\<forall>c \<in> set cs. check_green c)"
  "classify_checks cs b = CiFail \<longleftrightarrow> (\<exists>c \<in> set cs. check_red c)"
  by (induction cs b rule: classify_checks.induct) (auto simp: check_green_def check_red_def)

text \<open>Strict CI is strict. Check results count as a pass exactly when there is at least one check
  and every check is well formed, completed and successful; they count as a failure exactly when
  some check is malformed or completed without success, however many others are still running; a
  missing or empty list is pending, never a pass.\<close>

theorem strict_ci_classified:
  "(classify_ci_checks v = CiPass \<longleftrightarrow> (\<exists>cs. v = Some (JArr cs) \<and> cs \<noteq> [] \<and> (\<forall>c \<in> set cs. check_green c))) \<and>
   (classify_ci_checks v = CiFail \<longleftrightarrow> (\<exists>cs. v = Some (JArr cs) \<and> (\<exists>c \<in> set cs. check_red c)))"
  by (auto simp: classify_ci_checks_def classify_checks_iff split: option.splits json.splits)

lemma has_verification_pass_iff:
  "has_verification_pass es \<longleftrightarrow> (\<exists>e \<in> set es. is_trusted_payload (ev_payload e) \<and> is_successful_verification e)"
  by (simp add: has_verification_pass_def is_successful_verification_def list_ex_iff Let_def cong: conj_cong)

lemma has_review_pass_iff:
  "has_review_pass es \<longleftrightarrow> (\<exists>e \<in> set es. is_trusted_payload (ev_payload e) \<and> is_successful_review e)"
  by (simp add: has_review_pass_def is_successful_review_def list_ex_iff Let_def cong: conj_cong)

lemma untrusted_gate_reasons_Nil:
  "untrusted_gate_reasons es = [] \<longleftrightarrow> (\<forall>e \<in> set es. untrusted_reasons_of e = [])"
  by (simp add: untrusted_gate_reasons_def)

lemma budget_reasons_Nil:
  "budget_reasons r b = [] \<Longrightarrow> \<exists>x cap. b = Some x \<and> ab_perRunHardUsd x = Some cap \<and> run_costUsd r < cap"
  by (auto simp: budget_reasons_def Let_def split: option.splits)

text \<open>C7: an unattended approval is safe. When the policy allows approving without an operator, the
  workflow profile of the run asks for it; the run is live, in \<open>ship\<close> and waiting, with both gates
  passed, a branch and a commit, a clean worktree and no active descendant; its cost is under a
  configured limit; no security or scope flag was raised; and for exactly its commit there are a
  trusted successful verification and a trusted successful review, no untrusted one, and, when a
  push needs remote CI, a trusted CI result all of whose checks are green.\<close>

theorem unattended_approval_safe:
  assumes "ad_allowed (evaluate_unattended_approval i)" and "r = ai_run i"
  shows "\<exists>p cap b. approval_policy r = Some p \<and> up_autoApprove p \<and> up_autoMerge p \<and>
    (ai_push i \<longrightarrow> up_autoPush p) \<and>
    run_stage r = Ship \<and> {''understand'', ''implement''} \<subseteq> set (run_completedStages r) \<and>
    run_pendingApproval r \<and> run_terminalState r = None \<and> ai_hasOpenDescendants i \<noteq> Some True \<and>
    non_blank (run_branch r) \<and> non_blank (run_commitSha r) \<and> ai_gitClean i = Some True \<and>
    ai_budget i = Some b \<and> ab_perRunHardUsd b = Some cap \<and> run_costUsd r < cap \<and>
    \<not> has_stop_flag (ai_evidence i) ''security'' \<and> \<not> has_stop_flag (ai_evidence i) ''scope'' \<and>
    (\<exists>e \<in> set (ai_evidence i). evidence_commit_sha (ev_payload e) = run_commitSha r \<and>
       is_trusted_payload (ev_payload e) \<and> is_successful_verification e) \<and>
    (\<exists>e \<in> set (ai_evidence i). evidence_commit_sha (ev_payload e) = run_commitSha r \<and>
       is_trusted_payload (ev_payload e) \<and> is_successful_review e) \<and>
    (\<forall>e \<in> set (ai_evidence i). evidence_commit_sha (ev_payload e) = run_commitSha r \<longrightarrow>
       untrusted_reasons_of e = []) \<and>
    (ai_push i \<and> up_pushRequires p = RemoteCi \<longrightarrow>
       (\<exists>e \<in> set (ai_evidence i). evidence_commit_sha (ev_payload e) = run_commitSha r \<and> ev_type e = EvCi \<and>
          is_trusted_payload (ev_payload e) \<and> ci_evidence_has_strict_pass (ev_payload e)))"
proof -
  have nil: "unattended_reasons i = []"
    using assms(1) by (simp add: evaluate_unattended_approval_def Let_def)
  note n = nil [unfolded unattended_reasons_def Let_def append_is_Nil_conv, folded assms(2)]
  have "approval_policy r \<noteq> None" using n [THEN conjunct1] by (intro notI) simp
  then obtain p where p: "approval_policy r = Some p" by blast
  have pol: "up_autoApprove p" "up_autoMerge p" "ai_push i \<longrightarrow> up_autoPush p"
    using n [THEN conjunct1] by (simp_all add: p)
  have blank: "\<not> is_blank (run_commitSha r)" "\<not> is_blank (run_branch r)"
    using n unfolding only_if_Nil by blast+
  have cur: "e \<in> set (current_commit_evidence r (ai_evidence i)) \<longleftrightarrow>
      e \<in> set (ai_evidence i) \<and> evidence_commit_sha (ev_payload e) = run_commitSha r" for e
    using blank by (auto simp: current_commit_evidence_def is_current_commit_evidence_def Let_def)
  have v: "has_verification_pass (current_commit_evidence r (ai_evidence i))"
    and w: "has_review_pass (current_commit_evidence r (ai_evidence i))"
    using n unfolding only_if_Nil by blast+
  have u: "\<forall>e \<in> set (current_commit_evidence r (ai_evidence i)). untrusted_reasons_of e = []"
    using n untrusted_gate_reasons_Nil by blast
  have b: "budget_reasons r (ai_budget i) = []" using n by blast
  obtain bud cap where bud: "ai_budget i = Some bud" "ab_perRunHardUsd bud = Some cap" "run_costUsd r < cap"
    using budget_reasons_Nil [OF b] by blast
  have ci: "has_remote_ci_pass (current_commit_evidence r (ai_evidence i))"
    if "ai_push i" "up_pushRequires p = RemoteCi"
  proof (rule ccontr)
    assume "\<not> has_remote_ci_pass (current_commit_evidence r (ai_evidence i))"
    with n p that show False by (simp add: is_valid_push_requirement_def)
  qed
  have rest: "run_stage r = Ship" "{''understand'', ''implement''} \<subseteq> set (run_completedStages r)"
    "run_pendingApproval r" "run_terminalState r = None" "ai_hasOpenDescendants i \<noteq> Some True"
    "ai_gitClean i = Some True" "\<not> has_stop_flag (ai_evidence i) ''security''"
    "\<not> has_stop_flag (ai_evidence i) ''scope''"
    using n by (simp_all split: option.splits)
  show ?thesis
    using p pol blank v w u bud ci rest cur
    unfolding has_verification_pass_iff has_review_pass_iff is_blank_iff
    by (intro exI [of _ p] exI [of _ cap] exI [of _ bud] conjI) (auto simp: has_remote_ci_pass_def list_ex_iff)
qed

text \<open>The evidence enters the reasons through these; none of them shrinks, and no pass appears, when
  untrusted evidence is added.\<close>

definition with_evidence :: "approval_input \<Rightarrow> evidence list \<Rightarrow> approval_input" where
  "with_evidence i es = i\<lparr>ai_evidence := es\<rparr>"

lemma current_commit_evidence_add:
  "current_commit_evidence r (xs @ x # ys) =
    current_commit_evidence r xs @ (if is_current_commit_evidence r x then [x] else []) @ current_commit_evidence r ys"
  by (simp add: current_commit_evidence_def)

lemma untrusted_no_pass:
  assumes "\<not> is_trusted_payload (ev_payload x)"
  shows "has_verification_pass (current_commit_evidence r (xs @ x # ys)) = has_verification_pass (current_commit_evidence r (xs @ ys))"
    and "has_review_pass (current_commit_evidence r (xs @ x # ys)) = has_review_pass (current_commit_evidence r (xs @ ys))"
    and "has_remote_ci_pass (current_commit_evidence r (xs @ x # ys)) = has_remote_ci_pass (current_commit_evidence r (xs @ ys))"
  using assms
  by (auto simp: has_verification_pass_iff has_review_pass_iff has_remote_ci_pass_def list_ex_iff
      current_commit_evidence_def)

text \<open>C8: untrusted evidence never buys an approval. If the policy allows an unattended approval in the
  presence of a piece of evidence whose payload was not written by a trusted producer, it allows
  it without that piece as well, wherever it stood in the list.\<close>

theorem untrusted_evidence_never_approves:
  assumes "\<not> is_trusted_payload (ev_payload x)"
    and "ad_allowed (evaluate_unattended_approval (with_evidence i (xs @ x # ys)))"
  shows "ad_allowed (evaluate_unattended_approval (with_evidence i (xs @ ys)))"
proof -
  have nil: "unattended_reasons (with_evidence i (xs @ x # ys)) = []"
    using assms(2) by (simp add: evaluate_unattended_approval_def Let_def)
  have flags: "has_stop_flag (xs @ ys) f \<Longrightarrow> has_stop_flag (xs @ x # ys) f" for f
    by (auto simp: has_stop_flag_def)
  have unt: "untrusted_gate_reasons (current_commit_evidence r (xs @ x # ys)) = [] \<Longrightarrow>
      untrusted_gate_reasons (current_commit_evidence r (xs @ ys)) = []" for r
    by (auto simp: untrusted_gate_reasons_Nil current_commit_evidence_def)
  have "unattended_reasons (with_evidence i (xs @ ys)) = []"
    using nil flags unt untrusted_no_pass [OF assms(1)]
    unfolding unattended_reasons_def Let_def append_is_Nil_conv
    by (cases "approval_policy (ai_run i)") (auto simp: with_evidence_def)
  then show ?thesis by (simp add: evaluate_unattended_approval_def Let_def)
qed

subsection \<open>Descendants\<close>

inductive descendant :: "run list \<Rightarrow> string \<Rightarrow> run \<Rightarrow> bool" for rs where
  child: "r \<in> set rs \<Longrightarrow> run_parentRunId r = Some i \<Longrightarrow> descendant rs i r"
| deeper: "q \<in> set rs \<Longrightarrow> run_parentRunId q = Some i \<Longrightarrow> descendant rs (run_id q) r \<Longrightarrow> descendant rs i r"

inductive_simps descendant_iff: "descendant rs i r"

definition parent_graph :: "run list \<Rightarrow> (string \<times> string) set" where
  "parent_graph rs = {(p, run_id r) | p r. r \<in> set rs \<and> run_parentRunId r = Some p}"

definition child_rel :: "run list \<Rightarrow> (run \<times> run) set" where
  "child_rel rs = {(c, p). c \<in> set rs \<and> run_parentRunId c = Some (run_id p)}"

lemma set_children [simp]: "set (children_of rs i) = {r \<in> set rs. run_parentRunId r = Some i}"
  by (auto simp: children_of_def)

lemma finite_parent_graph: "finite (parent_graph rs)"
proof -
  have "parent_graph rs \<subseteq> (\<lambda>r. (the (run_parentRunId r), run_id r)) ` set rs"
    by (force simp: parent_graph_def image_iff)
  then show ?thesis using finite_surj by blast
qed

lemma wf_child_rel:
  assumes "acyclic (parent_graph rs)"
  shows "wf (child_rel rs)"
proof -
  have "finite (parent_graph rs)" by (rule finite_parent_graph)
  then have "wf ((parent_graph rs)\<inverse>)" using assms finite_acyclic_wf_converse by blast
  then have "wf (inv_image ((parent_graph rs)\<inverse>) run_id)" by (rule wf_inv_image)
  moreover have "child_rel rs \<subseteq> inv_image ((parent_graph rs)\<inverse>) run_id"
    by (auto simp: child_rel_def parent_graph_def)
  ultimately show ?thesis by (rule wf_subset)
qed

lemma collect_open_result:
  assumes "wf (child_rel rs)"
  shows "\<exists>xs. collect_open rs stack acc = Some xs \<and>
    set xs = set acc \<union> {r. is_open_lineage_run r \<and> (\<exists>x \<in> set stack. r = x \<or> descendant rs (run_id x) r)}"
  using wf_mult [OF assms]
proof (induction "mset stack" arbitrary: stack acc rule: wf_induct_rule)
  case less
  show ?case
  proof (cases "stack = []")
    case True
    then show ?thesis by (simp add: collect_open.simps)
  next
    case False
    let ?x = "last stack" and ?rest = "butlast stack"
    let ?new = "?rest @ children_of rs (run_id ?x)" and ?acc = "if is_open_lineage_run ?x then acc @ [?x] else acc"
    have split: "stack = ?rest @ [?x]" using False by simp
    have "(mset ?rest + mset (children_of rs (run_id ?x)), mset ?rest + {#?x#}) \<in> mult (child_rel rs)"
      by (rule one_step_implies_mult) (auto simp: child_rel_def)
    then have "(mset ?new, mset stack) \<in> mult (child_rel rs)"
      using arg_cong [OF split, of mset] by simp
    from less [OF this, of ?acc] obtain xs where
      xs: "collect_open rs ?new ?acc = Some xs"
        "set xs = set ?acc \<union> {r. is_open_lineage_run r \<and> (\<exists>x \<in> set ?new. r = x \<or> descendant rs (run_id x) r)}"
      by blast
    have run: "collect_open rs stack acc = Some xs"
      using xs(1) False by (subst collect_open.simps) (simp add: Let_def)
    have "set stack = insert ?x (set ?rest)" using arg_cong [OF split, of set] by simp
    moreover have "(\<exists>x \<in> set (children_of rs (run_id ?x)). r = x \<or> descendant rs (run_id x) r) \<longleftrightarrow>
        descendant rs (run_id ?x) r" for r
      by (subst (2) descendant_iff) auto
    ultimately have "set xs = set acc \<union>
        {r. is_open_lineage_run r \<and> (\<exists>x \<in> set stack. r = x \<or> descendant rs (run_id x) r)}"
      using xs(2) by (auto simp: bex_Un simp del: set_children)
    with run show ?thesis by blast
  qed
qed

text \<open>C29: the open descendants are found, and an approval is actionable only without them. When no run
  is its own ancestor, the search for open descendants ends; it returns exactly the runs below
  the given one, at any depth, that are live; and a run is offered for approval exactly when it
  is live and waiting in \<open>ship\<close> and no run below it is live.\<close>

theorem open_descendants_exact:
  assumes "acyclic (parent_graph rs)"
  shows "(\<exists>xs. list_open_descendant_runs rs i = Some xs \<and>
      set xs = {r. is_open_lineage_run r \<and> descendant rs i r}) \<and>
    is_actionable_approval_run a rs = Some (run_stage a = Ship \<and> run_pendingApproval a \<and>
      run_terminalState a = None \<and> \<not> (\<exists>r. is_open_lineage_run r \<and> descendant rs (run_id a) r))"
proof -
  have found: "\<exists>xs. list_open_descendant_runs rs j = Some xs \<and>
      set xs = {r. is_open_lineage_run r \<and> descendant rs j r}" for j
  proof -
    have "(\<exists>x \<in> set (children_of rs j). r = x \<or> descendant rs (run_id x) r) \<longleftrightarrow> descendant rs j r" for r
      by (subst (2) descendant_iff) auto
    then show ?thesis
      using collect_open_result [OF wf_child_rel [OF assms], of "children_of rs j" "[]"]
      by (auto simp: list_open_descendant_runs_def)
  qed
  from found [of "run_id a"] obtain xs where xs: "list_open_descendant_runs rs (run_id a) = Some xs"
      "set xs = {r. is_open_lineage_run r \<and> descendant rs (run_id a) r}"
    by blast
  then have "(0 < length xs) = (\<exists>r. is_open_lineage_run r \<and> descendant rs (run_id a) r)"
    by (metis (mono_tags, lifting) empty_Collect_eq length_greater_0_conv set_empty)
  then have "is_actionable_approval_run a rs = Some (run_stage a = Ship \<and> run_pendingApproval a \<and>
      run_terminalState a = None \<and> \<not> (\<exists>r. is_open_lineage_run r \<and> descendant rs (run_id a) r))"
    using xs(1) by (auto simp: is_actionable_approval_run_def has_open_descendant_run_def)
  with found [of i] show ?thesis by blast
qed

end
