(* ===== verification/Ship_Gate.thy ===== *)
theory Ship_Gate
  imports Task_Repo
begin

text \<open>
  The last gates before a run ships: the external pull-request review
  (\<open>external-review-gate.ts\<close>) and the recognition of approvals whose branch fell behind
  (\<open>stale-approval.ts\<close>). Whether a project asks for external reviews
  (\<open>project.config.externalReviewRequired === true\<close>) is a parameter: the projects are not tables
  of the state.
\<close>

subsection \<open>External review\<close>

record ship_base =
  sb_blockedReason :: "string option"
  sb_pendingApproval :: bool

record ship_state =
  ss_blockedReason :: "string option"
  ss_pendingApproval :: bool
  ss_externalReviewRequired :: bool

definition is_external_review_required :: "(string \<Rightarrow> bool) \<Rightarrow> store \<Rightarrow> string \<Rightarrow> bool" where
  "is_external_review_required project_requires s tid =
     (case task_get tid s of None \<Rightarrow> False
      | Some t \<Rightarrow> (case spec_get (task_specId t) s of None \<Rightarrow> False
          | Some p \<Rightarrow> project_requires (spec_projectId p)))"

definition missing_link_fields :: "run \<Rightarrow> string list" where
  "missing_link_fields r =
     (if is_blank (run_branch r) then [''branch''] else []) @
     (if is_blank (run_commitSha r) then [''commitSha''] else []) @
     (if is_blank (run_prUrl r) then [''prUrl''] else [])"

definition failed_checks :: "run \<Rightarrow> string list" where
  "failed_checks r =
     (if run_ciStatus r = Some LatchFail then [''external CI''] else []) @
     (if run_reviewStatus r = Some LatchFail then [''external GitHub review''] else [])"

definition waiting_checks :: "run \<Rightarrow> string list" where
  "waiting_checks r =
     (if run_ciStatus r \<noteq> Some LatchPass then [''external CI''] else []) @
     (if run_reviewStatus r \<noteq> Some LatchPass then [''external GitHub review''] else [])"

definition join_with_and :: "string list \<Rightarrow> string" where
  "join_with_and items =
     (if length items \<le> 1 then (case items of [] \<Rightarrow> [] | x # _ \<Rightarrow> x)
      else if length items = 2 then items ! 0 @ '' and '' @ items ! 1
      else join_strings '', '' (butlast items) @ '', and '' @ last items)"

definition derive_ship_state :: "(string \<Rightarrow> bool) \<Rightarrow> store \<Rightarrow> string \<Rightarrow> ship_base \<Rightarrow> ship_state" where
  "derive_ship_state project_requires s i base =
     (case run_get i s of
        None \<Rightarrow> \<lparr>ss_blockedReason = sb_blockedReason base, ss_pendingApproval = sb_pendingApproval base,
                 ss_externalReviewRequired = False\<rparr>
      | Some r \<Rightarrow>
          let required = is_external_review_required project_requires s (run_taskId r);
              missing = missing_link_fields r; failed = failed_checks r; waiting = waiting_checks r;
              pass = \<lparr>ss_blockedReason = sb_blockedReason base, ss_pendingApproval = sb_pendingApproval base,
                      ss_externalReviewRequired = required\<rparr>;
              block = (\<lambda>why. \<lparr>ss_blockedReason = Some why, ss_pendingApproval = False,
                      ss_externalReviewRequired = required\<rparr>) in
          if \<not> required \<or> run_stage r \<noteq> Ship then pass
          else if 0 < length missing
          then block (''External PR review required before ship: missing '' @ join_with_and missing @ ''.'')
          else if 0 < length failed then block (''External PR review failed: '' @ join_with_and failed @ ''.'')
          else if 0 < length waiting
          then block (''External PR review required before ship: waiting for '' @ join_with_and waiting @ ''.'')
          else pass)"

subsection \<open>Stale approvals\<close>

definition stale_lead :: string where
  "stale_lead = ''merge approval blocked: branch \"''"

definition stale_middle :: string where
  "stale_middle = ''\" does not contain current ''"

definition build_stale_approval_failure_reason :: "string \<Rightarrow> string \<Rightarrow> string" where
  "build_stale_approval_failure_reason branch base =
     stale_lead @ branch @ stale_middle @ base @
     ''; deny this approval, then retry the run after rebasing and re-running verification before approval''"

text \<open>
  One attempt of the pattern at the start of a text: the lead, a non-empty run of characters other
  than a quote, the middle, and a non-empty run of characters other than a semicolon, which then
  always ends at a semicolon or at the end of the text. The optional prefix of the pattern
  (\<open>merge failed:\<close> and spaces, at the start of the text) changes where a match begins but not its
  groups, since no attempt without it succeeds earlier.
\<close>

definition match_stale_here :: "string \<Rightarrow> (string \<times> string) option" where
  "match_stale_here x =
     (if \<not> starts_with stale_lead x then None
      else let y = drop (length stale_lead) x;
               branch = takeWhile (\<lambda>c. c \<noteq> CHR 0x22) y;
               z = dropWhile (\<lambda>c. c \<noteq> CHR 0x22) y in
        if branch = [] \<or> \<not> starts_with stale_middle z then None
        else let base = takeWhile (\<lambda>c. c \<noteq> CHR '';'') (drop (length stale_middle) z) in
          if base = [] then None else Some (branch, base))"

fun match_stale :: "string \<Rightarrow> (string \<times> string) option" where
  "match_stale [] = match_stale_here []"
| "match_stale (c # cs) =
     (case match_stale_here (c # cs) of None \<Rightarrow> match_stale cs | Some m \<Rightarrow> Some m)"

definition parse_stale_approval_failure_reason :: "string option \<Rightarrow> (string \<times> string) option" where
  "parse_stale_approval_failure_reason reason =
     (case reason of
        None \<Rightarrow> None
      | Some x \<Rightarrow>
          (case match_stale x of
             None \<Rightarrow> None
           | Some (branch, base) \<Rightarrow>
               if trim branch = [] \<or> trim base = [] then None else Some (trim branch, trim base)))"

definition is_stale_approval_failure_reason :: "string option \<Rightarrow> bool" where
  "is_stale_approval_failure_reason reason \<longleftrightarrow> parse_stale_approval_failure_reason reason \<noteq> None"

text \<open>\<open>details?.branch?.trim()\<close> that is not empty.\<close>

definition present :: "string option \<Rightarrow> string option" where
  "present v = (case v of None \<Rightarrow> None | Some x \<Rightarrow> if trim x = [] then None else Some (trim x))"

definition build_stale_approval_deny_reason :: "string option \<Rightarrow> string option \<Rightarrow> string" where
  "build_stale_approval_deny_reason branch base =
     (case (present branch, present base) of
        (Some b, Some t) \<Rightarrow> ''stale approval: branch '' @ b @ '' no longer contains current '' @ t
      | (Some b, None) \<Rightarrow> ''stale approval: branch '' @ b @ '' no longer contains current base branch''
      | (None, Some t) \<Rightarrow> ''stale approval: branch no longer contains current '' @ t
      | (None, None) \<Rightarrow> ''stale approval: branch no longer contains current base branch'')"

definition is_stale_approval_run :: "run \<Rightarrow> bool" where
  "is_stale_approval_run r \<longleftrightarrow>
     run_stage r = Ship \<and> run_pendingApproval r \<and> run_terminalState r = None \<and>
     is_stale_approval_failure_reason (run_failReason r)"

subsection \<open>Properties of the gates\<close>


lemma takeWhile_until: "c \<notin> set xs \<Longrightarrow> takeWhile (\<lambda>x. x \<noteq> c) (xs @ c # ys) = xs"
  by (induction xs) auto

lemma dropWhile_until: "c \<notin> set xs \<Longrightarrow> dropWhile (\<lambda>x. x \<noteq> c) (xs @ c # ys) = c # ys"
  by (induction xs) auto

lemma match_stale_first: "match_stale_here x = Some m \<Longrightarrow> match_stale x = Some m"
  by (cases x) simp_all

lemma match_stale_here_built:
  assumes "CHR 0x22 \<notin> set branch" "branch \<noteq> []" "CHR '';'' \<notin> set base" "base \<noteq> []"
  shows "match_stale_here (stale_lead @ branch @ stale_middle @ base @ CHR '';'' # rest) = Some (branch, base)"
proof -
  have m: "stale_middle = CHR 0x22 # '' does not contain current ''" by (simp add: stale_middle_def)
  let ?y = "branch @ stale_middle @ base @ CHR '';'' # rest"
  have t: "takeWhile (\<lambda>c. c \<noteq> CHR 0x22) ?y = branch" "dropWhile (\<lambda>c. c \<noteq> CHR 0x22) ?y = stale_middle @ base @ CHR '';'' # rest"
    unfolding m append_Cons by (rule takeWhile_until [OF assms(1)], rule dropWhile_until [OF assms(1)])
  have u: "takeWhile (\<lambda>c. c \<noteq> CHR '';'') (base @ CHR '';'' # rest) = base"
    using assms(3) by (rule takeWhile_until)
  show ?thesis
    using assms(2,4) unfolding match_stale_here_def starts_with_append if_not_P append_eq_conv_conj
    by (simp add: t u Let_def)
qed

text \<open>The stale-approval message can be read back. Parsing the message built for a branch and a base
  gives their trimmed names back, for every branch name without a double quote and base name
  without a semicolon that are not blank; so such a failure is always recognised as stale.\<close>

lemma stale_reason_roundtrip:
  assumes "CHR 0x22 \<notin> set branch" and "CHR '';'' \<notin> set base" and "trim branch \<noteq> []" and "trim base \<noteq> []"
  shows "parse_stale_approval_failure_reason (Some (build_stale_approval_failure_reason branch base)) =
      Some (trim branch, trim base) \<and>
    is_stale_approval_failure_reason (Some (build_stale_approval_failure_reason branch base))"
proof -
  have ne: "branch \<noteq> []" "base \<noteq> []" using assms(3,4) by (auto simp: trim_eq_Nil_iff)
  have "match_stale (build_stale_approval_failure_reason branch base) = Some (branch, base)"
    using match_stale_first [OF match_stale_here_built [OF assms(1) ne(1) assms(2) ne(2)]]
    by (simp add: build_stale_approval_failure_reason_def)
  then show ?thesis
    using assms(3,4) by (simp add: parse_stale_approval_failure_reason_def is_stale_approval_failure_reason_def)
qed

end
