(* ===== verification/Gate_Witnesses.thy ===== *)
theory Gate_Witnesses
  imports Samples Approval Ship_Gate
begin

text \<open>
  The properties of the approval policy and the ship gate at concrete inputs: a run in \<open>ship\<close> with
  one trusted verification and one trusted review of its commit.
\<close>

definition trusted_evidence :: "string \<Rightarrow> evidence_type \<Rightarrow> evidence" where
  "trusted_evidence i ty =
     \<lparr>ev_id = i, ev_runId = ''run1'', ev_type = ty,
      ev_payload = with_trusted_producer [(''passed'', JBool True), (''commitSha'', JStr ''c0ffee'')] RuntimeProducer,
      ev_createdAt = Some 10\<rparr>"

definition forged_evidence :: evidence where
  "forged_evidence =
     \<lparr>ev_id = ''e9'', ev_runId = ''run1'', ev_type = EvCustom, ev_payload = [(''note'', JStr ''looks good'')],
      ev_createdAt = Some 10\<rparr>"

definition auto_profile :: workflow_profile where
  "auto_profile =
     \<lparr>wp_id = ''wp1'', wp_name = ''auto'', wp_projectId = None, wp_path = [], wp_description = None,
      wp_unattended = Some \<lparr>up_autoApprove = True, up_autoMerge = True, up_autoPush = False, up_pushRequires = LocalVerify\<rparr>,
      wp_renderedWorkflow = None, wp_setupCommands = None, wp_verifyCommands = None, wp_preflight = None\<rparr>"

definition waiting_run :: run where
  "waiting_run = (sample_run ''run1'')\<lparr>run_stage := Ship, run_pendingApproval := True,
     run_completedStages := [''understand'', ''implement''], run_branch := Some ''feat'',
     run_commitSha := Some ''c0ffee'', run_prUrl := Some ''https://x'', run_ciStatus := Some LatchPass,
     run_reviewStatus := Some LatchPass, run_runtimeWorkflowProfile := Some auto_profile, run_costUsd := 1\<rparr>"

definition waiting_input :: approval_input where
  "waiting_input =
     \<lparr>ai_run = waiting_run, ai_evidence = [trusted_evidence ''e1'' EvTest, forged_evidence, trusted_evidence ''e2'' EvReview],
      ai_push = False,
      ai_budget = Some \<lparr>ab_perRunHardUsd = Some 5, ab_perSpecHardUsd = None, ab_specCostUsd = None\<rparr>,
      ai_hasOpenDescendants = Some False, ai_gitClean = Some True\<rparr>"

lemma waiting_input_allowed: "ad_allowed (evaluate_unattended_approval waiting_input)"
  by code_simp

definition green_check :: json where
  "green_check = JObj [(''status'', JStr ''completed''), (''conclusion'', JStr ''success'')]"

lemma unattended_approval_safe_witness:
  "\<exists>p cap. approval_policy (ai_run waiting_input) = Some p \<and> up_autoApprove p \<and> up_autoMerge p \<and>
     map_option ab_perRunHardUsd (ai_budget waiting_input) = Some (Some cap) \<and> run_costUsd (ai_run waiting_input) < cap"
proof -
  note safe = unattended_approval_safe [OF waiting_input_allowed refl]
  show ?thesis using safe by (elim exE conjE) simp
qed

lemma strict_ci_classified_witness:
  "classify_ci_checks (Some (JArr [green_check, green_check])) = CiPass \<and>
   classify_ci_checks (Some (JArr [green_check, JNull])) = CiFail"
proof
  have "check_green green_check" by code_simp
  then show "classify_ci_checks (Some (JArr [green_check, green_check])) = CiPass"
    using strict_ci_classified [of "Some (JArr [green_check, green_check])"] by simp
  have "check_red JNull" by code_simp
  then show "classify_ci_checks (Some (JArr [green_check, JNull])) = CiFail"
    using strict_ci_classified [of "Some (JArr [green_check, JNull])"] by simp
qed

lemma untrusted_evidence_never_approves_witness:
  "ad_allowed (evaluate_unattended_approval
     (with_evidence waiting_input ([trusted_evidence ''e1'' EvTest] @ [trusted_evidence ''e2'' EvReview])))"
proof (rule untrusted_evidence_never_approves [where x = forged_evidence])
  show "\<not> is_trusted_payload (ev_payload forged_evidence)" by code_simp
  show "ad_allowed (evaluate_unattended_approval (with_evidence waiting_input
      ([trusted_evidence ''e1'' EvTest] @ forged_evidence # [trusted_evidence ''e2'' EvReview])))"
    by code_simp
qed

definition family :: "run list" where
  "family = [sample_run ''r1'', (sample_run ''r2'')\<lparr>run_parentRunId := Some ''r1''\<rparr>]"

lemma open_descendants_exact_witness:
  "\<exists>xs. list_open_descendant_runs family ''r1'' = Some xs \<and>
     set xs = {r. is_open_lineage_run r \<and> descendant family ''r1'' r}"
proof -
  have "acyclic (parent_graph family)"
    by (rule acyclic_subset [of "{(''r1'', ''r2'')}"])
       (auto simp: acyclic_def trancl_insert parent_graph_def family_def sample_run_def)
  then show ?thesis using open_descendants_exact by blast
qed


lemma stale_reason_roundtrip_witness:
  "parse_stale_approval_failure_reason (Some (build_stale_approval_failure_reason ''feat/x'' ''main'')) =
     Some (trim ''feat/x'', trim ''main'')"
proof -
  have "CHR 0x22 \<notin> set ''feat/x''" "CHR '';'' \<notin> set ''main''" by simp_all
  moreover have "trim ''feat/x'' \<noteq> []" "trim ''main'' \<noteq> []" by code_simp+
  ultimately show ?thesis using stale_reason_roundtrip by blast
qed

end
