(* ===== verification/Regex.thy ===== *)
theory Regex
  imports Prelude
begin

text \<open>
  JavaScript's regular expressions, as far as the code uses them: a backtracking matcher that
  tries alternatives in order and greedy repetitions longest first, with capture groups, back
  references, lookahead, word boundaries and the flags \<open>i\<close> and \<open>m\<close>. A pattern of the source is
  written down as its own text and read by \<open>rx\<close>, so it can be compared with the source character by
  character (a backslash is doubled, as everywhere in a quoted string).

  All patterns of the code are ASCII, so ignoring case means folding the ASCII letters.
\<close>

subsection \<open>Expressions\<close>

datatype cls = One char | Range char char | DigitC | WordC | SpaceC | NonSpaceC | AnyC

datatype rx =
    Eps
  | Cls bool "cls list"
  | Seq rx rx
  | Alt rx rx
  | Rep nat "nat option" bool rx
  | Grp nat rx
  | Back nat
  | WordB
  | Bol
  | Eol
  | Ahead bool rx

abbreviation never :: rx where
  "never \<equiv> Cls False []"

definition is_line_end :: "char \<Rightarrow> bool" where
  "is_line_end c \<longleftrightarrow> c = CHR 0x0A \<or> c = CHR 0x0D"

fun in_cls :: "cls \<Rightarrow> char \<Rightarrow> bool" where
  "in_cls (One a) c = (a = c)"
| "in_cls (Range a b) c = in_range a b c"
| "in_cls DigitC c = is_digit c"
| "in_cls WordC c = is_word c"
| "in_cls SpaceC c = is_js_space c"
| "in_cls NonSpaceC c = (\<not> is_js_space c)"
| "in_cls AnyC c = (\<not> is_line_end c)"

definition in_set :: "bool \<Rightarrow> cls list \<Rightarrow> char \<Rightarrow> bool" where
  "in_set ci cs c \<longleftrightarrow> list_ex (\<lambda>k. in_cls k c \<or> ci \<and> (in_cls k (to_lower c) \<or> in_cls k (to_upper c))) cs"

subsection \<open>Matching\<close>

text \<open>
  A position is the text before it, reversed, the text after it, and the groups captured so far,
  latest first. \<open>ends\<close> lists every position at which a match that starts at the given one can end,
  in the order in which the backtracking matcher tries them; the match is the first.
\<close>

type_synonym pos = "string \<times> string \<times> (nat \<times> string) list"

definition rest :: "pos \<Rightarrow> string" where
  "rest p = fst (snd p)"

lemma rest_simps [simp]: "rest (b, s, c) = s"
  by (simp add: rest_def)

record flags =
  fl_i :: bool
  fl_m :: bool

text \<open>A fixed number of iterations, then at most so many optional ones, each of which must consume.\<close>

fun times :: "(pos \<Rightarrow> pos list) \<Rightarrow> nat \<Rightarrow> pos \<Rightarrow> pos list" where
  "times f 0 p = [p]"
| "times f (Suc n) p = concat (map (times f n) (f p))"

fun upto_times :: "(pos \<Rightarrow> pos list) \<Rightarrow> bool \<Rightarrow> nat \<Rightarrow> pos \<Rightarrow> pos list" where
  "upto_times f greedy 0 p = [p]"
| "upto_times f greedy (Suc n) p =
     (let more = concat (map (\<lambda>q. if length (rest q) < length (rest p) then upto_times f greedy n q else []) (f p))
      in if greedy then more @ [p] else p # more)"

definition word_at :: "string \<Rightarrow> bool" where
  "word_at s = (case s of [] \<Rightarrow> False | c # _ \<Rightarrow> is_word c)"

definition line_at :: "string \<Rightarrow> bool" where
  "line_at s = (case s of [] \<Rightarrow> True | c # _ \<Rightarrow> is_line_end c)"

definition capture :: "nat \<Rightarrow> (nat \<times> string) list \<Rightarrow> string" where
  "capture k cs = (case map_of cs k of None \<Rightarrow> [] | Some s \<Rightarrow> s)"

primrec ends :: "flags \<Rightarrow> rx \<Rightarrow> pos \<Rightarrow> pos list" where
  "ends fl Eps = (\<lambda>p. [p])"
| "ends fl (Cls neg cs) = (\<lambda>(b, s, c). case s of [] \<Rightarrow> []
     | x # xs \<Rightarrow> if in_set (fl_i fl) cs x \<noteq> neg then [(x # b, xs, c)] else [])"
| "ends fl (Seq r q) = (\<lambda>p. concat (map (ends fl q) (ends fl r p)))"
| "ends fl (Alt r q) = (\<lambda>p. ends fl r p @ ends fl q p)"
| "ends fl (Rep lo hi greedy r) = (\<lambda>p. concat (map
     (\<lambda>q. upto_times (ends fl r) greedy (case hi of None \<Rightarrow> length (rest q) | Some h \<Rightarrow> h - lo) q)
     (times (ends fl r) lo p)))"
| "ends fl (Grp k r) = (\<lambda>(b, s, c). map
     (\<lambda>(b', s', c'). (b', s', (k, take (length s - length s') s) # c')) (ends fl r (b, s, c)))"
| "ends fl (Back k) = (\<lambda>(b, s, c). let v = capture k c in
     if take (length v) s = v then [(rev v @ b, drop (length v) s, c)] else [])"
| "ends fl WordB = (\<lambda>(b, s, c). if word_at b \<noteq> word_at s then [(b, s, c)] else [])"
| "ends fl Bol = (\<lambda>(b, s, c). if b = [] \<or> fl_m fl \<and> line_at b then [(b, s, c)] else [])"
| "ends fl Eol = (\<lambda>(b, s, c). if s = [] \<or> fl_m fl \<and> line_at s then [(b, s, c)] else [])"
| "ends fl (Ahead want r) = (\<lambda>p. if (ends fl r p \<noteq> []) = want then [p] else [])"

text \<open>The first match at or after a position: the text before it, reversed, and where it ends.\<close>

fun search :: "flags \<Rightarrow> rx \<Rightarrow> string \<Rightarrow> string \<Rightarrow> (string \<times> string \<times> pos) option" where
  "search fl r b [] = (case ends fl r (b, [], []) of [] \<Rightarrow> None | p # _ \<Rightarrow> Some (b, [], p))"
| "search fl r b (x # xs) =
     (case ends fl r (b, x # xs, []) of [] \<Rightarrow> search fl r (x # b) xs | p # _ \<Rightarrow> Some (b, x # xs, p))"

definition test :: "flags \<Rightarrow> rx \<Rightarrow> string \<Rightarrow> bool" where
  "test fl r s \<longleftrightarrow> search fl r [] s \<noteq> None"

text \<open>\<open>match(re)\<close> of a pattern without the flag \<open>g\<close>: the groups, group 0 being the whole match.\<close>

definition match_groups :: "flags \<Rightarrow> rx \<Rightarrow> string \<Rightarrow> (nat \<times> string) list option" where
  "match_groups fl r s = (case search fl r [] s of None \<Rightarrow> None
     | Some (b, u, (b', u', c)) \<Rightarrow> Some ((0, take (length u - length u') u) # c))"

subsection \<open>A match consumes text\<close>

definition forward :: "(pos \<Rightarrow> pos list) \<Rightarrow> bool" where
  "forward f \<longleftrightarrow> (\<forall>b s c b' s' c'. (b', s', c') \<in> set (f (b, s, c)) \<longrightarrow>
     rev b' @ s' = rev b @ s \<and> length s' \<le> length s)"

lemma forwardD:
  assumes "forward f" "(b', s', c') \<in> set (f (b, s, c))"
  shows "rev b' @ s' = rev b @ s" "length s' \<le> length s"
  using assms unfolding forward_def by blast+

lemma forward_times: "forward f \<Longrightarrow> forward (times f n)"
proof (induction n)
  case (Suc n)
  then show ?case by (fastforce simp: forward_def)
qed (simp add: forward_def)

lemma forward_upto_times: "forward f \<Longrightarrow> forward (upto_times f g n)"
proof (induction n)
  case (Suc n)
  have f: "rev b2 @ s2 = rev b @ s \<and> length s2 \<le> length s"
    if "(b1, s1, c1) \<in> set (f (b, s, c))" "(b2, s2, c2) \<in> set (upto_times f g n (b1, s1, c1))"
    for b s c b1 s1 c1 b2 s2 c2
    using forwardD [OF Suc.prems that(1)] forwardD [OF Suc.IH [OF Suc.prems] that(2)] by simp
  show ?case
    unfolding forward_def by (auto simp: Let_def dest!: f split: if_splits)
qed (simp add: forward_def)

lemma forward_ends: "forward (ends fl r)"
proof (induction r)
  case (Cls neg cs)
  then show ?case by (auto simp: forward_def split: list.splits)
next
  case (Seq r q)
  have "rev b2 @ s2 = rev b @ s \<and> length s2 \<le> length s"
    if "(b1, s1, c1) \<in> set (ends fl r (b, s, c))" "(b2, s2, c2) \<in> set (ends fl q (b1, s1, c1))"
    for b s c b1 s1 c1 b2 s2 c2
    using forwardD [OF Seq.IH(1) that(1)] forwardD [OF Seq.IH(2) that(2)] by simp
  then show ?case unfolding forward_def by auto
next
  case (Alt r q)
  then show ?case unfolding forward_def by simp blast
next
  case (Rep lo hi g r)
  have f: "rev b2 @ s2 = rev b @ s \<and> length s2 \<le> length s"
    if "(b1, s1, c1) \<in> set (times (ends fl r) lo (b, s, c))"
      "(b2, s2, c2) \<in> set (upto_times (ends fl r) g n (b1, s1, c1))" for b s c b1 s1 c1 b2 s2 c2 n
    using forwardD [OF forward_times [OF Rep] that(1)] forwardD [OF forward_upto_times [OF Rep] that(2)]
    by simp
  show ?case unfolding forward_def by (auto dest!: f)
next
  case (Grp k r)
  then show ?case unfolding forward_def by fastforce
next
  case (Back k)
  then show ?case
    by (auto simp: forward_def Let_def) (metis append_take_drop_id)
qed (auto simp: forward_def)

lemma search_Some:
  "search fl r b s = Some (b', s', q) \<Longrightarrow>
   rev b' @ s' = rev b @ s \<and> length s' \<le> length s \<and> q \<in> set (ends fl r (b', s', []))"
  by (induction fl r b s rule: search.induct) (auto split: list.splits)

lemma search_rest:
  assumes "search fl r b s = Some (b0, s0, (b1, s1, c))"
  shows "length s0 \<le> length s" "length s1 \<le> length s0" "rev b0 @ s0 = rev b @ s" "rev b1 @ s1 = rev b @ s"
  using search_Some [OF assms] forwardD [OF forward_ends, of b1 s1 c fl r b0 s0 "[]"] by auto

lemma split_Cons_all:
  "(\<forall>u v. x # xs = u @ v \<longrightarrow> P u v) \<longleftrightarrow> P [] (x # xs) \<and> (\<forall>u v. xs = u @ v \<longrightarrow> P (x # u) v)"
  by (auto simp: Cons_eq_append_conv)

lemma search_within: "search fl r b s = Some (b0, s0, (b1, s1, c)) \<Longrightarrow> length s1 \<le> length s0 \<and> length s0 \<le> length s"
  by (simp add: search_rest(1,2))

lemma search_None_iff:
  "search fl r b s = None \<longleftrightarrow> (\<forall>u v. s = u @ v \<longrightarrow> ends fl r (rev u @ b, v, []) = [])"
proof (induction fl r b s rule: search.induct)
  case (2 fl r b x xs)
  then show ?case unfolding split_Cons_all by (cases "ends fl r (b, x # xs, [])") simp_all
qed (auto split: list.splits)

text \<open>A pattern matches somewhere in a text when it matches at one of its positions.\<close>

lemma test_iff: "test fl r s \<longleftrightarrow> (\<exists>u v. s = u @ v \<and> ends fl r (rev u, v, []) \<noteq> [])"
  using search_None_iff [of fl r "[]" s] by (auto simp: test_def)

text \<open>An unbounded repetition needs no more optional iterations than there are characters left.\<close>

lemma upto_times_enough:
  "length (rest p) \<le> n \<Longrightarrow> n \<le> m \<Longrightarrow> upto_times f g m p = upto_times f g n p"
proof (induction n arbitrary: p m)
  case 0
  then have "rest p = []" by simp
  then show ?case by (cases m) (auto simp: Let_def concat_eq_Nil_conv)
next
  case (Suc n)
  then obtain k where k: "m = Suc k" "n \<le> k" by (cases m) auto
  have "(if length (rest q) < length (rest p) then upto_times f g k q else []) =
      (if length (rest q) < length (rest p) then upto_times f g n q else [])" for q
    using Suc.IH [of q k] Suc.prems(1) k(2) by auto
  then show ?case by (simp add: k(1) cong: if_cong)
qed

subsection \<open>Replacing\<close>

text \<open>
  \<open>replace\<close> with a function: it gets the text before the match (reversed), the groups and the text
  after it. With the flag \<open>g\<close> the search goes on where the match ended, one character later when
  the match was empty.
\<close>

type_synonym replacer = "string \<Rightarrow> (nat \<times> string) list \<Rightarrow> string \<Rightarrow> string"

function replace_from :: "flags \<Rightarrow> rx \<Rightarrow> replacer \<Rightarrow> string \<Rightarrow> string \<Rightarrow> string" where
  "replace_from fl r f b s =
     (case search fl r b s of None \<Rightarrow> s
      | Some (b0, s0, (b1, s1, c)) \<Rightarrow>
          take (length s - length s0) s @
          f b0 ((0, take (length s0 - length s1) s0) # c) s1 @
          (if length s1 < length s0 then replace_from fl r f b1 s1
           else case s1 of [] \<Rightarrow> [] | x # xs \<Rightarrow> x # replace_from fl r f (x # b1) xs))"
  by pat_completeness auto

termination
  by (relation "measure (\<lambda>(fl, r, f, b, s). length s)") (auto dest!: search_within)

declare replace_from.simps [simp del]

definition replace_all :: "flags \<Rightarrow> rx \<Rightarrow> replacer \<Rightarrow> string \<Rightarrow> string" where
  "replace_all fl r f s = replace_from fl r f [] s"

definition replace_first :: "flags \<Rightarrow> rx \<Rightarrow> replacer \<Rightarrow> string \<Rightarrow> string" where
  "replace_first fl r f s =
     (case search fl r [] s of None \<Rightarrow> s
      | Some (b0, s0, (b1, s1, c)) \<Rightarrow> rev b0 @ f b0 ((0, take (length s0 - length s1) s0) # c) s1 @ s1)"

abbreviation remove :: replacer where
  "remove \<equiv> \<lambda>b g a. []"

function matches_from :: "flags \<Rightarrow> rx \<Rightarrow> string \<Rightarrow> string \<Rightarrow> (nat \<times> string) list list" where
  "matches_from fl r b s =
     (case search fl r b s of None \<Rightarrow> []
      | Some (b0, s0, (b1, s1, c)) \<Rightarrow>
          ((0, take (length s0 - length s1) s0) # c) #
          (if length s1 < length s0 then matches_from fl r b1 s1
           else case s1 of [] \<Rightarrow> [] | x # xs \<Rightarrow> matches_from fl r (x # b1) xs))"
  by pat_completeness auto

termination
  by (relation "measure (\<lambda>(fl, r, b, s). length s)") (auto dest!: search_within)

declare matches_from.simps [simp del]

definition match_all :: "flags \<Rightarrow> rx \<Rightarrow> string \<Rightarrow> (nat \<times> string) list list" where
  "match_all fl r s = matches_from fl r [] s"

text \<open>\<open>exec\<close> of a pattern with the flag \<open>g\<close> until it finds nothing: where the matches begin and end, and
  their groups. An empty match makes such a loop run for ever in the code; the callers' patterns have
  none, and here the search goes on one character later.\<close>

function spans_from :: "flags \<Rightarrow> rx \<Rightarrow> string \<Rightarrow> string \<Rightarrow> (nat \<times> nat \<times> (nat \<times> string) list) list" where
  "spans_from fl r b s =
     (case search fl r b s of None \<Rightarrow> []
      | Some (b0, s0, (b1, s1, c)) \<Rightarrow>
          (length b0, length b1, c) #
          (if length s1 < length s0 then spans_from fl r b1 s1
           else case s1 of [] \<Rightarrow> [] | x # xs \<Rightarrow> spans_from fl r (x # b1) xs))"
  by pat_completeness auto

termination
  by (relation "measure (\<lambda>(fl, r, b, s). length s)") (auto dest!: search_within)

declare spans_from.simps [simp del]

text \<open>A text in which the pattern does not occur is returned unchanged.\<close>

lemma replace_all_none: "\<not> test fl r s \<Longrightarrow> replace_all fl r f s = s"
  unfolding replace_all_def test_def by (subst replace_from.simps, cases "search fl r [] s") simp_all

lemma replace_first_none: "\<not> test fl r s \<Longrightarrow> replace_first fl r f s = s"
  by (cases "search fl r [] s") (simp_all add: replace_first_def test_def)

subsection \<open>Reading a pattern\<close>

text \<open>
  The grammar of the patterns: alternatives, concatenation, the quantifiers \<open>* + ? {n} {n,} {n,m}\<close>
  and their lazy forms, groups, lookahead, classes with ranges and escapes. Groups are numbered
  from 1 by their opening bracket. The readers take fuel, one unit per nested call; the length of
  the pattern times three is enough, and \<open>rx_ok\<close> says that a pattern was read to its end.
\<close>

definition escape_cls :: "char \<Rightarrow> bool \<times> cls list" where
  "escape_cls c =
     (if c = CHR ''d'' then (False, [DigitC]) else if c = CHR ''w'' then (False, [WordC])
      else if c = CHR ''s'' then (False, [SpaceC]) else if c = CHR ''S'' then (True, [SpaceC])
      else if c = CHR ''n'' then (False, [One (CHR 0x0A)]) else if c = CHR ''r'' then (False, [One (CHR 0x0D)])
      else if c = CHR ''t'' then (False, [One (CHR 0x09)]) else (False, [One c]))"

text \<open>The text after an expected character.\<close>

definition past :: "char \<Rightarrow> string \<Rightarrow> string option" where
  "past c s = (case s of [] \<Rightarrow> None | x # t \<Rightarrow> if x = c then Some t else None)"

definition more_items :: "cls list \<Rightarrow> (cls list \<times> string) option \<Rightarrow> (cls list \<times> string) option" where
  "more_items cs v = map_option (\<lambda>(ds, t). (cs @ ds, t)) v"

fun read_items :: "string \<Rightarrow> (cls list \<times> string) option" where
  "read_items [] = None"
| "read_items (a # s) =
     (if a = CHR '']'' then Some ([], s)
      else if a = CHR 0x60 then
        (case s of [] \<Rightarrow> None
         | c # t \<Rightarrow> more_items (if c = CHR ''S'' then [NonSpaceC] else snd (escape_cls c)) (read_items t))
      else (case s of
          d # b # t \<Rightarrow>
            if d = CHR ''-'' \<and> b \<noteq> CHR '']'' then more_items [Range a b] (read_items t)
            else more_items [One a] (read_items s)
        | _ \<Rightarrow> more_items [One a] (read_items s)))"

definition read_class :: "string \<Rightarrow> (rx \<times> string) option" where
  "read_class s = (case past (CHR ''^'') s of
       Some t \<Rightarrow> map_option (\<lambda>(cs, u). (Cls True cs, u)) (read_items t)
     | None \<Rightarrow> map_option (\<lambda>(cs, u). (Cls False cs, u)) (read_items s))"

definition digit_value :: "char \<Rightarrow> nat" where
  "digit_value c = nat (code_unit c - 48)"

definition read_nat :: "string \<Rightarrow> nat" where
  "read_nat s = foldl (\<lambda>n c. 10 * n + digit_value c) 0 s"

definition read_bounds :: "string \<Rightarrow> (nat \<times> nat option \<times> string) option" where
  "read_bounds s =
     (let d = takeWhile is_digit s; t = dropWhile is_digit s in
      if d = [] then None
      else case past (CHR 0x7D) t of
          Some u \<Rightarrow> Some (read_nat d, Some (read_nat d), u)
        | None \<Rightarrow>
            (case past (CHR '','') t of None \<Rightarrow> None
             | Some u \<Rightarrow>
                 let e = takeWhile is_digit u in
                 map_option (\<lambda>v. (read_nat d, if e = [] then None else Some (read_nat e), v))
                   (past (CHR 0x7D) (dropWhile is_digit u))))"

definition read_lazy :: "nat \<Rightarrow> nat option \<Rightarrow> rx \<Rightarrow> string \<Rightarrow> rx \<times> string" where
  "read_lazy lo hi r s = (case past (CHR ''?'') s of Some t \<Rightarrow> (Rep lo hi False r, t) | None \<Rightarrow> (Rep lo hi True r, s))"

definition read_quantifier :: "rx \<Rightarrow> string \<Rightarrow> rx \<times> string" where
  "read_quantifier r s = (case s of [] \<Rightarrow> (r, s)
     | c # t \<Rightarrow>
         if c = CHR ''*'' then read_lazy 0 None r t
         else if c = CHR ''+'' then read_lazy 1 None r t
         else if c = CHR ''?'' then read_lazy 0 (Some 1) r t
         else if c = CHR 0x7B then (case read_bounds t of None \<Rightarrow> (r, s) | Some (lo, hi, u) \<Rightarrow> read_lazy lo hi r u)
         else (r, s))"

definition read_escape :: "char \<Rightarrow> rx" where
  "read_escape c =
     (if c = CHR ''b'' then WordB
      else if is_digit c then Back (digit_value c)
      else (case escape_cls c of (neg, cs) \<Rightarrow> Cls neg cs))"

definition closing :: "(rx \<Rightarrow> rx) \<Rightarrow> (rx \<times> nat \<times> string) option \<Rightarrow> (rx \<times> nat \<times> string) option" where
  "closing f v = (case v of None \<Rightarrow> None
     | Some (r, k, s) \<Rightarrow> map_option (\<lambda>t. (f r, k, t)) (past (CHR '')'') s))"

text \<open>What follows an opening bracket: a group without number, a lookahead, or a numbered group.\<close>

datatype group_kind = Plain | Look bool | Numbered

definition group_of :: "string \<Rightarrow> group_kind \<times> string" where
  "group_of s =
     (if starts_with ''?:'' s then (Plain, drop 2 s)
      else if starts_with ''?='' s then (Look True, drop 2 s)
      else if starts_with ''?!'' s then (Look False, drop 2 s)
      else (Numbered, s))"

fun read_alt :: "nat \<Rightarrow> nat \<Rightarrow> string \<Rightarrow> (rx \<times> nat \<times> string) option"
and read_seq :: "nat \<Rightarrow> nat \<Rightarrow> string \<Rightarrow> (rx \<times> nat \<times> string) option"
and read_atom :: "nat \<Rightarrow> nat \<Rightarrow> string \<Rightarrow> (rx \<times> nat \<times> string) option" where
  "read_alt 0 k s = None"
| "read_alt (Suc n) k s =
     (case read_seq n k s of None \<Rightarrow> None
      | Some (r, k1, s1) \<Rightarrow>
          (case past (CHR ''|'') s1 of None \<Rightarrow> Some (r, k1, s1)
           | Some s2 \<Rightarrow>
               (case read_alt n k1 s2 of None \<Rightarrow> None | Some (q, k2, s3) \<Rightarrow> Some (Alt r q, k2, s3))))"
| "read_seq 0 k s = None"
| "read_seq (Suc n) k s =
     (if s = [] \<or> hd s = CHR ''|'' \<or> hd s = CHR '')'' then Some (Eps, k, s)
      else case read_atom n k s of None \<Rightarrow> None
        | Some (a, k1, s1) \<Rightarrow>
            (case read_quantifier a s1 of (a', s2) \<Rightarrow>
              (case read_seq n k1 s2 of None \<Rightarrow> None
               | Some (q, k2, s3) \<Rightarrow> Some (if q = Eps then a' else Seq a' q, k2, s3))))"
| "read_atom 0 k s = None"
| "read_atom (Suc n) k [] = None"
| "read_atom (Suc n) k (c # s) =
     (if c = CHR ''('' then
        (case group_of s of
           (Plain, t) \<Rightarrow> closing id (read_alt n k t)
         | (Look want, t) \<Rightarrow> closing (Ahead want) (read_alt n k t)
         | (Numbered, t) \<Rightarrow> closing (Grp k) (read_alt n (Suc k) t))
      else if c = CHR ''['' then map_option (\<lambda>(r, t). (r, k, t)) (read_class s)
      else if c = CHR ''.'' then Some (Cls False [AnyC], k, s)
      else if c = CHR ''^'' then Some (Bol, k, s)
      else if c = CHR ''$'' then Some (Eol, k, s)
      else if c = CHR 0x60 then (case s of [] \<Rightarrow> None | e # t \<Rightarrow> Some (read_escape e, k, t))
      else Some (Cls False [One c], k, s))"

definition read_pattern :: "string \<Rightarrow> rx option" where
  "read_pattern s = (case read_alt (3 * length s + 3) 1 s of Some (r, _, []) \<Rightarrow> Some r | _ \<Rightarrow> None)"

definition rx :: "string \<Rightarrow> rx" where
  "rx s = (case read_pattern s of None \<Rightarrow> never | Some r \<Rightarrow> r)"

definition rx_ok :: "string \<Rightarrow> bool" where
  "rx_ok s \<longleftrightarrow> read_pattern s \<noteq> None"

text \<open>The flags, as written after the closing slash.\<close>

definition fl_none :: flags where "fl_none = \<lparr>fl_i = False, fl_m = False\<rparr>"

definition fl_ci :: flags where "fl_ci = \<lparr>fl_i = True, fl_m = False\<rparr>"

definition fl_multi :: flags where "fl_multi = \<lparr>fl_i = False, fl_m = True\<rparr>"

subsection \<open>Literals and runs of a class\<close>

text \<open>A pattern that starts with literal text.\<close>

definition literal_then :: "string \<Rightarrow> rx \<Rightarrow> rx" where
  "literal_then w r = foldr (\<lambda>c q. Seq (Cls False [One c]) q) w r"

lemma ends_literal_then:
  "ends fl_none (literal_then w r) (b, s, c) =
     (if starts_with w s then ends fl_none r (rev w @ b, drop (length w) s, c) else [])"
proof (induction w arbitrary: b s)
  case Nil
  then show ?case by (simp add: literal_then_def starts_with_def)
next
  case (Cons a w)
  then show ?case
    by (cases s) (auto simp: literal_then_def starts_with_def in_set_def fl_none_def)
qed

text \<open>The position a number of characters further on.\<close>

definition advance :: "nat \<Rightarrow> pos \<Rightarrow> pos" where
  "advance k p = (case p of (b, s, c) \<Rightarrow> (rev (take k s) @ b, drop k s, c))"

definition run_of :: "(char \<Rightarrow> bool) \<Rightarrow> string \<Rightarrow> nat" where
  "run_of P s = length (takeWhile P s)"

lemma upto_times_class:
  "upto_times (ends fl (Cls neg cs)) True n (b, s, c) =
     map (\<lambda>k. advance k (b, s, c)) (rev [0..<Suc (min n (run_of (\<lambda>x. in_set (fl_i fl) cs x \<noteq> neg) s))])"
proof (induction n arbitrary: b s)
  case 0
  then show ?case by (simp add: advance_def)
next
  case (Suc n)
  let ?P = "\<lambda>x. in_set (fl_i fl) cs x \<noteq> neg"
  show ?case
  proof (cases s)
    case Nil
    then show ?thesis by (simp add: advance_def run_of_def)
  next
    case (Cons x xs)
    show ?thesis
    proof (cases "?P x")
      case True
      let ?m = "min n (run_of ?P xs)"
      have up: "[0..<Suc (Suc ?m)] = 0 # map Suc [0..<Suc ?m]"
        by (simp add: map_Suc_upt upt_conv_Cons del: upt_Suc)
      have m: "min (Suc n) (run_of ?P s) = Suc ?m" using True Cons by (simp add: run_of_def)
      have "upto_times (ends fl (Cls neg cs)) True (Suc n) (b, s, c) =
          upto_times (ends fl (Cls neg cs)) True n (x # b, xs, c) @ [(b, s, c)]"
        using True Cons by simp
      also have "\<dots> = map (\<lambda>k. advance k (x # b, xs, c)) (rev [0..<Suc ?m]) @ [(b, s, c)]"
        by (simp only: Suc.IH)
      also have "\<dots> = map (\<lambda>k. advance k (b, s, c)) (rev (0 # map Suc [0..<Suc ?m]))"
        using Cons by (simp add: rev_map advance_def comp_def)
      finally show ?thesis by (simp only: m up)
    next
      case False
      with Cons show ?thesis by (auto simp: run_of_def advance_def)
    qed
  qed
qed

text \<open>A class repeated at least once, as in \<open>[0-9]+\<close>: the longest run first, then shorter ones.\<close>

lemma ends_class_plus:
  "ends fl (Rep 1 None True (Cls neg cs)) (b, s, c) =
     map (\<lambda>k. advance k (b, s, c)) (rev [1..<Suc (run_of (\<lambda>x. in_set (fl_i fl) cs x \<noteq> neg) s)])"
proof (cases s)
  case Nil
  then show ?thesis by (simp add: run_of_def)
next
  case (Cons x xs)
  let ?P = "\<lambda>x. in_set (fl_i fl) cs x \<noteq> neg"
  show ?thesis
  proof (cases "?P x")
    case True
    let ?m = "run_of ?P xs"
    have le: "?m \<le> length xs" by (simp add: run_of_def length_takeWhile_le)
    have up: "[1..<Suc (Suc ?m)] = map Suc [0..<Suc ?m]" by (simp only: map_Suc_upt One_nat_def)
    have "ends fl (Rep 1 None True (Cls neg cs)) (b, s, c) =
        upto_times (ends fl (Cls neg cs)) True (length xs) (x # b, xs, c)"
      using True Cons by simp
    also have "\<dots> = map (\<lambda>k. advance k (x # b, xs, c)) (rev [0..<Suc ?m])"
      using le by (simp only: upto_times_class min_absorb2)
    also have "\<dots> = map (\<lambda>k. advance k (b, s, c)) (rev (map Suc [0..<Suc ?m]))"
      using Cons by (simp add: rev_map advance_def comp_def)
    finally show ?thesis using True Cons up by (simp add: run_of_def)
  next
    case False
    with Cons show ?thesis by (auto simp: run_of_def)
  qed
qed

lemma run_of_le: "run_of P s \<le> length s"
  by (simp add: run_of_def length_takeWhile_le)

lemma run_of_all:
  assumes "\<forall>c \<in> set s. P c"
  shows "run_of P s = length s"
proof -
  have "takeWhile P s = s" using assms by (simp add: takeWhile_eq_all_conv)
  then show ?thesis by (simp only: run_of_def)
qed

lemma ends_group_plus:
  "ends fl (Grp g (Rep 1 None True (Cls neg cs))) (b, s, c) =
     map (\<lambda>k. (rev (take k s) @ b, drop k s, (g, take k s) # c))
       (rev [1..<Suc (run_of (\<lambda>x. in_set (fl_i fl) cs x \<noteq> neg) s)])"
  unfolding ends.simps(6) prod.case ends_class_plus map_map
  using run_of_le [of "\<lambda>x. in_set (fl_i fl) cs x \<noteq> neg" s]
  by (intro map_cong refl) (auto simp: advance_def)

lemma concat_map_single:
  assumes "distinct xs" "k \<in> set xs" "\<And>j. j \<in> set xs \<Longrightarrow> j \<noteq> k \<Longrightarrow> f j = []"
  shows "concat (map f xs) = f k"
  using assms
proof (induction xs)
  case (Cons a xs)
  show ?case
  proof (cases "a = k")
    case True
    with Cons.prems have "f x = []" if "x \<in> set xs" for x using that by auto
    with True show ?thesis by (auto simp: concat_eq_Nil_conv)
  next
    case False
    with Cons show ?thesis by auto
  qed
qed simp

lemma concat_map_none: "(\<And>j. j \<in> set xs \<Longrightarrow> f j = []) \<Longrightarrow> concat (map f xs) = []"
  by simp

text \<open>A pattern anchored at the start is tried only there.\<close>

lemma search_anchored:
  assumes "\<not> fl_m fl"
  shows "search fl (Seq Bol r) b s =
     (if b = [] then (case ends fl r ([], s, []) of [] \<Rightarrow> None | p # _ \<Rightarrow> Some ([], s, p)) else None)"
proof -
  have later: "search fl (Seq Bol r) b s = None" if "b \<noteq> []" for b s
    using assms that by (induction s arbitrary: b) simp_all
  show ?thesis
    using assms later by (cases s) (auto split: list.splits)
qed

subsection \<open>Decimal numbers\<close>

definition digit_char :: "nat \<Rightarrow> char" where
  "digit_char d = char_of (48 + int d)"

fun show_nat :: "nat \<Rightarrow> string" where
  "show_nat n = (if n < 10 then [digit_char n] else show_nat (n div 10) @ [digit_char (n mod 10)])"

declare show_nat.simps [simp del]

lemma digit_char_props:
  assumes "d < 10"
  shows "digit_value (digit_char d) = d" "is_digit (digit_char d)"
  using assms
  by (simp_all add: digit_value_def digit_char_def code_unit_def is_digit_def in_range_def)

lemma read_nat_snoc: "read_nat (s @ [c]) = 10 * read_nat s + digit_value c"
  by (simp add: read_nat_def)

lemma read_show_nat [simp]: "read_nat (show_nat n) = n"
proof (induction n rule: show_nat.induct)
  case (1 n)
  then show ?case
    by (subst show_nat.simps)
       (auto simp: read_nat_snoc digit_char_props(1), simp add: read_nat_def digit_char_props(1))
qed

lemma show_nat_digits: "c \<in> set (show_nat n) \<Longrightarrow> is_digit c"
proof (induction n rule: show_nat.induct)
  case (1 n)
  from "1.prems" show ?case
    by (subst (asm) show_nat.simps) (auto simp: digit_char_props(2) "1.IH" split: if_splits)
qed

lemma show_nat_not_Nil [simp]: "show_nat n \<noteq> []"
  by (subst show_nat.simps) simp

end
