(* ===== verification/Integrity.thy ===== *)
theory Integrity
  imports Dag Regex
begin

text \<open>
  Whether the records of a run or a task add up (\<open>execution-integrity.ts\<close>,
  \<open>execution-integrity-evidence.ts\<close>, \<open>execution-integrity-task-outcome.ts\<close>): how the work was
  executed, and the contradictions found. An issue is its code; the message of a code is fixed,
  except for a cost mismatch, which keeps the two amounts (their four decimals are not modelled).
\<close>

subsection \<open>Outcomes and evidence\<close>

datatype execution_mode = Orchestrated | External | Recorded | Unknown | Inconsistent

datatype execution_issue =
    DoneRunWithoutLineage
  | DoneTaskWithoutLineage
  | ExternalOutcomeOnNonDoneRun
  | FinalEvidenceOnNonDoneRun
  | ProseSuccessOnNonDoneRun
  | InvalidExternalOutcome
  | InvalidBakeoffOutcome
  | LinkedCommitWithoutLineage
  | CandidateWithoutOutcome
  | RuntimeCostMismatch "(usd \<times> usd) option"

record execution_integrity =
  ei_mode :: execution_mode
  ei_issues :: "execution_issue list"
  ei_hasDuctumLineage :: bool
  ei_hasExternalOutcome :: bool
  ei_externalOutcome :: "string option"
  ei_bakeoffOutcome :: "string option"

definition external_outcomes :: "string list" where
  "external_outcomes = [''done'', ''fixed'', ''superseded'']"

definition bakeoff_candidate_outcomes :: "string list" where
  "bakeoff_candidate_outcomes = [''accepted'', ''accepted-with-fixes'', ''rejected'', ''fixed'', ''superseded'']"

text \<open>A validity test on \<open>payload.outcome\<close>, which may be missing or not a string.\<close>

definition is_external_outcome :: "json option \<Rightarrow> bool" where
  "is_external_outcome v \<longleftrightarrow> (case v of Some (JStr x) \<Rightarrow> x \<in> set external_outcomes | _ \<Rightarrow> False)"

definition is_bakeoff_candidate_outcome :: "json option \<Rightarrow> bool" where
  "is_bakeoff_candidate_outcome v \<longleftrightarrow>
     (case v of Some (JStr x) \<Rightarrow> x \<in> set bakeoff_candidate_outcomes | _ \<Rightarrow> False)"

definition is_primary_task_issue :: "execution_issue \<Rightarrow> bool" where
  "is_primary_task_issue i \<longleftrightarrow> i = DoneTaskWithoutLineage \<or> i = CandidateWithoutOutcome"

text \<open>A custom piece of evidence of a kind.\<close>

definition custom_of :: "string \<Rightarrow> evidence \<Rightarrow> bool" where
  "custom_of kind e \<longleftrightarrow> ev_type e = EvCustom \<and> jis (ev_payload e) ''kind'' kind"

text \<open>The loop from the last piece of evidence to the first.\<close>

definition find_outcome :: "evidence list \<Rightarrow> string \<Rightarrow> (json option \<Rightarrow> bool) \<Rightarrow> string option" where
  "find_outcome es kind valid =
     (case find (\<lambda>e. custom_of kind e \<and> valid (jget (ev_payload e) ''outcome'')) (rev es) of
        None \<Rightarrow> None | Some e \<Rightarrow> jstr (jget (ev_payload e) ''outcome''))"

definition has_invalid_outcome :: "evidence list \<Rightarrow> string \<Rightarrow> (json option \<Rightarrow> bool) \<Rightarrow> bool" where
  "has_invalid_outcome es kind valid \<longleftrightarrow>
     list_ex (\<lambda>e. custom_of kind e \<and> \<not> valid (jget (ev_payload e) ''outcome'')) es"

definition find_external_outcome :: "evidence list \<Rightarrow> string option" where
  "find_external_outcome es = find_outcome es ''external-outcome'' is_external_outcome"

definition find_bakeoff_candidate_outcome :: "evidence list \<Rightarrow> string option" where
  "find_bakeoff_candidate_outcome es = find_outcome es ''bakeoff-candidate-outcome'' is_bakeoff_candidate_outcome"

definition has_reconciled_completion_lineage :: "evidence list \<Rightarrow> bool" where
  "has_reconciled_completion_lineage es \<longleftrightarrow>
     list_ex (\<lambda>e. custom_of ''state-reconcile'' e \<and>
       (jis (ev_payload e) ''reason'' ''merged'' \<or> jis (ev_payload e) ''reason'' ''approval_lineage'')) es"

definition has_bulk_imported_recorded_evidence :: "evidence list \<Rightarrow> bool" where
  "has_bulk_imported_recorded_evidence es \<longleftrightarrow> list_ex (custom_of ''bulk-import-shipped-spec'') es"

definition has_operator_pr_adoption_evidence :: "evidence list \<Rightarrow> bool" where
  "has_operator_pr_adoption_evidence es \<longleftrightarrow> list_ex (custom_of ''operator-pr-adoption'') es"

definition has_github_pr_merge_completion_evidence :: "evidence list \<Rightarrow> bool" where
  "has_github_pr_merge_completion_evidence es \<longleftrightarrow>
     list_ex (\<lambda>e. custom_of ''github-pr-merge'' e \<and> jtrue (ev_payload e) ''merged'') es"

definition is_structured_final_item :: "evidence \<Rightarrow> bool" where
  "is_structured_final_item e \<longleftrightarrow>
     custom_of ''internal-review'' e \<and> (jtrue (ev_payload e) ''passed'' \<or> jis (ev_payload e) ''verdict'' ''pass'')"

definition has_structured_final_evidence :: "evidence list \<Rightarrow> bool" where
  "has_structured_final_evidence es \<longleftrightarrow> list_ex is_structured_final_item es"

definition has_structured_completion_evidence :: "evidence list \<Rightarrow> bool" where
  "has_structured_completion_evidence es = list_ex (\<lambda>e.
     let p = ev_payload e in
     if jtrue p ''passed'' \<and> ev_type e \<in> {EvCi, EvReview, EvTest, EvLint} then True
     else if ev_type e \<noteq> EvCustom then False
     else if jis p ''kind'' ''verify'' then jtrue p ''passed''
     else if jis p ''kind'' ''internal-review''
     then jtrue p ''passed'' \<or> jis p ''verdict'' ''pass'' \<or> jis p ''verdict'' ''warn'' \<or> jis p ''verdict'' ''fail''
     else is_structured_final_item e) es"

subsection \<open>Prose that looks like success\<close>

definition fail_pattern :: rx where
  "fail_pattern = rx ''`bFAIL(?:ED)?`b''"

definition success_pattern :: rx where
  "success_pattern = rx ''^`s*(PASS|all tests passed|verification passed|review passed)`b''"

fun success_signal :: "json \<Rightarrow> bool"
and success_in_list :: "json list \<Rightarrow> bool"
and success_in_fields :: "(string \<times> json) list \<Rightarrow> bool" where
  "success_signal (JStr s) = (if test fl_ci fail_pattern s then False else test fl_ci success_pattern s)"
| "success_signal (JArr vs) = success_in_list vs"
| "success_signal (JObj fs) = success_in_fields fs"
| "success_signal JNull = False"
| "success_signal (JBool b) = False"
| "success_signal (JNum n) = False"
| "success_in_list [] = False"
| "success_in_list (v # vs) = (success_signal v \<or> success_in_list vs)"
| "success_in_fields [] = False"
| "success_in_fields ((k, v) # fs) = (success_signal v \<or> success_in_fields fs)"

definition structured_kinds :: "string list" where
  "structured_kinds = [''external-outcome'', ''bakeoff-candidate-outcome'', ''bulk-import-shipped-spec'',
     ''operator-pr-adoption'', ''state-reconcile'', ''verify'', ''internal-review'']"

definition has_prose_success_signal :: "evidence list \<Rightarrow> bool" where
  "has_prose_success_signal es = list_ex (\<lambda>e.
     if ev_type e \<noteq> EvCustom then False
     else if list_ex (\<lambda>k. jis (ev_payload e) ''kind'' k) structured_kinds then False
     else if is_structured_final_item e then False
     else success_in_fields (ev_payload e)) es"

subsection \<open>The integrity of a run\<close>

definition has_worktree :: "run \<Rightarrow> bool" where
  "has_worktree r = (case run_worktreePaths r of None \<Rightarrow> False | Some ps \<Rightarrow> list_ex (\<lambda>p. trim p \<noteq> []) ps)"

definition has_ductum_execution_lineage :: "run \<Rightarrow> bool" where
  "has_ductum_execution_lineage r \<longleftrightarrow> non_blank (run_sessionId r) \<and> has_worktree r \<and> non_blank (run_commitSha r)"

definition has_ductum_execution_start :: "run \<Rightarrow> bool" where
  "has_ductum_execution_start r \<longleftrightarrow> non_blank (run_sessionId r) \<and> has_worktree r"

definition jnumber :: "json option \<Rightarrow> rat option" where
  "jnumber v = (case v of Some (JNum n) \<Rightarrow> Some n | _ \<Rightarrow> None)"

definition cost_mismatch_of :: "evidence \<Rightarrow> execution_issue option" where
  "cost_mismatch_of e =
     (if \<not> jis (ev_payload e) ''kind'' ''attempt.runtime_accounting'' then None
      else case jget (ev_payload e) ''mismatch'' of
          Some (JObj m) \<Rightarrow>
            if \<not> jis m ''kind'' ''db_runtime_cost'' then None
            else Some (RuntimeCostMismatch
              (case (jnumber (jget m ''runtimeReportedCostUsd''), jnumber (jget m ''storedCostUsd'')) of
                 (Some a, Some b) \<Rightarrow> Some (a, b) | _ \<Rightarrow> None))
        | _ \<Rightarrow> None)"

definition find_runtime_cost_mismatch :: "evidence list \<Rightarrow> execution_issue list" where
  "find_runtime_cost_mismatch es = take 1 (List.map_filter cost_mismatch_of es)"

definition resolve_mode :: "execution_issue list \<Rightarrow> bool \<Rightarrow> bool \<Rightarrow> bool \<Rightarrow> bool \<Rightarrow> execution_mode" where
  "resolve_mode issues lineage start external recorded =
     (if length issues > 0 then Inconsistent
      else if external then External
      else if lineage then Orchestrated
      else if start then Orchestrated
      else if recorded then Recorded
      else Unknown)"

definition issue_if :: "bool \<Rightarrow> execution_issue \<Rightarrow> execution_issue list" where
  "issue_if b i = (if b then [i] else [])"

definition evaluate_run_integrity :: "run \<Rightarrow> evidence list \<Rightarrow> execution_integrity" where
  "evaluate_run_integrity r es =
     (let finished = run_stage r = StageDone;
          start = has_ductum_execution_start r;
          completion = has_structured_completion_evidence es;
          lineage = has_ductum_execution_lineage r \<or> (start \<and> finished \<and> completion) \<or>
            (finished \<and> has_reconciled_completion_lineage es);
          import = finished \<and> has_bulk_imported_recorded_evidence es;
          adoption = has_operator_pr_adoption_evidence es;
          pending_adoption = (\<not> finished \<and> adoption);
          adopted_pr = finished \<and> \<not> lineage \<and> adoption \<and> has_github_pr_merge_completion_evidence es;
          outcome = (case find_external_outcome es of Some v \<Rightarrow> Some v
            | None \<Rightarrow> if adopted_pr then Some ''done'' else None);
          external = outcome \<noteq> None;
          missing = finished \<and> \<not> lineage \<and> \<not> external \<and> \<not> import;
          issues =
            issue_if (has_invalid_outcome es ''external-outcome'' is_external_outcome) InvalidExternalOutcome @
            issue_if (has_invalid_outcome es ''bakeoff-candidate-outcome'' is_bakeoff_candidate_outcome) InvalidBakeoffOutcome @
            find_runtime_cost_mismatch es @
            issue_if (external \<and> \<not> finished) ExternalOutcomeOnNonDoneRun @
            issue_if (has_structured_final_evidence es \<and> \<not> finished) FinalEvidenceOnNonDoneRun @
            issue_if (has_prose_success_signal es \<and> \<not> finished) ProseSuccessOnNonDoneRun @
            issue_if missing DoneRunWithoutLineage @
            issue_if (\<not> missing \<and> non_blank (run_commitSha r) \<and> \<not> lineage \<and> \<not> external \<and> \<not> import \<and> \<not> pending_adoption)
              LinkedCommitWithoutLineage
      in \<lparr>ei_mode = resolve_mode issues lineage start external
            (finished \<or> run_terminalState r \<noteq> None \<or> non_blank (run_commitSha r) \<or> pending_adoption \<or> completion),
          ei_issues = issues, ei_hasDuctumLineage = lineage, ei_hasExternalOutcome = external,
          ei_externalOutcome = outcome, ei_bakeoffOutcome = find_bakeoff_candidate_outcome es\<rparr>)"

subsection \<open>The integrity of a task\<close>

record outcome_ref =
  or_runId :: string
  or_branch :: "string option"
  or_commitSha :: "string option"
  or_prSource :: "string option"

definition blank_to_null :: "string option \<Rightarrow> string option" where
  "blank_to_null v = (if non_blank v then v else None)"

definition find_external_outcome_source :: "evidence list \<Rightarrow> string option" where
  "find_external_outcome_source es =
     (case List.map_filter (\<lambda>e. if custom_of ''external-outcome'' e
          then blank_to_null (jstr (jget (ev_payload e) ''sourcePath'')) else None) (rev es) of
        [] \<Rightarrow> None | v # _ \<Rightarrow> Some v)"

definition collect_outcome_refs :: "run list \<Rightarrow> (string \<Rightarrow> evidence list) \<Rightarrow> outcome_ref list" where
  "collect_outcome_refs rs ev = concat (map (\<lambda>r.
     if run_stage r \<noteq> StageDone then []
     else if find_external_outcome (ev (run_id r)) = None then []
     else [\<lparr>or_runId = run_id r, or_branch = blank_to_null (run_branch r),
            or_commitSha = blank_to_null (run_commitSha r),
            or_prSource = (case blank_to_null (run_prUrl r) of Some u \<Rightarrow> Some u
              | None \<Rightarrow> find_external_outcome_source (ev (run_id r)))\<rparr>]) rs)"

definition matches_outcome_ref :: "run \<Rightarrow> outcome_ref \<Rightarrow> bool" where
  "matches_outcome_ref r f \<longleftrightarrow>
     (non_blank (run_commitSha r) \<and> or_commitSha f = run_commitSha r) \<or>
     (non_blank (run_branch r) \<and> or_branch f = run_branch r) \<or>
     (non_blank (run_prUrl r) \<and> or_prSource f = run_prUrl r)"

definition reconcile_run_outcome :: "outcome_ref list \<Rightarrow> run \<Rightarrow> execution_integrity \<Rightarrow> execution_integrity" where
  "reconcile_run_outcome refs r i =
     (if run_terminalState r \<noteq> Some Cancelled then i
      else if LinkedCommitWithoutLineage \<notin> set (ei_issues i) then i
      else if \<not> list_ex (\<lambda>f. or_runId f \<noteq> run_id r \<and> matches_outcome_ref r f) refs then i
      else
        let issues = filter (\<lambda>x. x \<noteq> LinkedCommitWithoutLineage) (ei_issues i) in
        i\<lparr>ei_issues := issues,
          ei_mode := resolve_mode issues (ei_hasDuctumLineage i) (has_ductum_execution_start r)
            (ei_hasExternalOutcome i)
            (run_stage r = StageDone \<or> run_terminalState r \<noteq> None \<or> non_blank (run_commitSha r))\<rparr>)"

definition reconcile_task_outcomes ::
    "run list \<Rightarrow> execution_integrity list \<Rightarrow> (string \<Rightarrow> evidence list) \<Rightarrow> execution_integrity list" where
  "reconcile_task_outcomes rs is ev =
     (let refs = collect_outcome_refs rs ev in
      if length refs = 0 then is else map2 (reconcile_run_outcome refs) rs is)"

definition evaluate_task_integrity ::
    "task \<Rightarrow> spec option \<Rightarrow> run list \<Rightarrow> (string \<Rightarrow> evidence list) \<Rightarrow> execution_integrity" where
  "evaluate_task_integrity t sp rs ev =
     (let is = reconcile_task_outcomes rs (map (\<lambda>r. evaluate_run_integrity r (ev (run_id r))) rs) ev;
          lineage = list_ex ei_hasDuctumLineage is;
          start = list_ex (\<lambda>i. ei_mode i = Orchestrated) is;
          outcome = (case find (\<lambda>(i, r). run_stage r = StageDone \<and> ei_externalOutcome i \<noteq> None) (zip is rs) of
            None \<Rightarrow> None | Some (i, _) \<Rightarrow> ei_externalOutcome i);
          bakeoff = (case find (\<lambda>i. ei_bakeoffOutcome i \<noteq> None) is of
            None \<Rightarrow> None | Some i \<Rightarrow> ei_bakeoffOutcome i);
          external = outcome \<noteq> None;
          issues = concat (map ei_issues is) @
            issue_if (task_status t = TaskDone \<and> \<not> lineage \<and> \<not> external) DoneTaskWithoutLineage @
            issue_if (is_bakeoff_candidate_task sp t \<and> task_status t \<in> {TaskDone, TaskFailed} \<and> bakeoff = None)
              CandidateWithoutOutcome
      in \<lparr>ei_mode = resolve_mode issues lineage start external
            (task_status t = TaskDone \<or> list_ex (\<lambda>i. ei_mode i = Recorded) is),
          ei_issues = issues, ei_hasDuctumLineage = lineage, ei_hasExternalOutcome = external,
          ei_externalOutcome = outcome, ei_bakeoffOutcome = bakeoff\<rparr>)"

subsection \<open>What a consistent verdict means\<close>

lemma issue_if_Nil [simp]: "issue_if b i = [] \<longleftrightarrow> \<not> b"
  by (simp add: issue_if_def)

lemma set_issue_if [simp]: "set (issue_if b i) = (if b then {i} else {})"
  by (simp add: issue_if_def)

lemma resolve_mode_Inconsistent_iff: "resolve_mode is l s x c = Inconsistent \<longleftrightarrow> is \<noteq> []"
  by (simp add: resolve_mode_def)

lemma find_outcome_Some:
  assumes "find_outcome es kind valid = Some v"
  shows "\<exists>e \<in> set es. custom_of kind e \<and> valid (jget (ev_payload e) ''outcome'')"
  using assms by (auto simp: find_outcome_def split: option.splits dest!: find_SomeD)

lemma ei_mode_Inconsistent_iff:
  "ei_mode (evaluate_run_integrity r es) = Inconsistent \<longleftrightarrow> ei_issues (evaluate_run_integrity r es) \<noteq> []"
  "ei_mode (evaluate_task_integrity t sp rs ev) = Inconsistent \<longleftrightarrow>
     ei_issues (evaluate_task_integrity t sp rs ev) \<noteq> []"
  by (simp_all add: evaluate_run_integrity_def evaluate_task_integrity_def Let_def resolve_mode_Inconsistent_iff)

text \<open>Why a finished run may count as finished.\<close>

definition completion_backed :: "run \<Rightarrow> evidence list \<Rightarrow> bool" where
  "completion_backed r es \<longleftrightarrow>
     has_ductum_execution_lineage r \<or>
     (has_ductum_execution_start r \<and> has_structured_completion_evidence es) \<or>
     has_reconciled_completion_lineage es \<or>
     (\<exists>e \<in> set es. custom_of ''external-outcome'' e \<and> is_external_outcome (jget (ev_payload e) ''outcome'')) \<or>
     (has_operator_pr_adoption_evidence es \<and> has_github_pr_merge_completion_evidence es) \<or>
     has_bulk_imported_recorded_evidence es"

text \<open>C33: a consistent run is backed by records. If the integrity check finds a run consistent, then
  a run in \<open>done\<close> has a session, a worktree and a commit, or structured completion evidence on top
  of a started session, or an explicit outcome, reconciliation, adopted pull request or import on
  record; and a run that is not done carries no success signal at all: no valid external outcome,
  no passed internal review, no prose that reads like success. In either case no recorded outcome
  is malformed and no recorded cost disagrees.\<close>

theorem consistent_run_is_backed:
  assumes "ei_mode (evaluate_run_integrity r es) \<noteq> Inconsistent"
  shows "(run_stage r = StageDone \<longrightarrow> completion_backed r es) \<and>
    (run_stage r \<noteq> StageDone \<longrightarrow> find_external_outcome es = None \<and>
       \<not> has_structured_final_evidence es \<and> \<not> has_prose_success_signal es) \<and>
    \<not> has_invalid_outcome es ''external-outcome'' is_external_outcome \<and>
    \<not> has_invalid_outcome es ''bakeoff-candidate-outcome'' is_bakeoff_candidate_outcome \<and>
    find_runtime_cost_mismatch es = []"
proof -
  have n: "ei_issues (evaluate_run_integrity r es) = []"
    using assms by (simp add: ei_mode_Inconsistent_iff)
  note n = n [unfolded evaluate_run_integrity_def Let_def execution_integrity.simps append_is_Nil_conv issue_if_Nil]
  have "completion_backed r es" if fin: "run_stage r = StageDone"
  proof (rule ccontr)
    assume b: "\<not> completion_backed r es"
    then have "find_external_outcome es = None"
      unfolding completion_backed_def find_external_outcome_def
      by (metis find_outcome_Some not_Some_eq)
    with b n fin show False unfolding completion_backed_def by (simp split: if_splits)
  qed
  with n show ?thesis by (auto split: option.splits)
qed

lemma reconcile_run_keeps [simp]:
  "ei_hasDuctumLineage (reconcile_run_outcome refs r i) = ei_hasDuctumLineage i"
  "ei_externalOutcome (reconcile_run_outcome refs r i) = ei_externalOutcome i"
  "ei_bakeoffOutcome (reconcile_run_outcome refs r i) = ei_bakeoffOutcome i"
  by (simp_all add: reconcile_run_outcome_def Let_def)

lemma reconcile_run_issues:
  assumes "ei_issues (reconcile_run_outcome refs r i) = []" and "ei_issues i \<noteq> []"
  shows "run_terminalState r = Some Cancelled \<and> set (ei_issues i) = {LinkedCommitWithoutLineage} \<and>
    (\<exists>f \<in> set refs. or_runId f \<noteq> run_id r \<and> matches_outcome_ref r f)"
  using assms
  by (auto simp: reconcile_run_outcome_def Let_def list_ex_iff filter_empty_conv split: if_splits)

lemma set_collect_outcome_refs:
  assumes "f \<in> set (collect_outcome_refs rs ev)"
  shows "\<exists>q \<in> set rs. run_id q = or_runId f \<and> run_stage q = StageDone \<and>
    find_external_outcome (ev (run_id q)) \<noteq> None"
  using assms by (auto simp: collect_outcome_refs_def split: if_splits)

lemma reconcile_task_nth:
  assumes "k < length rs" "length is = length rs"
  shows "\<exists>refs. set refs \<subseteq> set (collect_outcome_refs rs ev) \<and>
    reconcile_task_outcomes rs is ev ! k = reconcile_run_outcome refs (rs ! k) (is ! k)"
proof (cases "collect_outcome_refs rs ev = []")
  case True
  have "reconcile_run_outcome [] (rs ! k) (is ! k) = is ! k" by (simp add: reconcile_run_outcome_def)
  with True show ?thesis
    by (intro exI [of _ "[]"]) (simp add: reconcile_task_outcomes_def)
next
  case False
  with assms show ?thesis
    by (intro exI [of _ "collect_outcome_refs rs ev"]) (simp add: reconcile_task_outcomes_def Let_def)
qed

lemma length_reconcile_task [simp]:
  "length is = length rs \<Longrightarrow> length (reconcile_task_outcomes rs is ev) = length rs"
  by (simp add: reconcile_task_outcomes_def Let_def)

text \<open>The verdict on a run of the task, reconciled with the outcomes of the others.\<close>

lemma task_run_integrity:
  assumes "i \<in> set (reconcile_task_outcomes rs (map (\<lambda>r. evaluate_run_integrity r (ev (run_id r))) rs) ev)"
  obtains k refs where "k < length rs" "set refs \<subseteq> set (collect_outcome_refs rs ev)"
    "i = reconcile_run_outcome refs (rs ! k) (evaluate_run_integrity (rs ! k) (ev (run_id (rs ! k))))"
proof -
  let ?is = "map (\<lambda>r. evaluate_run_integrity r (ev (run_id r))) rs"
  from assms obtain k where k: "k < length rs" "i = reconcile_task_outcomes rs ?is ev ! k"
    by (auto simp: in_set_conv_nth)
  from reconcile_task_nth [of k rs ?is ev] k that show ?thesis by auto
qed


end
