(* ===== verification/Lineage.thy ===== *)
theory Lineage
  imports Regex Task_Repo Approval "HOL-Library.Product_Lexorder"
begin

text \<open>
  The lineage of tasks after completion (\<open>task-lineage.ts\<close>): a review or fix task carries the name of
  the task it belongs to and a round in its own name; the runs whose next step belongs to the
  workflow (\<open>workflow-owned-run.ts\<close>); and the chain of parent runs
  (\<open>post-completion-router-lineage.ts\<close>). Round numbers are natural numbers: the rounding of
  \<open>Number\<close> above \<open>2^53\<close> is not modelled.
\<close>

subsection \<open>Task names\<close>

datatype task_kind = Impl | Review | Fix

record parsed_name =
  pn_kind :: task_kind
  pn_originalName :: string
  pn_round :: nat

definition review_round_pattern :: rx where
  "review_round_pattern = rx ''^review-(.+)-r(`d+)$''"

definition fix_round_pattern :: rx where
  "fix_round_pattern = rx ''^fix-(.+)-r(`d+)$''"

definition parse_task_name :: "string \<Rightarrow> parsed_name" where
  "parse_task_name name =
     (case match_groups fl_none review_round_pattern name of
        Some g \<Rightarrow> \<lparr>pn_kind = Review, pn_originalName = capture 1 g, pn_round = read_nat (capture 2 g)\<rparr>
      | None \<Rightarrow>
          if starts_with ''review-'' name
          then \<lparr>pn_kind = Review, pn_originalName = drop (length ''review-'') name, pn_round = 1\<rparr>
          else case match_groups fl_none fix_round_pattern name of
              Some g \<Rightarrow> \<lparr>pn_kind = Fix, pn_originalName = capture 1 g, pn_round = read_nat (capture 2 g)\<rparr>
            | None \<Rightarrow> \<lparr>pn_kind = Impl, pn_originalName = name, pn_round = 0\<rparr>)"

definition classify_task :: "task \<Rightarrow> parsed_name" where
  "classify_task t =
     (let parsed = parse_task_name (task_name t) in
      if task_requiredRole t = Some Reviewer \<and> pn_kind parsed = Review then parsed
      else if pn_kind parsed = Fix \<and> (task_requiredRole t = Some Builder \<or> task_requiredRole t = None) then parsed
      else \<lparr>pn_kind = Impl, pn_originalName = task_name t, pn_round = 0\<rparr>)"

definition lineage_original_name :: "string \<Rightarrow> string" where
  "lineage_original_name name =
     (let parsed = parse_task_name name in if pn_kind parsed = Impl then name else pn_originalName parsed)"

definition is_task_in_lineage :: "string \<Rightarrow> string \<Rightarrow> bool" where
  "is_task_in_lineage name original =
     (if name = original then True
      else let parsed = parse_task_name name in pn_kind parsed \<noteq> Impl \<and> pn_originalName parsed = original)"

text \<open>The names the router gives to the tasks it creates.\<close>

definition review_task_name :: "string \<Rightarrow> nat \<Rightarrow> string" where
  "review_task_name original n =
     (if n = 1 then ''review-'' @ original else ''review-'' @ original @ ''-r'' @ show_nat n)"

definition fix_task_name :: "string \<Rightarrow> nat \<Rightarrow> string" where
  "fix_task_name original n = ''fix-'' @ original @ ''-r'' @ show_nat n"

subsection \<open>Runs that wait for the workflow\<close>

definition is_approval_waiting_ship_run :: "run \<Rightarrow> bool" where
  "is_approval_waiting_ship_run r \<longleftrightarrow> run_stage r = Ship \<and> run_pendingApproval r"

definition is_completion_blocked_ship_run :: "run \<Rightarrow> bool" where
  "is_completion_blocked_ship_run r \<longleftrightarrow>
     run_stage r = Ship \<and> non_blank (run_blockedReason r) \<and> non_blank (run_branch r) \<and> non_blank (run_commitSha r)"

definition has_downstream_lineage_work :: "store \<Rightarrow> run \<Rightarrow> bool" where
  "has_downstream_lineage_work s r =
     (case task_get (run_taskId r) s of None \<Rightarrow> False
      | Some t \<Rightarrow>
          let parsed = classify_task t;
              original = (if pn_kind parsed = Impl then task_name t else pn_originalName parsed) in
          list_ex (\<lambda>c. if task_id c = task_id t \<or> task_status c = TaskDone then False
            else pn_kind (classify_task c) \<noteq> Impl \<and> pn_originalName (classify_task c) = original)
            (task_list (task_specId t) s))"

definition is_workflow_owned_run :: "store \<Rightarrow> run \<Rightarrow> bool" where
  "is_workflow_owned_run s r \<longleftrightarrow>
     is_approval_waiting_ship_run r \<or> is_completion_blocked_ship_run r \<or> has_downstream_lineage_work s r"

subsection \<open>Chains of runs\<close>

text \<open>The loop up the parents has no end when a run is its own ancestor. The chain is newest first.\<close>

partial_function (option) walk_parents :: "store \<Rightarrow> run \<Rightarrow> run list \<Rightarrow> run list option" where
  "walk_parents s current chain =
     (case run_parentRunId current of None \<Rightarrow> Some chain
      | Some p \<Rightarrow> (case run_get p s of None \<Rightarrow> Some chain | Some q \<Rightarrow> walk_parents s q (chain @ [q])))"

declare walk_parents.simps [code]

definition walk_parent_chain :: "store \<Rightarrow> run \<Rightarrow> run list option" where
  "walk_parent_chain s r = walk_parents s r [r]"

definition find_root_run :: "store \<Rightarrow> run \<Rightarrow> run option" where
  "find_root_run s r = map_option last (walk_parent_chain s r)"

definition lineage_already_shipped :: "store \<Rightarrow> run \<Rightarrow> bool option" where
  "lineage_already_shipped s r = map_option (\<lambda>root.
     run_terminalState root = None \<and> run_stage root = StageDone \<and>
     map_option task_status (task_get (run_taskId root) s) = Some TaskDone) (find_root_run s r)"

text \<open>
  The most recent run of the task of that name and of its fix tasks. Timestamps are compared as
  numbers, as the fixed-width texts compare; equal ones are decided by the order of the search.
\<close>

definition compare_int :: "int \<Rightarrow> int \<Rightarrow> int" where
  "compare_int a b = (if a < b then - 1 else if b < a then 1 else 0)"

definition compare_run_recency :: "run \<times> nat \<Rightarrow> run \<times> nat \<Rightarrow> int" where
  "compare_run_recency left right =
     (let created = compare_int (run_createdAt (fst left)) (run_createdAt (fst right));
          updated = compare_int (run_updatedAt (fst left)) (run_updatedAt (fst right)) in
      if created \<noteq> 0 then created
      else if updated \<noteq> 0 then updated
      else int (snd left) - int (snd right))"

definition lineage_tasks :: "store \<Rightarrow> string \<Rightarrow> string \<Rightarrow> task list" where
  "lineage_tasks s sp original = filter (\<lambda>t. task_name t = original \<or>
     pn_kind (classify_task t) = Fix \<and> pn_originalName (classify_task t) = original) (task_list sp s)"

definition lacks_worktree :: "run \<Rightarrow> bool" where
  "lacks_worktree r \<longleftrightarrow> (case run_worktreePaths r of None \<Rightarrow> True | Some ps \<Rightarrow> length ps = 0)"

fun latest_run :: "run list \<Rightarrow> nat \<Rightarrow> (run \<times> nat) option \<Rightarrow> (run \<times> nat) option" where
  "latest_run [] order latest = latest"
| "latest_run (r # rs) order latest =
     latest_run rs (Suc order)
       (case latest of None \<Rightarrow> Some (r, order)
        | Some l \<Rightarrow> if compare_run_recency (r, order) l > 0 then Some (r, order) else latest)"

definition find_lineage_run_with :: "bool \<Rightarrow> store \<Rightarrow> string \<Rightarrow> string \<Rightarrow> run option" where
  "find_lineage_run_with require_worktree s sp original =
     map_option fst (latest_run
       (filter (\<lambda>r. \<not> (require_worktree \<and> lacks_worktree r))
          (concat (map (\<lambda>t. run_list (task_id t) s) (lineage_tasks s sp original)))) 0 None)"

definition find_most_recent_lineage_run :: "store \<Rightarrow> string \<Rightarrow> string \<Rightarrow> run option" where
  "find_most_recent_lineage_run = find_lineage_run_with False"

text \<open>The parent of the next run of a task, and the run whose worktree it takes over.\<close>

record dispatch_intent =
  di_parentRunId :: "string option"
  di_reuseWorktreeFromRunId :: "string option"

definition resolve_dispatch_intent :: "store \<Rightarrow> task \<Rightarrow> dispatch_intent" where
  "resolve_dispatch_intent s t =
     (let parsed = classify_task t; none = \<lparr>di_parentRunId = None, di_reuseWorktreeFromRunId = None\<rparr> in
      if pn_kind parsed = Impl then none
      else case find_most_recent_lineage_run s (task_specId t) (pn_originalName parsed) of
          None \<Rightarrow> none
        | Some parent \<Rightarrow> \<lparr>di_parentRunId = Some (run_id parent), di_reuseWorktreeFromRunId =
            map_option run_id (find_lineage_run_with True s (task_specId t) (pn_originalName parsed))\<rparr>)"

subsection \<open>Names and their rounds\<close>

text \<open>What the patterns compute, written directly: the digits at the end, a round mark before them, and
  a name before that which is not empty.\<close>

definition split_round :: "string \<Rightarrow> (string \<times> string) option" where
  "split_round s =
     (let ds = rev (takeWhile is_digit (rev s)); t = take (length s - length ds) s in
      if ds = [] \<or> length t < 3 \<or> drop (length t - 2) t \<noteq> ''-r'' then None
      else Some (take (length t - 2) t, ds))"

definition round_tail :: rx where
  "round_tail = Seq (Grp 1 (Rep 1 None True (Cls False [AnyC]))) (Seq (Cls False [One (CHR ''-'')])
     (Seq (Cls False [One (CHR ''r'')]) (Seq (Grp 2 (Rep 1 None True (Cls False [DigitC]))) Eol)))"

lemma review_round_pattern_eq: "review_round_pattern = Seq Bol (literal_then ''review-'' round_tail)"
  by code_simp

lemma fix_round_pattern_eq: "fix_round_pattern = Seq Bol (literal_then ''fix-'' round_tail)"
  by code_simp

lemma split_round_iff:
  "split_round s = Some (a, ds) \<longleftrightarrow>
     s = a @ ''-r'' @ ds \<and> a \<noteq> [] \<and> ds \<noteq> [] \<and> (\<forall>c \<in> set ds. is_digit c)"
proof
  assume h: "split_round s = Some (a, ds)"
  let ?ds = "rev (takeWhile is_digit (rev s))"
  let ?t = "take (length s - length ?ds) s"
  have s: "s = ?t @ ?ds"
    by (metis (no_types, lifting) append_take_drop_id drop_rev length_rev rev_rev_ident rev_take
        takeWhile_eq_take)
  from h have d: "ds = ?ds" "a = take (length ?t - 2) ?t" "ds \<noteq> []" "\<not> length ?t < 3"
    "drop (length ?t - 2) ?t = ''-r''"
    by (auto simp: split_round_def Let_def split: if_splits)
  have "?t = a @ ''-r''" using d(2,5) by (metis append_take_drop_id)
  moreover have "a \<noteq> []"
  proof
    assume "a = []"
    with \<open>?t = a @ ''-r''\<close> have "length ?t = 2" by simp
    with d(4) show False by simp
  qed
  moreover have "\<forall>c \<in> set ?ds. is_digit c" by (auto dest: set_takeWhileD)
  ultimately show "s = a @ ''-r'' @ ds \<and> a \<noteq> [] \<and> ds \<noteq> [] \<and> (\<forall>c \<in> set ds. is_digit c)"
    using s d(1,3) by simp
next
  assume h: "s = a @ ''-r'' @ ds \<and> a \<noteq> [] \<and> ds \<noteq> [] \<and> (\<forall>c \<in> set ds. is_digit c)"
  have r: "rev s = rev ds @ CHR ''r'' # CHR ''-'' # rev a" using h by simp
  have "\<not> is_digit (CHR ''r'')" by code_simp
  with h r have ds: "takeWhile is_digit (rev s) = rev ds"
    by (subst r, subst takeWhile_append2) auto
  have t: "take (length s - length ds) s = a @ ''-r''" using h by simp
  have "length a \<ge> 1" using h by (cases a) auto
  then show "split_round s = Some (a, ds)"
    unfolding split_round_def ds rev_rev_ident Let_def t using h by simp
qed

text \<open>From one split of the text, the tail of the pattern matches exactly when the text after it is a
  mark and digits.\<close>

lemma digits_to_end:
  "(\<exists>k \<in> {1..run_of is_digit s}. drop k s = []) \<longleftrightarrow> s \<noteq> [] \<and> (\<forall>c \<in> set s. is_digit c)"
proof
  assume "\<exists>k \<in> {1..run_of is_digit s}. drop k s = []"
  then obtain k where k: "1 \<le> k" "k \<le> run_of is_digit s" "drop k s = []" by auto
  then have "length s \<le> length (takeWhile is_digit s)" by (simp add: run_of_def)
  then have t: "takeWhile is_digit s = s" by (metis takeWhile_eq_take take_all)
  have "s \<noteq> []" using k(1,2) by (cases s) (simp_all add: run_of_def)
  moreover have "\<forall>c \<in> set s. is_digit c" by (metis t set_takeWhileD)
  ultimately show "s \<noteq> [] \<and> (\<forall>c \<in> set s. is_digit c)" ..
next
  assume "s \<noteq> [] \<and> (\<forall>c \<in> set s. is_digit c)"
  then have "run_of is_digit s = length s" "1 \<le> length s" by (auto simp: run_of_all Suc_le_eq)
  then show "\<exists>k \<in> {1..run_of is_digit s}. drop k s = []"
    by (auto intro!: bexI [of _ "length s"])
qed

definition mark_tail :: rx where
  "mark_tail = Seq (Cls False [One (CHR ''-'')]) (Seq (Cls False [One (CHR ''r'')])
     (Seq (Grp 2 (Rep 1 None True (Cls False [DigitC]))) Eol))"

definition is_mark :: "string \<Rightarrow> bool" where
  "is_mark s \<longleftrightarrow> starts_with ''-r'' s \<and> drop 2 s \<noteq> [] \<and> (\<forall>c \<in> set (drop 2 s). is_digit c)"

lemma is_mark_iff: "is_mark s \<longleftrightarrow> (\<exists>ds. s = ''-r'' @ ds \<and> ds \<noteq> [] \<and> (\<forall>c \<in> set ds. is_digit c))"
  by (auto simp: is_mark_def starts_with_iff numeral_2_eq_2)

lemma digit_class: "(\<lambda>x. in_set (fl_i fl_none) [DigitC] x \<noteq> False) = is_digit"
  by (simp add: in_set_def fl_none_def)

lemma any_class: "(\<lambda>x. in_set (fl_i fl_none) [AnyC] x \<noteq> False) = (\<lambda>x. \<not> is_line_end x)"
  by (simp add: in_set_def fl_none_def)

lemma ends_digits_eol:
  "ends fl_none (Seq (Grp 2 (Rep 1 None True (Cls False [DigitC]))) Eol) (b, s, c) =
     (if s \<noteq> [] \<and> (\<forall>x \<in> set s. is_digit x) then [(rev s @ b, [], (2, s) # c)] else [])"
proof -
  let ?f = "\<lambda>k. if drop k s = [] then [(rev (take k s) @ b, drop k s, (2, take k s) # c)] else []"
  let ?ks = "rev [1..<Suc (run_of is_digit s)]"
  have e: "ends fl_none (Seq (Grp 2 (Rep 1 None True (Cls False [DigitC]))) Eol) (b, s, c) = concat (map ?f ?ks)"
    unfolding ends.simps(3) ends_group_plus digit_class map_map
    by (intro arg_cong [where f = concat] map_cong refl) (simp add: fl_none_def)
  show ?thesis
  proof (cases "s \<noteq> [] \<and> (\<forall>x \<in> set s. is_digit x)")
    case True
    then have m: "run_of is_digit s = length s" by (simp add: run_of_all)
    have "concat (map ?f ?ks) = ?f (length s)"
      by (rule concat_map_single) (use True m in \<open>auto simp: Suc_le_eq\<close>)
    also have "\<dots> = [(rev s @ b, [], (2, s) # c)]" by simp
    finally have f: "concat (map ?f ?ks) = [(rev s @ b, [], (2, s) # c)]" .
    show ?thesis unfolding if_P [OF True] by (rule trans [OF e f])
  next
    case False
    then have "?f k = []" if "k \<in> set ?ks" for k
      using that digits_to_end [of s] by auto
    then have f: "concat (map ?f ?ks) = []" by (rule concat_map_none)
    show ?thesis unfolding if_not_P [OF False] by (rule trans [OF e f])
  qed
qed

lemma ends_mark_tail:
  "ends fl_none mark_tail (b, s, c) = (if is_mark s then [(rev s @ b, [], (2, drop 2 s) # c)] else [])"
proof -
  have m: "mark_tail = literal_then ''-r'' (Seq (Grp 2 (Rep 1 None True (Cls False [DigitC]))) Eol)"
    by (simp add: mark_tail_def literal_then_def)
  have "rev (drop 2 s) @ rev ''-r'' @ b = rev s @ b" if "starts_with ''-r'' s"
    using that by (auto simp: starts_with_iff)
  then show ?thesis
    unfolding m ends_literal_then ends_digits_eol by (auto simp: is_mark_def numeral_2_eq_2)
qed

lemma ends_round_tail:
  assumes "\<forall>c \<in> set s. \<not> is_line_end c"
  shows "ends fl_none round_tail (b, s, []) =
    (case split_round s of None \<Rightarrow> [] | Some (a, ds) \<Rightarrow> [(rev s @ b, [], [(2, ds), (1, a)])])"
proof -
  let ?f = "\<lambda>k. ends fl_none mark_tail (rev (take k s) @ b, drop k s, [(1, take k s)])"
  let ?ks = "rev [1..<Suc (length s)]"
  have m: "run_of (\<lambda>x. \<not> is_line_end x) s = length s" using assms by (simp add: run_of_all)
  have "ends fl_none round_tail (b, s, []) = concat (map (ends fl_none mark_tail)
      (ends fl_none (Grp 1 (Rep 1 None True (Cls False [AnyC]))) (b, s, [])))"
    by (simp add: round_tail_def mark_tail_def)
  also have "\<dots> = concat (map ?f ?ks)"
    unfolding ends_group_plus any_class m map_map comp_def ..
  finally have e: "ends fl_none round_tail (b, s, []) = concat (map ?f ?ks)" .
  show ?thesis
  proof (cases "split_round s")
    case None
    have "?f k = []" if "k \<in> set ?ks" for k
    proof -
      have "\<not> is_mark (drop k s)"
      proof
        assume "is_mark (drop k s)"
        then obtain ds where ds: "drop k s = ''-r'' @ ds" "ds \<noteq> []" "\<forall>c \<in> set ds. is_digit c"
          by (auto simp: is_mark_iff)
        have "s = take k s @ ''-r'' @ ds" using ds(1) by (metis append_take_drop_id)
        moreover have "take k s \<noteq> []" using that by auto
        ultimately have "split_round s = Some (take k s, ds)" using ds(2,3) split_round_iff by blast
        with None show False by simp
      qed
      then show ?thesis by (simp add: ends_mark_tail)
    qed
    then have f: "concat (map ?f ?ks) = []" by (rule concat_map_none)
    show ?thesis unfolding None option.case by (rule trans [OF e f])
  next
    case (Some q)
    then obtain a ds where q: "split_round s = Some (a, ds)" by (cases q) auto
    then have s: "s = a @ ''-r'' @ ds" "a \<noteq> []" "ds \<noteq> []" "\<forall>c \<in> set ds. is_digit c"
      using split_round_iff by blast+
    have other: "?f k = []" if "k \<in> set ?ks" "k \<noteq> length a" for k
    proof -
      have "\<not> is_mark (drop k s)"
      proof
        assume "is_mark (drop k s)"
        then obtain es where es: "drop k s = ''-r'' @ es" "es \<noteq> []" "\<forall>c \<in> set es. is_digit c"
          by (auto simp: is_mark_iff)
        have "s = take k s @ ''-r'' @ es" using es(1) by (metis append_take_drop_id)
        moreover have "take k s \<noteq> []" using that by auto
        ultimately have "split_round s = Some (take k s, es)" using es(2,3) split_round_iff by blast
        with q that show False by auto
      qed
      then show ?thesis by (simp add: ends_mark_tail)
    qed
    have here: "length a \<in> set ?ks" using s by (auto simp: Suc_le_eq)
    have "concat (map ?f ?ks) = ?f (length a)"
      by (rule concat_map_single) (use other here in auto)
    also have "\<dots> = [(rev s @ b, [], [(2, ds), (1, a)])]"
      using s by (simp add: ends_mark_tail is_mark_def starts_with_def)
    finally have f: "concat (map ?f ?ks) = [(rev s @ b, [], [(2, ds), (1, a)])]" .
    show ?thesis unfolding q option.case prod.case by (rule trans [OF e f])
  qed
qed

text \<open>The groups found by a pattern of the form \<open>^word(.+)-r(\d+)$\<close>.\<close>

lemma round_groups:
  assumes "\<forall>c \<in> set s. \<not> is_line_end c"
  shows "match_groups fl_none (Seq Bol (literal_then w round_tail)) s =
    (if starts_with w s
     then map_option (\<lambda>(a, ds). [(0, s), (2, ds), (1, a)]) (split_round (drop (length w) s)) else None)"
proof -
  have "\<not> fl_m fl_none" by (simp add: fl_none_def)
  note sa = search_anchored [OF this, of "literal_then w round_tail" "[]" s]
  show ?thesis
  proof (cases "starts_with w s")
    case False
    then show ?thesis by (simp add: match_groups_def sa ends_literal_then)
  next
    case True
    have "\<forall>c \<in> set (drop (length w) s). \<not> is_line_end c" using assms by (auto dest: in_set_dropD)
    note t = ends_round_tail [OF this, of "rev w"]
    show ?thesis
      using True by (simp add: match_groups_def sa ends_literal_then t split: option.splits)
  qed
qed

text \<open>\<open>parseTaskName\<close> without patterns.\<close>

definition parse_task_name_direct :: "string \<Rightarrow> parsed_name" where
  "parse_task_name_direct name =
     (if starts_with ''review-'' name then
        (case split_round (drop 7 name) of
           Some (a, ds) \<Rightarrow> \<lparr>pn_kind = Review, pn_originalName = a, pn_round = read_nat ds\<rparr>
         | None \<Rightarrow> \<lparr>pn_kind = Review, pn_originalName = drop 7 name, pn_round = 1\<rparr>)
      else if starts_with ''fix-'' name then
        (case split_round (drop 4 name) of
           Some (a, ds) \<Rightarrow> \<lparr>pn_kind = Fix, pn_originalName = a, pn_round = read_nat ds\<rparr>
         | None \<Rightarrow> \<lparr>pn_kind = Impl, pn_originalName = name, pn_round = 0\<rparr>)
      else \<lparr>pn_kind = Impl, pn_originalName = name, pn_round = 0\<rparr>)"

text \<open>C35: the name patterns compute what they read as. For every name on one line, the two regular
  expressions of the name parser, run by the backtracking matcher, give the same result as a
  direct reading: a fixed prefix, the longest run of digits at the end, the round mark before it
  and a name that is not empty before that; a review without a round mark is round 1, a fix
  without one is an ordinary task.\<close>

theorem name_patterns_equivalent:
  assumes "\<forall>c \<in> set name. \<not> is_line_end c"
  shows "parse_task_name name = parse_task_name_direct name"
proof -
  have l: "length ''review-'' = 7" "length ''fix-'' = 4" by simp_all
  have no: "\<not> starts_with ''review-'' name \<or> \<not> starts_with ''fix-'' name"
    by (auto simp: starts_with_iff)
  show ?thesis
    unfolding parse_task_name_def parse_task_name_direct_def review_round_pattern_eq fix_round_pattern_eq
      round_groups [OF assms] l
    using no by (cases "split_round (drop 7 name)"; cases "split_round (drop 4 name)") (auto simp: capture_def)
qed

lemma split_round_built:
  assumes "a \<noteq> []"
  shows "split_round (a @ ''-r'' @ show_nat n) = Some (a, show_nat n)"
  using assms split_round_iff [of "a @ ''-r'' @ show_nat n" a "show_nat n"] by (simp add: show_nat_digits)

lemma show_nat_one_line: "c \<in> set (show_nat n) \<Longrightarrow> \<not> is_line_end c"
proof -
  assume "c \<in> set (show_nat n)"
  then have "is_digit c" by (rule show_nat_digits)
  moreover have "\<not> is_digit (CHR 0x0A)" "\<not> is_digit (CHR 0x0D)" by code_simp+
  ultimately show ?thesis by (auto simp: is_line_end_def)
qed

lemma prefix_one_line: "c \<in> set ''review-r'' \<union> set ''fix-'' \<Longrightarrow> \<not> is_line_end c"
  by (auto simp: is_line_end_def)


subsection \<open>The newest run and the root of a chain\<close>

definition recency :: "run \<times> nat \<Rightarrow> int \<times> int \<times> nat" where
  "recency p = (run_createdAt (fst p), run_updatedAt (fst p), snd p)"

lemma compare_run_recency_pos: "compare_run_recency p q > 0 \<longleftrightarrow> recency q < recency p"
  by (auto simp: compare_run_recency_def recency_def compare_int_def Let_def less_prod_def less_eq_prod_def)

lemma latest_run_max:
  assumes "latest_run rs n l = Some x"
  shows "(l = Some x \<or> fst x \<in> set rs) \<and> (\<forall>y. l = Some y \<longrightarrow> recency y \<le> recency x) \<and>
    (\<forall>k < length rs. recency (rs ! k, n + k) \<le> recency x)"
  using assms
proof (induction rs n l rule: latest_run.induct)
  case (2 r rs n l)
  let ?l = "case l of None \<Rightarrow> Some (r, n) | Some m \<Rightarrow> if compare_run_recency (r, n) m > 0 then Some (r, n) else l"
  have l: "(?l = Some (r, n) \<or> ?l = l) \<and> (\<exists>m. ?l = Some m \<and> recency (r, n) \<le> recency m \<and>
      (\<forall>y. l = Some y \<longrightarrow> recency y \<le> recency m))"
    by (auto simp: compare_run_recency_pos split: option.splits)
  then obtain m where m: "?l = Some m" "recency (r, n) \<le> recency m" "\<forall>y. l = Some y \<longrightarrow> recency y \<le> recency m"
    by blast
  from "2.IH" "2.prems" have ih: "(?l = Some x \<or> fst x \<in> set rs) \<and> (\<forall>y. ?l = Some y \<longrightarrow> recency y \<le> recency x) \<and>
      (\<forall>k < length rs. recency (rs ! k, Suc n + k) \<le> recency x)" by simp
  have "recency m \<le> recency x" using ih m(1) by blast
  then have "recency (r, n) \<le> recency x" "\<forall>y. l = Some y \<longrightarrow> recency y \<le> recency x"
    using m(2,3) order_trans by blast+
  moreover have "recency ((r # rs) ! k, n + k) \<le> recency x" if "k < length (r # rs)" for k
    using that ih \<open>recency (r, n) \<le> recency x\<close> by (cases k) auto
  moreover have "l = Some x \<or> fst x \<in> set (r # rs)" using ih l by auto
  ultimately show ?case by blast
qed auto

text \<open>The run chosen belongs to the task or one of its fixes and no other of them is newer.\<close>

lemma lineage_run_newest:
  assumes "find_lineage_run_with w s sp original = Some r"
  shows "(\<exists>t \<in> set (lineage_tasks s sp original). r \<in> set (run_list (task_id t) s)) \<and> \<not> (w \<and> lacks_worktree r)"
    and "t \<in> set (lineage_tasks s sp original) \<Longrightarrow> q \<in> set (run_list (task_id t) s) \<Longrightarrow>
      \<not> (w \<and> lacks_worktree q) \<Longrightarrow>
      (run_createdAt q, run_updatedAt q) \<le> (run_createdAt r, run_updatedAt r)"
proof -
  let ?rs = "filter (\<lambda>r. \<not> (w \<and> lacks_worktree r)) (concat (map (\<lambda>t. run_list (task_id t) s) (lineage_tasks s sp original)))"
  from assms obtain k where k: "latest_run ?rs 0 None = Some (r, k)"
    by (auto simp: find_lineage_run_with_def)
  note m = latest_run_max [OF k]
  then show "(\<exists>t \<in> set (lineage_tasks s sp original). r \<in> set (run_list (task_id t) s)) \<and> \<not> (w \<and> lacks_worktree r)"
    by auto
  assume "t \<in> set (lineage_tasks s sp original)" "q \<in> set (run_list (task_id t) s)" "\<not> (w \<and> lacks_worktree q)"
  then have "q \<in> set ?rs" by auto
  then obtain j where j: "j < length ?rs" "?rs ! j = q" unfolding in_set_conv_nth by blast
  with m have "recency (q, j) \<le> recency (r, k)" by fastforce
  then show "(run_createdAt q, run_updatedAt q) \<le> (run_createdAt r, run_updatedAt r)"
    by (auto simp: recency_def less_eq_prod_def less_prod_def)
qed

text \<open>A chain of runs, each the child of the next.\<close>

fun linked :: "run list \<Rightarrow> bool" where
  "linked (a # b # xs) = (run_parentRunId a = Some (run_id b) \<and> linked (b # xs))"
| "linked xs = True"

definition is_root :: "store \<Rightarrow> run \<Rightarrow> bool" where
  "is_root s r \<longleftrightarrow> (case run_parentRunId r of None \<Rightarrow> True | Some p \<Rightarrow> run_get p s = None)"

lemma run_get_SomeD: "run_get i s = Some r \<Longrightarrow> r \<in> set (st_runs s) \<and> run_id r = i"
  by (auto simp: run_get_def dest: find_SomeD)

lemma walk_parents_result:
  assumes "wf (parent_graph (st_runs s))" and "run_get i s = Some q"
  shows "\<exists>xs. walk_parents s q chain = Some (chain @ xs) \<and> linked (q # xs) \<and> is_root s (last (q # xs))"
  using assms
proof (induction i arbitrary: q chain rule: wf_induct_rule)
  case (less i)
  from run_get_SomeD [OF less.prems] have q: "q \<in> set (st_runs s)" "run_id q = i" by auto
  show ?case
  proof (cases "is_root s q")
    case True
    then have "walk_parents s q chain = Some chain"
      by (subst walk_parents.simps) (auto simp: is_root_def split: option.splits)
    with True show ?thesis by (intro exI [of _ "[]"]) simp
  next
    case False
    then obtain p r where p: "run_parentRunId q = Some p" "run_get p s = Some r"
      by (auto simp: is_root_def split: option.splits)
    have "(p, i) \<in> parent_graph (st_runs s)" using q p(1) by (auto simp: parent_graph_def)
    from less.IH [OF this p(2), of "chain @ [r]"] obtain xs where xs:
      "walk_parents s r (chain @ [r]) = Some ((chain @ [r]) @ xs)" "linked (r # xs)" "is_root s (last (r # xs))"
      by blast
    have "walk_parents s q chain = Some (chain @ r # xs)"
      using p xs(1) by (subst walk_parents.simps) simp
    moreover have "run_id r = p" using run_get_SomeD [OF p(2)] by simp
    ultimately show ?thesis using p xs(2,3) by (intro exI [of _ "r # xs"]) simp
  qed
qed

lemma root_run_found:
  assumes "acyclic (parent_graph (st_runs s))" and "run_get i s = Some r"
  shows "\<exists>xs. walk_parent_chain s r = Some (r # xs) \<and> linked (r # xs) \<and> is_root s (last (r # xs)) \<and>
    find_root_run s r = Some (last (r # xs))"
proof -
  have "finite (parent_graph (st_runs s))" by (rule finite_parent_graph)
  then have "wf (parent_graph (st_runs s))" using assms(1) by (rule finite_acyclic_wf)
  from walk_parents_result [OF this assms(2), of "[r]"] obtain xs where
    "walk_parents s r [r] = Some ([r] @ xs)" "linked (r # xs)" "is_root s (last (r # xs))" by blast
  then show ?thesis
    by (intro exI [of _ xs]) (simp add: walk_parent_chain_def find_root_run_def)
qed

end
