(* ===== verification/Startup.thy ===== *)
theory Startup
  imports Lineage Checkpoint
begin

text \<open>
  What a restarted server does with the runs it finds live (\<open>dispatcher-reconcile-classifier.ts\<close>),
  and the tool call a run is in the middle of (\<open>run-tool-liveness.ts\<close>). The activity log and the
  sessions held in memory are arguments; a timestamp column always parses.
\<close>

subsection \<open>Calls in flight\<close>

datatype activity_kind = ToolCall | ToolResult | TextActivity | SummaryActivity | ResultActivity

record run_activity =
  ra_id :: nat
  ra_runId :: string
  ra_kind :: activity_kind
  ra_content :: string
  ra_toolName :: "string option"
  ra_createdAt :: instant

record tool_call =
  tc_toolName :: "string option"
  tc_content :: string
  tc_createdAt :: instant

text \<open>The newest rows of a run, oldest first.\<close>

definition activity_list :: "run_activity list \<Rightarrow> string \<Rightarrow> nat \<Rightarrow> run_activity list" where
  "activity_list rows i n =
     (let newest = rev (sort_key (\<lambda>a. (ra_createdAt a, ra_id a)) (filter (\<lambda>a. ra_runId a = i) rows)) in
      rev (take n newest))"

text \<open>The loop from the last row to the first, with the call found so far.\<close>

fun scan_back :: "run_activity list \<Rightarrow> run_activity option \<Rightarrow> run_activity option" where
  "scan_back [] pending = pending"
| "scan_back (a # as) pending =
     (if ra_kind a = ToolResult then pending
      else scan_back as (if ra_kind a = ToolCall \<and> pending = None then Some a else pending))"

definition find_in_flight_tool_call :: "run_activity list option \<Rightarrow> string \<Rightarrow> tool_call option" where
  "find_in_flight_tool_call repo i =
     (case repo of None \<Rightarrow> None
      | Some rows \<Rightarrow> map_option
          (\<lambda>a. \<lparr>tc_toolName = ra_toolName a, tc_content = ra_content a, tc_createdAt = ra_createdAt a\<rparr>)
          (scan_back (rev (activity_list rows i 25)) None))"

definition has_fresh_run_heartbeat :: "run \<Rightarrow> instant \<Rightarrow> bool" where
  "has_fresh_run_heartbeat r now \<longleftrightarrow>
     now - (case run_lastHeartbeat r of Some h \<Rightarrow> h | None \<Rightarrow> run_createdAt r) \<le> run_heartbeatTimeoutSeconds r * 1000"

definition describe_in_flight_tool :: "tool_call option \<Rightarrow> string option" where
  "describe_in_flight_tool call = map_option (\<lambda>c.
     trim ((case tc_toolName c of None \<Rightarrow> ''in-flight tool call'' | Some n \<Rightarrow> ''in-flight '' @ n) @ '': '' @ tc_content c)) call"

subsection \<open>Disposition\<close>

datatype disposition = AlreadyLive | Resumable | CompletedUnrecorded | DeadClaim | GenuinelyStalled | NoMapping

datatype reconcile_action = NoAction | ResumeFromCheckpoint | StallRun | FinalizeRun

record startup_classification =
  sc_runId :: string
  sc_disposition :: disposition
  sc_action :: reconcile_action
  sc_reason :: string
  sc_sessionId :: "string option"
  sc_checkpointStage :: "workflow_stage option"
  sc_leaseStatus :: "lease_status option"
  sc_fenceToken :: "nat option"
  sc_inFlightTool :: "string option"

record startup_deps =
  su_activeSessions :: "string set"
  su_leaseRepo :: bool
  su_evidenceRepo :: bool
  su_checkpointRepo :: bool
  su_activity :: "run_activity list option"
  su_canSeedWorkflowStage :: bool
  su_onDisk :: "string \<Rightarrow> bool"
  su_now :: instant

definition has_durable_completion_signal :: "startup_deps \<Rightarrow> store \<Rightarrow> run \<Rightarrow> bool" where
  "has_durable_completion_signal d s r \<longleftrightarrow>
     (if (case run_completionSummary r of None \<Rightarrow> False | Some x \<Rightarrow> length (trim x) > 0) then True
      else su_evidenceRepo d \<and> list_ex (\<lambda>e. ev_runId e = run_id r \<and> ev_type e = EvCustom \<and>
        jis (ev_payload e) ''kind'' ''agent.complete'' \<and> is_trusted_payload (ev_payload e)) (st_evidence s))"

definition session_of_run :: "store \<Rightarrow> string \<Rightarrow> string option" where
  "session_of_run s i = map_option fst (find (\<lambda>m. snd m = i) (st_sessions s))"

definition entry ::
    "run \<Rightarrow> string option \<Rightarrow> disposition \<Rightarrow> reconcile_action \<Rightarrow> string \<Rightarrow> lease option \<Rightarrow> string option \<Rightarrow>
     startup_classification" where
  "entry r mapping disposition action reason l tool =
     \<lparr>sc_runId = run_id r, sc_disposition = disposition, sc_action = action, sc_reason = reason,
      sc_sessionId = mapping, sc_checkpointStage = None, sc_leaseStatus = map_option lease_status l,
      sc_fenceToken = map_option lease_fenceToken l, sc_inFlightTool = tool\<rparr>"

text \<open>Looking up the active lease of a run marks the leases that have run out, so the run's latest lease
  is read from the table it leaves.\<close>

definition classify_startup_run :: "startup_deps \<Rightarrow> store \<Rightarrow> run \<Rightarrow> startup_classification \<times> store" where
  "classify_startup_run d s r =
     (let looked = (if su_leaseRepo d then active_lease_for_run (run_id r) (su_now d) (st_leases s) else (Inr None, st_leases s));
          active = (case fst looked of Inr l \<Rightarrow> l | Inl _ \<Rightarrow> None);
          s' = s\<lparr>st_leases := snd looked\<rparr>;
          latest = (if su_leaseRepo d then latest_lease_for_run (run_id r) (st_leases s') else None);
          mapping = session_of_run s' (run_id r);
          tool = describe_in_flight_tool (find_in_flight_tool_call (su_activity d) (run_id r)) in
      (if run_id r \<in> su_activeSessions d then
         entry r mapping AlreadyLive NoAction ''valid live lease or active dispatcher session'' latest tool
       else if is_workflow_owned_run s' r then
         entry r mapping AlreadyLive NoAction ''workflow-owned run does not need startup recovery'' latest tool
       else if has_durable_completion_signal d s' r then
         entry r mapping CompletedUnrecorded FinalizeRun ''stored completion signal needs post-completion routing'' latest tool
       else if active \<noteq> None then
         entry r mapping AlreadyLive NoAction ''valid live lease or active dispatcher session'' latest tool
       else if tool \<noteq> None \<and> has_fresh_run_heartbeat r (su_now d) then
         entry r mapping AlreadyLive NoAction ''fresh heartbeat during in-flight tool call'' latest tool
       else if can_resume_stalled_run (su_onDisk d) (su_checkpointRepo d) r (su_canSeedWorkflowStage d) s' then
         (entry r mapping Resumable ResumeFromCheckpoint
            ''expired or missing live claim with resumable checkpoint'' latest tool)
         \<lparr>sc_checkpointStage := map_option cp_stage (if su_checkpointRepo d then checkpoint_get (run_id r) s' else None)\<rparr>
       else if mapping = None then
         entry r mapping NoMapping StallRun ''harness session mapping missing across server restart'' latest tool
       else if map_option lease_status latest = Some LeaseExpired then
         entry r mapping DeadClaim StallRun ''expired attempt lease with no resumable checkpoint'' latest tool
       else
         entry r mapping GenuinelyStalled StallRun ''no live lease or resumable checkpoint across server restart'' latest tool,
       s'))"

subsection \<open>What a restart may touch\<close>

lemma leases_irrelevant [simp]:
  "task_get i (s\<lparr>st_leases := l\<rparr>) = task_get i s"
  "task_list i (s\<lparr>st_leases := l\<rparr>) = task_list i s"
  "has_durable_completion_signal d (s\<lparr>st_leases := l\<rparr>) r = has_durable_completion_signal d s r"
  "can_resume_stalled_run f w r h (s\<lparr>st_leases := l\<rparr>) = can_resume_stalled_run f w r h s"
  by (simp_all add: task_get_def task_list_def has_durable_completion_signal_def can_resume_stalled_run_def
      checkpoint_get_def)

lemma workflow_owned_leases [simp]: "is_workflow_owned_run (s\<lparr>st_leases := l\<rparr>) r = is_workflow_owned_run s r"
  by (cases "task_get (run_taskId r) s") (simp_all add: is_workflow_owned_run_def has_downstream_lineage_work_def)

text \<open>A call is in flight when the newest call of the window has no result after it.\<close>

lemma scan_back_iff:
  "scan_back as p = (case p of Some a \<Rightarrow> Some a
     | None \<Rightarrow> find (\<lambda>a. ra_kind a = ToolCall) (takeWhile (\<lambda>a. ra_kind a \<noteq> ToolResult) as))"
  by (induction as p rule: scan_back.induct) (auto split: option.splits)

definition busy_with_tool :: "startup_deps \<Rightarrow> run \<Rightarrow> bool" where
  "busy_with_tool d r \<longleftrightarrow> find_in_flight_tool_call (su_activity d) (run_id r) \<noteq> None \<and>
     has_fresh_run_heartbeat r (su_now d)"

lemma describe_in_flight_None [simp]: "describe_in_flight_tool c = None \<longleftrightarrow> c = None"
  by (simp add: describe_in_flight_tool_def)

text \<open>C11: a restart takes a run over only when nobody has it. With the lease table in any reachable
  state, a run is resumed or stalled at startup only if this process has no session for it, no
  process holds its lease, its next step does not belong to the workflow, no trusted completion
  is on record and no tool call is in flight under a fresh heartbeat; it is resumed exactly if its
  checkpoint and worktree allow it, and stalled otherwise. A run is finalized only on a recorded
  completion. Classifying changes nothing but the leases that have run out.\<close>

theorem startup_takes_over_abandoned_runs:
  assumes "lease_step\<^sup>*\<^sup>* empty_leases (st_leases s)" and "su_leaseRepo d"
    and "classify_startup_run d s r = (c, s')"
  shows "(sc_action c = ResumeFromCheckpoint \<or> sc_action c = StallRun \<longrightarrow>
      run_id r \<notin> su_activeSessions d \<and> holder (st_leases s) (su_now d) (run_id r) = None \<and>
      \<not> is_workflow_owned_run s r \<and> \<not> has_durable_completion_signal d s r \<and> \<not> busy_with_tool d r \<and>
      (sc_action c = ResumeFromCheckpoint \<longleftrightarrow>
         can_resume_stalled_run (su_onDisk d) (su_checkpointRepo d) r (su_canSeedWorkflowStage d) s)) \<and>
    (sc_action c = FinalizeRun \<longrightarrow>
      run_id r \<notin> su_activeSessions d \<and> has_durable_completion_signal d s r) \<and>
    s' = s\<lparr>st_leases := expire_due_leases (su_now d) (st_leases s)\<rparr>"
  using assms(3)
  by (auto simp: classify_startup_run_def Let_def assms(2)
      active_lease_for_run_eq [OF lease_inv_reachable [OF assms(1)]] entry_def busy_with_tool_def
      split: if_splits)

end
