(* ===== verification/Frame.thy ===== *)
theory Frame
  imports Dag
begin

text \<open>
  What an operation leaves alone. A view of the database is spared by a computation that never
  changes it, whether it returns or throws. The locale states what a view must not look at: of the
  runs it may see who they are and what they belong to, of the specs their settings, of the tasks
  all but their status. In exchange every operation of the run state machine and the DAG evaluator
  spares it. Components that own a column (the retries of a task, the family tree of the runs)
  interpret it for that column.
\<close>

definition spares :: "('s \<Rightarrow> 'v) \<Rightarrow> ('s, 'e, 'a) comp \<Rightarrow> bool" where
  "spares view m \<longleftrightarrow> (\<forall>s. view (snd (m s)) = view s)"

named_theorems spares_intros \<open>computations that spare a view\<close>

lemma sparesI: "(\<And>s. view (snd (m s)) = view s) \<Longrightarrow> spares view m"
  by (simp add: spares_def)

lemma sparesD: "spares view m \<Longrightarrow> view (snd (m s)) = view s"
  by (simp add: spares_def)

lemma spares_result: "spares view m \<Longrightarrow> m s = (r, t) \<Longrightarrow> view t = view s"
  using sparesD [of view m s] by simp

lemma spares_give [spares_intros]: "spares view (give x)"
  by (simp add: spares_def give_def)

lemma spares_fail [spares_intros]: "spares view (fail e)"
  by (simp add: spares_def fail_def)

lemma spares_guard [spares_intros]: "spares view (guard_or b e)"
  by (simp add: spares_def guard_or_def give_def fail_def)

lemma spares_reading [spares_intros]: "spares view (reading f)"
  by (simp add: spares_def reading_def)

lemma spares_modify: "(\<And>s. view (f s) = view s) \<Longrightarrow> spares view (modify f)"
  by (simp add: spares_def modify_def)

lemma spares_andthen [spares_intros]:
  assumes "spares view m" and "\<And>x. spares view (k x)"
  shows "spares view (andthen m k)"
proof (rule sparesI)
  fix s
  obtain r t where m: "m s = (r, t)" by fastforce
  then have "view t = view s" by (rule spares_result [OF assms(1)])
  with m sparesD [OF assms(2)] show "view (snd (andthen m k s)) = view s"
    by (cases r) (simp_all add: andthen_def)
qed

lemma spares_if [spares_intros]: "(b \<Longrightarrow> spares view m) \<Longrightarrow> (\<not> b \<Longrightarrow> spares view n) \<Longrightarrow> spares view (if b then m else n)"
  by simp

lemma spares_case_option [spares_intros]:
  "(x = None \<Longrightarrow> spares view m) \<Longrightarrow> (\<And>y. x = Some y \<Longrightarrow> spares view (n y)) \<Longrightarrow>
   spares view (case x of None \<Rightarrow> m | Some y \<Rightarrow> n y)"
  by (cases x) simp_all

lemma spares_case_sum [spares_intros]:
  "(\<And>y. x = Inl y \<Longrightarrow> spares view (m y)) \<Longrightarrow> (\<And>y. x = Inr y \<Longrightarrow> spares view (n y)) \<Longrightarrow>
   spares view (case x of Inl y \<Rightarrow> m y | Inr y \<Rightarrow> n y)"
  by (cases x) simp_all

lemma spares_case_prod [spares_intros]:
  "(\<And>a b. x = (a, b) \<Longrightarrow> spares view (m a b)) \<Longrightarrow> spares view (case x of (a, b) \<Rightarrow> m a b)"
  by (cases x) simp_all

lemma spares_let [spares_intros]: "(\<And>x. x = e \<Longrightarrow> spares view (m x)) \<Longrightarrow> spares view (let x = e in m x)"
  by simp

lemma spares_require [spares_intros]:
  "spares view (run_get_required i)" "spares view (task_get_required i)" "spares view (require_spec i)"
  by (rule sparesI, simp add: run_get_required_def task_get_required_def require_spec_def split: option.splits)+

definition run_identity :: "run \<Rightarrow> string \<times> string option \<times> string" where
  "run_identity r = (run_id r, run_parentRunId r, run_taskId r)"

definition spec_settings :: "spec \<Rightarrow> string \<times> nat option" where
  "spec_settings p = (spec_id p, spec_maxFixIterations p)"

locale frame =
  fixes view :: "store \<Rightarrow> 'v"
  assumes spared_runs: "map run_identity runs = map run_identity (st_runs s) \<Longrightarrow> view (s\<lparr>st_runs := runs\<rparr>) = view s"
    and spared_history: "view (s\<lparr>st_history := hist\<rparr>) = view s"
    and spared_checkpoints: "view (s\<lparr>st_checkpoints := cps\<rparr>) = view s"
    and spared_leases: "view (s\<lparr>st_leases := leases\<rparr>) = view s"
    and spared_events: "view (s\<lparr>st_events := events\<rparr>) = view s"
    and spared_specs: "map spec_settings specs = map spec_settings (st_specs s) \<Longrightarrow>
      view (s\<lparr>st_specs := specs\<rparr>) = view s"
    and spared_evidence: "view (s\<lparr>st_evidence := items\<rparr>) = view s"
    and spared_status: "view (write_tasks i (\<lambda>t. t\<lparr>task_status := st\<rparr>) s) = view s"
begin

lemmas spared = spared_runs spared_history spared_checkpoints spared_leases spared_events spared_specs
  spared_evidence spared_status

lemma emit_spares [spares_intros]: "spares view (emit e)"
  unfolding emit_def by (rule spares_modify) (simp add: spared)

lemma run_write_spares [spares_intros]:
  assumes "\<And>r. run_identity (f r) = run_identity r"
  shows "spares view (run_write i f)"
proof -
  have "run_identity ((f r)\<lparr>run_updatedAt := n\<rparr>) = run_identity r" for r n
    using assms [of r] by (simp add: run_identity_def)
  then have "view (write_runs i f s) = view s" for s
    unfolding write_runs_def by (intro spared_runs map_update_where_same) simp
  then show ?thesis unfolding run_write_def by (intro spares_intros spares_modify)
qed

lemma on_leases_spares [spares_intros]: "spares view (on_leases m)"
  by (rule sparesI) (simp add: on_leases_eq spared)

lemma history_add_spares [spares_intros]: "spares view (history_add c i a b reason)"
  unfolding history_add_def by (intro spares_intros spares_modify) (simp add: spared)

lemma run_updates_spare [spares_intros]:
  "spares view (run_update_terminal_state i t)" "spares view (run_update_stage c i g reason)"
  "spares view (run_update_failure c i why b)" "spares view (run_update_workflow_state c i w)"
  "spares view (run_assert_fence c i tok now)" "spares view (run_update_terminal_state_fenced c i t tok now)"
  "spares view (run_increment_verify_retries i)" "spares view (run_update_git_artifacts i git)"
  unfolding run_update_terminal_state_def run_update_stage_def run_update_failure_def run_update_workflow_state_def
    run_update_terminal_state_fenced_def run_assert_fence_def run_increment_verify_retries_def run_update_git_artifacts_def
  by (intro spares_intros; simp add: run_identity_def set_if_def split: option.split)+

lemma terminal_state_spares [spares_intros]:
  "spares view (apply_terminal_state c i t opts)" "spares view (assert_fenced_terminal_state c i t opts)"
  "spares view (record_transition c r g reason)"
  unfolding apply_terminal_state_def assert_fenced_terminal_state_def record_transition_def
  by (intro spares_intros)+

lemma marks_spare [spares_intros]:
  "spares view (mark_failed c i reason opts)" "spares view (mark_done c i reason opts)"
  "spares view (mark_quarantined c i why opts)" "spares view (mark_stalled c i opts)"
  "spares view (halt_resumable c i state why ev opts)"
  unfolding mark_failed_def mark_done_def mark_quarantined_def mark_stalled_def halt_resumable_def
  by (intro spares_intros)+

lemma checkpoint_spares [spares_intros]:
  "spares view (checkpoint_upsert ci)" "spares view (checkpoint_upsert_fenced c ci tok now)"
  unfolding checkpoint_upsert_def checkpoint_upsert_fenced_def
  by (intro spares_intros spares_modify; simp add: spared)+

lemma stage_records_spare [spares_intros]:
  "spares view (write_stage_checkpoint c i g opts)" "spares view (record_stage_advance c i a g why opts)"
  "spares view (record_stage_reset c i a g why opts)"
  unfolding write_stage_checkpoint_def record_stage_advance_def record_stage_reset_def
  by (intro spares_intros)+

lemma task_status_spares [spares_intros]: "spares view (task_update_status i st)"
  unfolding task_update_status_def task_write_def by (intro spares_intros spares_modify) (simp add: spared)

lemma dag_task_spares [spares_intros]: "spares view (dag_update_task_status t st)"
  unfolding dag_update_task_status_def by (intro spares_intros)

lemma sweep_task_spares [spares_intros]: "spares view (sweep_task deps t w)"
proof (rule sparesI)
  fix s
  show "view (snd (sweep_task deps t w s)) = view s"
    using sparesD [OF spares_andthen [OF dag_task_spares spares_give]]
    by (auto simp: sweep_task_def Let_def split: option.splits)
qed

lemma sweep_spares [spares_intros]: "spares view (sweep deps ts w)"
  by (induction ts arbitrary: w) (auto intro!: spares_intros)

lemma sweeps_spares [spares_intros]: "spares view (sweeps n deps ts w)"
  by (induction n arbitrary: w) (auto intro!: spares_intros)

lemma spec_status_spares [spares_intros]: "spares view (spec_update_status i st)"
proof -
  have "view (spec_write_status i st s) = view s" for s
    unfolding spec_write_status_def by (intro spared_specs map_update_where_same) (simp add: spec_settings_def)
  then show ?thesis
    unfolding spec_update_status_def
    by (intro spares_intros spares_modify sparesI) (simp_all split: option.splits)
qed

lemma reconcile_spares [spares_intros]:
  "spares view (dag_update_spec_status i st)" "spares view (reconcile_spec_status i)"
  unfolding reconcile_spec_status_def dag_update_spec_status_def by (intro spares_intros)+

lemma evaluate_spares [spares_intros]: "spares view (evaluate_task_dag n sp)"
  unfolding evaluate_task_dag_def by (intro spares_intros)

end

text \<open>A view that reads fixed columns of the tasks is one.\<close>

definition task_view :: "(task \<Rightarrow> 'c) \<Rightarrow> store \<Rightarrow> 'c list" where
  "task_view f s = map f (st_tasks s)"

lemma task_view_write:
  "(\<And>t n. f (t\<lparr>task_updatedAt := n\<rparr>) = f t) \<Longrightarrow> (\<And>t. f (g t) = f t) \<Longrightarrow>
   task_view f (write_tasks i g s) = task_view f s"
  by (simp add: task_view_def map_update_where_same)

end
