(* ===== verification/Json_Text.thy ===== *)
theory Json_Text
  imports Regex Ductum_Types
begin

text \<open>
  \<open>JSON.stringify\<close> and \<open>JSON.parse\<close> of the language, on texts of Latin-1 code units: a unicode escape
  above \<open>00ff\<close> is not a text of the model, and the reader refuses it. Numbers are rationals; how
  one is printed is an argument of the writer.
\<close>

subsection \<open>Writing\<close>

definition hex_digit :: "nat \<Rightarrow> char" where
  "hex_digit n = ''0123456789abcdef'' ! (n mod 16)"

definition json_char :: "char \<Rightarrow> string" where
  "json_char c =
     (let n = nat (code_unit c) in
      if c = CHR 0x22 \<or> c = CHR 0x5C then [CHR 0x5C, c]
      else if n = 8 then [CHR 0x5C, CHR ''b''] else if n = 9 then [CHR 0x5C, CHR ''t'']
      else if n = 10 then [CHR 0x5C, CHR ''n''] else if n = 12 then [CHR 0x5C, CHR ''f'']
      else if n = 13 then [CHR 0x5C, CHR ''r'']
      else if n < 32 then [CHR 0x5C, CHR ''u'', CHR ''0'', CHR ''0'', hex_digit (n div 16), hex_digit n]
      else [c])"

definition json_quote :: "string \<Rightarrow> string" where
  "json_quote s = CHR 0x22 # concat (map json_char s) @ [CHR 0x22]"

fun json_text :: "(rat \<Rightarrow> string) \<Rightarrow> json \<Rightarrow> string"
and json_items :: "(rat \<Rightarrow> string) \<Rightarrow> json list \<Rightarrow> string list"
and json_fields :: "(rat \<Rightarrow> string) \<Rightarrow> (string \<times> json) list \<Rightarrow> string list" where
  "json_text num JNull = ''null''"
| "json_text num (JBool b) = (if b then ''true'' else ''false'')"
| "json_text num (JNum n) = num n"
| "json_text num (JStr s) = json_quote s"
| "json_text num (JArr vs) = ''['' @ join_strings '','' (json_items num vs) @ '']''"
| "json_text num (JObj fs) = ''{'' @ join_strings '','' (json_fields num fs) @ ''}''"
| "json_items num [] = []"
| "json_items num (v # vs) = json_text num v # json_items num vs"
| "json_fields num [] = []"
| "json_fields num ((k, v) # fs) = (json_quote k @ '':'' @ json_text num v) # json_fields num fs"

subsection \<open>Reading\<close>

definition is_json_space :: "char \<Rightarrow> bool" where
  "is_json_space c \<longleftrightarrow> c = CHR '' '' \<or> c = CHR 0x09 \<or> c = CHR 0x0A \<or> c = CHR 0x0D"

definition skip_space :: "string \<Rightarrow> string" where
  "skip_space s = dropWhile is_json_space s"

definition hex_value :: "char \<Rightarrow> nat option" where
  "hex_value c =
     (if is_digit c then Some (nat (code_unit c - 48))
      else if in_range (CHR ''a'') (CHR ''f'') c then Some (nat (code_unit c - 87))
      else if in_range (CHR ''A'') (CHR ''F'') c then Some (nat (code_unit c - 55))
      else None)"

definition hex_pair :: "string \<Rightarrow> char option" where
  "hex_pair s =
     (case s of a # b # c # d # r \<Rightarrow>
        if a = CHR ''0'' \<and> b = CHR ''0''
        then (case (hex_value c, hex_value d) of (Some x, Some y) \<Rightarrow> Some (char_of (16 * x + y)) | _ \<Rightarrow> None)
        else None
      | _ \<Rightarrow> None)"

definition simple_escape :: "char \<Rightarrow> char option" where
  "simple_escape c =
     (if c = CHR 0x22 \<or> c = CHR 0x5C \<or> c = CHR ''/'' then Some c
      else if c = CHR ''b'' then Some (CHR 0x08) else if c = CHR ''f'' then Some (CHR 0x0C)
      else if c = CHR ''n'' then Some (CHR 0x0A) else if c = CHR ''r'' then Some (CHR 0x0D)
      else if c = CHR ''t'' then Some (CHR 0x09) else None)"

definition put_char :: "char \<Rightarrow> (string \<times> string) option \<Rightarrow> (string \<times> string) option" where
  "put_char c res = map_option (\<lambda>(s, r). (c # s, r)) res"

text \<open>The rest of a string literal, after its opening quote.\<close>

function read_quoted :: "string \<Rightarrow> (string \<times> string) option" where
  "read_quoted s =
     (case s of [] \<Rightarrow> None
      | c # cs \<Rightarrow>
          if c = CHR 0x22 then Some ([], cs)
          else if c = CHR 0x5C then
            (case cs of [] \<Rightarrow> None
             | e # ds \<Rightarrow>
                 if e = CHR ''u'' then
                   (case hex_pair ds of None \<Rightarrow> None | Some x \<Rightarrow> put_char x (read_quoted (drop 4 ds)))
                 else (case simple_escape e of None \<Rightarrow> None | Some x \<Rightarrow> put_char x (read_quoted ds)))
          else if code_unit c < 32 then None
          else put_char c (read_quoted cs))"
  by pat_completeness auto

termination
  by (relation "measure length") auto

declare read_quoted.simps [simp del]

definition digits_value :: "string \<Rightarrow> rat" where
  "digits_value ds = of_nat (read_nat ds)"

text \<open>\<open>-?(0|[1-9][0-9]*)(.[0-9]+)?([eE][+-]?[0-9]+)?\<close>, each part with the text after it.\<close>

definition read_digits :: "string \<Rightarrow> (string \<times> string) option" where
  "read_digits s = (let ds = takeWhile is_digit s in if ds = [] then None else Some (ds, drop (length ds) s))"

definition read_integer :: "string \<Rightarrow> (rat \<times> string) option" where
  "read_integer s =
     (case read_digits s of None \<Rightarrow> None
      | Some (ds, r) \<Rightarrow> if ds \<noteq> [CHR ''0''] \<and> hd ds = CHR ''0'' then Some (0, tl s) else Some (digits_value ds, r))"

definition read_fraction :: "rat \<times> string \<Rightarrow> (rat \<times> string) option" where
  "read_fraction p = (case p of (n, s) \<Rightarrow>
     if starts_with ''.'' s then
       (case read_digits (tl s) of None \<Rightarrow> None | Some (ds, r) \<Rightarrow> Some (n + digits_value ds / 10 ^ length ds, r))
     else Some (n, s))"

definition read_exponent :: "rat \<times> string \<Rightarrow> (rat \<times> string) option" where
  "read_exponent p = (case p of (n, s) \<Rightarrow>
     if starts_with ''e'' s \<or> starts_with ''E'' s then
       (let sign = starts_with ''+'' (tl s) \<or> starts_with ''-'' (tl s); u = (if sign then tl (tl s) else tl s) in
        case read_digits u of None \<Rightarrow> None
        | Some (ds, r) \<Rightarrow>
            Some (if starts_with ''-'' (tl s) then n / 10 ^ read_nat ds else n * 10 ^ read_nat ds, r))
     else Some (n, s))"

definition read_number_text :: "string \<Rightarrow> (rat \<times> string) option" where
  "read_number_text s =
     (let minus = starts_with ''-'' s in
      map_option (\<lambda>(n, r). (if minus then - n else n, r))
        (Option.bind (Option.bind (read_integer (if minus then tl s else s)) read_fraction) read_exponent))"

text \<open>A repeated key keeps its place and takes the last value.\<close>

definition put_field :: "string \<Rightarrow> json \<Rightarrow> payload \<Rightarrow> payload" where
  "put_field k v fs =
     (if k \<in> set (map fst fs) then map (\<lambda>(l, w). if l = k then (l, v) else (l, w)) fs else fs @ [(k, v)])"

text \<open>Fuel: every value and every separator takes a character, so twice the length is enough.\<close>

fun read_value :: "nat \<Rightarrow> string \<Rightarrow> (json \<times> string) option"
and read_elements :: "nat \<Rightarrow> json list \<Rightarrow> string \<Rightarrow> (json list \<times> string) option"
and read_members :: "nat \<Rightarrow> payload \<Rightarrow> string \<Rightarrow> (payload \<times> string) option" where
  "read_value 0 s = None"
| "read_value (Suc n) s =
     (case skip_space s of [] \<Rightarrow> None
      | c # cs \<Rightarrow>
          if c = CHR ''{'' then
            (if starts_with ''}'' (skip_space cs) then Some (JObj [], tl (skip_space cs))
             else map_option (\<lambda>(fs, r). (JObj fs, r)) (read_members n [] cs))
          else if c = CHR ''['' then
            (if starts_with '']'' (skip_space cs) then Some (JArr [], tl (skip_space cs))
             else map_option (\<lambda>(vs, r). (JArr vs, r)) (read_elements n [] cs))
          else if c = CHR 0x22 then map_option (\<lambda>(t, r). (JStr t, r)) (read_quoted cs)
          else if starts_with ''true'' (c # cs) then Some (JBool True, drop 4 (c # cs))
          else if starts_with ''false'' (c # cs) then Some (JBool False, drop 5 (c # cs))
          else if starts_with ''null'' (c # cs) then Some (JNull, drop 4 (c # cs))
          else map_option (\<lambda>(k, r). (JNum k, r)) (read_number_text (c # cs)))"
| "read_elements 0 vs s = None"
| "read_elements (Suc n) vs s =
     (case read_value n s of None \<Rightarrow> None
      | Some (v, r) \<Rightarrow>
          (case skip_space r of [] \<Rightarrow> None
           | c # cs \<Rightarrow>
               if c = CHR '','' then read_elements n (vs @ [v]) cs
               else if c = CHR '']'' then Some (vs @ [v], cs) else None))"
| "read_members 0 fs s = None"
| "read_members (Suc n) fs s =
     (case skip_space s of [] \<Rightarrow> None
      | q # qs \<Rightarrow>
          if q \<noteq> CHR 0x22 then None
          else (case read_quoted qs of None \<Rightarrow> None
            | Some (k, r) \<Rightarrow>
                if \<not> starts_with '':'' (skip_space r) then None
                else (case read_value n (tl (skip_space r)) of None \<Rightarrow> None
                  | Some (v, r') \<Rightarrow>
                      (case skip_space r' of [] \<Rightarrow> None
                       | c # cs \<Rightarrow>
                           if c = CHR '','' then read_members n (put_field k v fs) cs
                           else if c = CHR ''}'' then Some (put_field k v fs, cs) else None))))"

definition parse_json :: "string \<Rightarrow> json option" where
  "parse_json s =
     (case read_value (2 * length s + 2) s of None \<Rightarrow> None
      | Some (v, r) \<Rightarrow> if skip_space r = [] then Some v else None)"

text \<open>Only a text with an opening brace is an object.\<close>

lemma parse_json_object:
  assumes "parse_json s = Some (JObj fs)"
  shows "CHR ''{'' \<in> set s"
proof -
  from assms obtain r where "read_value (Suc (2 * length s + 1)) s = Some (JObj fs, r)"
    by (auto simp: parse_json_def split: option.splits if_splits)
  then obtain cs where "skip_space s = CHR ''{'' # cs"
    by (auto split: list.splits if_splits)
  then have "CHR ''{'' \<in> set (dropWhile is_json_space s)" by (simp add: skip_space_def)
  then show ?thesis by (rule set_dropWhileD)
qed

end
