(* ===== verification/Retry.thy ===== *)
theory Retry
  imports Frame Checkpoint Json_Text
begin

text \<open>
  What happens to a task whose attempt failed: the health of agents (\<open>dispatcher-agent-health.ts\<close>),
  the classes of provider limits (\<open>dispatcher-limits.ts\<close>), poison failures
  (\<open>quarantine-classifier.ts\<close>) and the retry of a stalled task (\<open>dispatcher-stalled-retry.ts\<close>).

  Two parts of the standard library are parameters: how a number is printed inside
  \<open>JSON.stringify\<close>, and the instant that \<open>new Date(text)\<close> reads from a provider's text (None for an
  invalid date), which depends on the implementation.
\<close>

subsection \<open>The health of agents\<close>

definition agent_failure_window_ms :: int where "agent_failure_window_ms = 10 * 60000"

definition agent_failure_threshold :: nat where "agent_failure_threshold = 3"

definition agent_unhealthy_cooldown_ms :: int where "agent_unhealthy_cooldown_ms = 5 * 60000"

definition recoverable_patterns :: "rx list" where
  "recoverable_patterns = map rx
    [''`bprompt_overflow`b'', ''`bmax_turns_reached`b'', ''prompt is too long'', ''model .*not found'',
     ''not found.*model'', ''selected model .* may not exist'', ''unsupported model'',
     ''`bauth(?:entication)?`b.*(?:expired|invalid|failed)'', ''(?:expired|invalid).*`bauth(?:entication)?`b'',
     ''`bunauthorized`b|`bforbidden`b|`b401`b|`b403`b'', ''network .*refused'', ''connection refused'',
     ''`bECONNREFUSED`b|`bECONNRESET`b|`bETIMEDOUT`b'']"

record agent_failure_entry =
  af_atMs :: instant
  af_reason :: string

record agent_health_record =
  ah_failures :: "agent_failure_entry list"
  ah_unhealthyUntilMs :: "instant option"
  ah_unhealthyReason :: "string option"

record agent_health_state =
  as_agentId :: string
  as_agentName :: string
  as_recentFailures :: nat
  as_unhealthy :: bool
  as_unhealthyUntil :: "instant option"
  as_unhealthyReason :: "string option"
  as_lastFailureAt :: "instant option"

definition create_agent_health_record :: agent_health_record where
  "create_agent_health_record = \<lparr>ah_failures = [], ah_unhealthyUntilMs = None, ah_unhealthyReason = None\<rparr>"

definition is_recoverable_agent_failure :: "string \<Rightarrow> bool" where
  "is_recoverable_agent_failure reason \<longleftrightarrow> list_ex (\<lambda>p. test fl_ci p reason) recoverable_patterns"

definition prune_agent_health_record :: "agent_health_record \<Rightarrow> instant \<Rightarrow> agent_health_record" where
  "prune_agent_health_record h now =
     (let kept = h\<lparr>ah_failures := filter (\<lambda>e. now - af_atMs e \<le> agent_failure_window_ms) (ah_failures h)\<rparr> in
      case ah_unhealthyUntilMs h of
        Some t \<Rightarrow> if t \<le> now then kept\<lparr>ah_unhealthyUntilMs := None, ah_unhealthyReason := None\<rparr> else kept
      | None \<Rightarrow> kept)"

definition has_agent_health_record_data :: "agent_health_record \<Rightarrow> bool" where
  "has_agent_health_record_data h \<longleftrightarrow> length (ah_failures h) > 0 \<or> ah_unhealthyUntilMs h \<noteq> None"

definition to_agent_health_state ::
    "string \<Rightarrow> string \<Rightarrow> agent_health_record option \<Rightarrow> instant \<Rightarrow> agent_health_state" where
  "to_agent_health_state i name h now =
     (let until = (case h of None \<Rightarrow> None | Some r \<Rightarrow> ah_unhealthyUntilMs r);
          bad = (case until of None \<Rightarrow> False | Some t \<Rightarrow> t > now);
          failures = (case h of None \<Rightarrow> [] | Some r \<Rightarrow> ah_failures r) in
      \<lparr>as_agentId = i, as_agentName = name, as_recentFailures = length failures, as_unhealthy = bad,
       as_unhealthyUntil = (if bad then until else None),
       as_unhealthyReason = (if bad then (case h of None \<Rightarrow> None | Some r \<Rightarrow> ah_unhealthyReason r) else None),
       as_lastFailureAt = (case rev failures of [] \<Rightarrow> None | e # _ \<Rightarrow> Some (af_atMs e))\<rparr>)"

subsection \<open>Provider limits\<close>

datatype exit_reason = Completed | Crashed | Killed | Timeout | HarnessFailed | PausedMaxTurns | PausedCostBudget

fun exit_reason_name :: "exit_reason \<Rightarrow> string" where
  "exit_reason_name Completed = ''completed''"
| "exit_reason_name Crashed = ''crashed''"
| "exit_reason_name Killed = ''killed''"
| "exit_reason_name Timeout = ''timeout''"
| "exit_reason_name HarnessFailed = ''failed''"
| "exit_reason_name PausedMaxTurns = ''paused-max-turns''"
| "exit_reason_name PausedCostBudget = ''paused-cost-budget''"

record harness_result =
  hr_exitReason :: exit_reason
  hr_tokensIn :: int
  hr_tokensOut :: int
  hr_costUsd :: usd
  hr_costState :: "string option"
  hr_turns :: "nat option"
  hr_maxInputTokensInTurn :: "int option"
  hr_failReason :: "string option"
  hr_failureEvidence :: "payload option"
  hr_pauseDetail :: "(string \<times> rat) option"

datatype outcome_kind = Transient | RecoverableExternal | Policy | TerminalOutcome

record harness_outcome =
  ho_kind :: outcome_kind
  ho_retryAfterMs :: "rat option"
  ho_resetAt :: "string option"
  ho_detail :: string

definition default_max_auto_wait_ms :: rat where "default_max_auto_wait_ms = 15 * 60 * 1000"

definition recoverable_external_pattern :: rx where
  "recoverable_external_pattern = rx (''`b40[123]`b|insufficient[_ ]?(quota|funds|credit|balance)|out[_ ]?of[_ ]?credit'' @
     ''|no[_ ]?credit|billing|payment|past[_ ]?due|invalid[_ ]?api[_ ]?key|unauthor|forbidden'' @
     ''|expired[_ ]?(key|token|credential)|account[_ ]?(suspend|disabl)'')"

definition transient_pattern :: rx where
  "transient_pattern = rx (''`b429`b|`b50[0234]`b|rate[_ ]?limit|too[_ ]?many[_ ]?requests|overloaded|temporar'' @
     ''|unavailable|server[_ ]?error|timeout|timed[_ ]?out|ECONN|ETIMEDOUT|ENET|EAI_AGAIN|socket[_ ]?hang|network'')"

definition terminal_pattern :: rx where
  "terminal_pattern = rx (''context[_ ]?(length|window|overflow)|prompt[_ ]?overflow|too[_ ]?many[_ ]?tokens'' @
     ''|max[_ ]?tokens|maximum[_ ]?context|`b400`b|bad[_ ]?request|invalid[_ ]?request|unsupported'' @
     ''|model[_ ]?not[_ ]?found|malformed'')"

definition retry_after_pattern :: rx where
  "retry_after_pattern = rx (''(?:retry|reset|again|wait)[^0-9]{0,12}(`d+(?:`.`d+)?)`s*'' @
     ''(ms|s|sec|secs|second|seconds|m|min|minute|minutes)?'')"

definition read_number :: "payload option \<Rightarrow> string list \<Rightarrow> rat option" where
  "read_number ev keys =
     (case ev of None \<Rightarrow> None
      | Some p \<Rightarrow> (case List.map_filter (\<lambda>k. case jget p k of
            Some (JNum n) \<Rightarrow> if n \<ge> 0 then Some n else None | _ \<Rightarrow> None) keys of [] \<Rightarrow> None | n # _ \<Rightarrow> Some n))"

definition read_string :: "payload option \<Rightarrow> string list \<Rightarrow> string option" where
  "read_string ev keys =
     (case ev of None \<Rightarrow> None
      | Some p \<Rightarrow> (case List.map_filter (\<lambda>k. case jget p k of
            Some (JStr v) \<Rightarrow> if trim v \<noteq> [] then Some v else None | _ \<Rightarrow> None) keys of [] \<Rightarrow> None | v # _ \<Rightarrow> Some v))"

text \<open>\<open>Number\<close> of digits with an optional fraction.\<close>

definition read_decimal :: "string \<Rightarrow> rat" where
  "read_decimal s =
     (let whole = takeWhile is_digit s; frac = drop 1 (dropWhile is_digit s) in
      of_nat (read_nat whole) + of_nat (read_nat frac) / 10 ^ length frac)"

definition parse_retry_after_text :: "string \<Rightarrow> rat option" where
  "parse_retry_after_text text =
     (case match_groups fl_ci retry_after_pattern text of None \<Rightarrow> None
      | Some g \<Rightarrow>
          let amount = read_decimal (capture 1 g);
              unit = lower_case (case map_of g 2 of None \<Rightarrow> ''s'' | Some u \<Rightarrow> u) in
          if unit = ''ms'' then Some amount
          else if starts_with ''m'' unit then Some (amount * 60000)
          else Some (amount * 1000))"

definition retry_hints :: "payload option \<Rightarrow> string \<Rightarrow> rat option \<times> string option" where
  "retry_hints ev text =
     (let ms = read_number ev [''retryAfterMs'', ''retry_after_ms''];
          seconds = read_number ev [''retryAfterSeconds'', ''retry_after_seconds'', ''retryAfter'', ''retry_after''] in
      (case ms of Some n \<Rightarrow> Some n
       | None \<Rightarrow> (case seconds of Some n \<Rightarrow> Some (n * 1000) | None \<Rightarrow> parse_retry_after_text text),
       read_string ev [''resetAt'', ''reset_at'', ''resetTime'', ''reset_time'']))"

definition classify_harness_outcome :: "(rat \<Rightarrow> string) \<Rightarrow> harness_result \<Rightarrow> harness_outcome" where
  "classify_harness_outcome num r =
     (if hr_exitReason r = PausedCostBudget \<or> hr_exitReason r = PausedMaxTurns then
        \<lparr>ho_kind = Policy, ho_retryAfterMs = None, ho_resetAt = None,
         ho_detail = (case hr_pauseDetail r of Some (d, _) \<Rightarrow> d | None \<Rightarrow> exit_reason_name (hr_exitReason r))\<rparr>
      else
        let reason = (case hr_failReason r of None \<Rightarrow> [] | Some x \<Rightarrow> x);
            ev = hr_failureEvidence r;
            text = reason @ '' '' @ (case ev of None \<Rightarrow> [] | Some p \<Rightarrow> json_text num (JObj p));
            explicit = map_option lower_case (read_string ev [''category'']);
            declared = (if explicit = Some ''transient'' then Some Transient
              else if explicit = Some ''recoverable-external'' then Some RecoverableExternal
              else if explicit = Some ''policy'' then Some Policy
              else if explicit = Some ''terminal'' then Some TerminalOutcome else None);
            kind = (case declared of Some k \<Rightarrow> k
              | None \<Rightarrow> if test fl_ci recoverable_external_pattern text then RecoverableExternal
                  else if test fl_ci transient_pattern text then Transient
                  else if test fl_ci terminal_pattern text then TerminalOutcome else TerminalOutcome) in
        \<lparr>ho_kind = kind, ho_retryAfterMs = fst (retry_hints ev text), ho_resetAt = snd (retry_hints ev text),
         ho_detail = (if reason = [] then exit_reason_name (hr_exitReason r) else reason)\<rparr>)"

definition resolve_auto_wait_ms ::
    "(string \<Rightarrow> instant option) \<Rightarrow> harness_outcome \<Rightarrow> instant \<Rightarrow> rat \<Rightarrow> rat option" where
  "resolve_auto_wait_ms read_date h now cap =
     (let wait = (case ho_retryAfterMs h of Some w \<Rightarrow> Some w
        | None \<Rightarrow> (case ho_resetAt h of None \<Rightarrow> None
            | Some text \<Rightarrow> map_option (\<lambda>t. max 0 (of_int (t - now))) (read_date text))) in
      case wait of None \<Rightarrow> None | Some w \<Rightarrow> if w > cap then None else Some w)"

subsection \<open>Poison failures\<close>

datatype retry_cause = CrashCause | HeartbeatCause

datatype exhaustion_class = Deterministic | TransientFailure

definition synthetic_placeholders :: "string list" where
  "synthetic_placeholders = [[], ''stalled'', ''harness_failed'', ''run failed'', ''failed'']"

definition timestamp_pattern :: rx where
  "timestamp_pattern = rx ''`d{4}-`d{2}-`d{2}t`d{2}:`d{2}:`d{2}(?:`.`d+)?z?''"

definition long_id_pattern :: rx where
  "long_id_pattern = rx ''`b[a-z0-9_-]{16,}`b''"

definition trailing_count_pattern :: rx where
  "trailing_count_pattern = rx ''`s*`(`d+`)`s*$''"

definition spaces_pattern :: rx where
  "spaces_pattern = rx ''`s+''"

definition normalize_fail_reason :: "string option \<Rightarrow> string" where
  "normalize_fail_reason reason =
     (case reason of None \<Rightarrow> []
      | Some x \<Rightarrow>
          trim (replace_all fl_none spaces_pattern (\<lambda>b g a. '' '')
            (replace_all fl_none trailing_count_pattern remove
              (replace_all fl_none long_id_pattern remove
                (replace_all fl_none timestamp_pattern remove (lower_case (trim x)))))))"

record exhaustion_input =
  xi_cause :: retry_cause
  xi_failReason :: "string option"
  xi_priorFailReasons :: "string option list"
  xi_forceTransient :: bool

definition classify_retry_exhaustion :: "exhaustion_input \<Rightarrow> exhaustion_class" where
  "classify_retry_exhaustion i =
     (if xi_cause i = HeartbeatCause then TransientFailure
      else if xi_forceTransient i then TransientFailure
      else
        let reason = xi_failReason i; normalized = normalize_fail_reason reason in
        if normalized = [] \<or> normalized \<in> set synthetic_placeholders then TransientFailure
        else if (case reason of None \<Rightarrow> False | Some x \<Rightarrow> is_recoverable_agent_failure x) then TransientFailure
        else if list_ex (\<lambda>prior. normalize_fail_reason prior = normalized) (xi_priorFailReasons i)
        then Deterministic else TransientFailure)"

subsection \<open>Retrying a stalled task\<close>

record retry_settings =
  rt_maxTaskRetries :: nat
  rt_backoffScheduleMs :: "int list"
  rt_canSeedWorkflowStage :: bool
  rt_checkpointRepo :: bool
  rt_onDisk :: "string \<Rightarrow> bool"
  rt_now :: instant
  rt_fuel :: nat

record retry_extra =
  rx_failReason :: "string option"
  rx_forceTransient :: bool

text \<open>\<open>override ?? schedule[n - 1] ?? schedule[schedule.length - 1] ?? 60_000\<close>.\<close>

definition backoff_ms :: "retry_settings \<Rightarrow> int option \<Rightarrow> nat \<Rightarrow> int" where
  "backoff_ms c override n =
     (case override of Some b \<Rightarrow> b
      | None \<Rightarrow>
          if n - 1 < length (rt_backoffScheduleMs c) then rt_backoffScheduleMs c ! (n - 1)
          else if rt_backoffScheduleMs c \<noteq> [] then last (rt_backoffScheduleMs c) else 60000)"

definition fail_task :: "nat \<Rightarrow> task \<Rightarrow> bool db" where
  "fail_task fuel t =
     andthen (task_update_status (task_id t) TaskFailed) (\<lambda>_.
     andthen (evaluate_task_dag fuel (task_specId t)) (\<lambda>_.
     andthen (emit (TaskStatusChanged (task_id t) (task_status t) TaskFailed)) (\<lambda>_.
     give False)))"

definition attempt_reason :: "run \<Rightarrow> retry_extra option \<Rightarrow> string" where
  "attempt_reason r extra =
     (case Option.bind extra rx_failReason of Some x \<Rightarrow> x
      | None \<Rightarrow> (case run_failReason r of Some x \<Rightarrow> x | None \<Rightarrow> ''stalled''))"

text \<open>The branch of a task whose count \<open>n\<close> is over the limit, and the branch of a retry.\<close>

definition exhaust_retries ::
    "config \<Rightarrow> nat \<Rightarrow> run \<Rightarrow> task \<Rightarrow> retry_cause \<Rightarrow> retry_extra option \<Rightarrow> nat \<Rightarrow> bool db" where
  "exhaust_retries cfg fuel r t cause extra n =
     andthen (task_update_retry (task_id t) n None) (\<lambda>_.
     andthen (reading (run_list (run_taskId r))) (\<lambda>runs.
     if classify_retry_exhaustion
          \<lparr>xi_cause = cause, xi_failReason = Some (attempt_reason r extra),
           xi_priorFailReasons = map run_failReason (filter (\<lambda>q. run_id q \<noteq> run_id r) runs),
           xi_forceTransient = (case extra of None \<Rightarrow> False | Some e \<Rightarrow> rx_forceTransient e)\<rparr> = Deterministic
     then
       andthen (mark_quarantined cfg (run_id r) (attempt_reason r extra) unfenced) (\<lambda>_.
       andthen (evaluate_task_dag fuel (task_specId t)) (\<lambda>_.
       give False))
     else fail_task fuel t))"

definition requeue_task :: "retry_settings \<Rightarrow> run \<Rightarrow> task \<Rightarrow> int option \<Rightarrow> nat \<Rightarrow> bool db" where
  "requeue_task c r t override n =
     andthen (task_update_retry (task_id t) n (Some (rt_now c + backoff_ms c override n))) (\<lambda>_.
     andthen (task_update_status (task_id t) Ready) (\<lambda>_.
     andthen (evaluate_task_dag (rt_fuel c) (task_specId t)) (\<lambda>_.
     andthen (emit (TaskStatusChanged (task_id t) (task_status t) Ready)) (\<lambda>_.
     reading (can_resume_stalled_run (rt_onDisk c) (rt_checkpointRepo c) r (rt_canSeedWorkflowStage c))))))"

definition retry_or_fail_stalled_task ::
    "config \<Rightarrow> retry_settings \<Rightarrow> string \<Rightarrow> retry_cause \<Rightarrow> int option \<Rightarrow> retry_extra option \<Rightarrow> bool db" where
  "retry_or_fail_stalled_task cfg c i cause override extra =
     andthen (reading (run_get i)) (\<lambda>found.
     case found of None \<Rightarrow> give False
     | Some r \<Rightarrow>
       andthen (run_update_failure cfg (run_id r) (Some (attempt_reason r extra)) True) (\<lambda>_.
       andthen (reading (task_get (run_taskId r))) (\<lambda>task.
       case task of None \<Rightarrow> give False
       | Some t \<Rightarrow>
         if cause = HeartbeatCause then fail_task (rt_fuel c) t
         else if task_retryCount t + 1 > rt_maxTaskRetries c
         then exhaust_retries cfg (rt_fuel c) r t cause extra (task_retryCount t + 1)
         else requeue_task c r t override (task_retryCount t + 1))))"

subsection \<open>The retry budget\<close>

text \<open>The retry columns of the tasks, which nothing but \<open>updateRetry\<close> writes.\<close>

definition retry_columns :: "store \<Rightarrow> (string \<times> nat \<times> instant option) list" where
  "retry_columns s = map (\<lambda>t. (task_id t, task_retryCount t, task_retryAfter t)) (st_tasks s)"

definition retry_of :: "store \<Rightarrow> string \<Rightarrow> (nat \<times> instant option) option" where
  "retry_of s i = map_of (retry_columns s) i"

lemma retry_of_task: "retry_of s i = map_option (\<lambda>t. (task_retryCount t, task_retryAfter t)) (task_get i s)"
proof -
  have "map_of (map (\<lambda>t. (task_id t, task_retryCount t, task_retryAfter t)) ts) i =
      map_option (\<lambda>t. (task_retryCount t, task_retryAfter t)) (find (\<lambda>t. task_id t = i) ts)" for ts
    by (induction ts) auto
  then show ?thesis by (simp add: retry_of_def retry_columns_def task_get_def)
qed

interpretation retries: frame retry_columns
  by unfold_locales (simp_all add: retry_columns_def map_update_where_same)

lemma spares_retries: "spares retry_columns m \<Longrightarrow> m s = (r, s') \<Longrightarrow> retry_of s' = retry_of s"
  by (drule (1) spares_result) (simp add: retry_of_def fun_eq_iff)

lemma task_update_retry_columns:
  assumes "task_update_retry i n after s = (Inr t, s')"
  shows "retry_of s' = (retry_of s)(i \<mapsto> (n, after))"
proof -
  from assms have s': "s' = write_tasks i (\<lambda>t. t\<lparr>task_retryCount := n, task_retryAfter := after\<rparr>) s"
    and i: "task_get i s \<noteq> None"
    by (auto simp: task_update_retry_def task_write_def outcome_simps task_get_required_def
        split: if_splits option.splits)
  show ?thesis
  proof
    fix j
    show "retry_of s' j = ((retry_of s)(i \<mapsto> (n, after))) j"
      using i by (cases "task_get j s") (auto simp: s' retry_of_task task_get_write)
  qed
qed

lemma fail_task_spares: "spares retry_columns (fail_task n t)"
  unfolding fail_task_def by (intro spares_intros)

lemma fail_task_False: "fail_task n t s = (Inr b, s') \<Longrightarrow> \<not> b"
  by (auto simp: fail_task_def andthen_Inr_iff give_def)

lemma exhaust_retries_columns:
  assumes "exhaust_retries cfg fuel r t cause extra n s = (Inr resumes, s')"
  shows "retry_of s' = (retry_of s)(task_id t \<mapsto> (n, None)) \<and> \<not> resumes"
proof -
  from assms obtain t2 s2 where u: "task_update_retry (task_id t) n None s = (Inr t2, s2)"
    by (auto simp: exhaust_retries_def andthen_Inr_iff)
  note run = assms [unfolded exhaust_retries_def andthen_Inr [where m = "task_update_retry (task_id t) n None" and s = s, OF u] andthen_reading]
  have "retry_of s' = retry_of s2 \<and> \<not> resumes"
  proof (cases "fail_task fuel t s2 = (Inr resumes, s')")
    case True
    then show ?thesis using spares_retries [OF fail_task_spares True] fail_task_False by blast
  next
    case no: False
    have "andthen (mark_quarantined cfg (run_id r) (attempt_reason r extra) unfenced) (\<lambda>_.
        andthen (evaluate_task_dag fuel (task_specId t)) (\<lambda>_. give False)) s2 = (Inr resumes, s')"
      using run no by (simp split: if_splits)
    then obtain q s3 ready where q: "mark_quarantined cfg (run_id r) (attempt_reason r extra) unfenced s2 = (Inr q, s3)"
      and e: "evaluate_task_dag fuel (task_specId t) s3 = (Inr ready, s')" and "resumes = False"
      by (auto simp: andthen_Inr_iff give_def)
    then show ?thesis
      using spares_retries [OF retries.marks_spare(3) q]
        spares_retries [OF retries.evaluate_spares e] by simp
  qed
  then show ?thesis using task_update_retry_columns [OF u] by simp
qed

lemma requeue_task_columns:
  assumes "requeue_task c r t override n s = (Inr resumes, s')"
  shows "retry_of s' = (retry_of s)(task_id t \<mapsto> (n, Some (rt_now c + backoff_ms c override n)))"
proof -
  from assms obtain t2 s2 x3 s3 x4 s4 x5 where
    u: "task_update_retry (task_id t) n (Some (rt_now c + backoff_ms c override n)) s = (Inr t2, s2)"
    and st: "task_update_status (task_id t) Ready s2 = (Inr x3, s3)"
    and ev: "evaluate_task_dag (rt_fuel c) (task_specId t) s3 = (Inr x4, s4)"
    and em: "emit (TaskStatusChanged (task_id t) (task_status t) Ready) s4 = (Inr x5, s')"
    unfolding requeue_task_def andthen_Inr_iff by (auto simp: reading_def)
  show ?thesis
    using task_update_retry_columns [OF u] spares_retries [OF retries.task_status_spares st]
      spares_retries [OF retries.evaluate_spares ev] spares_retries [OF retries.emit_spares em] by simp
qed

text \<open>C18: a task is retried only within its budget. When a stalled attempt of an existing task has been
  handled, a heartbeat stall has changed no retry column and starts no retry. A crash has counted
  one more attempt for this task and for no other; if the count is then over the limit, no retry
  time is set and nothing resumes; otherwise the retry waits for the backoff of that attempt: the
  override, or the entry of the schedule, or its last entry, or a minute when it is empty.\<close>

theorem retries_within_budget:
  assumes "retry_or_fail_stalled_task cfg c i cause override extra s = (Inr resumes, s')"
    and "run_get i s = Some r" and "task_get (run_taskId r) s = Some t"
  shows "retry_of s' =
      (let n = task_retryCount t + 1 in
       if cause = HeartbeatCause then retry_of s
       else (retry_of s)(task_id t \<mapsto>
         (n, if n > rt_maxTaskRetries c then None else Some (rt_now c + backoff_ms c override n)))) \<and>
    (resumes \<longrightarrow> cause = CrashCause \<and> task_retryCount t < rt_maxTaskRetries c)"
proof -
  let ?n = "task_retryCount t + 1"
  from assms(1,2) obtain r1 s1 where w: "run_update_failure cfg (run_id r) (Some (attempt_reason r extra)) True s = (Inr r1, s1)"
    by (auto simp: retry_or_fail_stalled_task_def andthen_reading andthen_Inr_iff)
  have s1: "retry_of s1 = retry_of s"
    using spares_retries [OF retries.run_updates_spare(3) w] .
  have "st_tasks s1 = st_tasks s"
    using w by (auto simp: run_update_failure_def run_write_eq write_runs_def split: option.splits)
  then have t1: "task_get (run_taskId r) s1 = Some t" using assms(3) by (simp add: task_get_def)
  note run = assms(1) [unfolded retry_or_fail_stalled_task_def andthen_reading assms(2) option.case
      andthen_Inr [where m = "run_update_failure cfg (run_id r) (Some (attempt_reason r extra)) True" and s = s, OF w] t1]
  show ?thesis
  proof (cases "cause = HeartbeatCause")
    case True
    with run have f: "fail_task (rt_fuel c) t s1 = (Inr resumes, s')" by simp
    with True s1 show ?thesis
      using spares_retries [OF fail_task_spares f] fail_task_False [OF f] by simp
  next
    case False
    then have crash: "cause = CrashCause" by (cases cause) simp_all
    show ?thesis
    proof (cases "?n > rt_maxTaskRetries c")
      case True
      with run False have "exhaust_retries cfg (rt_fuel c) r t cause extra ?n s1 = (Inr resumes, s')" by simp
      from exhaust_retries_columns [OF this] True False s1 show ?thesis by (simp add: Let_def)
    next
      case under: False
      with run False have "requeue_task c r t override ?n s1 = (Inr resumes, s')" by simp
      from requeue_task_columns [OF this] under crash s1 show ?thesis by (simp add: Let_def)
    qed
  qed
qed

text \<open>Quarantine needs positive evidence. A failure that used up its retries is called deterministic
  exactly when it was a crash, not declared transient by its caller, with a normalised reason that
  is neither empty nor a placeholder, that no pattern of recoverable failures matches, and that an
  earlier attempt of the task had, too.\<close>

lemma quarantine_needs_evidence:
  "classify_retry_exhaustion i = Deterministic \<longleftrightarrow>
    xi_cause i = CrashCause \<and> \<not> xi_forceTransient i \<and>
    (\<exists>reason. xi_failReason i = Some reason \<and> \<not> is_recoverable_agent_failure reason \<and>
      normalize_fail_reason (Some reason) \<noteq> [] \<and>
      normalize_fail_reason (Some reason) \<notin> set synthetic_placeholders \<and>
      normalize_fail_reason (Some reason) \<in> normalize_fail_reason ` set (xi_priorFailReasons i))"
proof -
  have none: "normalize_fail_reason None = []" by (simp add: normalize_fail_reason_def)
  have cause: "xi_cause i = HeartbeatCause \<longleftrightarrow> xi_cause i \<noteq> CrashCause" by (cases "xi_cause i") simp_all
  show ?thesis
    unfolding classify_retry_exhaustion_def
    by (cases "xi_failReason i") (auto simp: Let_def none cause list_ex_iff image_iff intro: rev_bexI)
qed

end
