(* ===== verification/Agents.thy ===== *)
theory Agents
  imports Retry Lineage
begin

text \<open>
  Which agent gets a task: availability and health (\<open>dispatcher-base.ts\<close>), matching, failover and
  contention (\<open>dispatcher-cycle.ts\<close>, \<open>dispatcher-runtime.ts\<close>), the options of a resumed run
  (\<open>dispatcher-recovery.ts\<close>) and what is known of the attempt before it
  (\<open>dispatcher-prior-attempt-failure.ts\<close>).

  The dispatcher's memory is a record: the sessions in flight as pairs of run and agent id, the
  health records, the agents resolved for runs and the last skip reason of each task. Reading an
  agent's health prunes its record, so the state is threaded through the searches.
\<close>

subsection \<open>Agents and the dispatcher's memory\<close>

record agent =
  ag_id :: string
  ag_name :: string
  ag_model :: string
  ag_harness :: string
  ag_providerId :: "string option"
  ag_accountId :: "string option"
  ag_modelRef :: "string option"
  ag_harnessRef :: "string option"
  ag_capabilities :: "agent_capability list"
  ag_effort :: "agent_effort option"
  ag_costTier :: rat
  ag_pricing :: "(rat \<times> rat) option"
  ag_createdAt :: instant

record prior_attempt_failure =
  pf_failReason :: string
  pf_tokensIn :: rat
  pf_maxInputTokensInTurn :: rat
  pf_turns :: rat

record dispatch_options =
  do_parentRunId :: "string option"
  do_reuseWorktreeFromRunId :: "string option"
  do_resumeFromStage :: "workflow_stage option"
  do_priorAttemptFailure :: "prior_attempt_failure option"

record dispatcher =
  dp_now :: instant
  dp_active :: "(string \<times> string) list"
  dp_agents :: "agent list"
  dp_resolved :: "string \<Rightarrow> agent option"
  dp_health :: "string \<Rightarrow> agent_health_record option"
  dp_lastSkip :: "string \<Rightarrow> string option"
  dp_skipRepo :: bool
  dp_checkpointRepo :: bool
  dp_canSeed :: bool
  dp_onDisk :: "string \<Rightarrow> bool"

definition agent_get :: "dispatcher \<Rightarrow> string \<Rightarrow> agent option" where
  "agent_get d i = find (\<lambda>a. ag_id a = i) (dp_agents d)"

definition project_agents_by_role :: "store \<Rightarrow> string \<Rightarrow> agent_role \<Rightarrow> project_agent list" where
  "project_agents_by_role s p role =
     sort_key pa_agentId (filter (\<lambda>x. pa_projectId x = p \<and> pa_role x = role) (st_projectAgents s))"

subsection \<open>Health\<close>

definition current_agent_health_state :: "agent \<Rightarrow> dispatcher \<Rightarrow> agent_health_state \<times> dispatcher" where
  "current_agent_health_state a d =
     (case dp_health d (ag_id a) of
        None \<Rightarrow> (to_agent_health_state (ag_id a) (ag_name a) None (dp_now d), d)
      | Some h \<Rightarrow>
          let pruned = prune_agent_health_record h (dp_now d) in
          (to_agent_health_state (ag_id a) (ag_name a) (Some pruned) (dp_now d),
           d\<lparr>dp_health := (dp_health d)(ag_id a := if has_agent_health_record_data pruned then Some pruned else None)\<rparr>))"

text \<open>The reason stored is the number of failures with the last one's reason.\<close>

definition record_agent_failure :: "run \<Rightarrow> string \<Rightarrow> dispatcher \<Rightarrow> dispatcher" where
  "record_agent_failure r reason d =
     (if \<not> is_recoverable_agent_failure reason then d
      else
        let h = prune_agent_health_record
              (case dp_health d (run_agentId r) of None \<Rightarrow> create_agent_health_record | Some h \<Rightarrow> h) (dp_now d);
            failures = ah_failures h @ [\<lparr>af_atMs = dp_now d, af_reason = reason\<rparr>];
            h' = h\<lparr>ah_failures := failures\<rparr> in
        d\<lparr>dp_health := (dp_health d)(run_agentId r \<mapsto>
          (if length failures \<ge> agent_failure_threshold
           then h'\<lparr>ah_unhealthyUntilMs := Some (dp_now d + agent_unhealthy_cooldown_ms),
                   ah_unhealthyReason := Some (show_nat (length failures) @ '' recent failures: '' @ reason)\<rparr>
           else h'))\<rparr>)"

definition agent_get_by_name :: "dispatcher \<Rightarrow> string \<Rightarrow> agent option" where
  "agent_get_by_name d n = find (\<lambda>a. ag_name a = n) (dp_agents d)"

definition reset_agent_health :: "string \<Rightarrow> dispatcher \<Rightarrow> bool \<times> dispatcher" where
  "reset_agent_health nameOrId d =
     (case (case agent_get d nameOrId of Some a \<Rightarrow> Some a | None \<Rightarrow> agent_get_by_name d nameOrId) of
        None \<Rightarrow> (False, d)
      | Some a \<Rightarrow> (True, d\<lparr>dp_health := (dp_health d)(ag_id a := None)\<rparr>))"

definition should_skip_unhealthy_agent :: "agent \<Rightarrow> dispatcher \<Rightarrow> bool \<times> dispatcher" where
  "should_skip_unhealthy_agent a d =
     (case current_agent_health_state a d of (h, d') \<Rightarrow> (as_unhealthy h, d'))"

definition is_agent_busy :: "agent \<Rightarrow> dispatcher \<Rightarrow> bool" where
  "is_agent_busy a d \<longleftrightarrow> list_ex (\<lambda>e. snd e = ag_id a) (dp_active d)"

definition is_agent_available :: "agent \<Rightarrow> dispatcher \<Rightarrow> bool \<times> dispatcher" where
  "is_agent_available a d =
     (if is_agent_busy a d then (False, d)
      else case should_skip_unhealthy_agent a d of (skip, d') \<Rightarrow> (\<not> skip, d'))"

subsection \<open>Matching\<close>

text \<open>The loop over the assignments; a further test stands for the failover's \<open>continue\<close>s.\<close>

fun collect_candidates ::
    "(agent \<Rightarrow> bool) \<Rightarrow> project_agent list \<Rightarrow> agent list \<Rightarrow> dispatcher \<Rightarrow> agent list \<times> dispatcher" where
  "collect_candidates wanted [] found d = (found, d)"
| "collect_candidates wanted (p # ps) found d =
     (case agent_get d (pa_agentId p) of
        None \<Rightarrow> collect_candidates wanted ps found d
      | Some a \<Rightarrow>
          (case is_agent_available a d of (ok, d') \<Rightarrow>
            collect_candidates wanted ps (if ok \<and> wanted a then found @ [a] else found) d'))"

definition target_role :: "task \<Rightarrow> agent_role" where
  "target_role t = (case task_requiredRole t of None \<Rightarrow> Builder | Some r \<Rightarrow> r)"

definition first_of :: "'a list \<Rightarrow> 'a option" where
  "first_of xs = (case xs of [] \<Rightarrow> None | x # _ \<Rightarrow> Some x)"

definition match_agent :: "store \<Rightarrow> task \<Rightarrow> dispatcher \<Rightarrow> (error + agent option) \<times> dispatcher" where
  "match_agent s t d =
     (case task_assignedAgentId t of
        Some i \<Rightarrow>
          (case agent_get d i of None \<Rightarrow> (Inr None, d)
           | Some a \<Rightarrow> (case is_agent_available a d of (ok, d') \<Rightarrow> (Inr (if ok then Some a else None), d')))
      | None \<Rightarrow>
          (case spec_get (task_specId t) s of
             None \<Rightarrow> (Inl (SpecNotFound (task_specId t)), d)
           | Some sp \<Rightarrow>
               (case collect_candidates (\<lambda>_. True) (project_agents_by_role s (spec_projectId sp) (target_role t)) [] d of
                  (found, d') \<Rightarrow>
                    (Inr (first_of (sort_key (if task_complexity t = Some Complex then (\<lambda>a. - ag_costTier a) else ag_costTier) found)),
                     d'))))"

text \<open>Who pays for an agent: provider and account, both present; None when that is not known.\<close>

definition normalize_identity_part :: "string option \<Rightarrow> string option" where
  "normalize_identity_part v = (case v of None \<Rightarrow> None | Some x \<Rightarrow> if trim x = [] then None else Some (trim x))"

definition provider_account_identity :: "agent \<Rightarrow> (string \<times> string) option" where
  "provider_account_identity a =
     (case (map_option lower_case (normalize_identity_part (ag_providerId a)), normalize_identity_part (ag_accountId a)) of
        (Some p, Some q) \<Rightarrow> Some (p, q) | _ \<Rightarrow> None)"

definition same_provider_account_identity :: "agent \<Rightarrow> agent \<Rightarrow> bool option" where
  "same_provider_account_identity a b =
     (case (provider_account_identity a, provider_account_identity b) of
        (Some i, Some j) \<Rightarrow> Some (fst i = fst j \<and> snd i = snd j) | _ \<Rightarrow> None)"

definition failover_candidate :: "agent \<Rightarrow> agent \<Rightarrow> bool" where
  "failover_candidate failed a \<longleftrightarrow>
     (case same_provider_account_identity a failed of
        Some same \<Rightarrow> \<not> same | None \<Rightarrow> ag_harness a \<noteq> ag_harness failed)"

definition match_failover_agent :: "store \<Rightarrow> task \<Rightarrow> agent \<Rightarrow> dispatcher \<Rightarrow> agent option \<times> dispatcher" where
  "match_failover_agent s t failed d =
     (case spec_get (task_specId t) s of
        None \<Rightarrow> (None, d)
      | Some sp \<Rightarrow>
          (case collect_candidates (failover_candidate failed)
              (filter (\<lambda>p. pa_agentId p \<noteq> ag_id failed) (project_agents_by_role s (spec_projectId sp) (target_role t))) [] d of
             (found, d') \<Rightarrow> (first_of (sort_key ag_costTier found), d')))"

definition has_busy_eligible_agent :: "store \<Rightarrow> task \<Rightarrow> dispatcher \<Rightarrow> bool" where
  "has_busy_eligible_agent s t d =
     (case task_assignedAgentId t of
        Some i \<Rightarrow> (case agent_get d i of None \<Rightarrow> False | Some a \<Rightarrow> is_agent_busy a d)
      | None \<Rightarrow>
          (case spec_get (task_specId t) s of None \<Rightarrow> False
           | Some sp \<Rightarrow> list_ex (\<lambda>p. case agent_get d (pa_agentId p) of None \<Rightarrow> False | Some a \<Rightarrow> is_agent_busy a d)
               (project_agents_by_role s (spec_projectId sp) (target_role t))))"

subsection \<open>Matching for a resume\<close>

text \<open>The agent a run used: the one resolved for it, or its row with the model and harness of the run.\<close>

definition resolve_runtime_agent_for_run :: "run \<Rightarrow> dispatcher \<Rightarrow> agent option" where
  "resolve_runtime_agent_for_run r d =
     (case dp_resolved d (run_id r) of
        Some a \<Rightarrow> Some a
      | None \<Rightarrow>
          (case agent_get d (run_agentId r) of
             None \<Rightarrow> None
           | Some a \<Rightarrow>
               (case (run_runtimeModel r, run_runtimeHarness r) of
                  (Some m, Some h) \<Rightarrow> Some (a\<lparr>ag_model := m, ag_harness := h\<rparr>)
                | (None, None) \<Rightarrow> if ag_modelRef a \<noteq> None \<or> ag_harnessRef a \<noteq> None then None else Some a
                | _ \<Rightarrow> None)))"

definition source_agent :: "run \<Rightarrow> dispatcher \<Rightarrow> agent option" where
  "source_agent r d = (case resolve_runtime_agent_for_run r d of Some a \<Rightarrow> Some a | None \<Rightarrow> agent_get d (run_agentId r))"

definition resumed_run :: "store \<Rightarrow> dispatch_options \<Rightarrow> run option" where
  "resumed_run s opts =
     (case do_reuseWorktreeFromRunId opts of None \<Rightarrow> None
      | Some i \<Rightarrow> if do_resumeFromStage opts = None then None else run_get i s)"

definition match_agent_for_options ::
    "store \<Rightarrow> task \<Rightarrow> dispatch_options \<Rightarrow> dispatcher \<Rightarrow> (error + agent option) \<times> dispatcher" where
  "match_agent_for_options s t opts d =
     (case resumed_run s opts of
        None \<Rightarrow> match_agent s t d
      | Some r \<Rightarrow>
          (case source_agent r d of
             None \<Rightarrow> match_agent s t d
           | Some a \<Rightarrow>
               (case is_agent_available a d of (ok, d') \<Rightarrow>
                  if ok then (Inr (Some a), d')
                  else if is_agent_busy a d' then (Inr None, d') else match_agent s t d')))"

definition has_busy_eligible_agent_for_options :: "store \<Rightarrow> task \<Rightarrow> dispatch_options \<Rightarrow> dispatcher \<Rightarrow> bool" where
  "has_busy_eligible_agent_for_options s t opts d \<longleftrightarrow>
     (case resumed_run s opts of None \<Rightarrow> False
      | Some r \<Rightarrow> (case source_agent r d of None \<Rightarrow> False | Some a \<Rightarrow> is_agent_busy a d)) \<or>
     has_busy_eligible_agent s t d"

definition options_of_intent :: "dispatch_intent \<Rightarrow> dispatch_options" where
  "options_of_intent i = \<lparr>do_parentRunId = di_parentRunId i, do_reuseWorktreeFromRunId = di_reuseWorktreeFromRunId i,
     do_resumeFromStage = None, do_priorAttemptFailure = None\<rparr>"

definition resolve_dispatch_options :: "store \<Rightarrow> task \<Rightarrow> dispatcher \<Rightarrow> dispatch_options" where
  "resolve_dispatch_options s t d =
     (let intent = options_of_intent (resolve_dispatch_intent s t) in
      if do_reuseWorktreeFromRunId intent \<noteq> None \<or> do_parentRunId intent \<noteq> None then intent
      else case resolve_resume_options (dp_onDisk d) (dp_checkpointRepo d) t (dp_canSeed d) s of
          None \<Rightarrow> intent
        | Some (i, stage) \<Rightarrow> intent\<lparr>do_reuseWorktreeFromRunId := Some i, do_resumeFromStage := Some stage\<rparr>)"

subsection \<open>Contention and skips\<close>

definition original_name_of :: "task \<Rightarrow> string" where
  "original_name_of t =
     (let p = classify_task t in if pn_kind p = Impl then task_name t else pn_originalName p)"

definition is_worktree_contested :: "store \<Rightarrow> task \<Rightarrow> dispatch_options \<Rightarrow> dispatcher \<Rightarrow> bool" where
  "is_worktree_contested s t opts d =
     (let parsed = classify_task t in
      if pn_kind parsed = Impl then False
      else if list_ex (\<lambda>e. case run_get (fst e) s of None \<Rightarrow> False
          | Some r \<Rightarrow> (case task_get (run_taskId r) s of None \<Rightarrow> False
              | Some u \<Rightarrow> task_specId u = task_specId t \<and> original_name_of u = pn_originalName parsed)) (dp_active d)
      then True
      else case Option.bind (do_reuseWorktreeFromRunId opts) (\<lambda>i. run_get i s) of
          None \<Rightarrow> False
        | Some source \<Rightarrow>
            let paths = paths_or_none (run_worktreePaths source) in
            list_ex (\<lambda>e. case run_get (fst e) s of None \<Rightarrow> False
              | Some r \<Rightarrow> list_ex (\<lambda>p. p \<in> set paths) (paths_or_none (run_worktreePaths r))) (dp_active d))"

text \<open>A skip reason is recorded when it differs from the last one of the task.\<close>

definition emit_dispatch_skip :: "string \<Rightarrow> string \<Rightarrow> dispatcher \<times> store \<Rightarrow> dispatcher \<times> store" where
  "emit_dispatch_skip i reason w =
     (case w of (d, s) \<Rightarrow>
        if dp_lastSkip d i = Some reason then w
        else (d\<lparr>dp_lastSkip := (dp_lastSkip d)(i \<mapsto> reason)\<rparr>,
          (let s' = (if dp_skipRepo d then skip_record i reason s else s) in
           s'\<lparr>st_events := st_events s' @ [TaskDispatchSkipped i reason]\<rparr>)))"

definition clear_dispatch_skip :: "string \<Rightarrow> dispatcher \<times> store \<Rightarrow> dispatcher \<times> store" where
  "clear_dispatch_skip i w =
     (case w of (d, s) \<Rightarrow>
        (d\<lparr>dp_lastSkip := (dp_lastSkip d)(i := None)\<rparr>,
         if dp_skipRepo d then s\<lparr>st_skips := filter (\<lambda>x. ds_taskId x \<noteq> i) (st_skips s)\<rparr> else s))"

subsection \<open>Resuming by hand\<close>

definition pause_reason_pattern :: rx where
  "pause_reason_pattern = rx ''^(cost_budget_paused|spec_cost_budget_paused|max_turns_paused)''"

definition provider_reason_pattern :: rx where
  "provider_reason_pattern = rx ''^(provider unavailable|recoverable_external)''"

definition is_resumable_state :: "run \<Rightarrow> bool" where
  "is_resumable_state r =
     (if run_stage r = StageDone then False
      else if run_terminalState r \<in> {Some Paused, Some Frozen, Some Stalled} then True
      else if run_terminalState r = Some Failed \<and> run_recoverable r
      then test fl_none pause_reason_pattern (case run_failReason r of None \<Rightarrow> [] | Some x \<Rightarrow> x)
      else False)"

definition should_prefer_different_provider :: "run \<Rightarrow> bool" where
  "should_prefer_different_provider r \<longleftrightarrow>
     run_terminalState r = Some Frozen \<and>
     test fl_none provider_reason_pattern (case run_failReason r of None \<Rightarrow> [] | Some x \<Rightarrow> x)"

definition match_resume_agent :: "store \<Rightarrow> task \<Rightarrow> run \<Rightarrow> dispatcher \<Rightarrow> (error + agent option) \<times> dispatcher" where
  "match_resume_agent s t r d =
     (case source_agent r d of
        None \<Rightarrow> match_agent s t d
      | Some a \<Rightarrow>
          (case (if should_prefer_different_provider r then match_failover_agent s t a d else (None, d)) of
             (Some b, d') \<Rightarrow> (Inr (Some b), d')
           | (None, d') \<Rightarrow>
               (case is_agent_available a d' of (ok, d'') \<Rightarrow>
                  if ok then (Inr (Some a), d'') else match_agent s t d'')))"

text \<open>What the evidence of the attempt before says about its failure: the newest piece that says
  anything, else the row of the run.\<close>

definition json_record :: "json option \<Rightarrow> payload option" where
  "json_record v = (case v of Some (JObj f) \<Rightarrow> Some f | _ \<Rightarrow> None)"

definition number_value :: "json option \<Rightarrow> rat option" where
  "number_value v = (case v of Some (JNum n) \<Rightarrow> if n \<ge> 0 then Some n else None | _ \<Rightarrow> None)"

definition string_value :: "json option \<Rightarrow> string option" where
  "string_value v = (case v of Some (JStr x) \<Rightarrow> if trim x \<noteq> [] then Some (trim x) else None | _ \<Rightarrow> None)"

definition field_of :: "payload option \<Rightarrow> string \<Rightarrow> json option" where
  "field_of p k = (case p of None \<Rightarrow> None | Some f \<Rightarrow> jget f k)"

definition or_else :: "'a option \<Rightarrow> 'a option \<Rightarrow> 'a option" where
  "or_else a b = (case a of Some x \<Rightarrow> Some x | None \<Rightarrow> b)"

definition or_value :: "'a option \<Rightarrow> 'a \<Rightarrow> 'a" where
  "or_value a x = (case a of Some y \<Rightarrow> y | None \<Rightarrow> x)"

definition run_tokens :: "run \<Rightarrow> rat" where
  "run_tokens r = max 0 (of_int (run_tokensIn r))"

definition from_resource_ceiling :: "run \<Rightarrow> payload \<Rightarrow> prior_attempt_failure option" where
  "from_resource_ceiling r p =
     (if \<not> jis p ''kind'' ''attempt.resource_ceiling'' then None
      else if string_value (jget p ''ceiling'') \<noteq> Some ''maxInputTokensPerTurn'' then None
      else
        let telemetry = json_record (jget p ''observedTelemetry'');
            most = or_else (number_value (field_of telemetry ''maxInputTokensInTurn'')) (number_value (jget p ''observed'')) in
        map_option (\<lambda>m.
          \<lparr>pf_failReason = or_value (or_else (normalize_identity_part (run_failReason r))
              (string_value (field_of telemetry ''failReason''))) ''maxInputTokensPerTurn'',
           pf_tokensIn = or_value (number_value (field_of telemetry ''tokensIn'')) (run_tokens r),
           pf_maxInputTokensInTurn = m,
           pf_turns = or_value (number_value (field_of telemetry ''turns'')) 0\<rparr>) most)"

definition from_harness_failure :: "run \<Rightarrow> payload \<Rightarrow> prior_attempt_failure option" where
  "from_harness_failure r p =
     (if \<not> jis p ''kind'' ''harness.failure'' then None
      else
        let ev = json_record (jget p ''evidence'');
            observed = json_record (field_of ev ''observedContext'');
            most = number_value (field_of observed ''maxInputTokensInTurn'');
            tokens = number_value (field_of observed ''tokensIn'');
            reason = or_else (string_value (jget p ''reason''))
              (or_else (string_value (field_of ev ''reason'')) (string_value (field_of ev ''kind''))) in
        if most = None \<and> tokens = None then None
        else Some
          \<lparr>pf_failReason = or_value (or_else (normalize_identity_part (run_failReason r)) reason) ''harness_failed'',
           pf_tokensIn = or_value tokens (run_tokens r),
           pf_maxInputTokensInTurn = or_value (or_else most tokens) (run_tokens r),
           pf_turns = or_value (number_value (field_of observed ''turns'')) 0\<rparr>)"

definition prior_failure_from_evidence :: "run \<Rightarrow> evidence list \<Rightarrow> prior_attempt_failure option" where
  "prior_failure_from_evidence r es = first_of (List.map_filter
     (\<lambda>e. or_else (from_resource_ceiling r (ev_payload e)) (from_harness_failure r (ev_payload e))) (rev es))"

definition resolve_prior_attempt_failure :: "run \<Rightarrow> evidence list \<Rightarrow> prior_attempt_failure option" where
  "resolve_prior_attempt_failure r es =
     (case prior_failure_from_evidence r es of
        Some f \<Rightarrow> Some f
      | None \<Rightarrow>
          (case normalize_identity_part (run_failReason r) of
             None \<Rightarrow> None
           | Some reason \<Rightarrow>
               if run_tokensIn r \<le> 0 \<and> run_costUsd r \<le> 0 then None
               else Some \<lparr>pf_failReason = reason, pf_tokensIn = run_tokens r,
                          pf_maxInputTokensInTurn = run_tokens r, pf_turns = 0\<rparr>))"

definition fresh_options :: "prior_attempt_failure option \<Rightarrow> dispatch_options" where
  "fresh_options f = \<lparr>do_parentRunId = None, do_reuseWorktreeFromRunId = None, do_resumeFromStage = None,
     do_priorAttemptFailure = f\<rparr>"

definition build_operator_resume_options :: "store \<Rightarrow> run \<Rightarrow> dispatcher \<Rightarrow> dispatch_options" where
  "build_operator_resume_options s r d =
     (let prior = resolve_prior_attempt_failure r (evidence_list s (run_id r));
          checkpoint = (if dp_checkpointRepo d then checkpoint_get (run_id r) s else None) in
      if \<not> is_resumable_checkpoint checkpoint then fresh_options prior
      else case checkpoint of None \<Rightarrow> fresh_options prior
        | Some c \<Rightarrow>
            let paths = paths_or_none (cp_worktreePaths c);
                on_disk = paths \<noteq> [] \<and> list_all (dp_onDisk d) paths;
                can_seed = cp_stage c = Understand \<or> dp_canSeed d in
            if run_stage r = StageDone \<or> \<not> on_disk \<or> \<not> can_seed then fresh_options prior
            else (fresh_options prior)
              \<lparr>do_reuseWorktreeFromRunId := Some (run_id r), do_resumeFromStage := Some (cp_stage c)\<rparr>)"

subsection \<open>Who may be chosen\<close>

text \<open>Healthy at the dispatcher's time: no cool-down that is still running.\<close>

definition healthy :: "dispatcher \<Rightarrow> agent \<Rightarrow> bool" where
  "healthy d a \<longleftrightarrow> (case dp_health d (ag_id a) of None \<Rightarrow> True
     | Some h \<Rightarrow> (case ah_unhealthyUntilMs h of None \<Rightarrow> True | Some t \<Rightarrow> t \<le> dp_now d))"

definition available :: "dispatcher \<Rightarrow> agent \<Rightarrow> bool" where
  "available d a \<longleftrightarrow> \<not> is_agent_busy a d \<and> healthy d a"

text \<open>Pruning changes no verdict and nothing but the health records.\<close>

definition pruned_from :: "dispatcher \<Rightarrow> dispatcher \<Rightarrow> bool" where
  "pruned_from d d' \<longleftrightarrow> (\<exists>h. d' = d\<lparr>dp_health := h\<rparr>) \<and> (\<forall>a. healthy d' a = healthy d a)"

lemma pruned_from_refl [simp]: "pruned_from d d"
  unfolding pruned_from_def by (metis dispatcher.surjective dispatcher.update_convs(5))

lemma pruned_from_trans: "pruned_from d e \<Longrightarrow> pruned_from e f \<Longrightarrow> pruned_from d f"
  by (auto simp: pruned_from_def)

lemma pruned_same:
  assumes "pruned_from d d'"
  shows "available d' = available d" "agent_get d' = agent_get d"
  using assms by (auto simp: pruned_from_def available_def is_agent_busy_def agent_get_def fun_eq_iff)

lemma current_health_pruned:
  assumes "current_agent_health_state a d = (h, d')"
  shows "as_unhealthy h = (\<not> healthy d a)" "pruned_from d d'"
proof -
  show "as_unhealthy h = (\<not> healthy d a)"
    using assms by (auto simp: current_agent_health_state_def Let_def to_agent_health_state_def healthy_def
        prune_agent_health_record_def split: option.splits if_splits)
  have "healthy d' b = healthy d b" for b
    using assms by (auto simp: current_agent_health_state_def Let_def healthy_def prune_agent_health_record_def
        has_agent_health_record_data_def split: option.splits if_splits)
  moreover have "\<exists>k. d' = d\<lparr>dp_health := k\<rparr>"
  proof (cases "dp_health d (ag_id a)")
    case None
    with assms have "d' = d\<lparr>dp_health := dp_health d\<rparr>" by (simp add: current_agent_health_state_def)
    then show ?thesis by blast
  next
    case (Some k)
    with assms show ?thesis by (auto simp: current_agent_health_state_def Let_def)
  qed
  ultimately show "pruned_from d d'" by (simp add: pruned_from_def)
qed

lemma is_agent_available_result:
  assumes "is_agent_available a d = (ok, d')"
  shows "ok = available d a" "pruned_from d d'"
  using assms current_health_pruned
  by (auto simp: is_agent_available_def should_skip_unhealthy_agent_def available_def
      split: if_splits prod.splits)

lemma collect_candidates_result:
  assumes "collect_candidates w ps found d = (res, d')"
  shows "res = found @ List.map_filter (\<lambda>p. case agent_get d (pa_agentId p) of None \<Rightarrow> None
      | Some a \<Rightarrow> if available d a \<and> w a then Some a else None) ps \<and> pruned_from d d'"
  using assms
proof (induction w ps found d rule: collect_candidates.induct)
  case (1 w found d)
  then show ?case by (simp add: List.map_filter_def)
next
  case (2 w p ps found d)
  show ?case
  proof (cases "agent_get d (pa_agentId p)")
    case None
    with 2 show ?thesis by (simp add: List.map_filter_simps)
  next
    case (Some a)
    obtain ok e where e: "is_agent_available a d = (ok, e)" by fastforce
    note r = is_agent_available_result [OF e]
    from "2.prems" Some e have "collect_candidates w ps (if ok \<and> w a then found @ [a] else found) e = (res, d')"
      by simp
    note ih = "2.IH"(2) [OF Some e [symmetric] this, unfolded pruned_same [OF r(2)]]
    show ?thesis
      using ih pruned_from_trans [OF r(2)] r(1) Some by (auto simp: List.map_filter_simps)
  qed
qed

lemma first_of_sort_key:
  assumes "first_of (sort_key f xs) = Some x"
  shows "x \<in> set xs \<and> (\<forall>y \<in> set xs. f x \<le> f y)"
proof -
  from assms obtain ys where ys: "sort_key f xs = x # ys" by (auto simp: first_of_def split: list.splits)
  have "sorted (map f (x # ys))" using ys sorted_sort_key [of f xs] by metis
  moreover have "set (x # ys) = set xs" using ys set_sort by metis
  ultimately show ?thesis by auto
qed

text \<open>The agents a task may go to: the assigned one, or those of its project in the required role.\<close>

definition eligible :: "store \<Rightarrow> task \<Rightarrow> dispatcher \<Rightarrow> agent \<Rightarrow> bool" where
  "eligible s t d a \<longleftrightarrow> available d a \<and>
     (case task_assignedAgentId t of
        Some i \<Rightarrow> agent_get d i = Some a
      | None \<Rightarrow> \<exists>sp p. spec_get (task_specId t) s = Some sp \<and>
          p \<in> set (project_agents_by_role s (spec_projectId sp) (target_role t)) \<and>
          agent_get d (pa_agentId p) = Some a)"

lemma set_map_filter: "set (List.map_filter f xs) = {y. \<exists>x \<in> set xs. f x = Some y}"
  by (induction xs) (auto simp: List.map_filter_simps split: option.splits)

lemma collect_candidates_set:
  assumes "collect_candidates w ps [] d = (res, d')"
  shows "set res = {a. available d a \<and> w a \<and> (\<exists>p \<in> set ps. agent_get d (pa_agentId p) = Some a)}" "pruned_from d d'"
  using collect_candidates_result [OF assms] by (auto simp: set_map_filter split: option.splits if_splits)

lemma first_of_None: "first_of xs = None \<longleftrightarrow> xs = []"
  by (simp add: first_of_def split: list.splits)

lemma sort_key_Nil: "sort_key f xs = [] \<longleftrightarrow> xs = []"
  by (metis length_0_conv length_sort)

text \<open>C31: a task gets the best agent that is free for it. The agent matched to a task has no session in
  flight and no cool-down running, and it is the one assigned to the task, or one assigned to the
  project in the task's role (builders when no role is required); among all of those it is the
  cheapest, or the most expensive for a complex task. No agent is matched only when none of them
  is free. Matching changes nothing but the health records, and no verdict on any agent.\<close>

theorem matched_agent_is_best:
  assumes "match_agent s t d = (Inr res, d')"
  shows "(\<forall>a. res = Some a \<longrightarrow> eligible s t d a \<and>
      (task_assignedAgentId t = None \<longrightarrow> (\<forall>b. eligible s t d b \<longrightarrow>
        (if task_complexity t = Some Complex then ag_costTier b \<le> ag_costTier a else ag_costTier a \<le> ag_costTier b)))) \<and>
    (res = None \<longrightarrow> \<not> (\<exists>b. eligible s t d b)) \<and> pruned_from d d'"
proof (cases "task_assignedAgentId t")
  case None
  let ?f = "if task_complexity t = Some Complex then (\<lambda>a. - ag_costTier a) else ag_costTier"
  from assms None obtain sp where sp: "spec_get (task_specId t) s = Some sp"
    by (auto simp: match_agent_def split: option.splits)
  obtain found e where f: "collect_candidates (\<lambda>_. True)
      (project_agents_by_role s (spec_projectId sp) (target_role t)) [] d = (found, e)" by fastforce
  have res: "res = first_of (sort_key ?f found)" "d' = e"
    using assms None sp f by (simp_all add: match_agent_def)
  have el: "eligible s t d b \<longleftrightarrow> b \<in> set found" for b
    using None sp collect_candidates_set(1) [OF f] by (auto simp: eligible_def)
  show ?thesis
  proof (cases res)
    case None
    then have "found = []" using res(1) by (metis first_of_None sort_key_Nil)
    with None el res(2) collect_candidates_set(2) [OF f] show ?thesis by simp
  next
    case (Some a)
    with res(1) have "a \<in> set found \<and> (\<forall>b \<in> set found. ?f a \<le> ?f b)"
      using first_of_sort_key [of ?f found a] by metis
    with Some el res(2) collect_candidates_set(2) [OF f] show ?thesis by (auto split: if_splits)
  qed
next
  case (Some i)
  show ?thesis
  proof (cases "agent_get d i")
    case None
    with assms Some show ?thesis by (auto simp: match_agent_def eligible_def)
  next
    case a: (Some a)
    obtain ok e where e: "is_agent_available a d = (ok, e)" by fastforce
    have r: "res = (if ok then Some a else None)" "d' = e"
      using assms Some a e by (simp_all add: match_agent_def)
    have el: "eligible s t d b \<longleftrightarrow> available d b \<and> b = a" for b
      using Some a by (auto simp: eligible_def)
    from is_agent_available_result [OF e] el r show ?thesis by (cases ok) simp_all
  qed
qed

text \<open>The other agents of the project in the role that are free and pass the failover's test.\<close>

definition failover_eligible :: "store \<Rightarrow> task \<Rightarrow> agent \<Rightarrow> dispatcher \<Rightarrow> agent \<Rightarrow> bool" where
  "failover_eligible s t failed d a \<longleftrightarrow> available d a \<and> ag_id a \<noteq> ag_id failed \<and> failover_candidate failed a \<and>
     (\<exists>sp. spec_get (task_specId t) s = Some sp \<and>
       (\<exists>p \<in> set (project_agents_by_role s (spec_projectId sp) (target_role t)). agent_get d (pa_agentId p) = Some a))"

lemma agent_get_id: "agent_get d i = Some a \<Longrightarrow> ag_id a = i"
  by (auto simp: agent_get_def dest: find_SomeD)

text \<open>C32: a failover really changes provider. The agent that takes over from a failed one is another,
  free agent of the project in the task's role. When both state who provides and pays for them,
  the provider or the account differs; otherwise the harness differs. It is the cheapest such
  agent, and none is found only when there is none.\<close>

theorem failover_changes_provider:
  assumes "match_failover_agent s t f d = (res, d')"
  shows "(\<forall>a. res = Some a \<longrightarrow> failover_eligible s t f d a \<and>
      (case (provider_account_identity a, provider_account_identity f) of
         (Some i, Some j) \<Rightarrow> i \<noteq> j | _ \<Rightarrow> ag_harness a \<noteq> ag_harness f) \<and>
      (\<forall>b. failover_eligible s t f d b \<longrightarrow> ag_costTier a \<le> ag_costTier b)) \<and>
    (res = None \<longrightarrow> \<not> (\<exists>b. failover_eligible s t f d b))"
proof (cases "spec_get (task_specId t) s")
  case None
  with assms show ?thesis by (auto simp: match_failover_agent_def failover_eligible_def)
next
  case (Some sp)
  let ?ps = "filter (\<lambda>p. pa_agentId p \<noteq> ag_id f) (project_agents_by_role s (spec_projectId sp) (target_role t))"
  obtain found e where c: "collect_candidates (failover_candidate f) ?ps [] d = (found, e)" by fastforce
  have res: "res = first_of (sort_key ag_costTier found)"
    using assms Some c by (simp add: match_failover_agent_def)
  have el: "failover_eligible s t f d b \<longleftrightarrow> b \<in> set found" for b
    using Some collect_candidates_set(1) [OF c] agent_get_id by (auto simp: failover_eligible_def)
  have identity: "failover_candidate f a \<longleftrightarrow> (case (provider_account_identity a, provider_account_identity f) of
      (Some i, Some j) \<Rightarrow> i \<noteq> j | _ \<Rightarrow> ag_harness a \<noteq> ag_harness f)" for a
    by (auto simp: failover_candidate_def same_provider_account_identity_def split: option.splits)
  show ?thesis
  proof (cases res)
    case None
    then have "found = []" using res by (metis first_of_None sort_key_Nil)
    with None el show ?thesis by simp
  next
    case (Some a)
    with res have best: "a \<in> set found \<and> (\<forall>b \<in> set found. ag_costTier a \<le> ag_costTier b)"
      using first_of_sort_key [of ag_costTier found a] by simp
    then have "failover_eligible s t f d a" using el by simp
    then have "failover_candidate f a" unfolding failover_eligible_def by blast
    with Some best el identity show ?thesis by simp
  qed
qed

text \<open>The failures of an agent in the ten minutes before the dispatcher's time.\<close>

definition recent_failures :: "dispatcher \<Rightarrow> string \<Rightarrow> agent_failure_entry list" where
  "recent_failures d i = (case dp_health d i of None \<Rightarrow> []
     | Some h \<Rightarrow> filter (\<lambda>e. dp_now d - af_atMs e \<le> 600000) (ah_failures h))"

text \<open>Three failures in ten minutes take an agent out for five. A failure that no pattern recognises
  leaves the dispatcher as it was. A recognised one is added to the agent's failures of the last
  ten minutes and the older ones are forgotten; with the third, the agent is unavailable until
  exactly five minutes later; with fewer, its availability at any later time is what it was.\<close>

lemma failure_cooldown:
  assumes "d' = record_agent_failure r reason d" and "ag_id a = run_agentId r"
  shows "(\<not> is_recoverable_agent_failure reason \<longrightarrow> d' = d) \<and>
    (is_recoverable_agent_failure reason \<longrightarrow>
      recent_failures d' (ag_id a) = recent_failures d (ag_id a) @ [\<lparr>af_atMs = dp_now d, af_reason = reason\<rparr>] \<and>
      (\<forall>later \<ge> dp_now d. healthy (d'\<lparr>dp_now := later\<rparr>) a \<longleftrightarrow>
        (if length (recent_failures d (ag_id a)) \<ge> 2 then dp_now d + 300000 \<le> later
         else healthy (d\<lparr>dp_now := later\<rparr>) a)))"
  using assms
  by (auto simp: record_agent_failure_def Let_def prune_agent_health_record_def create_agent_health_record_def
      recent_failures_def healthy_def agent_failure_threshold_def agent_unhealthy_cooldown_ms_def
      agent_failure_window_ms_def split: option.splits if_splits)

end
