(* ===== verification/Core_Witnesses.thy ===== *)
theory Core_Witnesses
  imports Samples Integrity Startup Agents
begin

text \<open>
  The properties of execution integrity, task names, retries, the restart and the choice of agents
  at concrete inputs.
\<close>

subsection \<open>Integrity\<close>

definition finished_run :: run where
  "finished_run = (sample_run ''run1'')\<lparr>run_stage := StageDone, run_sessionId := Some ''s1'',
     run_commitSha := Some ''c0ffee''\<rparr>"

definition verify_evidence :: evidence where
  "verify_evidence = \<lparr>ev_id = ''e1'', ev_runId = ''run1'', ev_type = EvTest,
     ev_payload = [(''passed'', JBool True)], ev_createdAt = Some 10\<rparr>"

lemma consistent_run_is_backed_witness:
  "run_stage finished_run = StageDone \<and> completion_backed finished_run [verify_evidence]"
proof -
  have "ei_mode (evaluate_run_integrity finished_run [verify_evidence]) \<noteq> Inconsistent" by code_simp
  moreover have "run_stage finished_run = StageDone" by code_simp
  ultimately show ?thesis using consistent_run_is_backed by blast
qed

definition finished_task :: task where
  "finished_task = (sample_task ''task1'')\<lparr>task_status := TaskDone\<rparr>"


subsection \<open>Names\<close>

lemma name_patterns_equivalent_witness:
  "parse_task_name ''review-P1-r3'' = \<lparr>pn_kind = Review, pn_originalName = ''P1'', pn_round = 3\<rparr>"
proof -
  have "parse_task_name ''review-P1-r3'' = parse_task_name_direct ''review-P1-r3''"
    by (rule name_patterns_equivalent) (simp add: is_line_end_def)
  also have "\<dots> = \<lparr>pn_kind = Review, pn_originalName = ''P1'', pn_round = 3\<rparr>" by code_simp
  finally show ?thesis .
qed


subsection \<open>Retries\<close>

definition retry_rules :: retry_settings where
  "retry_rules = \<lparr>rt_maxTaskRetries = 2, rt_backoffScheduleMs = [30000, 120000], rt_canSeedWorkflowStage = False,
     rt_checkpointRepo = True, rt_onDisk = (\<lambda>_. False), rt_now = 1000, rt_fuel = 3\<rparr>"

lemma retries_within_budget_witness:
  "\<exists>s'. retry_or_fail_stalled_task sample_config retry_rules ''run1'' CrashCause None None
       (sample_store [sample_run ''run1'']) = (Inr False, s') \<and>
     retry_of s' ''task1'' = Some (1, Some 31000)"
proof -
  let ?s = "sample_store [sample_run ''run1'']"
  let ?w = "retry_or_fail_stalled_task sample_config retry_rules ''run1'' CrashCause None None ?s"
  have ok: "fst ?w = Inr False" by code_simp
  have run: "run_get ''run1'' ?s = Some (sample_run ''run1'')" by code_simp
  have task: "task_get (run_taskId (sample_run ''run1'')) ?s = Some (sample_task ''task1'')" by code_simp
  have w: "?w = (Inr False, snd ?w)" using ok by (cases ?w) simp
  have b: "rt_now retry_rules + backoff_ms retry_rules None 1 = 31000" by code_simp
  from retries_within_budget [OF w run task] b
  have "retry_of (snd ?w) ''task1'' = Some (1, Some 31000)"
    by (simp add: Let_def sample_task_def retry_rules_def)
  with w show ?thesis by blast
qed

subsection \<open>The restart\<close>

definition restart :: startup_deps where
  "restart = \<lparr>su_activeSessions = {}, su_leaseRepo = True, su_evidenceRepo = True, su_checkpointRepo = True,
     su_activity = Some [], su_canSeedWorkflowStage = False, su_onDisk = (\<lambda>_. False), su_now = 50\<rparr>"

lemma startup_takes_over_abandoned_runs_witness:
  "\<exists>c s'. classify_startup_run restart (sample_store [sample_run ''run1'']) (sample_run ''run1'') = (c, s') \<and>
     sc_action c = StallRun \<and> holder (st_leases (sample_store [sample_run ''run1''])) 50 ''run1'' = None"
proof -
  let ?s = "sample_store [sample_run ''run1'']"
  obtain c s' where c: "classify_startup_run restart ?s (sample_run ''run1'') = (c, s')" by fastforce
  have "sc_action (fst (classify_startup_run restart ?s (sample_run ''run1''))) = StallRun" by code_simp
  with c have a: "sc_action c = StallRun" by simp
  have l: "lease_step\<^sup>*\<^sup>* empty_leases (st_leases ?s)" "su_leaseRepo restart"
    by (simp_all add: sample_store_def restart_def)
  from startup_takes_over_abandoned_runs [OF l c] a c show ?thesis
    by (simp add: restart_def sample_run_def)
qed

subsection \<open>Agents\<close>

definition sample_agent :: "string \<Rightarrow> string \<Rightarrow> rat \<Rightarrow> agent" where
  "sample_agent i provider tier =
     \<lparr>ag_id = i, ag_name = i, ag_model = ''m'', ag_harness = ''claude'', ag_providerId = Some provider,
      ag_accountId = Some ''acc'', ag_modelRef = None, ag_harnessRef = None, ag_capabilities = [],
      ag_effort = None, ag_costTier = tier, ag_pricing = None, ag_createdAt = 0\<rparr>"

definition sample_dispatcher :: dispatcher where
  "sample_dispatcher =
     \<lparr>dp_now = 1000, dp_active = [], dp_agents = [sample_agent ''a1'' ''x'' 3, sample_agent ''a2'' ''y'' 1],
      dp_resolved = (\<lambda>_. None), dp_health = (\<lambda>_. None), dp_lastSkip = (\<lambda>_. None), dp_skipRepo = True,
      dp_checkpointRepo = True, dp_canSeed = False, dp_onDisk = (\<lambda>_. False)\<rparr>"

definition staffed_store :: store where
  "staffed_store = (sample_store [])\<lparr>st_projectAgents :=
     [\<lparr>pa_projectId = ''proj1'', pa_agentId = ''a1'', pa_role = Builder\<rparr>,
      \<lparr>pa_projectId = ''proj1'', pa_agentId = ''a2'', pa_role = Builder\<rparr>]\<rparr>"

lemma matched_agent_is_best_witness:
  "\<exists>a. fst (match_agent staffed_store (sample_task ''task1'') sample_dispatcher) = Inr (Some a) \<and> ag_id a = ''a2'' \<and>
     eligible staffed_store (sample_task ''task1'') sample_dispatcher a"
proof -
  let ?m = "match_agent staffed_store (sample_task ''task1'') sample_dispatcher"
  have "fst ?m = Inr (Some (sample_agent ''a2'' ''y'' 1))" by code_simp
  moreover from this have "?m = (Inr (Some (sample_agent ''a2'' ''y'' 1)), snd ?m)" by (cases ?m) simp
  note matched_agent_is_best [OF this]
  ultimately show ?thesis by (simp add: sample_agent_def)
qed

lemma failover_changes_provider_witness:
  "\<exists>a. fst (match_failover_agent staffed_store (sample_task ''task1'') (sample_agent ''a1'' ''x'' 3) sample_dispatcher) = Some a \<and>
     provider_account_identity a \<noteq> provider_account_identity (sample_agent ''a1'' ''x'' 3)"
proof -
  let ?m = "match_failover_agent staffed_store (sample_task ''task1'') (sample_agent ''a1'' ''x'' 3) sample_dispatcher"
  have "map_option ag_id (fst ?m) = Some ''a2''" by code_simp
  then obtain a where a: "fst ?m = Some a" by auto
  then have m: "?m = (Some a, snd ?m)" by (cases ?m) simp
  have "provider_account_identity (sample_agent ''a1'' ''x'' 3) = Some (''x'', ''acc'')" by code_simp
  with failover_changes_provider [OF m] a show ?thesis by (auto split: option.splits)
qed

lemma failure_cooldown_witness:
  "recent_failures (record_agent_failure ((sample_run ''run1'')\<lparr>run_agentId := ''a1''\<rparr>) ''connection refused'' sample_dispatcher) ''a1'' =
     [\<lparr>af_atMs = 1000, af_reason = ''connection refused''\<rparr>]"
proof -
  have r: "is_recoverable_agent_failure ''connection refused''" by code_simp
  have n: "recent_failures sample_dispatcher ''a1'' = []" by code_simp
  have t: "dp_now sample_dispatcher = 1000" by code_simp
  have a: "ag_id (sample_agent ''a1'' ''x'' 3) = run_agentId ((sample_run ''run1'')\<lparr>run_agentId := ''a1''\<rparr>)"
    by (simp add: sample_agent_def)
  have i: "ag_id (sample_agent ''a1'' ''x'' 3) = ''a1''" by (simp add: sample_agent_def)
  from failure_cooldown [OF refl a, of "''connection refused''" sample_dispatcher, unfolded i] r n t
  show ?thesis by simp
qed

end
