(* ===== verification/Review.thy ===== *)
theory Review
  imports Json_Text
begin

text \<open>
  What a reviewer's completion text means. \<open>structured-review-contract.ts\<close> looks for exactly one JSON
  object that is a review result, \<open>parseReviewResult\<close> of \<open>post-completion.ts\<close> turns it into a verdict,
  and \<open>bakeoff-outcomes.ts\<close> reads the winner of a best-of-n review from it. A type guard of the code
  and the cast it allows are one reader here, which returns the typed value.
\<close>

subsection \<open>The contract\<close>

datatype review_verdict = PassVerdict | WarnVerdict | FailVerdict

record review_score =
  rs_taskId :: string
  rs_passed :: bool
  rs_confidence :: "rat option"
  rs_notes :: "string option"

record best_of_n =
  bn_winnerTaskId :: string
  bn_scores :: "review_score list"
  bn_policy :: best_policy
  bn_reason :: string

record review_contract =
  rc_verdict :: review_verdict
  rc_summary :: string
  rc_findings :: "string list"
  rc_bestOfN :: "best_of_n option"

definition newline :: string where
  "newline = [CHR 0x0A]"

definition structured_review_contract_rule :: string where
  "structured_review_contract_rule = join_strings newline
     [''Emit exactly one JSON object and no alternate verdicts:'',
      ''{'',
      ''  \"kind\": \"ductum-review-result\",'',
      ''  \"verdict\": \"pass|warn|fail\",'',
      ''  \"summary\": \"one-line operator summary\",'',
      ''  \"findings\": [\"specific finding or empty for clean pass\"],'',
      ''  \"bestOfN\": { \"winnerTaskId\": \"<candidate task id>\", \"scores\": [{ \"taskId\": \"<candidate task id>\", \"passed\": true, \"confidence\": 0.86, \"notes\": \"short notes\" }], \"policy\": \"quality-gated-cost-aware|cheapest-verified-reviewed\", \"reason\": \"why this candidate is best\" }'',
      ''}'',
      ''Omit bestOfN for ordinary code reviews. Prose-only PASS/WARN/FAIL is malformed.'']"

fun read_verdict :: "json option \<Rightarrow> review_verdict option" where
  "read_verdict (Some (JStr s)) =
     (if s = ''pass'' then Some PassVerdict else if s = ''warn'' then Some WarnVerdict
      else if s = ''fail'' then Some FailVerdict else None)"
| "read_verdict _ = None"

fun read_policy :: "json option \<Rightarrow> best_policy option" where
  "read_policy (Some (JStr s)) =
     (if s = ''quality-gated-cost-aware'' then Some QualityGated
      else if s = ''cheapest-verified-reviewed'' then Some CheapestVerified else None)"
| "read_policy _ = None"

fun verdict_name :: "review_verdict \<Rightarrow> string" where
  "verdict_name PassVerdict = ''pass''"
| "verdict_name WarnVerdict = ''warn''"
| "verdict_name FailVerdict = ''fail''"

fun policy_name :: "best_policy \<Rightarrow> string" where
  "policy_name QualityGated = ''quality-gated-cost-aware''"
| "policy_name CheapestVerified = ''cheapest-verified-reviewed''"

text \<open>A non-blank string; an optional value that must have a type when it is there.\<close>

definition text_field :: "json option \<Rightarrow> string option" where
  "text_field v = (case jstr v of None \<Rightarrow> None | Some s \<Rightarrow> if trim s = [] then None else Some s)"

definition optional_field :: "(json option \<Rightarrow> 'a option) \<Rightarrow> json option \<Rightarrow> 'a option option" where
  "optional_field f v = (if v = None \<or> v = Some JNull then Some None else map_option Some (f v))"

fun read_bool :: "json option \<Rightarrow> bool option" where
  "read_bool (Some (JBool b)) = Some b"
| "read_bool _ = None"

fun read_confidence :: "json option \<Rightarrow> rat option" where
  "read_confidence (Some (JNum n)) = (if 0 \<le> n \<and> n \<le> 1 then Some n else None)"
| "read_confidence _ = None"

fun all_or_none :: "'a option list \<Rightarrow> 'a list option" where
  "all_or_none [] = Some []"
| "all_or_none (None # xs) = None"
| "all_or_none (Some x # xs) = map_option ((#) x) (all_or_none xs)"

fun read_score :: "json \<Rightarrow> review_score option" where
  "read_score (JObj p) =
     (case (text_field (jget p ''taskId''), read_bool (jget p ''passed''),
            optional_field read_confidence (jget p ''confidence''), optional_field jstr (jget p ''notes'')) of
        (Some t, Some b, Some c, Some n) \<Rightarrow>
          if jget p ''costUsd'' \<noteq> None then None
          else Some \<lparr>rs_taskId = t, rs_passed = b, rs_confidence = c, rs_notes = n\<rparr>
      | _ \<Rightarrow> None)"
| "read_score _ = None"

fun read_scores :: "json option \<Rightarrow> review_score list option" where
  "read_scores (Some (JArr vs)) = (if vs = [] then None else all_or_none (map read_score vs))"
| "read_scores _ = None"

fun read_best_of_n :: "json option \<Rightarrow> best_of_n option" where
  "read_best_of_n (Some (JObj p)) =
     (case (text_field (jget p ''winnerTaskId''), read_scores (jget p ''scores''),
            read_policy (jget p ''policy''), text_field (jget p ''reason'')) of
        (Some w, Some ss, Some q, Some r) \<Rightarrow>
          if jget p ''override'' \<noteq> None then None
          else Some \<lparr>bn_winnerTaskId = w, bn_scores = ss, bn_policy = q, bn_reason = r\<rparr>
      | _ \<Rightarrow> None)"
| "read_best_of_n _ = None"

fun read_findings :: "json option \<Rightarrow> string list option" where
  "read_findings (Some (JArr vs)) = all_or_none (map (\<lambda>v. jstr (Some v)) vs)"
| "read_findings _ = None"

fun read_contract :: "json \<Rightarrow> review_contract option" where
  "read_contract (JObj p) =
     (if \<not> jis p ''kind'' ''ductum-review-result'' then None
      else case (read_verdict (jget p ''verdict''), text_field (jget p ''summary''),
             read_findings (jget p ''findings''), optional_field read_best_of_n (jget p ''bestOfN'')) of
          (Some v, Some s, Some fs, Some b) \<Rightarrow>
            if jget p ''override'' \<noteq> None then None
            else Some \<lparr>rc_verdict = v, rc_summary = s, rc_findings = fs, rc_bestOfN = b\<rparr>
        | _ \<Rightarrow> None)"
| "read_contract _ = None"

subsection \<open>Finding it in a text\<close>

definition fenced_json_pattern :: rx where
  "fenced_json_pattern = rx ''``````(?:json)?`s*([`s`S]*?)``````''"

definition extract_fenced_json :: "string \<Rightarrow> (string \<times> nat \<times> nat) list" where
  "extract_fenced_json text = concat (map (\<lambda>(a, b, c).
     let block = trim (capture 1 c) in if block = [] then [] else [(block, a, b)])
       (spans_from fl_ci fenced_json_pattern [] text))"

record scan_state =
  sc_depth :: int
  sc_start :: "nat option"
  sc_inString :: bool
  sc_escaped :: bool

text \<open>One character of the scan for balanced objects: the next state, and whether an object ends here.\<close>

definition scan_char :: "char \<Rightarrow> nat \<Rightarrow> scan_state \<Rightarrow> scan_state \<times> nat option" where
  "scan_char c i st =
     (if sc_inString st then
        (if sc_escaped st then (st\<lparr>sc_escaped := False\<rparr>, None)
         else if c = CHR 0x5C then (st\<lparr>sc_escaped := True\<rparr>, None)
         else if c = CHR 0x22 then (st\<lparr>sc_inString := False\<rparr>, None) else (st, None))
      else if c = CHR 0x22 then (st\<lparr>sc_inString := True\<rparr>, None)
      else if c = CHR ''{'' then
        (st\<lparr>sc_start := (if sc_depth st = 0 then Some i else sc_start st), sc_depth := sc_depth st + 1\<rparr>, None)
      else if c \<noteq> CHR ''}'' then (st, None)
      else if sc_depth st - 1 = 0 \<and> sc_start st \<noteq> None
      then (st\<lparr>sc_depth := sc_depth st - 1, sc_start := None\<rparr>, sc_start st)
      else (st\<lparr>sc_depth := sc_depth st - 1\<rparr>, None))"

fun scan_objects :: "string \<Rightarrow> (nat \<times> nat) list \<Rightarrow> string \<Rightarrow> nat \<Rightarrow> scan_state \<Rightarrow> string list" where
  "scan_objects text ignored [] i st = []"
| "scan_objects text ignored (c # cs) i st =
     (if list_ex (\<lambda>(a, b). a \<le> i \<and> i < b) ignored then scan_objects text ignored cs (Suc i) st
      else case scan_char c i st of (st', found) \<Rightarrow>
        (case found of None \<Rightarrow> [] | Some a \<Rightarrow> [take (Suc i - a) (drop a text)]) @
        scan_objects text ignored cs (Suc i) st')"

definition extract_balanced_objects :: "string \<Rightarrow> (nat \<times> nat) list \<Rightarrow> string list" where
  "extract_balanced_objects text ignored = scan_objects text ignored text 0
     \<lparr>sc_depth = 0, sc_start = None, sc_inString = False, sc_escaped = False\<rparr>"

definition extract_json_objects :: "string \<Rightarrow> string list" where
  "extract_json_objects text =
     (let fenced = extract_fenced_json text in
      map fst fenced @ extract_balanced_objects text (map snd fenced))"

text \<open>\<open>JSON.parse\<close> of each candidate; the code also drops the value \<open>null\<close>.\<close>

definition contracts_of :: "string \<Rightarrow> review_contract list" where
  "contracts_of text = List.map_filter (\<lambda>t. Option.bind (parse_json t) read_contract) (extract_json_objects text)"

datatype parse_outcome = Contract review_contract | Rejected string

definition parse_structured_review_contract :: "string \<Rightarrow> parse_outcome" where
  "parse_structured_review_contract text =
     (if trim text = [] then Rejected ''empty result''
      else case contracts_of text of
          [] \<Rightarrow> Rejected ''requires exactly one structured ductum-review-result JSON object''
        | [c] \<Rightarrow> Contract c
        | _ \<Rightarrow> Rejected ''multiple structured ductum-review-result JSON objects'')"

record review_result =
  rr_verdict :: review_verdict
  rr_passed :: bool
  rr_feedback :: string
  rr_malformed :: bool

definition malformed_result :: "string \<Rightarrow> string option \<Rightarrow> review_result" where
  "malformed_result detail include_raw =
     \<lparr>rr_verdict = FailVerdict, rr_passed = False,
      rr_feedback = ''Malformed reviewer completion: '' @ detail @ ''. '' @ structured_review_contract_rule @
        (case include_raw of None \<Rightarrow> [] | Some r \<Rightarrow> newline @ newline @ ''Reviewer output:'' @ newline @ r),
      rr_malformed = True\<rparr>"

definition parse_review_result :: "string \<Rightarrow> review_result" where
  "parse_review_result text =
     (case parse_structured_review_contract text of
        Rejected reason \<Rightarrow> malformed_result reason (if trim text = [] then None else Some (trim text))
      | Contract c \<Rightarrow>
          \<lparr>rr_verdict = rc_verdict c, rr_passed = (rc_verdict c = PassVerdict),
           rr_feedback = join_strings newline (filter (\<lambda>p. trim p \<noteq> []) (rc_summary c # rc_findings c)),
           rr_malformed = False\<rparr>)"

subsection \<open>The reviewed commit\<close>

definition sha_pattern :: rx where
  "sha_pattern = rx ''^[0-9a-f]{7,64}$''"

definition normalize_commit_sha :: "string option \<Rightarrow> string option" where
  "normalize_commit_sha v =
     (case v of None \<Rightarrow> None
      | Some x \<Rightarrow> if trim x = [] then None else if test fl_ci sha_pattern (trim x) then Some (trim x) else None)"

definition build_reviewed_commit_section :: "string option \<Rightarrow> string list" where
  "build_reviewed_commit_section v =
     (case normalize_commit_sha v of None \<Rightarrow> []
      | Some sha \<Rightarrow> [''### Review Target'', [], ''Reviewed Commit: '' @ sha, []])"

definition reviewed_commit_pattern :: rx where
  "reviewed_commit_pattern = rx ''^Reviewed Commit:`s*([0-9a-f]{7,64})`s*$''"

definition parse_reviewed_commit_sha :: "string \<Rightarrow> string option" where
  "parse_reviewed_commit_sha prompt =
     (case match_groups \<lparr>fl_i = True, fl_m = True\<rparr> reviewed_commit_pattern prompt of
        None \<Rightarrow> None | Some g \<Rightarrow> normalize_commit_sha (Some (capture 1 g)))"

lemma patterns_read:
  "rx_ok ''``````(?:json)?`s*([`s`S]*?)``````''" "rx_ok ''^[0-9a-f]{7,64}$''"
  "rx_ok ''^Reviewed Commit:`s*([0-9a-f]{7,64})`s*$''"
  by code_simp+

subsection \<open>The values the contract reader returns\<close>

definition blank :: "string \<Rightarrow> bool" where
  "blank s \<longleftrightarrow> trim s = []"

definition well_formed_score :: "review_score \<Rightarrow> bool" where
  "well_formed_score x \<longleftrightarrow> \<not> blank (rs_taskId x) \<and> (case rs_confidence x of None \<Rightarrow> True | Some n \<Rightarrow> 0 \<le> n \<and> n \<le> 1)"

definition well_formed_best_of_n :: "best_of_n \<Rightarrow> bool" where
  "well_formed_best_of_n b \<longleftrightarrow> \<not> blank (bn_winnerTaskId b) \<and> bn_scores b \<noteq> [] \<and>
     (\<forall>x \<in> set (bn_scores b). well_formed_score x) \<and> \<not> blank (bn_reason b)"

definition well_formed_contract :: "review_contract \<Rightarrow> bool" where
  "well_formed_contract c \<longleftrightarrow> \<not> blank (rc_summary c) \<and>
     (case rc_bestOfN c of None \<Rightarrow> True | Some b \<Rightarrow> well_formed_best_of_n b)"

text \<open>The JSON a reviewer has to send for a contract.\<close>

definition optional_json :: "('a \<Rightarrow> json) \<Rightarrow> 'a option \<Rightarrow> json" where
  "optional_json f v = (case v of None \<Rightarrow> JNull | Some x \<Rightarrow> f x)"

definition score_json :: "review_score \<Rightarrow> json" where
  "score_json x = JObj [(''taskId'', JStr (rs_taskId x)), (''passed'', JBool (rs_passed x)),
     (''confidence'', optional_json JNum (rs_confidence x)), (''notes'', optional_json JStr (rs_notes x))]"

definition best_of_n_json :: "best_of_n \<Rightarrow> json" where
  "best_of_n_json b = JObj [(''winnerTaskId'', JStr (bn_winnerTaskId b)), (''scores'', JArr (map score_json (bn_scores b))),
     (''policy'', JStr (policy_name (bn_policy b))), (''reason'', JStr (bn_reason b))]"

definition contract_json :: "review_contract \<Rightarrow> json" where
  "contract_json c = JObj [(''kind'', JStr ''ductum-review-result''), (''verdict'', JStr (verdict_name (rc_verdict c))),
     (''summary'', JStr (rc_summary c)), (''findings'', JArr (map JStr (rc_findings c))),
     (''bestOfN'', optional_json best_of_n_json (rc_bestOfN c))]"

lemma read_names [simp]:
  "read_verdict (Some (JStr (verdict_name v))) = Some v" "read_policy (Some (JStr (policy_name q))) = Some q"
  by (cases v; simp) (cases q; simp)

lemma text_field_Str [simp]: "text_field (Some (JStr s)) = (if blank s then None else Some s)"
  by (simp add: text_field_def blank_def)

lemma text_field_Some: "text_field v = Some s \<longleftrightarrow> v = Some (JStr s) \<and> \<not> blank s"
  by (cases v rule: jstr.cases) (auto simp: text_field_def blank_def)

lemma read_confidence_json [simp]:
  "optional_field read_confidence (Some (optional_json JNum v)) =
     (case v of None \<Rightarrow> Some None | Some n \<Rightarrow> if 0 \<le> n \<and> n \<le> 1 then Some (Some n) else None)"
  by (cases v) (simp_all add: optional_field_def optional_json_def)

lemma read_notes_json [simp]: "optional_field jstr (Some (optional_json JStr v)) = Some v"
  by (cases v) (simp_all add: optional_field_def optional_json_def)

lemma read_score_json: "read_score (score_json x) = Some x \<longleftrightarrow> well_formed_score x"
proof -
  have "read_score (score_json x) = (if well_formed_score x then Some x else None)"
    by (simp add: score_json_def jget_def well_formed_score_def split: option.split)
  then show ?thesis by simp
qed

lemma all_or_none_Some: "all_or_none xs = Some ys \<longleftrightarrow> xs = map Some ys"
  by (induction xs arbitrary: ys rule: all_or_none.induct) (auto simp: Cons_eq_map_conv)

lemma all_or_none_map: "all_or_none (map f xs) = Some ys \<longleftrightarrow> list_all2 (\<lambda>x y. f x = Some y) xs ys"
  unfolding all_or_none_Some by (induction xs arbitrary: ys) (auto simp: Cons_eq_map_conv list_all2_Cons1)

lemma read_score_well_formed: "read_score j = Some x \<Longrightarrow> well_formed_score x"
proof (cases j rule: read_score.cases)
  case (1 p)
  assume "read_score j = Some x"
  moreover have "0 \<le> n \<and> n \<le> 1" if "optional_field read_confidence v = Some (Some n)" for v n
    using that by (cases v rule: read_confidence.cases) (auto simp: optional_field_def split: if_splits)
  ultimately show ?thesis
    using 1 by (auto simp: well_formed_score_def text_field_Some split: option.splits if_splits)
qed simp_all

lemma read_scores_json:
  "read_scores (Some (JArr (map score_json xs))) = Some xs \<longleftrightarrow> xs \<noteq> [] \<and> (\<forall>x \<in> set xs. well_formed_score x)"
  by (auto simp: all_or_none_map read_score_json list.rel_map list_all2_same)

lemma read_scores_well_formed: "read_scores v = Some xs \<Longrightarrow> xs \<noteq> [] \<and> (\<forall>x \<in> set xs. well_formed_score x)"
proof (cases v rule: read_scores.cases)
  case (1 vs)
  assume "read_scores v = Some xs"
  with 1 have "vs \<noteq> []" "list_all2 (\<lambda>j x. read_score j = Some x) vs xs"
    by (auto simp: all_or_none_map split: if_splits)
  from this(2) have "\<forall>x \<in> set xs. well_formed_score x"
    by (induction rule: list_all2_induct) (auto dest: read_score_well_formed)
  with \<open>vs \<noteq> []\<close> \<open>list_all2 _ vs xs\<close> show ?thesis by auto
qed simp_all

lemma read_best_of_n_json:
  assumes "well_formed_best_of_n b"
  shows "read_best_of_n (Some (best_of_n_json b)) = Some b"
proof -
  from assms have "read_scores (Some (JArr (map score_json (bn_scores b)))) = Some (bn_scores b)"
    unfolding read_scores_json by (simp add: well_formed_best_of_n_def)
  with assms show ?thesis
    by (simp add: best_of_n_json_def jget_def well_formed_best_of_n_def del: read_scores.simps read_policy.simps)
qed

lemma read_best_of_n_well_formed: "read_best_of_n v = Some b \<Longrightarrow> well_formed_best_of_n b"
proof (cases v rule: read_best_of_n.cases)
  case (1 p)
  assume "read_best_of_n v = Some b"
  with 1 show ?thesis
    by (auto simp: well_formed_best_of_n_def text_field_Some dest!: read_scores_well_formed
        simp del: read_scores.simps split: option.splits if_splits)
qed simp_all

lemma read_contract_json:
  assumes "well_formed_contract c"
  shows "read_contract (contract_json c) = Some c"
proof -
  have fs: "read_findings (Some (JArr (map JStr (rc_findings c)))) = Some (rc_findings c)"
    by (simp add: all_or_none_map list.rel_map list_all2_same)
  have b: "optional_field read_best_of_n (Some (optional_json best_of_n_json (rc_bestOfN c))) = Some (rc_bestOfN c)"
  proof (cases "rc_bestOfN c")
    case (Some x)
    with assms have "read_best_of_n (Some (best_of_n_json x)) = Some x"
      by (simp add: well_formed_contract_def read_best_of_n_json)
    with Some show ?thesis
      by (simp add: optional_field_def optional_json_def best_of_n_json_def del: read_best_of_n.simps)
  qed (simp add: optional_field_def optional_json_def)
  have s: "\<not> blank (rc_summary c)" using assms by (simp add: well_formed_contract_def)
  show ?thesis
    by (simp add: contract_json_def jget_def jis_def b fs s del: read_findings.simps read_verdict.simps)
qed

text \<open>C39: the type of a review contract. The reader returns exactly the contracts with a summary that is not
  blank and, when a best-of-n choice is in them, a winner and a reason that are not blank and at
  least one score, each score with a task that is not blank and a confidence between 0 and 1. Whatever
  it returns is such a contract, and every such contract is what it returns for some JSON value.\<close>

theorem contract_reader_is_typed:
  "(\<exists>j. read_contract j = Some c) \<longleftrightarrow> well_formed_contract c"
proof
  assume "\<exists>j. read_contract j = Some c"
  then obtain j where j: "read_contract j = Some c" by blast
  then show "well_formed_contract c"
  proof (cases j rule: read_contract.cases)
    case (1 p)
    have "well_formed_best_of_n b" if "optional_field read_best_of_n v = Some (Some b)" for v b
      using that by (auto simp: optional_field_def split: if_splits dest: read_best_of_n_well_formed)
    with 1 j show ?thesis
      by (auto simp: well_formed_contract_def text_field_Some split: option.splits if_splits)
  qed simp_all
qed (blast intro: read_contract_json)

end
