(* ===== verification/Worktree.thy ===== *)
theory Worktree
  imports Review Run_Repo Approval
begin

text \<open>
  What Ductum asks of an attempt's worktree after the agent has finished: the git artifacts of the run
  (\<open>git-artifacts.ts\<close>), tracked changes (\<open>worktree-dirty.ts\<close>), the rebase, the verification commands
  and the diff (\<open>post-completion.ts\<close>) and the snapshot kept as evidence (\<open>post-completion-snapshot.ts\<close>,
  \<open>evidence-kinds.ts\<close>).

  Git, the shell and the file system are parameters. A call is a computation over the whole database,
  because other work of the process runs while it is awaited: it may change any table. It returns
  what the process printed, or how it failed.
\<close>

record exec_failure =
  xf_stdout :: string
  xf_stderr :: string
  xf_message :: string

record auto_commit =
  ac_dirty :: bool
  ac_committed :: bool
  ac_sha :: "string option"
  ac_error :: "string option"

record worktree_tools =
  wt_exists :: "string \<Rightarrow> bool"
  wt_gitEntry :: "string \<Rightarrow> bool"
  wt_git :: "string \<Rightarrow> string list \<Rightarrow> (exec_failure + string \<times> string) db"
  wt_shell :: "string \<Rightarrow> string \<Rightarrow> (exec_failure + string \<times> string) db"
  wt_autoCommit :: "string \<Rightarrow> string \<Rightarrow> auto_commit db"
  wt_isoNow :: "store \<Rightarrow> string"

subsection \<open>Git artifacts\<close>

definition git_output :: "worktree_tools \<Rightarrow> string \<Rightarrow> string list \<Rightarrow> string option db" where
  "git_output w path args =
     andthen (wt_git w path args) (\<lambda>res.
     give (case res of Inl _ \<Rightarrow> None | Inr (out, _) \<Rightarrow> if trim out = [] then None else Some (trim out)))"

definition clean_branch :: "string option \<Rightarrow> string option" where
  "clean_branch v =
     (case v of None \<Rightarrow> None
      | Some x \<Rightarrow> if trim x = [] then None else if trim x = ''HEAD'' then None else Some (trim x))"

definition read_worktree_git_artifacts ::
    "worktree_tools \<Rightarrow> string \<Rightarrow> (string option \<times> string option) db" where
  "read_worktree_git_artifacts w path =
     (if \<not> wt_exists w path then give (None, None)
      else
        andthen (git_output w path [''rev-parse'', ''--abbrev-ref'', ''HEAD'']) (\<lambda>branch.
        andthen (git_output w path [''rev-parse'', ''HEAD'']) (\<lambda>sha.
        give (clean_branch branch, if non_blank sha then sha else None))))"

definition changed_to :: "string option \<Rightarrow> string option \<Rightarrow> string option option" where
  "changed_to found current = (if found \<noteq> None \<and> current \<noteq> found then Some found else None)"

definition sync_run_git_artifacts :: "worktree_tools \<Rightarrow> string \<Rightarrow> string \<Rightarrow> run option db" where
  "sync_run_git_artifacts w i path =
     andthen (reading (run_get i)) (\<lambda>found.
     case found of None \<Rightarrow> give None
     | Some current \<Rightarrow>
         andthen (read_worktree_git_artifacts w path) (\<lambda>(branch, sha).
         let fields = \<lparr>gf_branch = changed_to branch (run_branch current),
               gf_commitSha = changed_to sha (run_commitSha current), gf_prNumber = None, gf_prUrl = None\<rparr> in
         if gf_branch fields = None \<and> gf_commitSha fields = None then give None
         else andthen (run_update_git_artifacts i fields) (\<lambda>r. give (Some r))))"

subsection \<open>Tracked changes\<close>

text \<open>\<open>split(/\r?\n/)\<close>; the text before the line break is kept reversed.\<close>

fun split_lines :: "string \<Rightarrow> string \<Rightarrow> string list" where
  "split_lines acc [] = [rev acc]"
| "split_lines acc (c # cs) =
     (if c = CHR 0x0A
      then rev (if acc \<noteq> [] \<and> hd acc = CHR 0x0D then tl acc else acc) # split_lines [] cs
      else split_lines (c # acc) cs)"

record tracked_changes =
  tc_files :: "string list"
  tc_error :: "string option"

definition read_tracked_worktree_changes :: "worktree_tools \<Rightarrow> string \<Rightarrow> tracked_changes db" where
  "read_tracked_worktree_changes w path =
     (if \<not> wt_exists w path then give \<lparr>tc_files = [], tc_error = None\<rparr>
      else if \<not> wt_gitEntry w path then give \<lparr>tc_files = [], tc_error = None\<rparr>
      else
        andthen (wt_git w path [''status'', ''--porcelain'', ''--untracked-files=no'']) (\<lambda>res.
        give (case res of
            Inl e \<Rightarrow> \<lparr>tc_files = [], tc_error = Some (xf_message e)\<rparr>
          | Inr (out, _) \<Rightarrow>
              \<lparr>tc_files = filter (\<lambda>l. l \<noteq> []) (map trim (split_lines [] out)), tc_error = None\<rparr>)))"

definition summarize_tracked_worktree_changes :: "tracked_changes \<Rightarrow> string" where
  "summarize_tracked_worktree_changes c =
     (case tc_error c of
        Some e \<Rightarrow> ''worktree cleanliness check failed: '' @ e
      | None \<Rightarrow>
          if tc_files c = [] then ''no tracked changes''
          else join_strings ''; '' (take 10 (tc_files c)) @
            (if length (tc_files c) > 10 then ''; +'' @ show_nat (length (tc_files c) - 10) @ '' more'' else []))"

subsection \<open>Rebase\<close>

record rebase_result =
  rb_rebased :: bool
  rb_needed :: bool
  rb_output :: string

definition rebase_worktree_onto_base :: "worktree_tools \<Rightarrow> string \<Rightarrow> string \<Rightarrow> rebase_result db" where
  "rebase_worktree_onto_base w path base =
     andthen (wt_git w path [''merge-base'', ''HEAD'', base]) (\<lambda>mb.
     case mb of
       Inl e \<Rightarrow> give \<lparr>rb_rebased = False, rb_needed = False, rb_output = ''failed to read merge-base: '' @ xf_message e\<rparr>
     | Inr (merge_base, _) \<Rightarrow>
         andthen (wt_git w path [''rev-parse'', base]) (\<lambda>bh.
         case bh of
           Inl e \<Rightarrow> give \<lparr>rb_rebased = False, rb_needed = False, rb_output = ''failed to read merge-base: '' @ xf_message e\<rparr>
         | Inr (base_head, _) \<Rightarrow>
             if trim merge_base = trim base_head then give \<lparr>rb_rebased = True, rb_needed = False, rb_output = []\<rparr>
             else
               andthen (wt_git w path [''rebase'', ''--no-verify'', base]) (\<lambda>res.
               case res of
                 Inr _ \<Rightarrow> give \<lparr>rb_rebased = True, rb_needed = True, rb_output = []\<rparr>
               | Inl e \<Rightarrow>
                   andthen (wt_git w path [''rebase'', ''--abort'']) (\<lambda>_.
                   let out = trim (xf_stdout e @ newline @ xf_stderr e) in
                   give \<lparr>rb_rebased = False, rb_needed = True,
                     rb_output = (if out = [] then xf_message e else out)\<rparr>))))"

subsection \<open>Verification\<close>

record verify_command =
  vc_command :: string
  vc_passed :: bool
  vc_output :: string

record verify_result =
  vr_passed :: bool
  vr_output :: string
  vr_commands :: "verify_command list option"

text \<open>The commands run one after the other until one fails.\<close>

fun run_verify :: "worktree_tools \<Rightarrow> string \<Rightarrow> verify_command list \<Rightarrow> string list \<Rightarrow> verify_result db" where
  "run_verify w path finished [] =
     give \<lparr>vr_passed = True, vr_output = join_strings (newline @ newline) (map vc_output finished),
           vr_commands = Some finished\<rparr>"
| "run_verify w path finished (cmd # cmds) =
     andthen (wt_shell w path cmd) (\<lambda>res.
     case res of
       Inr (out, err) \<Rightarrow>
         run_verify w path (finished @ [\<lparr>vc_command = cmd, vc_passed = True,
           vc_output = ''$ '' @ cmd @ newline @ trim (out @ err)\<rparr>]) cmds
     | Inl e \<Rightarrow>
         let captured = trim (xf_stdout e @ xf_stderr e);
             msg = (if captured \<noteq> [] then captured else xf_message e);
             all = finished @ [\<lparr>vc_command = cmd, vc_passed = False,
               vc_output = ''$ '' @ cmd @ newline @ ''FAILED: '' @ msg\<rparr>] in
         give \<lparr>vr_passed = False, vr_output = join_strings (newline @ newline) (map vc_output all),
               vr_commands = Some all\<rparr>)"

definition verify_worktree :: "worktree_tools \<Rightarrow> string \<Rightarrow> string list \<Rightarrow> verify_result db" where
  "verify_worktree w path cmds = run_verify w path [] cmds"

subsection \<open>The diff shown to a reviewer\<close>

definition collect_committed_branch_diff :: "worktree_tools \<Rightarrow> string \<Rightarrow> string option \<Rightarrow> string db" where
  "collect_committed_branch_diff w path base =
     (if is_blank base then give []
      else
        andthen (wt_git w path [''merge-base'', ''HEAD'', the base]) (\<lambda>mb.
        case mb of Inl _ \<Rightarrow> give []
        | Inr (out, _) \<Rightarrow>
            if trim out = [] then give []
            else andthen (wt_git w path [''diff'', trim out @ ''..HEAD'']) (\<lambda>res.
              give (case res of Inl _ \<Rightarrow> [] | Inr (d, _) \<Rightarrow> d))))"

text \<open>\<open>git diff --no-index\<close> fails when the files differ, and has then printed the diff.\<close>

fun untracked_diff :: "worktree_tools \<Rightarrow> string \<Rightarrow> string list \<Rightarrow> string db" where
  "untracked_diff w path [] = give []"
| "untracked_diff w path (f # fs) =
     andthen (wt_git w path [''diff'', ''--no-index'', ''/dev/null'', f]) (\<lambda>res.
     andthen (untracked_diff w path fs) (\<lambda>rest.
     give ((case res of Inr (out, _) \<Rightarrow> out | Inl e \<Rightarrow> xf_stdout e) @ rest)))"

fun split_at_char :: "char \<Rightarrow> string \<Rightarrow> string \<Rightarrow> string list" where
  "split_at_char d acc [] = [rev acc]"
| "split_at_char d acc (c # cs) = (if c = d then rev acc # split_at_char d [] cs else split_at_char d (c # acc) cs)"

definition max_diff_chars :: nat where
  "max_diff_chars = 50000"

definition limit_diff :: "string \<Rightarrow> string" where
  "limit_diff d =
     (if d = [] then ''(no changes detected)''
      else if length d > max_diff_chars
      then take max_diff_chars d @ newline @ newline @ ''... (truncated, '' @ show_nat (length d) @ '' chars total)''
      else d)"

definition collect_diff :: "worktree_tools \<Rightarrow> string \<Rightarrow> string option \<Rightarrow> string db" where
  "collect_diff w path base =
     andthen (collect_committed_branch_diff w path base) (\<lambda>committed.
     andthen (wt_git w path [''ls-files'', ''--others'', ''--exclude-standard'']) (\<lambda>ls.
     case ls of Inl _ \<Rightarrow> give ''(failed to collect diff)''
     | Inr (untracked, _) \<Rightarrow>
         andthen (wt_git w path [''diff'', ''--cached'', ''HEAD'']) (\<lambda>st.
         case st of Inl _ \<Rightarrow> give ''(failed to collect diff)''
         | Inr (staged, _) \<Rightarrow>
             andthen (wt_git w path [''diff'', ''HEAD'']) (\<lambda>tr.
             case tr of Inl _ \<Rightarrow> give ''(failed to collect diff)''
             | Inr (tracked, _) \<Rightarrow>
                 andthen (untracked_diff w path
                     (filter (\<lambda>f. f \<noteq> []) (split_at_char (CHR 0x0A) [] (trim untracked)))) (\<lambda>shown.
                 give (limit_diff (trim (join_strings newline
                   (filter (\<lambda>p. trim p \<noteq> []) [committed, staged, tracked, shown])))))))))"

subsection \<open>The snapshot\<close>

definition last_of :: "'a list \<Rightarrow> 'a option" where
  "last_of xs = (if xs = [] then None else Some (last xs))"

definition matched_command :: "verify_result option \<Rightarrow> verify_command option" where
  "matched_command v =
     (case Option.bind v vr_commands of None \<Rightarrow> None
      | Some cs \<Rightarrow> (case find (\<lambda>c. \<not> vc_passed c) cs of Some c \<Rightarrow> Some c | None \<Rightarrow> last_of cs))"

definition resolve_snapshot_verify_command :: "string list \<Rightarrow> verify_result option \<Rightarrow> string" where
  "resolve_snapshot_verify_command cmds v =
     (case matched_command v of Some c \<Rightarrow> vc_command c
      | None \<Rightarrow> (case last_of cmds of Some c \<Rightarrow> c | None \<Rightarrow> ''(none)''))"

definition resolve_snapshot_verify_tail :: "verify_result option \<Rightarrow> string" where
  "resolve_snapshot_verify_tail v =
     (case matched_command v of Some c \<Rightarrow> vc_output c
      | None \<Rightarrow> (case v of Some r \<Rightarrow> vr_output r | None \<Rightarrow> ''(no verify commands configured)''))"

definition take_last :: "nat \<Rightarrow> 'a list \<Rightarrow> 'a list" where
  "take_last n xs = drop (length xs - n) xs"

definition output_tail :: "string \<Rightarrow> string" where
  "output_tail out =
     (let lines = join_strings newline (take_last 40 (split_lines [] (trim out))) in
      if length lines \<le> 4000 then lines else take_last 4000 lines)"

definition number_before :: "string \<Rightarrow> rx \<Rightarrow> nat" where
  "number_before text pattern =
     (case match_groups fl_none pattern text of None \<Rightarrow> 0 | Some g \<Rightarrow> read_nat (capture 1 g))"

record diff_stat =
  dst_filesChanged :: nat
  dst_insertions :: nat
  dst_deletions :: nat

definition parse_short_stat :: "string option \<Rightarrow> diff_stat" where
  "parse_short_stat v =
     (let text = (case v of None \<Rightarrow> [] | Some x \<Rightarrow> x) in
      \<lparr>dst_filesChanged = number_before text (rx ''(`d+)`s+files?`s+changed''),
       dst_insertions = number_before text (rx ''(`d+)`s+insertions?`(`+`)''),
       dst_deletions = number_before text (rx ''(`d+)`s+deletions?`(-`)'')\<rparr>)"

definition short_stat_since :: "worktree_tools \<Rightarrow> string \<Rightarrow> string \<Rightarrow> diff_stat db" where
  "short_stat_since w path sha =
     andthen (git_output w path [''diff'', ''--shortstat'', sha @ ''..HEAD'']) (\<lambda>out.
     give (parse_short_stat out))"

definition collect_parent_stat :: "worktree_tools \<Rightarrow> string \<Rightarrow> diff_stat db" where
  "collect_parent_stat w path =
     andthen (git_output w path [''rev-parse'', ''HEAD~1'']) (\<lambda>parent.
     case parent of
       Some p \<Rightarrow> short_stat_since w path p
     | None \<Rightarrow>
         andthen (git_output w path [''diff-tree'', ''--shortstat'', ''--root'', ''HEAD'']) (\<lambda>out.
         give (parse_short_stat out)))"

definition collect_diff_stat :: "worktree_tools \<Rightarrow> string \<Rightarrow> string option \<Rightarrow> diff_stat db" where
  "collect_diff_stat w path base =
     (if is_blank base then collect_parent_stat w path
      else
        andthen (git_output w path [''merge-base'', ''HEAD'', trim (the base)]) (\<lambda>mb.
        case mb of Some sha \<Rightarrow> short_stat_since w path sha | None \<Rightarrow> collect_parent_stat w path))"

definition or_text :: "string option \<Rightarrow> string option \<Rightarrow> string" where
  "or_text a b = (case a of Some x \<Rightarrow> x | None \<Rightarrow> (case b of Some y \<Rightarrow> y | None \<Rightarrow> ''unknown''))"

record worktree_snapshot =
  ws_payload :: payload
  ws_stat :: diff_stat

definition build_worktree_snapshot_evidence ::
    "worktree_tools \<Rightarrow> run \<Rightarrow> string \<Rightarrow> string option \<Rightarrow> string list \<Rightarrow> verify_result option \<Rightarrow> worktree_snapshot option db" where
  "build_worktree_snapshot_evidence w r path base cmds v =
     andthen (git_output w path [''rev-parse'', ''--is-inside-work-tree'']) (\<lambda>inside.
     if inside \<noteq> Some ''true'' then give None
     else
       andthen (git_output w path [''rev-parse'', ''--abbrev-ref'', ''HEAD'']) (\<lambda>branch.
       andthen (git_output w path [''rev-parse'', ''HEAD'']) (\<lambda>sha.
       andthen (collect_diff_stat w path base) (\<lambda>stat.
       andthen (reading (wt_isoNow w)) (\<lambda>now.
       give (Some \<lparr>ws_payload = with_trusted_producer
           [(''kind'', JStr ''worktree.snapshot''),
            (''branch'', JStr (or_text branch (run_branch r))),
            (''commitSha'', JStr (or_text sha (run_commitSha r))),
            (''diffStat'', JObj [(''filesChanged'', JNum (of_nat (dst_filesChanged stat))),
               (''insertions'', JNum (of_nat (dst_insertions stat))), (''deletions'', JNum (of_nat (dst_deletions stat)))]),
            (''verifyOutput'', JObj
               [(''command'', JStr (resolve_snapshot_verify_command cmds v)),
                (''exitCode'', JNum (if map_option vr_passed v = Some False then 1 else 0)),
                (''tail'', JStr (output_tail (resolve_snapshot_verify_tail v)))]),
            (''timestamp'', JStr now)] RuntimeProducer,
          ws_stat = stat\<rparr>))))))"

end
