(* ===== verification/Evidence_Kinds.thy ===== *)
theory Evidence_Kinds
  imports Ductum_Types
begin

text \<open>
  The typed evidence payloads of \<open>evidence-kinds.ts\<close>: a payload is recognised by its \<open>kind\<close>, and each
  kind has its own check.
\<close>

datatype evidence_kind =
  WorktreeSnapshotKind | HarnessFailureKind | OperatorCancelKind | OperatorNoteKind | ExitDemoRunKind | PreflightHydrationKind

fun evidence_kind_name :: "evidence_kind \<Rightarrow> string" where
  "evidence_kind_name WorktreeSnapshotKind = ''worktree.snapshot''"
| "evidence_kind_name HarnessFailureKind = ''harness.failure''"
| "evidence_kind_name OperatorCancelKind = ''operator.cancel''"
| "evidence_kind_name OperatorNoteKind = ''operator.note''"
| "evidence_kind_name ExitDemoRunKind = ''exit_demo.run''"
| "evidence_kind_name PreflightHydrationKind = ''preflight.hydration''"

definition evidence_kinds :: "evidence_kind list" where
  "evidence_kinds = [WorktreeSnapshotKind, HarnessFailureKind, OperatorCancelKind, OperatorNoteKind,
     ExitDemoRunKind, PreflightHydrationKind]"

text \<open>The names the operator \<open>in\<close> also finds in every object literal.\<close>

definition object_prototype_names :: "string list" where
  "object_prototype_names =
     [''constructor'', ''toString'', ''valueOf'', ''hasOwnProperty'', ''isPrototypeOf'', ''propertyIsEnumerable'',
      ''toLocaleString'', ''__proto__'', ''__defineGetter__'', ''__defineSetter__'', ''__lookupGetter__'',
      ''__lookupSetter__'']"

subsection \<open>Checks of values\<close>

definition is_text :: "json option \<Rightarrow> bool" where
  "is_text v = (case jstr v of None \<Rightarrow> False | Some s \<Rightarrow> trim s \<noteq> [])"

fun is_non_negative_number :: "json option \<Rightarrow> bool" where
  "is_non_negative_number (Some (JNum n)) = (0 \<le> n)"
| "is_non_negative_number _ = False"

fun is_integer_number :: "json option \<Rightarrow> bool" where
  "is_integer_number (Some (JNum n)) = (of_int \<lfloor>n\<rfloor> = n)"
| "is_integer_number _ = False"

fun is_bool :: "json option \<Rightarrow> bool" where
  "is_bool (Some (JBool _)) = True"
| "is_bool _ = False"

fun record_with :: "(payload \<Rightarrow> bool) \<Rightarrow> json option \<Rightarrow> bool" where
  "record_with p (Some (JObj fs)) = p fs"
| "record_with p _ = False"

definition is_diff_stat :: "payload \<Rightarrow> bool" where
  "is_diff_stat p \<longleftrightarrow> is_non_negative_number (jget p ''filesChanged'') \<and>
     is_non_negative_number (jget p ''insertions'') \<and> is_non_negative_number (jget p ''deletions'')"

definition is_verify_output :: "payload \<Rightarrow> bool" where
  "is_verify_output p \<longleftrightarrow>
     is_text (jget p ''command'') \<and> is_integer_number (jget p ''exitCode'') \<and> is_text (jget p ''tail'')"

definition is_machine_signature :: "payload \<Rightarrow> bool" where
  "is_machine_signature p \<longleftrightarrow>
     is_text (jget p ''osHash'') \<and> is_text (jget p ''osPlatform'') \<and> is_text (jget p ''hostnameHash'')"

definition exit_demo_phases :: "string list" where
  "exit_demo_phases = [''install_g'', ''init_anthropic_auth'', ''serve_ready'', ''spec_imported'',
     ''run_awaiting_approval'', ''approve_clicked'', ''merged'']"

fun is_exit_demo_timeline :: "json option \<Rightarrow> bool" where
  "is_exit_demo_timeline (Some (JArr vs)) =
     (length vs = length exit_demo_phases \<and>
      list_all (\<lambda>(v, phase). record_with (\<lambda>p. jis p ''phase'' phase \<and> is_non_negative_number (jget p ''t'')) (Some v))
        (zip vs exit_demo_phases))"
| "is_exit_demo_timeline _ = False"

subsection \<open>The checks of the kinds\<close>

definition is_worktree_snapshot_evidence :: "payload \<Rightarrow> bool" where
  "is_worktree_snapshot_evidence p \<longleftrightarrow>
     jis p ''kind'' ''worktree.snapshot'' \<and> is_text (jget p ''branch'') \<and> is_text (jget p ''commitSha'') \<and>
     record_with is_diff_stat (jget p ''diffStat'') \<and> record_with is_verify_output (jget p ''verifyOutput'') \<and>
     is_text (jget p ''timestamp'')"

definition is_harness_failure_evidence :: "payload \<Rightarrow> bool" where
  "is_harness_failure_evidence p \<longleftrightarrow>
     jis p ''kind'' ''harness.failure'' \<and> is_text (jget p ''reason'') \<and> jis p ''exitReason'' ''failed''"

definition is_operator_cancel_evidence :: "payload \<Rightarrow> bool" where
  "is_operator_cancel_evidence p \<longleftrightarrow>
     jis p ''kind'' ''operator.cancel'' \<and> is_text (jget p ''reason'') \<and> is_bool (jget p ''worktreePreserved'') \<and>
     (jget p ''dirtyWorktree'' = None \<or> is_bool (jget p ''dirtyWorktree'')) \<and>
     (jget p ''cleanupAt'' = Some JNull \<or> is_text (jget p ''cleanupAt'')) \<and> is_text (jget p ''timestamp'')"

definition is_operator_note_evidence :: "payload \<Rightarrow> bool" where
  "is_operator_note_evidence p \<longleftrightarrow> jis p ''kind'' ''operator.note'' \<and> is_text (jget p ''note'')"

definition is_exit_demo_data :: "payload \<Rightarrow> bool" where
  "is_exit_demo_data d \<longleftrightarrow>
     jis d ''demoName'' ''bootstrap-redesign-p5'' \<and> record_with is_machine_signature (jget d ''machineSignature'') \<and>
     is_exit_demo_timeline (jget d ''timeline'') \<and> is_non_negative_number (jget d ''totalSeconds'') \<and>
     is_text (jget d ''mergedCommitSha'') \<and> is_text (jget d ''mergedBranch'') \<and> is_text (jget d ''agentName'') \<and>
     is_text (jget d ''promptText'') \<and>
     jget d ''operatorActions'' = Some (JArr [JStr ''browser_auth'', JStr ''approve_click''])"

definition is_exit_demo_run_evidence :: "payload \<Rightarrow> bool" where
  "is_exit_demo_run_evidence p \<longleftrightarrow>
     jis p ''kind'' ''exit_demo.run'' \<and> jget p ''schemaVersion'' = Some (JNum 1) \<and>
     record_with is_exit_demo_data (jget p ''data'')"

definition is_preflight_check :: "payload \<Rightarrow> bool" where
  "is_preflight_check c \<longleftrightarrow>
     is_text (jget c ''id'') \<and> is_text (jget c ''label'') \<and> (jis c ''status'' ''pass'' \<or> jis c ''status'' ''skipped'') \<and>
     (jget c ''detail'' = None \<or> jget c ''detail'' = Some JNull \<or> jstr (jget c ''detail'') \<noteq> None)"

definition is_preflight_hydration_evidence :: "payload \<Rightarrow> bool" where
  "is_preflight_hydration_evidence p \<longleftrightarrow>
     jis p ''kind'' ''preflight.hydration'' \<and> jget p ''schemaVersion'' = Some (JNum 1) \<and>
     is_text (jget p ''configFingerprint'') \<and> is_text (jget p ''timestamp'') \<and>
     (case jget p ''checks'' of Some (JArr vs) \<Rightarrow> list_all (\<lambda>v. record_with is_preflight_check (Some v)) vs | _ \<Rightarrow> False)"

fun evidence_check :: "evidence_kind \<Rightarrow> payload \<Rightarrow> bool" where
  "evidence_check WorktreeSnapshotKind = is_worktree_snapshot_evidence"
| "evidence_check HarnessFailureKind = is_harness_failure_evidence"
| "evidence_check OperatorCancelKind = is_operator_cancel_evidence"
| "evidence_check OperatorNoteKind = is_operator_note_evidence"
| "evidence_check ExitDemoRunKind = is_exit_demo_run_evidence"
| "evidence_check PreflightHydrationKind = is_preflight_hydration_evidence"

text \<open>The definition found under a kind, if any; a name every object has finds something that is no
  definition, and asking it to validate throws: the result is then None.\<close>

datatype kind_lookup = NoKind | Defined evidence_kind | Inherited string

definition get_evidence_kind :: "json \<Rightarrow> kind_lookup" where
  "get_evidence_kind v =
     (case v of JObj p \<Rightarrow>
        (case jstr (jget p ''kind'') of None \<Rightarrow> NoKind
         | Some k \<Rightarrow>
             (case find (\<lambda>e. evidence_kind_name e = k) evidence_kinds of
                Some e \<Rightarrow> Defined e
              | None \<Rightarrow> if k \<in> set object_prototype_names then Inherited k else NoKind))
      | _ \<Rightarrow> NoKind)"

definition validate_evidence_payload :: "json \<Rightarrow> bool option" where
  "validate_evidence_payload v =
     (case get_evidence_kind v of
        NoKind \<Rightarrow> Some False
      | Defined e \<Rightarrow> (case v of JObj p \<Rightarrow> Some (evidence_check e p) | _ \<Rightarrow> Some False)
      | Inherited k \<Rightarrow> None)"

text \<open>A payload whose kind is the name of an inherited property makes the validation throw.\<close>

lemma inherited_kind_throws: "validate_evidence_payload (JObj [(''kind'', JStr ''toString'')]) = None"
  by code_simp

end
