(* ===== verification/Router.thy ===== *)
theory Router
  imports Lineage Dag Worktree Evidence_Kinds
begin

text \<open>
  The parts the post-completion routes are made of: the evidence they record
  (\<open>repos/evidence.ts\<close>), the checks of the worktree (\<open>post-completion-router-base.ts\<close>), the tasks they
  create (\<open>post-completion-router-dispatch.ts\<close>, \<open>-verification-fix.ts\<close>), the runs and tasks they close
  (\<open>-task-completion.ts\<close>, \<open>failed-lineage-cleanup.ts\<close>) and the prompts (\<open>post-completion.ts\<close>).

  The callbacks of \<open>PostCompletionConfig\<close> are computations over the whole database; one that is not
  set is one that does nothing. Further parameters: fresh ids, the redactor of evidence payloads
  and the digest of a stored payload, the name of a project, which runs have a live session, the
  text of an error, and the em dash, which is not a Latin-1 character.
\<close>

record post_completion =
  pc_verifyCommands :: "string \<Rightarrow> workflow_profile option \<Rightarrow> string list db"
  pc_reviewer :: "string \<Rightarrow> string \<Rightarrow> string option"
  pc_onVerificationResult :: "string \<Rightarrow> verify_result \<Rightarrow> unit db"
  pc_onReadyToShip :: "string \<Rightarrow> unit db"
  pc_completionText :: "string \<Rightarrow> store \<Rightarrow> string"
  pc_onReviewResult :: "string \<Rightarrow> review_result \<Rightarrow> string option \<Rightarrow> unit db"
  pc_maxFixIterations :: "nat option"
  pc_maxReviewRounds :: "nat option"
  pc_rebaseBase :: "string option"

record router =
  ro_config :: config
  ro_post :: "post_completion option"
  ro_evidenceRepo :: bool
  ro_liveSession :: "string \<Rightarrow> bool"
  ro_evaluateDag :: bool
  ro_fuel :: nat
  ro_transaction :: bool
  ro_tools :: worktree_tools
  ro_newId :: "store \<Rightarrow> string"
  ro_redact :: "payload \<Rightarrow> payload"
  ro_digest :: "evidence_type \<Rightarrow> payload \<Rightarrow> string"
  ro_projectName :: "string \<Rightarrow> string option"
  ro_errorText :: "error \<Rightarrow> string"
  ro_dash :: string

definition default_max_fix_iterations :: nat where
  "default_max_fix_iterations = 3"

subsection \<open>Evidence\<close>

text \<open>Identical evidence of a run is stored once, except the notes of an operator.\<close>

definition is_append_only_operator_note :: "evidence_type \<Rightarrow> payload \<Rightarrow> bool" where
  "is_append_only_operator_note ty p \<longleftrightarrow>
     ty = EvCustom \<and> (jis p ''kind'' ''operator-note'' \<or> jis p ''kind'' ''operator.note'')"

definition replayable_content_sha :: "router \<Rightarrow> evidence_type \<Rightarrow> payload \<Rightarrow> string option" where
  "replayable_content_sha ro ty p =
     (if is_append_only_operator_note ty p then None else Some (ro_digest ro ty p))"

definition evidence_create :: "router \<Rightarrow> string \<Rightarrow> string \<Rightarrow> evidence_type \<Rightarrow> payload \<Rightarrow> evidence db" where
  "evidence_create ro i r ty p =
     andthen (reading (\<lambda>s. s)) (\<lambda>s.
     let safe = ro_redact ro p; sha = replayable_content_sha ro ty safe in
     case (if sha = None then None
           else find (\<lambda>e. ev_runId e = r \<and> replayable_content_sha ro (ev_type e) (ev_payload e) = sha) (st_evidence s)) of
       Some e \<Rightarrow> give e
     | None \<Rightarrow>
         let e = \<lparr>ev_id = i, ev_runId = r, ev_type = ty, ev_payload = safe, ev_createdAt = Some (st_clock s)\<rparr> in
         andthen (guard_or (run_get r s \<noteq> None \<and> i \<notin> ev_id ` set (st_evidence s)) ConstraintFailed) (\<lambda>_.
         andthen (modify (\<lambda>s. s\<lparr>st_evidence := st_evidence s @ [e]\<rparr>)) (\<lambda>_.
         give e)))"

text \<open>\<open>evidenceRepo?.create\<close> of a custom payload under a fresh id.\<close>

definition record_custom :: "router \<Rightarrow> string \<Rightarrow> payload \<Rightarrow> unit db" where
  "record_custom ro r p =
     (if \<not> ro_evidenceRepo ro then give ()
      else andthen (reading (ro_newId ro)) (\<lambda>i. andthen (evidence_create ro i r EvCustom p) (\<lambda>_. give ())))"

text \<open>A transaction that throws takes back the tables, but the events it emitted have been seen.\<close>

definition commit_atomically :: "router \<Rightarrow> 'a db \<Rightarrow> 'a db" where
  "commit_atomically ro m s =
     (if \<not> ro_transaction ro then m s
      else case m s of (Inl e, t) \<Rightarrow> (Inl e, s\<lparr>st_events := st_events t\<rparr>) | (Inr x, t) \<Rightarrow> (Inr x, t))"

definition or_diverge :: "(store \<Rightarrow> 'a option) \<Rightarrow> 'a db" where
  "or_diverge f =
     andthen (reading f) (\<lambda>v. case v of None \<Rightarrow> fail NotReturning | Some x \<Rightarrow> give x)"

definition ignore :: "'a db \<Rightarrow> unit db" where
  "ignore m = andthen m (\<lambda>_. give ())"

definition when_do :: "bool \<Rightarrow> unit db \<Rightarrow> unit db" where
  "when_do b m = (if b then m else give ())"

subsection \<open>Checks of the worktree\<close>

definition pipeline_tag :: "run \<Rightarrow> string" where
  "pipeline_tag r = ''[pipeline:'' @ take 6 (run_id r) @ '']''"

definition fix_tag :: "run \<Rightarrow> string" where
  "fix_tag r = ''[fix:'' @ take 6 (run_id r) @ '']''"

definition resolve_project_name :: "router \<Rightarrow> task \<Rightarrow> store \<Rightarrow> string option" where
  "resolve_project_name ro t s =
     (case spec_get (task_specId t) s of None \<Rightarrow> None | Some sp \<Rightarrow> ro_projectName ro (spec_projectId sp))"

definition is_runtime_resolution :: "error \<Rightarrow> bool" where
  "is_runtime_resolution e = (case e of RuntimeResolution _ \<Rightarrow> True | _ \<Rightarrow> False)"

definition verify_commands_error :: "router \<Rightarrow> run \<Rightarrow> string \<Rightarrow> error \<Rightarrow> error" where
  "verify_commands_error ro r tag e =
     (if is_runtime_resolution e then e
      else case run_runtimeWorkflowProfile r of
          None \<Rightarrow> e
        | Some p \<Rightarrow> RuntimeResolution (tag @ '' WorkflowProfile '' @ wp_name p @ '' ('' @ wp_path p @
            '') could not resolve verify commands: '' @ ro_errorText ro e))"

definition resolve_verify_commands ::
    "router \<Rightarrow> post_completion \<Rightarrow> string option \<Rightarrow> task \<Rightarrow> run \<Rightarrow> string \<Rightarrow> string list db" where
  "resolve_verify_commands ro pc project t r tag =
     (case project of None \<Rightarrow> give (task_verification t)
      | Some p \<Rightarrow> (\<lambda>s. case pc_verifyCommands pc p (run_runtimeWorkflowProfile r) s of
          (Inr cmds, u) \<Rightarrow> (Inr (if length cmds > 0 then cmds else task_verification t), u)
        | (Inl e, u) \<Rightarrow> (Inl (verify_commands_error ro r tag e), u)))"

definition format_dirty_tracked_reason :: "string \<Rightarrow> string option \<Rightarrow> string" where
  "format_dirty_tracked_reason detail ctx =
     (case ctx of None \<Rightarrow> ''attempt worktree has uncommitted tracked changes: '' @ detail
      | Some c \<Rightarrow> c @ ''; uncommitted tracked changes: '' @ detail)"

definition format_cleanliness_check_reason :: "string \<Rightarrow> string option \<Rightarrow> string" where
  "format_cleanliness_check_reason e ctx =
     (case ctx of None \<Rightarrow> ''attempt worktree cleanliness check failed: '' @ e
      | Some c \<Rightarrow> c @ ''; worktree cleanliness check failed: '' @ e)"

definition fail_if_dirty_tracked_worktree :: "router \<Rightarrow> string \<Rightarrow> string \<Rightarrow> string option \<Rightarrow> bool db" where
  "fail_if_dirty_tracked_worktree ro i path ctx =
     andthen (read_tracked_worktree_changes (ro_tools ro) path) (\<lambda>c.
     if tc_error c = None \<and> length (tc_files c) = 0 then give False
     else
       andthen (mark_failed (ro_config ro) i (Some (case tc_error c of
           None \<Rightarrow> format_dirty_tracked_reason (summarize_tracked_worktree_changes c) ctx
         | Some e \<Rightarrow> format_cleanliness_check_reason e ctx)) unfenced) (\<lambda>_.
       give True))"

definition finalize_dirty_worktree :: "router \<Rightarrow> string \<Rightarrow> string \<Rightarrow> string \<Rightarrow> bool db" where
  "finalize_dirty_worktree ro i path name =
     andthen (wt_autoCommit (ro_tools ro) path name) (\<lambda>res.
     andthen (fail_if_dirty_tracked_worktree ro i path
        (map_option (\<lambda>e. ''auto-commit failed before approval snapshot: '' @ e) (ac_error res))) (\<lambda>dirty.
     give (\<not> dirty)))"

definition should_sync_git_artifacts :: "router \<Rightarrow> string option \<Rightarrow> bool" where
  "should_sync_git_artifacts ro path = (case path of None \<Rightarrow> False | Some p \<Rightarrow> wt_exists (ro_tools ro) p)"

definition should_record_worktree_snapshot :: "router \<Rightarrow> string option \<Rightarrow> bool" where
  "should_record_worktree_snapshot ro path \<longleftrightarrow>
     should_sync_git_artifacts ro path \<and> wt_gitEntry (ro_tools ro) (the path)"

definition sync_git_artifacts :: "router \<Rightarrow> string \<Rightarrow> string \<Rightarrow> unit db" where
  "sync_git_artifacts ro i path = ignore (sync_run_git_artifacts (ro_tools ro) i path)"

definition record_worktree_snapshot ::
    "router \<Rightarrow> post_completion \<Rightarrow> string \<Rightarrow> string \<Rightarrow> string list \<Rightarrow> verify_result option \<Rightarrow> diff_stat option db" where
  "record_worktree_snapshot ro pc i path cmds v =
     (if \<not> should_record_worktree_snapshot ro (Some path) then give None
      else
        andthen (reading (run_get i)) (\<lambda>found.
        case found of None \<Rightarrow> give None
        | Some r \<Rightarrow>
            andthen (build_worktree_snapshot_evidence (ro_tools ro) r path (pc_rebaseBase pc) cmds v) (\<lambda>snap.
            case snap of None \<Rightarrow> give None
            | Some p \<Rightarrow>
                if validate_evidence_payload (JObj (ws_payload p)) \<noteq> Some True then give None
                else andthen (record_custom ro i (ws_payload p)) (\<lambda>_. give (Some (ws_stat p))))))"

subsection \<open>Prompts\<close>

definition lines :: "string list \<Rightarrow> string" where
  "lines = join_strings newline"

definition fence :: string where
  "fence = ''```''"

fun imported_review_prompt :: "json option \<Rightarrow> string option" where
  "imported_review_prompt (Some (JObj src)) =
     (if jis src ''kind'' ''github-issue'' \<and> jget src ''promptImport'' \<noteq> None
      then (case jget src ''promptImport'' of
          Some (JObj p) \<Rightarrow> (case jget p ''review'' of Some (JObj q) \<Rightarrow> jstr (jget q ''body'') | _ \<Rightarrow> None)
        | _ \<Rightarrow> None)
      else None)"
| "imported_review_prompt _ = None"

definition build_review_prompt ::
    "router \<Rightarrow> task \<Rightarrow> string \<Rightarrow> string \<Rightarrow> string option \<Rightarrow> string option \<Rightarrow> string" where
  "build_review_prompt ro t diff output sha imported = lines (
     [''## Review Task'', [], ''A different agent implemented the following task. Review their changes.'', []] @
     build_reviewed_commit_section sha @
     [''### Original Task'', task_prompt t, [], ''### Verification Output (build + test)'', fence,
      take 10000 output, fence, [], ''### Diff'', fence @ ''diff'', diff, fence] @
     (case imported of None \<Rightarrow> [] | Some p \<Rightarrow> [[], ''### Imported Review Prompt'', p]) @
     [[], ''### Instructions'', [], ''Review the diff for:'',
      ''1. **Correctness** '' @ ro_dash ro @ '' does it solve the task as described?'',
      ''2. **Bugs** '' @ ro_dash ro @ '' logic errors, off-by-one, null handling, race conditions'',
      ''3. **Security** '' @ ro_dash ro @ '' injection, XSS, secrets exposure, unsafe operations'',
      ''4. **Quality** '' @ ro_dash ro @ '' readability, naming, unnecessary complexity'',
      [], ''Do not edit, push, approve, or merge. Reviews end only by calling `ductum_complete`.'', [],
      ''### REQUIRED STRUCTURED VERDICT CONTRACT (malformed output is rejected)'', [],
      ''Your `ductum_complete` result MUST include exactly one JSON object matching this contract:'',
      fence @ ''json'', structured_review_contract_rule, fence, [], ''Rules:'',
      ''- Do not emit prose-only PASS/WARN/FAIL. Legacy textual verdicts are malformed.'',
      ''- Use verdict=pass only when the implementation is clean.'',
      ''- Use verdict=warn or verdict=fail with specific findings when fixes are needed.''])"

definition build_rebase_fix_prompt :: "router \<Rightarrow> task \<Rightarrow> string \<Rightarrow> string \<Rightarrow> string" where
  "build_rebase_fix_prompt ro t base output = lines
     [''## Rebase Conflict Resolution'', [],
      ''A parallel agent landed overlapping commits on `'' @ base @
        ''` while you were implementing this task. We tried to rebase your worktree onto the new tip of `'' @ base @
        ''` and hit conflicts. You need to resolve them.'', [],
      ''### Original Task'', task_prompt t, [], ''### Rebase Output'', fence, take 8000 output, fence, [],
      ''### Instructions'', [], ''1. Run `git status` to see which files are conflicted.'',
      ''2. For each conflicted file, edit it to merge the parallel changes with your own. Preserve both intents '' @
        ro_dash ro @ '' yours AND the upstream change.'',
      ''3. Stage the resolved files with `git add`.'', ''4. Run `git rebase --continue`.'',
      ''5. Re-run the verify commands to make sure everything still works.'',
      ''6. Call `ductum_complete` with a description of how you resolved each conflict.'', [],
      ''Do not push branches or merge. Ductum owns shipping after you complete.'', [],
      ''Do NOT abort the rebase or revert your changes. The point is to combine your work with the parallel changes.'']"

definition build_fix_prompt :: "task \<Rightarrow> string \<Rightarrow> nat \<Rightarrow> bool \<Rightarrow> string" where
  "build_fix_prompt t feedback no warning = lines
     [''## '' @ (if warning then ''Warning Cleanup Task'' else ''Fix Task'') @ '' (Review Round '' @ show_nat no @ '')'', [],
      ''### Original Task'', task_prompt t, [], ''### Review Feedback'',
      (if warning then ''A reviewer left warning findings that still need cleanup before this is green:''
       else ''A reviewer found blocking issues with your previous implementation:''), [],
      feedback, [], ''### Instructions'', [],
      (if warning then ''Clean up the specific warning findings above. Do not rewrite from scratch.''
       else ''Fix the specific issues identified above. Do not rewrite from scratch.''),
      ''Do not push branches or merge. Ductum owns shipping after you complete.'',
      ''When done, call `ductum_complete` with a description of what you fixed.'']"

definition verification_fix_prompt :: "task \<Rightarrow> nat \<Rightarrow> string list \<Rightarrow> string \<Rightarrow> string" where
  "verification_fix_prompt t no cmds output = lines
     [''## Verification Fix Task (Round '' @ show_nat no @ '')'', [],
      ''The previous run completed, but Ductum verification failed. Fix only the issues exposed by verification; do not rewrite from scratch.'',
      [], ''### Original Task'', task_prompt t, [], ''### Verify Commands'', fence, lines cmds, fence, [],
      ''### Verify Output'', fence, take 10000 output, fence, [], ''### Instructions'', [],
      ''1. Reproduce the failing verification command in this worktree.'',
      ''2. Make the smallest fix that addresses the failure.'', ''3. Re-run the relevant verification command.'',
      ''4. Call `ductum_complete` with what you changed and the verification result.'', [],
      ''Do not push branches or merge. Ductum owns shipping after you complete.'']"

subsection \<open>Creating review and fix tasks\<close>

definition original_task :: "store \<Rightarrow> task \<Rightarrow> string \<Rightarrow> task" where
  "original_task s parent original =
     (case find (\<lambda>t. task_name t = original) (task_list (task_specId parent) s) of Some t \<Rightarrow> t | None \<Rightarrow> parent)"

definition lineage_name_of :: "task \<Rightarrow> string" where
  "lineage_name_of t = (let p = classify_task t in if pn_kind p = Impl then task_name t else pn_originalName p)"

definition pipeline_task :: "string \<Rightarrow> string \<Rightarrow> task \<Rightarrow> string \<Rightarrow> string \<Rightarrow> string \<Rightarrow> agent_role \<Rightarrow> task" where
  "pipeline_task i sp original name prompt agent role =
     \<lparr>task_id = i, task_specId = sp, task_targetId = task_targetId original,
      task_repositoryId = task_repositoryId original, task_componentId = task_componentId original,
      task_name = name, task_prompt = prompt, task_repos = task_repos original, task_source = None,
      task_assignedAgentId = Some agent, task_requiredRole = Some role, task_complexity = Some Simple,
      task_status = Ready, task_strategyRole = NormalRole, task_strategyGroup = None, task_verification = [],
      task_retryCount = 0, task_retryAfter = None, task_budgetExtraUsd = 0, task_turnExtraCount = 0,
      task_createdAt = 0, task_updatedAt = 0\<rparr>"

definition is_fix_run :: "store \<Rightarrow> run \<Rightarrow> bool" where
  "is_fix_run s r = (case task_get (run_taskId r) s of None \<Rightarrow> False | Some t \<Rightarrow> pn_kind (classify_task t) = Fix)"

definition existing_fix_count :: "store \<Rightarrow> run \<Rightarrow> nat option" where
  "existing_fix_count s r = map_option (\<lambda>chain. length (filter (is_fix_run s) chain)) (walk_parent_chain s r)"

text \<open>\<open>findRootRun(run) ?? run\<close>.\<close>

definition root_or_self :: "store \<Rightarrow> run \<Rightarrow> run option" where
  "root_or_self s r = find_root_run s r"

definition max_fix_iterations :: "router \<Rightarrow> run \<Rightarrow> store \<Rightarrow> nat" where
  "max_fix_iterations ro r s =
     (case Option.bind (task_get (run_taskId r) s) (\<lambda>t. Option.bind (spec_get (task_specId t) s) spec_maxFixIterations) of
        Some n \<Rightarrow> if n > 0 then n else (case ro_post ro of None \<Rightarrow> default_max_fix_iterations | Some pc \<Rightarrow>
          (case pc_maxFixIterations pc of Some k \<Rightarrow> k | None \<Rightarrow>
            (case pc_maxReviewRounds pc of Some k \<Rightarrow> k | None \<Rightarrow> default_max_fix_iterations)))
      | None \<Rightarrow> (case ro_post ro of None \<Rightarrow> default_max_fix_iterations | Some pc \<Rightarrow>
          (case pc_maxFixIterations pc of Some k \<Rightarrow> k | None \<Rightarrow>
            (case pc_maxReviewRounds pc of Some k \<Rightarrow> k | None \<Rightarrow> default_max_fix_iterations))))"

definition stage_note :: "router \<Rightarrow> run \<Rightarrow> string \<Rightarrow> unit db" where
  "stage_note ro r reason =
     record_stage_advance (ro_config ro) (run_id r) (stage_name (run_stage r)) (run_stage r) (Some reason) unfenced"

definition or_commit :: "string option \<Rightarrow> string option \<Rightarrow> string option" where
  "or_commit a b = (if a = None then b else a)"

definition dispatch_review ::
    "router \<Rightarrow> post_completion \<Rightarrow> run \<Rightarrow> task \<Rightarrow> string \<Rightarrow> string list \<Rightarrow> nat \<Rightarrow> string option \<Rightarrow> unit db" where
  "dispatch_review ro pc pr pt path cmds no verified =
     andthen (reading (\<lambda>s. (original_task s pt (lineage_name_of pt), resolve_project_name ro pt s))) (\<lambda>(original, project).
     case (case project of None \<Rightarrow> None | Some p \<Rightarrow> pc_reviewer pc (run_agentId pr) p) of
       None \<Rightarrow>
         andthen (when_do (should_sync_git_artifacts ro (Some path)) (sync_git_artifacts ro (run_id pr) path)) (\<lambda>_.
         pc_onReadyToShip pc (run_id pr))
     | Some reviewer \<Rightarrow>
         andthen (read_worktree_git_artifacts (ro_tools ro) path) (\<lambda>(_, head).
         andthen (reading (run_get (run_id pr))) (\<lambda>current.
         andthen (collect_diff (ro_tools ro) path (pc_rebaseBase pc)) (\<lambda>diff.
         andthen (case verified of Some out \<Rightarrow> give out
            | None \<Rightarrow> if length cmds > 0
                then andthen (verify_worktree (ro_tools ro) path cmds) (\<lambda>v. give (vr_output v))
                else give ''(no verify commands configured)'') (\<lambda>output.
         andthen (reading (ro_newId ro)) (\<lambda>i.
         let sha = or_commit head (or_commit (Option.bind current run_commitSha) (run_commitSha pr));
             prompt = build_review_prompt ro original diff output sha (imported_review_prompt (task_source original));
             note = ''Review round '' @ show_nat no @ '' dispatched to '' @ take 6 reviewer in
         andthen (task_create (pipeline_task i (task_specId pt) original (review_task_name (lineage_name_of pt) no)
           prompt reviewer Reviewer)) (\<lambda>_.
         if run_stage pr \<noteq> StageDone \<and> run_terminalState pr = None
         then ignore (mark_done (ro_config ro) (run_id pr) (Some note) unfenced)
         else stage_note ro pr note)))))))"

definition dispatch_rebase_fix :: "router \<Rightarrow> run \<Rightarrow> task \<Rightarrow> string \<Rightarrow> string \<Rightarrow> unit db" where
  "dispatch_rebase_fix ro pr pt base output =
     andthen (reading (\<lambda>s. original_task s pt (lineage_name_of pt))) (\<lambda>original.
     andthen (or_diverge (\<lambda>s. existing_fix_count s pr)) (\<lambda>n.
     andthen (reading (ro_newId ro)) (\<lambda>i.
     let name = fix_task_name (lineage_name_of pt) (n + 1) in
     andthen (task_create (pipeline_task i (task_specId pt) original name
        (build_rebase_fix_prompt ro original base output) (run_agentId pr) Builder)) (\<lambda>_.
     stage_note ro pr (''Rebase onto '' @ base @ '' failed; '' @ name @ '' dispatched'')))))"

subsection \<open>Closing a failed lineage\<close>

definition is_active_run :: "run \<Rightarrow> bool" where
  "is_active_run r \<longleftrightarrow> run_terminalState r = None \<and> run_stage r \<noteq> StageDone"

datatype run_disposition = CloseDone | CloseFailed

definition close_current_run :: "router \<Rightarrow> run \<Rightarrow> run_disposition \<Rightarrow> string \<Rightarrow> unit db" where
  "close_current_run ro r how reason =
     (case how of
        CloseDone \<Rightarrow> when_do (is_active_run r) (ignore (mark_done (ro_config ro) (run_id r) (Some reason) unfenced))
      | CloseFailed \<Rightarrow> when_do (is_active_run r) (ignore (mark_failed (ro_config ro) (run_id r) (Some reason) unfenced)))"

fun close_lineage_runs :: "router \<Rightarrow> string list \<Rightarrow> run \<Rightarrow> run_disposition \<Rightarrow> string \<Rightarrow> run list \<Rightarrow> unit db" where
  "close_lineage_runs ro ids current how reason [] = give ()"
| "close_lineage_runs ro ids current how reason (r # rs) =
     andthen
       (if run_taskId r \<notin> set ids then give ()
        else if run_id r = run_id current then close_current_run ro r how reason
        else if ro_liveSession ro (run_id r) then give ()
        else when_do (is_active_run r) (ignore (mark_failed (ro_config ro) (run_id r) (Some reason) unfenced))) (\<lambda>_.
     close_lineage_runs ro ids current how reason rs)"

definition closing_status :: "task \<Rightarrow> run list \<Rightarrow> task_status option" where
  "closing_status t rs =
     (if length rs = 0 then (if task_status t = TaskDone then None else Some TaskFailed)
      else if list_ex (\<lambda>r. run_stage r = StageDone) rs then Some TaskDone
      else if list_all (\<lambda>r. run_terminalState r = Some Failed) rs then Some TaskFailed
      else None)"

text \<open>Most routes change a task's status and tell the listeners, unless it has that status already.\<close>

definition set_task_status :: "task \<Rightarrow> task_status \<Rightarrow> unit db" where
  "set_task_status t st =
     (if task_status t = st then give ()
      else andthen (task_update_status (task_id t) st) (\<lambda>_.
        emit (TaskStatusChanged (task_id t) (task_status t) st)))"

fun close_lineage_tasks :: "router \<Rightarrow> task list \<Rightarrow> unit db" where
  "close_lineage_tasks ro [] = give ()"
| "close_lineage_tasks ro (t # ts) =
     andthen (reading (run_list (task_id t))) (\<lambda>rs.
     andthen (if list_ex (\<lambda>r. ro_liveSession ro (run_id r)) rs then give ()
       else case closing_status t rs of None \<Rightarrow> give () | Some st \<Rightarrow> set_task_status t st) (\<lambda>_.
     close_lineage_tasks ro ts))"

definition close_failed_lineage_descendants :: "router \<Rightarrow> run \<Rightarrow> run \<Rightarrow> run_disposition \<Rightarrow> string \<Rightarrow> unit db" where
  "close_failed_lineage_descendants ro rootr current how reason =
     andthen (reading (task_get (run_taskId rootr))) (\<lambda>found.
     case found of None \<Rightarrow> give ()
     | Some rt \<Rightarrow>
         andthen (reading (\<lambda>s. filter (\<lambda>t. is_task_in_lineage (task_name t) (lineage_original_name (task_name rt)))
           (task_list (task_specId rt) s))) (\<lambda>ts.
         andthen (reading (\<lambda>s. concat (map (\<lambda>t. run_list (task_id t) s) ts))) (\<lambda>rs.
         andthen (close_lineage_runs ro (map task_id ts) current how reason rs) (\<lambda>_.
         close_lineage_tasks ro ts))))"

subsection \<open>The fix after a failed verification\<close>

definition mark_failed_if_open :: "router \<Rightarrow> run \<Rightarrow> string \<Rightarrow> unit db" where
  "mark_failed_if_open ro r reason =
     when_do (run_terminalState r = None) (ignore (mark_failed (ro_config ro) (run_id r) (Some reason) unfenced))"

definition dispatch_verification_fix :: "router \<Rightarrow> run \<Rightarrow> task \<Rightarrow> string list \<Rightarrow> string \<Rightarrow> unit db" where
  "dispatch_verification_fix ro pr pt cmds output =
     andthen (reading (\<lambda>s. original_task s pt (lineage_name_of pt))) (\<lambda>original.
     andthen (or_diverge (\<lambda>s. root_or_self s pr)) (\<lambda>rootr.
     andthen (or_diverge (\<lambda>s. existing_fix_count s pr)) (\<lambda>n.
     andthen (reading (max_fix_iterations ro pr)) (\<lambda>most.
     if n \<ge> most then
       let reason = ''max_review_iterations ('' @ show_nat most @ '') exceeded after verification failure'' in
       andthen (mark_failed_if_open ro rootr reason) (\<lambda>_.
       close_failed_lineage_descendants ro rootr pr CloseFailed reason)
     else
       andthen (reading (ro_newId ro)) (\<lambda>i.
       let name = fix_task_name (lineage_name_of pt) (n + 1) in
       andthen (task_create (pipeline_task i (task_specId original) original name
          (verification_fix_prompt original (n + 1) cmds output) (run_agentId pr) Builder)) (\<lambda>_.
       stage_note ro pr (''Verification failed; '' @ name @ '' dispatched'')))))))"

end
