(* ===== verification/Bakeoff.thy ===== *)
theory Bakeoff
  imports Review Task_Repo
begin

text \<open>
  The winner of a best-of-n review: \<open>bakeoff-outcomes.ts\<close> reads the judge's verdict and checks it
  against the candidates, \<open>bakeoff-winner-selection.ts\<close> applies the operator's policy to it. A
  verdict carries the kind \<open>best-of-n-verdict\<close> only when it is written as evidence.
\<close>

subsection \<open>The judge's verdict\<close>

definition parse_best_of_n_verdict :: "string \<Rightarrow> best_of_n option \<times> string option" where
  "parse_best_of_n_verdict feedback =
     (case parse_structured_review_contract feedback of
        Rejected reason \<Rightarrow> (None, Some reason)
      | Contract c \<Rightarrow>
          (case rc_bestOfN c of
             None \<Rightarrow> (None, Some ''ductum-review-result is missing bestOfN judge verdict'')
           | Some b \<Rightarrow> (Some b, None)))"

definition is_contract_with_best_of_n :: "json \<Rightarrow> bool" where
  "is_contract_with_best_of_n v = (case read_contract v of None \<Rightarrow> False | Some c \<Rightarrow> rc_bestOfN c \<noteq> None)"

record winner_resolution =
  wr_task :: "task option"
  wr_reason :: "string option"
  wr_verdict :: "best_of_n option"

definition unresolved :: "string \<Rightarrow> best_of_n option \<Rightarrow> winner_resolution" where
  "unresolved reason v = \<lparr>wr_task = None, wr_reason = Some reason, wr_verdict = v\<rparr>"

definition resolve_verdict :: "best_of_n \<Rightarrow> task list \<Rightarrow> winner_resolution" where
  "resolve_verdict v candidates =
     (case find (\<lambda>t. task_id t = bn_winnerTaskId v) candidates of
        None \<Rightarrow> unresolved (''structured verdict winnerTaskId is not a known candidate: '' @ bn_winnerTaskId v) (Some v)
      | Some t \<Rightarrow>
          (case find (\<lambda>s. rs_taskId s \<notin> task_id ` set candidates) (bn_scores v) of
             Some u \<Rightarrow> unresolved (''structured verdict score taskId is not a known candidate: '' @ rs_taskId u) (Some v)
           | None \<Rightarrow>
               (case find (\<lambda>s. rs_taskId s = task_id t) (bn_scores v) of
                  None \<Rightarrow> unresolved (''structured verdict winnerTaskId has no score: '' @ task_id t) (Some v)
                | Some s \<Rightarrow>
                    if \<not> rs_passed s
                    then unresolved (''structured verdict winner is not eligible: '' @ task_name t) (Some v)
                    else \<lparr>wr_task = Some t, wr_reason = None, wr_verdict = Some v\<rparr>)))"

definition resolve_bakeoff_winner :: "string \<Rightarrow> task list \<Rightarrow> payload list \<Rightarrow> winner_resolution" where
  "resolve_bakeoff_winner feedback candidates payloads =
     (case parse_best_of_n_verdict feedback of
        (Some v, _) \<Rightarrow> resolve_verdict v candidates
      | (None, reason) \<Rightarrow>
          if list_ex (\<lambda>p. is_contract_with_best_of_n (JObj p)) payloads
          then unresolved ''blind review completion is malformed; structured verdict evidence cannot override a missing ductum-review-result contract'' None
          else \<lparr>wr_task = None, wr_reason = reason, wr_verdict = None\<rparr>)"

text \<open>The outcome of the winner under a verdict that is not \<open>fail\<close>.\<close>

definition bakeoff_winner_outcome :: "review_verdict \<Rightarrow> string" where
  "bakeoff_winner_outcome v = (if v = PassVerdict then ''accepted'' else ''accepted-with-fixes'')"

subsection \<open>The operator's policy\<close>

type_synonym candidate_run = "task \<times> run"

definition cost_epsilon_usd :: usd where
  "cost_epsilon_usd = 1 / 1000000"

datatype winner_selection = Selected task run bool | NotSelected string

definition passed_candidates :: "best_of_n \<Rightarrow> candidate_run list \<Rightarrow> candidate_run list" where
  "passed_candidates v cs =
     filter (\<lambda>(t, r). list_ex (\<lambda>s. rs_taskId s = task_id t \<and> rs_passed s) (bn_scores v))
       (filter (\<lambda>(t, r). task_status t = TaskDone) cs)"

definition cheapest_candidates :: "candidate_run list \<Rightarrow> candidate_run list" where
  "cheapest_candidates cs =
     (let low = Min (set (map (\<lambda>(t, r). run_costUsd r) cs)) in
      filter (\<lambda>(t, r). run_costUsd r \<le> low + cost_epsilon_usd) cs)"

definition select_cheapest :: "task \<Rightarrow> candidate_run list \<Rightarrow> winner_selection" where
  "select_cheapest winner passed =
     (let cheapest = cheapest_candidates passed in
      case (case find (\<lambda>(t, r). task_id t = task_id winner) cheapest of
              Some c \<Rightarrow> Some c | None \<Rightarrow> (case cheapest of [] \<Rightarrow> None | c # _ \<Rightarrow> Some c)) of
        None \<Rightarrow> NotSelected ''cheapest-verified-reviewed could not select a winner''
      | Some (t, r) \<Rightarrow> Selected t r (task_id t \<noteq> task_id winner))"

definition select_bakeoff_winner ::
    "task \<Rightarrow> best_of_n \<Rightarrow> best_policy \<Rightarrow> candidate_run list \<Rightarrow> (run \<Rightarrow> bool) \<Rightarrow> winner_selection" where
  "select_bakeoff_winner winner v policy cs can_route =
     (case find (\<lambda>(t, r). task_id t = task_id winner) cs of
        None \<Rightarrow> NotSelected (''winner '' @ task_name winner @ '' has no run for approval'')
      | Some (t, r) \<Rightarrow>
          if policy \<noteq> CheapestVerified then
            (if \<not> can_route r
             then NotSelected (''structured verdict winner run is not done: '' @ task_name winner)
             else Selected t r False)
          else
            let passed = passed_candidates v cs in
            if passed = [] then NotSelected ''cheapest-verified-reviewed requires at least one passed candidate''
            else case find (\<lambda>(t, r). \<not> can_route r) passed of
                Some (u, _) \<Rightarrow> NotSelected (''passed candidate run is not done: '' @ task_name u)
              | None \<Rightarrow>
                  (case find (\<lambda>(t, r). run_costUsd r \<le> 0) passed of
                     Some (u, _) \<Rightarrow>
                       NotSelected (''cheapest-verified-reviewed requires known recorded cost for candidate: '' @ task_name u)
                   | None \<Rightarrow> select_cheapest winner passed))"

subsection \<open>What a selection guarantees\<close>

lemma find_pair_None: "find (\<lambda>(t, r). P t r) cs = None \<longleftrightarrow> (\<forall>(t, r) \<in> set cs. \<not> P t r)"
  by (auto simp: find_None_iff)

lemma select_cheapest_Selected:
  assumes "select_cheapest winner passed = Selected t r over"
  shows "(t, r) \<in> set passed \<and> (\<forall>(u, q) \<in> set passed. run_costUsd r \<le> run_costUsd q + cost_epsilon_usd) \<and>
    (over \<longleftrightarrow> task_id t \<noteq> task_id winner) \<and>
    (over \<longrightarrow> (\<forall>(u, q) \<in> set passed. task_id u = task_id winner \<longrightarrow>
       (\<exists>(v, p) \<in> set passed. run_costUsd p + cost_epsilon_usd < run_costUsd q)))"
proof -
  let ?cheap = "cheapest_candidates passed" and ?low = "Min (set (map (\<lambda>(t, r). run_costUsd r) passed))"
  have cheap: "set ?cheap = {(u, q) \<in> set passed. run_costUsd q \<le> ?low + cost_epsilon_usd}"
    by (auto simp: cheapest_candidates_def Let_def)
  have low: "?low \<le> run_costUsd q" if "(u, q) \<in> set passed" for u q
    using that by (intro Min_le) force+
  have mem: "(t, r) \<in> set ?cheap" and over: "over \<longleftrightarrow> task_id t \<noteq> task_id winner"
    and none: "over \<longrightarrow> (\<forall>(u, q) \<in> set ?cheap. task_id u \<noteq> task_id winner)"
    using assms
    by (auto simp: select_cheapest_def Let_def find_pair_None split: option.splits list.splits
        dest!: find_SomeD)
  have "passed \<noteq> []" using mem cheap by auto
  then have "?low \<in> set (map (\<lambda>(t, r). run_costUsd r) passed)" by (intro Min_in) auto
  then obtain v p where vp: "(v, p) \<in> set passed" "run_costUsd p = ?low" by auto
  have dear: "\<exists>(v, p) \<in> set passed. run_costUsd p + cost_epsilon_usd < run_costUsd q"
    if "over" "(u, q) \<in> set passed" "task_id u = task_id winner" for u q
  proof -
    have "\<not> run_costUsd q \<le> ?low + cost_epsilon_usd" using none that cheap by auto
    with vp show ?thesis by force
  qed
  show ?thesis using mem cheap low over dear by fastforce
qed

text \<open>C38: a best-of-n selection respects the operator's policy. The selected task and run are one of the
  candidates and the run may go to approval. Unless the policy asks for the cheapest, it is the
  judge's winner. Under that policy it is a finished candidate that the judge passed, with a
  recorded cost that no other such candidate undercuts by more than the tolerance of a millionth
  dollar; and the judge's winner is passed over only if it is not among the passed ones or another
  of them is cheaper than it by more than that.\<close>

theorem selection_follows_policy:
  assumes "select_bakeoff_winner winner v policy cs can_route = Selected t r over"
  shows "(t, r) \<in> set cs \<and> can_route r \<and>
    (policy \<noteq> CheapestVerified \<longrightarrow> task_id t = task_id winner \<and> \<not> over) \<and>
    (policy = CheapestVerified \<longrightarrow>
      (t, r) \<in> set (passed_candidates v cs) \<and> 0 < run_costUsd r \<and>
      (\<forall>(u, q) \<in> set (passed_candidates v cs). run_costUsd r \<le> run_costUsd q + cost_epsilon_usd) \<and>
      (task_id t \<noteq> task_id winner \<longrightarrow> (\<forall>(u, q) \<in> set (passed_candidates v cs). task_id u = task_id winner \<longrightarrow>
         (\<exists>(w, p) \<in> set (passed_candidates v cs). run_costUsd p + cost_epsilon_usd < run_costUsd q))))"
proof (cases "policy = CheapestVerified")
  case False
  with assms show ?thesis
    by (auto simp: select_bakeoff_winner_def split: option.splits if_splits dest!: find_SomeD)
next
  case True
  let ?passed = "passed_candidates v cs"
  from assms True have sel: "select_cheapest winner ?passed = Selected t r over"
    and route: "\<forall>(t, r) \<in> set ?passed. can_route r" and cost: "\<forall>(t, r) \<in> set ?passed. 0 < run_costUsd r"
    by (auto simp: select_bakeoff_winner_def Let_def find_pair_None split: option.splits if_splits)
  note facts = select_cheapest_Selected [OF sel]
  then have mem: "(t, r) \<in> set ?passed" and "(t, r) \<in> set cs" by (auto simp: passed_candidates_def)
  with True facts route cost show ?thesis by blast
qed

end
