(* ===== verification/Routes.thy ===== *)
theory Routes
  imports Router Bakeoff
begin

text \<open>
  What happens when a run completes: the routes of an implementation, a review and a fix run
  (\<open>post-completion-router-route-impl.ts\<close>, \<open>-route-review.ts\<close>, \<open>-route-fix.ts\<close>) and the completion
  steps they share (\<open>post-completion-router-task-completion.ts\<close>).
\<close>

subsection \<open>Completing runs and tasks\<close>

definition maybe_evaluate :: "router \<Rightarrow> string \<Rightarrow> unit db" where
  "maybe_evaluate ro sp = when_do (ro_evaluateDag ro) (ignore (evaluate_task_dag (ro_fuel ro) sp))"

definition mark_done_if_active :: "router \<Rightarrow> run \<Rightarrow> string \<Rightarrow> unit db" where
  "mark_done_if_active ro r reason =
     when_do (is_active_run r) (ignore (mark_done (ro_config ro) (run_id r) (Some reason) unfenced))"

fun complete_chain :: "router \<Rightarrow> run \<Rightarrow> string \<Rightarrow> run list \<Rightarrow> unit db" where
  "complete_chain ro rootr reason [] = give ()"
| "complete_chain ro rootr reason (r # rs) =
     andthen
       (if run_id r = run_id rootr then give ()
        else if ro_liveSession ro (run_id r) then give ()
        else
          andthen (mark_done_if_active ro r reason) (\<lambda>_.
          andthen (reading (task_get (run_taskId r))) (\<lambda>found.
          case found of None \<Rightarrow> give () | Some t \<Rightarrow> set_task_status t TaskDone))) (\<lambda>_.
     complete_chain ro rootr reason rs)"

definition complete_successful_fix_chain :: "router \<Rightarrow> run \<Rightarrow> run \<Rightarrow> string \<Rightarrow> unit db" where
  "complete_successful_fix_chain ro pr rootr reason =
     andthen (or_diverge (\<lambda>s. walk_parent_chain s pr)) (complete_chain ro rootr reason)"

definition complete_lineage_task :: "router \<Rightarrow> run \<Rightarrow> task \<Rightarrow> string \<Rightarrow> unit db" where
  "complete_lineage_task ro r t reason =
     andthen (mark_done_if_active ro r reason) (\<lambda>_. set_task_status t TaskDone)"

definition complete_review_task :: "router \<Rightarrow> run \<Rightarrow> task \<Rightarrow> string \<Rightarrow> unit db" where
  "complete_review_task = complete_lineage_task"

definition json_or_null :: "string option \<Rightarrow> json" where
  "json_or_null v = (case v of None \<Rightarrow> JNull | Some x \<Rightarrow> JStr x)"

definition root_reopened_payload :: "run \<Rightarrow> run \<Rightarrow> task \<Rightarrow> string \<Rightarrow> payload" where
  "root_reopened_payload rootr review_run review_task feedback =
     [(''kind'', JStr ''post-completion-root-reopened''),
      (''reason'', JStr ''review passed after a failed root state''),
      (''feedback'', JStr (take 1000 feedback)),
      (''source'', JStr ''post-completion-router''),
      (''reviewRunId'', JStr (run_id review_run)),
      (''reviewTaskId'', JStr (task_id review_task)),
      (''before'', JObj [(''terminalState'', json_or_null (map_option terminal_name (run_terminalState rootr))),
         (''failReason'', json_or_null (run_failReason rootr)), (''recoverable'', JBool (run_recoverable rootr))]),
      (''after'', JObj [(''terminalState'', JNull), (''failReason'', JNull), (''recoverable'', JBool True)])]"

definition clear_root_failure :: "router \<Rightarrow> run \<Rightarrow> run \<Rightarrow> task \<Rightarrow> string \<Rightarrow> unit db" where
  "clear_root_failure ro rootr review_run review_task feedback =
     andthen (run_update_terminal_state (run_id rootr) None) (\<lambda>_.
     andthen (run_update_failure (ro_config ro) (run_id rootr) None True) (\<lambda>_.
     andthen (run_update_workflow_state (ro_config ro) (run_id rootr) no_block) (\<lambda>_.
     record_custom ro (run_id rootr) (root_reopened_payload rootr review_run review_task feedback))))"

definition reopen_root_for_successful_review :: "router \<Rightarrow> run \<Rightarrow> task \<Rightarrow> run \<Rightarrow> task \<Rightarrow> string \<Rightarrow> unit db" where
  "reopen_root_for_successful_review ro rootr original review_run review_task feedback =
     andthen (when_do (run_terminalState rootr \<noteq> None \<or> run_failReason rootr \<noteq> None \<or> \<not> run_recoverable rootr)
       (clear_root_failure ro rootr review_run review_task feedback)) (\<lambda>_.
     andthen (when_do (run_stage rootr = StageDone \<and> task_status original \<noteq> TaskDone)
       (andthen (run_update_stage (ro_config ro) (run_id rootr) Ship None) (\<lambda>_.
        record_stage_reset (ro_config ro) (run_id rootr) ''done'' Ship
          (Some (''review passed; reopening root for approval: '' @ take 100 feedback)) unfenced))) (\<lambda>_.
     when_do (task_status original = TaskFailed)
       (andthen (task_update_status (task_id original) Active) (\<lambda>_.
        emit (TaskStatusChanged (task_id original) TaskFailed Active)))))"

definition candidate_outcome_payload :: "run \<Rightarrow> task \<Rightarrow> string \<Rightarrow> payload" where
  "candidate_outcome_payload review_run review_task reason =
     [(''kind'', JStr ''bakeoff-candidate-outcome''), (''outcome'', JStr ''fixed''), (''reason'', JStr reason),
      (''source'', JStr ''post-completion-router''), (''reviewRunId'', JStr (run_id review_run)),
      (''reviewTaskId'', JStr (task_id review_task))]"

definition complete_bakeoff_candidate :: "router \<Rightarrow> run \<Rightarrow> run \<Rightarrow> task \<Rightarrow> run \<Rightarrow> task \<Rightarrow> string \<Rightarrow> unit db" where
  "complete_bakeoff_candidate ro pr rootr candidate review_run review_task reason =
     andthen (guard_or (ro_evidenceRepo ro)
       (RoutingFailed ''bakeoff candidate completion requires an evidence repository'')) (\<lambda>_.
     andthen (commit_atomically ro
       (andthen (mark_done_if_active ro rootr reason) (\<lambda>_.
        andthen (set_task_status candidate TaskDone) (\<lambda>_.
        andthen (record_custom ro (run_id rootr) (candidate_outcome_payload review_run review_task reason)) (\<lambda>_.
        andthen (complete_successful_fix_chain ro pr rootr reason) (\<lambda>_.
        complete_review_task ro review_run review_task ''bakeoff candidate reviewed''))))))  (\<lambda>_.
     maybe_evaluate ro (task_specId candidate)))"

definition fail_review_task :: "router \<Rightarrow> run \<Rightarrow> task \<Rightarrow> string \<Rightarrow> unit db" where
  "fail_review_task ro r t reason =
     andthen (mark_failed_if_open ro r reason) (\<lambda>_.
     andthen (set_task_status t TaskFailed) (\<lambda>_.
     maybe_evaluate ro (task_specId t)))"

definition fail_review_routing :: "router \<Rightarrow> run \<Rightarrow> task option \<Rightarrow> string \<Rightarrow> unit db" where
  "fail_review_routing ro r found reason =
     (case found of None \<Rightarrow> mark_failed_if_open ro r reason | Some t \<Rightarrow> fail_review_task ro r t reason)"

definition build_malformed_review_fail_reason :: "string \<Rightarrow> run \<Rightarrow> task \<Rightarrow> string" where
  "build_malformed_review_fail_reason feedback r t = lines
     [feedback, [], ''Recovery:'',
      ''- Retry this review run: `node packages/cli/dist/index.js retry '' @ run_id r @ ''`'',
      ''- Or close it and dispatch a fresh review task: `node packages/cli/dist/index.js run '' @ task_name t @
        '' --agent <reviewer>`'',
      ''- Reviewer agent must call `ductum_complete` with exactly one `ductum-review-result` JSON object.'',
      structured_review_contract_rule]"

definition build_strict_review_retry_prompt :: "string \<Rightarrow> string \<Rightarrow> string" where
  "build_strict_review_retry_prompt prompt reason = lines (filter (\<lambda>l. trim l \<noteq> [])
     [prompt, [], ''## Previous Malformed Review Completion'',
      ''Ductum rejected the previous review completion before routing a verdict.'', [], reason, [],
      ''For this retry, call `ductum_complete` with exactly one JSON object matching the contract below.'',
      structured_review_contract_rule,
      ''Do not emit prose-only PASS/WARN/FAIL or a second alternate verdict.''])"

definition retry_malformed_review_task :: "router \<Rightarrow> run \<Rightarrow> task \<Rightarrow> string \<Rightarrow> bool db" where
  "retry_malformed_review_task ro r t reason =
     (if task_retryCount t \<ge> 1 then give False
      else
        andthen (mark_failed_if_open ro r reason) (\<lambda>_.
        andthen (task_update_retry (task_id t) (task_retryCount t + 1) None) (\<lambda>_.
        andthen (task_update_prompt (task_id t) (build_strict_review_retry_prompt (task_prompt t) reason)) (\<lambda>_.
        andthen (set_task_status t Ready) (\<lambda>_.
        andthen (maybe_evaluate ro (task_specId t)) (\<lambda>_.
        give True))))))"

subsection \<open>An implementation run\<close>

definition fail_if_zero_diff_snapshot :: "router \<Rightarrow> run \<Rightarrow> diff_stat option \<Rightarrow> string \<Rightarrow> bool db" where
  "fail_if_zero_diff_snapshot ro r snap kind =
     (case snap of None \<Rightarrow> give False
      | Some d \<Rightarrow>
          if dst_filesChanged d \<noteq> 0 \<or> dst_insertions d \<noteq> 0 \<or> dst_deletions d \<noteq> 0 then give False
          else andthen (mark_failed (ro_config ro) (run_id r)
              (Some (kind @ '' completed with zero diff; normal '' @ kind @ '' tasks must change files'')) unfenced) (\<lambda>_.
            give True))"

definition missing_worktree_reason :: "run \<Rightarrow> string" where
  "missing_worktree_reason r =
     (if (case run_completionSummary r of None \<Rightarrow> False | Some x \<Rightarrow> length (trim x) > 0) \<or>
         (case run_branch r of None \<Rightarrow> False | Some b \<Rightarrow> b \<noteq> []) \<or>
         (case run_commitSha r of None \<Rightarrow> False | Some c \<Rightarrow> c \<noteq> [])
      then ''implementation_completed_without_worktree: completion recorded branch/commit evidence but no worktree is on record; cannot verify, snapshot, or dispatch review''
      else ''implementation_completed_without_worktree: no worktree, branch, or commit evidence; nothing to verify or review'')"

definition fail_closed_missing_worktree :: "router \<Rightarrow> run \<Rightarrow> unit db" where
  "fail_closed_missing_worktree ro r =
     andthen (mark_failed (ro_config ro) (run_id r) (Some (missing_worktree_reason r)) unfenced) (\<lambda>_.
     ignore (run_update_failure (ro_config ro) (run_id r) (Some (missing_worktree_reason r)) True))"

definition first_path :: "run \<Rightarrow> string option" where
  "first_path r = (case run_worktreePaths r of Some (p # _) \<Rightarrow> Some p | _ \<Rightarrow> None)"

text \<open>The snapshot of a checked-out worktree: True when the run has been failed instead.\<close>

definition snapshot_or_fail ::
    "router \<Rightarrow> post_completion \<Rightarrow> run \<Rightarrow> string \<Rightarrow> string list \<Rightarrow> verify_result option \<Rightarrow> (bool \<times> diff_stat option) db" where
  "snapshot_or_fail ro pc r path cmds v =
     (if \<not> should_record_worktree_snapshot ro (Some path) then give (False, None)
      else
        andthen (fail_if_dirty_tracked_worktree ro (run_id r) path None) (\<lambda>dirty.
        if dirty then give (True, None)
        else andthen (record_worktree_snapshot ro pc (run_id r) path cmds v) (\<lambda>snap. give (False, snap))))"

definition rebase_or_escalate :: "router \<Rightarrow> post_completion \<Rightarrow> run \<Rightarrow> task \<Rightarrow> string \<Rightarrow> bool db" where
  "rebase_or_escalate ro pc r t path =
     (case pc_rebaseBase pc of None \<Rightarrow> give True
      | Some base \<Rightarrow>
          if base = [] then give True
          else
            andthen (rebase_worktree_onto_base (ro_tools ro) path base) (\<lambda>res.
            if rb_needed res \<and> \<not> rb_rebased res
            then andthen (dispatch_rebase_fix ro r t base (rb_output res)) (\<lambda>_. give False)
            else give True))"

definition review_implementation ::
    "router \<Rightarrow> post_completion \<Rightarrow> run \<Rightarrow> task \<Rightarrow> string \<Rightarrow> string list \<Rightarrow> verify_result option \<Rightarrow> unit db" where
  "review_implementation ro pc r t path cmds v =
     andthen (snapshot_or_fail ro pc r path cmds v) (\<lambda>(stopped, snap).
     if stopped then give ()
     else
       andthen (fail_if_zero_diff_snapshot ro r snap ''implementation'') (\<lambda>empty.
       if empty then give () else dispatch_review ro pc r t path cmds 1 None))"

definition verify_implementation :: "router \<Rightarrow> post_completion \<Rightarrow> run \<Rightarrow> task \<Rightarrow> string \<Rightarrow> string list \<Rightarrow> unit db" where
  "verify_implementation ro pc r t path cmds =
     andthen (verify_worktree (ro_tools ro) path cmds) (\<lambda>v.
     andthen (pc_onVerificationResult pc (run_id r) v) (\<lambda>_.
     if \<not> vr_passed v then
       andthen (snapshot_or_fail ro pc r path cmds (Some v)) (\<lambda>(stopped, _).
       if stopped then give () else dispatch_verification_fix ro r t cmds (vr_output v))
     else review_implementation ro pc r t path cmds (Some v)))"

definition run_impl_completion :: "router \<Rightarrow> run \<Rightarrow> unit db" where
  "run_impl_completion ro r =
     (case ro_post ro of None \<Rightarrow> give ()
      | Some pc \<Rightarrow>
          andthen (or_diverge (\<lambda>s. lineage_already_shipped s r)) (\<lambda>shipped.
          if shipped then give ()
          else
            andthen (reading (task_get (run_taskId r))) (\<lambda>found.
            case found of None \<Rightarrow> give ()
            | Some t \<Rightarrow>
                (case first_path r of
                   None \<Rightarrow> fail_closed_missing_worktree ro r
                 | Some path \<Rightarrow>
                     andthen (reading (resolve_project_name ro t)) (\<lambda>project.
                     andthen (resolve_verify_commands ro pc project t r (pipeline_tag r)) (\<lambda>cmds.
                     andthen (finalize_dirty_worktree ro (run_id r) path (task_name t)) (\<lambda>clean.
                     if \<not> clean then give ()
                     else
                       andthen (rebase_or_escalate ro pc r t path) (\<lambda>go.
                       if \<not> go then give ()
                       else
                         andthen (when_do (should_sync_git_artifacts ro (Some path)) (sync_git_artifacts ro (run_id r) path)) (\<lambda>_.
                         if length cmds > 0 then verify_implementation ro pc r t path cmds
                         else review_implementation ro pc r t path cmds None)))))))))"

subsection \<open>A fix run\<close>

definition can_retry_final_fix_verify :: "router \<Rightarrow> run \<Rightarrow> nat \<Rightarrow> store \<Rightarrow> bool" where
  "can_retry_final_fix_verify ro r no s =
     (if no < max_fix_iterations ro r s then False
      else run_verifyRetries (case run_get (run_id r) s of Some q \<Rightarrow> q | None \<Rightarrow> r) = 0)"

definition retry_final_fix_verify :: "router \<Rightarrow> post_completion \<Rightarrow> run \<Rightarrow> string \<Rightarrow> string list \<Rightarrow> verify_result db" where
  "retry_final_fix_verify ro pc r path cmds =
     andthen (run_increment_verify_retries (run_id r)) (\<lambda>_.
     andthen (verify_worktree (ro_tools ro) path cmds) (\<lambda>v.
     andthen (pc_onVerificationResult pc (run_id r) v) (\<lambda>_.
     give v)))"

text \<open>Snapshot and zero-diff check of a fix; True when the run has been failed.\<close>

definition fix_snapshot_stops ::
    "router \<Rightarrow> post_completion \<Rightarrow> run \<Rightarrow> string \<Rightarrow> string list \<Rightarrow> verify_result option \<Rightarrow> bool db" where
  "fix_snapshot_stops ro pc r path cmds v =
     (if \<not> should_record_worktree_snapshot ro (Some path) then give False
      else
        andthen (snapshot_or_fail ro pc r path cmds v) (\<lambda>(stopped, snap).
        if stopped then give True else fail_if_zero_diff_snapshot ro r snap ''fix''))"

definition escalate_fix :: "router \<Rightarrow> post_completion \<Rightarrow> run \<Rightarrow> task \<Rightarrow> string \<Rightarrow> string list \<Rightarrow> verify_result \<Rightarrow> unit db" where
  "escalate_fix ro pc r t path cmds v =
     andthen (fix_snapshot_stops ro pc r path cmds (Some v)) (\<lambda>stopped.
     if stopped then give () else dispatch_verification_fix ro r t cmds (vr_output v))"

definition review_fix ::
    "router \<Rightarrow> post_completion \<Rightarrow> run \<Rightarrow> task \<Rightarrow> string \<Rightarrow> string list \<Rightarrow> nat \<Rightarrow> verify_result option \<Rightarrow> unit db" where
  "review_fix ro pc r t path cmds no v =
     andthen (fix_snapshot_stops ro pc r path cmds v) (\<lambda>stopped.
     if stopped then give ()
     else
       andthen (dispatch_review ro pc r t path cmds (no + 1) (map_option vr_output v)) (\<lambda>_.
       complete_lineage_task ro r t ''fix completed; review dispatched''))"

definition verify_fix :: "router \<Rightarrow> post_completion \<Rightarrow> run \<Rightarrow> task \<Rightarrow> string \<Rightarrow> string list \<Rightarrow> nat \<Rightarrow> unit db" where
  "verify_fix ro pc r t path cmds no =
     andthen (verify_worktree (ro_tools ro) path cmds) (\<lambda>v.
     andthen (pc_onVerificationResult pc (run_id r) v) (\<lambda>_.
     if vr_passed v then review_fix ro pc r t path cmds no (Some v)
     else
       andthen (reading (can_retry_final_fix_verify ro r no)) (\<lambda>again.
       if again then
         andthen (retry_final_fix_verify ro pc r path cmds) (\<lambda>v'.
         if vr_passed v' then review_fix ro pc r t path cmds no (Some v')
         else escalate_fix ro pc r t path cmds v')
       else escalate_fix ro pc r t path cmds v)))"

definition run_fix_completion :: "router \<Rightarrow> run \<Rightarrow> unit db" where
  "run_fix_completion ro r =
     (case ro_post ro of None \<Rightarrow> give ()
      | Some pc \<Rightarrow>
          andthen (reading (task_get (run_taskId r))) (\<lambda>found.
          case found of None \<Rightarrow> give ()
          | Some t \<Rightarrow>
              let parsed = classify_task t in
              if pn_kind parsed \<noteq> Fix then give ()
              else
                andthen (or_diverge (\<lambda>s. lineage_already_shipped s r)) (\<lambda>shipped.
                if shipped then complete_lineage_task ro r t ''lineage already shipped; stale fix closed''
                else
                  (case first_path r of None \<Rightarrow> give ()
                   | Some path \<Rightarrow>
                       andthen (reading (resolve_project_name ro t)) (\<lambda>project.
                       andthen (resolve_verify_commands ro pc project t r (fix_tag r)) (\<lambda>cmds.
                       andthen (finalize_dirty_worktree ro (run_id r) path (task_name t)) (\<lambda>clean.
                       if \<not> clean then give ()
                       else
                         andthen (when_do (should_sync_git_artifacts ro (Some path)) (sync_git_artifacts ro (run_id r) path)) (\<lambda>_.
                         if length cmds > 0 then verify_fix ro pc r t path cmds (pn_round parsed)
                         else review_fix ro pc r t path cmds (pn_round parsed) None))))))))"

subsection \<open>A review run\<close>

text \<open>The task a review is about: by the name in the review's name, or a fix task that the name without
  its prefix stands for.\<close>

definition reviewed_task :: "store \<Rightarrow> task \<Rightarrow> parsed_name \<Rightarrow> task option" where
  "reviewed_task s review_task parsed =
     (let ts = task_list (task_specId review_task) s in
      case find (\<lambda>t. task_name t = pn_originalName parsed) ts of
        Some t \<Rightarrow> Some t
      | None \<Rightarrow>
          if pn_round parsed > 0
          then find (\<lambda>t. task_name t = pn_originalName parsed @ ''-r'' @ show_nat (pn_round parsed) \<and>
                 pn_kind (classify_task t) = Fix) ts
          else None)"

definition reviewed_run :: "store \<Rightarrow> run \<Rightarrow> task \<Rightarrow> task \<Rightarrow> run option" where
  "reviewed_run s review_run review_task original =
     (case run_parentRunId review_run of
        Some p \<Rightarrow> run_get p s
      | None \<Rightarrow> find_most_recent_lineage_run s (task_specId review_task) (task_name original))"

fun copy_verify_evidence :: "router \<Rightarrow> string \<Rightarrow> string \<Rightarrow> evidence list \<Rightarrow> unit db" where
  "copy_verify_evidence ro target sha [] = give ()"
| "copy_verify_evidence ro target sha (e # es) =
     andthen
       (if ev_type e \<noteq> EvCustom \<or> \<not> jis (ev_payload e) ''kind'' ''verify'' \<or> \<not> jtrue (ev_payload e) ''passed'' \<or>
           \<not> jis (ev_payload e) ''commitSha'' sha
        then give ()
        else andthen (reading (ro_newId ro)) (\<lambda>i. ignore (evidence_create ro i target (ev_type e) (ev_payload e)))) (\<lambda>_.
     copy_verify_evidence ro target sha es)"

definition trimmed_commit :: "run option \<Rightarrow> string option" where
  "trimmed_commit r = map_option trim (Option.bind r run_commitSha)"

definition copy_current_verification_evidence :: "router \<Rightarrow> string \<Rightarrow> string \<Rightarrow> unit db" where
  "copy_current_verification_evidence ro source target =
     (if source = target then give ()
      else if \<not> ro_evidenceRepo ro then give ()
      else
        andthen (reading (\<lambda>s. (trimmed_commit (run_get source s), trimmed_commit (run_get target s), evidence_list s source)))
          (\<lambda>(sha, other, es).
        case sha of None \<Rightarrow> give ()
        | Some c \<Rightarrow> if c = [] \<or> sha \<noteq> other then give () else copy_verify_evidence ro target c es))"

definition route_malformed_review :: "router \<Rightarrow> run \<Rightarrow> task \<Rightarrow> string \<Rightarrow> unit db" where
  "route_malformed_review ro review_run review_task feedback =
     (let reason = build_malformed_review_fail_reason feedback review_run review_task in
      andthen (retry_malformed_review_task ro review_run review_task reason) (\<lambda>retried.
      if retried then give () else fail_review_task ro review_run review_task reason))"

definition ship_reviewed_root ::
    "router \<Rightarrow> post_completion \<Rightarrow> run \<Rightarrow> run \<Rightarrow> task \<Rightarrow> run \<Rightarrow> task \<Rightarrow> review_result \<Rightarrow> string option \<Rightarrow> unit db" where
  "ship_reviewed_root ro pc pr rootr original review_run review_task v sha =
     andthen (copy_current_verification_evidence ro (run_id pr) (run_id rootr)) (\<lambda>_.
     andthen (pc_onReviewResult pc (run_id rootr) v sha) (\<lambda>_.
     andthen (reopen_root_for_successful_review ro rootr original review_run review_task (rr_feedback v)) (\<lambda>_.
     andthen (pc_onReadyToShip pc (run_id rootr)) (\<lambda>_.
     andthen (complete_successful_fix_chain ro pr rootr (''review passed: '' @ take 100 (rr_feedback v))) (\<lambda>_.
     andthen (complete_review_task ro review_run review_task ''review passed'') (\<lambda>_.
     emit (RunStageChanged (run_id rootr) (stage_name (run_stage rootr)) ''ship''
       (Some (''Review passed: '' @ take 100 (rr_feedback v))))))))))"

definition route_passed_review ::
    "router \<Rightarrow> post_completion \<Rightarrow> run \<Rightarrow> run \<Rightarrow> task \<Rightarrow> run \<Rightarrow> task \<Rightarrow> review_result \<Rightarrow> unit db" where
  "route_passed_review ro pc pr rootr original review_run review_task v =
     andthen (case first_path pr of
         Some path \<Rightarrow>
           when_do (should_sync_git_artifacts ro (Some path))
             (andthen (sync_git_artifacts ro (run_id pr) path) (\<lambda>_.
              when_do (run_id rootr \<noteq> run_id pr) (sync_git_artifacts ro (run_id rootr) path)))
       | None \<Rightarrow> give ()) (\<lambda>_.
     andthen (reading (spec_get (task_specId original))) (\<lambda>sp.
     if is_bakeoff_candidate_task sp original
     then complete_bakeoff_candidate ro pr rootr original review_run review_task
            (''bakeoff candidate reviewed: '' @ take 100 (rr_feedback v))
     else ship_reviewed_root ro pc pr rootr original review_run review_task v
            (parse_reviewed_commit_sha (task_prompt review_task))))"

definition exhausted_reason :: "nat \<Rightarrow> review_result \<Rightarrow> string" where
  "exhausted_reason most v =
     ''max_review_iterations ('' @ show_nat most @ '') exceeded after '' @ map to_upper (verdict_name (rr_verdict v)) @
     '': '' @ take 300 (rr_feedback v)"

definition route_failed_review ::
    "router \<Rightarrow> run \<Rightarrow> run \<Rightarrow> task \<Rightarrow> run \<Rightarrow> task \<Rightarrow> review_result \<Rightarrow> unit db" where
  "route_failed_review ro pr rootr original review_run review_task v =
     andthen (or_diverge (\<lambda>s. existing_fix_count s pr)) (\<lambda>n.
     andthen (reading (max_fix_iterations ro pr)) (\<lambda>most.
     if n \<ge> most then
       andthen (mark_failed_if_open ro rootr (exhausted_reason most v)) (\<lambda>_.
       close_failed_lineage_descendants ro rootr review_run CloseDone (exhausted_reason most v))
     else
       andthen (reading (ro_newId ro)) (\<lambda>i.
       andthen (task_create (pipeline_task i (task_specId original) original (fix_task_name (task_name original) (n + 1))
          (build_fix_prompt original (rr_feedback v) (n + 1) (rr_verdict v = WarnVerdict)) (run_agentId pr) Builder)) (\<lambda>_.
       complete_review_task ro review_run review_task
         (''review '' @ verdict_name (rr_verdict v) @ '' routed to fix round '' @ show_nat (n + 1))))))"

definition route_verdict ::
    "router \<Rightarrow> post_completion \<Rightarrow> run \<Rightarrow> run \<Rightarrow> task \<Rightarrow> run \<Rightarrow> task \<Rightarrow> review_result \<Rightarrow> unit db" where
  "route_verdict ro pc pr rootr original review_run review_task v =
     (if rr_malformed v then route_malformed_review ro review_run review_task (rr_feedback v)
      else if rr_passed v then route_passed_review ro pc pr rootr original review_run review_task v
      else route_failed_review ro pr rootr original review_run review_task v)"

definition not_routable :: "run \<Rightarrow> task \<Rightarrow> string \<Rightarrow> string" where
  "not_routable review_run review_task what =
     ''Review completion cannot be routed for review task \"'' @ task_name review_task @ ''\" ('' @ task_id review_task @
     ''): '' @ what"

definition no_context_reason :: "run \<Rightarrow> string \<Rightarrow> string" where
  "no_context_reason r what = ''Review completion cannot be routed for run '' @ run_id r @ '': '' @ what"

definition missing_parent_text :: "run \<Rightarrow> task \<Rightarrow> string" where
  "missing_parent_text review_run original =
     (case run_parentRunId review_run of
        None \<Rightarrow> ''no matching lineage run found for \"'' @ task_name original @ ''\"''
      | Some p \<Rightarrow> ''missing parent run '' @ p) @
     ''; original task \"'' @ task_name original @ ''\" ('' @ task_id original @ '').''"

definition route_review :: "router \<Rightarrow> post_completion \<Rightarrow> run \<Rightarrow> task \<Rightarrow> parsed_name \<Rightarrow> unit db" where
  "route_review ro pc review_run review_task parsed =
     andthen (reading (\<lambda>s. reviewed_task s review_task parsed)) (\<lambda>found.
     case found of
       None \<Rightarrow> fail_review_routing ro review_run (Some review_task) (not_routable review_run review_task
         (''missing original task \"'' @ pn_originalName parsed @ ''\" in spec '' @ task_specId review_task @ ''.''))
     | Some original \<Rightarrow>
         andthen (reading (\<lambda>s. reviewed_run s review_run review_task original)) (\<lambda>parent.
         case parent of
           None \<Rightarrow> fail_review_routing ro review_run (Some review_task)
             (not_routable review_run review_task (missing_parent_text review_run original))
         | Some pr \<Rightarrow>
             andthen (or_diverge (\<lambda>s. root_or_self s pr)) (\<lambda>rootr.
             andthen (reading (pc_completionText pc (run_id review_run))) (\<lambda>text.
             andthen (pc_onReviewResult pc (run_id review_run) (parse_review_result text) None) (\<lambda>_.
             route_verdict ro pc pr rootr original review_run review_task (parse_review_result text))))))"

definition run_review_completion :: "router \<Rightarrow> run \<Rightarrow> unit db" where
  "run_review_completion ro review_run =
     (case ro_post ro of
        None \<Rightarrow> fail_review_routing ro review_run None
          (no_context_reason review_run ''missing post-completion router context.'')
      | Some pc \<Rightarrow>
          andthen (reading (task_get (run_taskId review_run))) (\<lambda>found.
          case found of
            None \<Rightarrow> fail_review_routing ro review_run None
              (no_context_reason review_run (''missing review task '' @ run_taskId review_run @ ''.''))
          | Some review_task \<Rightarrow>
              let parsed = classify_task review_task in
              if pn_kind parsed \<noteq> Review then give ()
              else
                andthen (or_diverge (\<lambda>s. lineage_already_shipped s review_run)) (\<lambda>shipped.
                if shipped
                then complete_review_task ro review_run review_task ''lineage already shipped; stale review closed''
                else route_review ro pc review_run review_task parsed)))"

end
