(* ===== verification/Route_Facts.thy ===== *)
theory Route_Facts
  imports Routes Frame Retry
begin

text \<open>
  What the routes guarantee: fix rounds are bounded, only a passed review reaches the ship step, a
  malformed review is retried once.
\<close>

subsection \<open>The family tree of the runs\<close>

text \<open>Which tasks there are and what they are called, which run is of which task and whose child, and
  the limits of the specs: what the number of fixes in a chain of runs depends on.\<close>

definition task_identity :: "task \<Rightarrow> string \<times> string \<times> string \<times> agent_role option" where
  "task_identity t = (task_id t, task_specId t, task_name t, task_requiredRole t)"

definition family ::
    "store \<Rightarrow> (string \<times> string \<times> string \<times> agent_role option) list \<times> (string \<times> string option \<times> string) list \<times>
      (string \<times> nat option) list" where
  "family s = (map task_identity (st_tasks s), map run_identity (st_runs s), map spec_settings (st_specs s))"

definition task_names :: "store \<Rightarrow> (string \<times> string) list" where
  "task_names s = map (\<lambda>t. (task_id t, task_name t)) (st_tasks s)"

interpretation family: frame family
  by unfold_locales
    (simp_all add: family_def write_tasks_def map_update_where_same task_identity_def)

lemma family_task_write:
  assumes "\<And>t. task_identity (f t) = task_identity t"
  shows "spares family (task_write i f)"
proof -
  have "task_identity ((f t)\<lparr>task_updatedAt := n\<rparr>) = task_identity t" for t n
    using assms [of t] by (simp add: task_identity_def)
  then have "family (write_tasks i f s) = family s" for s
    by (simp add: family_def write_tasks_def map_update_where_same)
  then show ?thesis unfolding task_write_def by (intro spares_intros spares_modify)
qed

lemma family_task_updates [spares_intros]:
  "spares family (task_update_prompt i p)" "spares family (task_update_retry i n after)"
  unfolding task_update_prompt_def task_update_retry_def
  by (rule family_task_write, simp add: task_identity_def)+

lemma family_task_names: "family s = family t \<Longrightarrow> task_names s = task_names t"
proof -
  have "task_names s = map (\<lambda>(i, _, n, _). (i, n)) (fst (family s))" for s
    by (simp add: task_names_def family_def task_identity_def)
  then show "family s = family t \<Longrightarrow> task_names s = task_names t" by simp
qed

text \<open>A row looked up by its key is the same up to the columns that stay.\<close>

lemma find_same_identity:
  assumes "map g xs = map g ys" and "\<And>x y. g x = g y \<Longrightarrow> p x = p y"
  shows "rel_option (\<lambda>x y. g x = g y) (find p xs) (find p ys)"
  using assms(1)
proof (induction xs arbitrary: ys)
  case (Cons x xs)
  then obtain y zs where ys: "ys = y # zs" "g x = g y" "map g xs = map g zs" by (auto simp: Cons_eq_map_conv)
  with Cons.IH [of zs] assms(2) [of x y] show ?case by simp
qed simp

lemma family_run_get:
  "family s = family t \<Longrightarrow> rel_option (\<lambda>q r. run_identity q = run_identity r) (run_get i s) (run_get i t)"
  unfolding run_get_def by (rule find_same_identity, simp add: family_def, simp add: run_identity_def)

lemma family_task_get:
  "family s = family t \<Longrightarrow> rel_option (\<lambda>q r. task_identity q = task_identity r) (task_get i s) (task_get i t)"
  unfolding task_get_def by (rule find_same_identity, simp add: family_def, simp add: task_identity_def)

lemma family_spec_get:
  "family s = family t \<Longrightarrow> rel_option (\<lambda>q r. spec_settings q = spec_settings r) (spec_get i s) (spec_get i t)"
  unfolding spec_get_def by (rule find_same_identity, simp add: family_def, simp add: spec_settings_def)

lemma walk_parents_same:
  assumes "walk_parents s r chain = Some ys" and "family s = family t"
    and "run_identity r = run_identity q" "map run_identity chain = map run_identity chain'"
  shows "\<exists>zs. walk_parents t q chain' = Some zs \<and> map run_identity zs = map run_identity ys"
  using assms
proof (induction s r chain ys arbitrary: q chain' rule: walk_parents.raw_induct [rotated, consumes 1, case_names Step])
  case (Step walk s r chain ys)
  then have p: "run_parentRunId q = run_parentRunId r" and same: "family s = family t"
    by (simp_all add: run_identity_def)
  show ?case
  proof (cases "run_parentRunId r")
    case None
    with Step p show ?thesis by (simp add: walk_parents.simps)
  next
    case (Some i)
    note rel = family_run_get [OF same, of i]
    show ?thesis
    proof (cases "run_get i s")
      case None
      with rel Step p Some show ?thesis by (simp add: walk_parents.simps)
    next
      case (Some x)
      with rel obtain y where y: "run_get i t = Some y" "run_identity x = run_identity y"
        by (cases "run_get i t") auto
      from Step(2) Some \<open>run_parentRunId r = Some i\<close> have "walk s x (chain @ [x]) = Some ys" by simp
      from Step(1) [OF this same y(2), of "chain' @ [y]"] Step y Some p \<open>run_parentRunId r = Some i\<close>
      show ?thesis by (simp add: walk_parents.simps)
    qed
  qed
qed

lemma walk_parent_chain_same:
  assumes "family s = family t"
  shows "map_option (map run_identity) (walk_parent_chain s r) = map_option (map run_identity) (walk_parent_chain t r)"
proof -
  have "\<exists>zs. walk_parent_chain v r = Some zs \<and> map run_identity zs = map run_identity ys"
    if "walk_parent_chain u r = Some ys" "family u = family v" for u v ys
    using walk_parents_same [OF that(1) [unfolded walk_parent_chain_def] that(2)] by (simp add: walk_parent_chain_def)
  from this [OF _ assms] this [OF _ assms [symmetric]] show ?thesis
    by (cases "walk_parent_chain s r"; cases "walk_parent_chain t r") fastforce+
qed

lemma classify_task_same: "task_identity a = task_identity b \<Longrightarrow> classify_task a = classify_task b"
  by (simp add: classify_task_def task_identity_def cong: if_cong)

lemma is_fix_run_same:
  assumes "family s = family t" and "run_identity q = run_identity r"
  shows "is_fix_run s q = is_fix_run t r"
proof -
  have "run_taskId q = run_taskId r" using assms(2) by (simp add: run_identity_def)
  with family_task_get [OF assms(1), of "run_taskId r"] show ?thesis
    by (cases "task_get (run_taskId r) s"; cases "task_get (run_taskId r) t")
      (auto simp: is_fix_run_def dest: classify_task_same)
qed

lemma count_fix_runs_same:
  "family s = family t \<Longrightarrow> map run_identity qs = map run_identity rs \<Longrightarrow>
   length (filter (is_fix_run s) qs) = length (filter (is_fix_run t) rs)"
proof (induction qs arbitrary: rs)
  case (Cons q qs)
  then obtain r ss where rs: "rs = r # ss" "run_identity q = run_identity r" "map run_identity qs = map run_identity ss"
    by (auto simp: Cons_eq_map_conv)
  with Cons.IH [of ss] Cons.prems(1) is_fix_run_same [OF Cons.prems(1) rs(2)] show ?case by simp
qed simp

lemma existing_fix_count_same:
  assumes "family s = family t"
  shows "existing_fix_count s r = existing_fix_count t r"
  using walk_parent_chain_same [OF assms, of r]
  by (cases "walk_parent_chain s r"; cases "walk_parent_chain t r")
    (auto simp: existing_fix_count_def intro: count_fix_runs_same [OF assms])

lemma max_fix_iterations_same:
  assumes "family s = family t"
  shows "max_fix_iterations ro r s = max_fix_iterations ro r t"
proof -
  have "Option.bind (task_get i s) (\<lambda>x. Option.bind (spec_get (task_specId x) s) spec_maxFixIterations) =
      Option.bind (task_get i t) (\<lambda>x. Option.bind (spec_get (task_specId x) t) spec_maxFixIterations)" for i
  proof (cases "task_get i s")
    case None
    with family_task_get [OF assms, of i] show ?thesis by simp
  next
    case (Some x)
    with family_task_get [OF assms, of i] obtain y where y: "task_get i t = Some y" "task_specId x = task_specId y"
      by (cases "task_get i t") (auto simp: task_identity_def)
    with Some family_spec_get [OF assms, of "task_specId y"] show ?thesis
      by (cases "spec_get (task_specId y) s"; cases "spec_get (task_specId y) t") (auto simp: spec_settings_def)
  qed
  then show ?thesis by (simp only: max_fix_iterations_def)
qed

subsection \<open>What the routes leave alone\<close>

definition tools_spare :: "(store \<Rightarrow> 'v) \<Rightarrow> worktree_tools \<Rightarrow> bool" where
  "tools_spare view w \<longleftrightarrow> (\<forall>p args. spares view (wt_git w p args)) \<and> (\<forall>p cmd. spares view (wt_shell w p cmd)) \<and>
     (\<forall>p name. spares view (wt_autoCommit w p name))"

definition callbacks_spare :: "(store \<Rightarrow> 'v) \<Rightarrow> post_completion \<Rightarrow> bool" where
  "callbacks_spare view pc \<longleftrightarrow> (\<forall>p prof. spares view (pc_verifyCommands pc p prof)) \<and>
     (\<forall>i v. spares view (pc_onVerificationResult pc i v)) \<and> (\<forall>i. spares view (pc_onReadyToShip pc i)) \<and>
     (\<forall>i v c. spares view (pc_onReviewResult pc i v c))"

lemma tools_spareD [spares_intros]:
  assumes "tools_spare view w"
  shows "spares view (wt_git w p args)" "spares view (wt_shell w p cmd)" "spares view (wt_autoCommit w p name)"
  using assms by (simp_all add: tools_spare_def)

lemma callbacks_spareD [spares_intros]:
  assumes "callbacks_spare view pc"
  shows "spares view (pc_verifyCommands pc q prof)" "spares view (pc_onVerificationResult pc i v)"
    "spares view (pc_onReadyToShip pc i)" "spares view (pc_onReviewResult pc i x c)"
  using assms by (simp_all add: callbacks_spare_def)

lemma spares_ignore [spares_intros]: "spares view m \<Longrightarrow> spares view (ignore m)"
  unfolding ignore_def by (intro spares_intros)

lemma spares_when_do [spares_intros]: "(b \<Longrightarrow> spares view m) \<Longrightarrow> spares view (when_do b m)"
  unfolding when_do_def by (intro spares_intros)

lemma spares_or_diverge [spares_intros]: "spares view (or_diverge f)"
  unfolding or_diverge_def by (intro spares_intros)

context frame
begin

lemma evidence_spares [spares_intros]:
  "spares view (evidence_create ro i r ty p)" "spares view (record_custom ro r p)"
proof -
  show e: "spares view (evidence_create ro i r ty p)" for i r ty p
    unfolding evidence_create_def by (intro spares_intros spares_modify) (simp add: spared)
  show "spares view (record_custom ro r p)" unfolding record_custom_def by (intro spares_intros e)
qed

lemma commit_spares [spares_intros]:
  assumes "spares view m"
  shows "spares view (commit_atomically ro m)"
proof (rule sparesI)
  fix s
  obtain r t where "m s = (r, t)" by fastforce
  with spares_result [OF assms this] show "view (snd (commit_atomically ro m s)) = view s"
    by (cases r) (simp_all add: commit_atomically_def spared)
qed

lemma git_spares [spares_intros]:
  assumes "tools_spare view w"
  shows "spares view (git_output w p args)" "spares view (read_worktree_git_artifacts w p)"
    "spares view (sync_run_git_artifacts w i p)" "spares view (read_tracked_worktree_changes w p)"
    "spares view (rebase_worktree_onto_base w p base)"
  unfolding sync_run_git_artifacts_def read_worktree_git_artifacts_def git_output_def
    read_tracked_worktree_changes_def rebase_worktree_onto_base_def
  using assms by (intro spares_intros; simp)+

lemma verify_spares [spares_intros]:
  assumes "tools_spare view w"
  shows "spares view (verify_worktree w p cmds)"
proof -
  have "spares view (run_verify w p fin cmds)" for fin
    using assms by (induction cmds arbitrary: fin) (auto intro!: spares_intros)
  then show ?thesis by (simp add: verify_worktree_def)
qed

lemma diff_spares [spares_intros]:
  assumes "tools_spare view w"
  shows "spares view (collect_diff w p base)"
proof -
  have u: "spares view (untracked_diff w p fs)" for fs
    using assms by (induction fs) (auto intro!: spares_intros)
  show ?thesis
    unfolding collect_diff_def collect_committed_branch_diff_def using assms by (intro spares_intros u)
qed

lemma snapshot_spares [spares_intros]:
  assumes "tools_spare view (ro_tools ro)"
  shows "spares view (fail_if_dirty_tracked_worktree ro i p ctx)" "spares view (finalize_dirty_worktree ro i p n)"
    "spares view (sync_git_artifacts ro i p)" "spares view (record_worktree_snapshot ro pc i p cmds v)"
    "spares view (snapshot_or_fail ro pc r p cmds v)" "spares view (fail_if_zero_diff_snapshot ro r snap kind)"
    "spares view (fix_snapshot_stops ro pc r p cmds v)"
proof -
  note git = git_spares [OF assms] and tools = tools_spareD [OF assms]
  show dirty: "spares view (fail_if_dirty_tracked_worktree ro i p ctx)" for i ctx
    unfolding fail_if_dirty_tracked_worktree_def by (intro spares_intros git)
  show "spares view (finalize_dirty_worktree ro i p n)"
    unfolding finalize_dirty_worktree_def by (intro spares_intros tools dirty)
  show "spares view (sync_git_artifacts ro i p)"
    unfolding sync_git_artifacts_def by (intro spares_intros git)
  show snap: "spares view (record_worktree_snapshot ro pc i p cmds v)" for i v
    unfolding record_worktree_snapshot_def build_worktree_snapshot_evidence_def collect_diff_stat_def
      collect_parent_stat_def short_stat_since_def
    by (intro spares_intros git)
  show both: "spares view (snapshot_or_fail ro pc r p cmds v)" for v
    unfolding snapshot_or_fail_def by (intro spares_intros dirty snap)
  show zero: "spares view (fail_if_zero_diff_snapshot ro r snap kind)" for snap kind
    unfolding fail_if_zero_diff_snapshot_def by (intro spares_intros)
  show "spares view (fix_snapshot_stops ro pc r p cmds v)"
    unfolding fix_snapshot_stops_def by (intro spares_intros both zero)
qed

lemma commands_spare [spares_intros]:
  assumes "callbacks_spare view pc"
  shows "spares view (resolve_verify_commands ro pc project t r tag)"
proof (rule sparesI)
  fix s
  show "view (snd (resolve_verify_commands ro pc project t r tag s)) = view s"
    using spares_result [OF callbacks_spareD(1) [OF assms]]
    by (auto simp: resolve_verify_commands_def give_def split: option.splits prod.splits sum.splits)
qed

lemma closing_spares [spares_intros]:
  "spares view (set_task_status t st)" "spares view (mark_failed_if_open ro r why)"
  "spares view (stage_note ro r why)" "spares view (mark_done_if_active ro r why)"
  "spares view (close_current_run ro r how why)" "spares view (close_lineage_runs ro ids r how why rs)"
  "spares view (close_lineage_tasks ro ts)" "spares view (close_failed_lineage_descendants ro r q how why)"
  "spares view (maybe_evaluate ro sp)"
proof -
  show set: "spares view (set_task_status t st)" for t st
    unfolding set_task_status_def by (intro spares_intros)
  show "spares view (mark_failed_if_open ro r why)"
    unfolding mark_failed_if_open_def by (intro spares_intros)
  show "spares view (stage_note ro r why)" unfolding stage_note_def by (intro spares_intros)
  show "spares view (mark_done_if_active ro r why)" unfolding mark_done_if_active_def by (intro spares_intros)
  show "spares view (maybe_evaluate ro sp)" unfolding maybe_evaluate_def by (intro spares_intros)
  show current: "spares view (close_current_run ro r how why)" for r
    unfolding close_current_run_def by (cases how) (auto intro!: spares_intros)
  show runs: "spares view (close_lineage_runs ro ids r how why rs)" for ids r rs
    by (induction rs) (auto intro!: spares_intros current)
  show tasks: "spares view (close_lineage_tasks ro ts)" for ts
    by (induction ts) (auto intro!: spares_intros set)
  show "spares view (close_failed_lineage_descendants ro r q how why)"
    unfolding close_failed_lineage_descendants_def by (intro spares_intros runs tasks)
qed

lemma completing_spares [spares_intros]:
  "spares view (complete_successful_fix_chain ro pr rr why)" "spares view (complete_lineage_task ro r t why)"
  "spares view (complete_review_task ro r t why)"
  "spares view (reopen_root_for_successful_review ro rr t q u text)"
  "spares view (complete_bakeoff_candidate ro pr rr t q u why)" "spares view (fail_review_task ro r t why)"
  "spares view (fail_review_routing ro r found why)" "spares view (copy_current_verification_evidence ro i j)"
proof -
  have chain: "spares view (complete_chain ro rr why rs)" for why rs
    by (induction rs) (auto intro!: spares_intros)
  show fixed: "spares view (complete_successful_fix_chain ro pr rr why)" for why
    unfolding complete_successful_fix_chain_def by (intro spares_intros chain)
  show closed: "spares view (complete_lineage_task ro r t why)" for r t why
    unfolding complete_lineage_task_def by (intro spares_intros)
  then show review: "spares view (complete_review_task ro r t why)" for r t why
    unfolding complete_review_task_def .
  show "spares view (reopen_root_for_successful_review ro rr t q u text)"
    unfolding reopen_root_for_successful_review_def clear_root_failure_def by (intro spares_intros)
  show "spares view (complete_bakeoff_candidate ro pr rr t q u why)"
    unfolding complete_bakeoff_candidate_def by (intro spares_intros fixed review)
  show failing: "spares view (fail_review_task ro r t why)" for t
    unfolding fail_review_task_def by (intro spares_intros)
  show "spares view (fail_review_routing ro r found why)"
    unfolding fail_review_routing_def by (intro spares_intros failing)
  have copies: "spares view (copy_verify_evidence ro target sha es)" for target sha es
    by (induction es) (auto intro!: spares_intros)
  show "spares view (copy_current_verification_evidence ro i j)"
    unfolding copy_current_verification_evidence_def by (intro spares_intros copies)
qed

lemma passing_spares [spares_intros]:
  assumes "tools_spare view (ro_tools ro)" and "callbacks_spare view pc"
  shows "spares view (route_passed_review ro pc pr rr t q u v)"
  unfolding route_passed_review_def ship_reviewed_root_def
  by (intro spares_intros assms)

end

subsection \<open>At most one new task\<close>

definition adds_one :: "(string \<times> string \<Rightarrow> bool) \<Rightarrow> store \<Rightarrow> 'a db \<Rightarrow> bool" where
  "adds_one p s m \<longleftrightarrow> task_names (snd (m s)) = task_names s \<or>
     (\<exists>x. p x \<and> task_names (snd (m s)) = task_names s @ [x])"

named_theorems adds_intros \<open>computations that create at most one task\<close>

lemma adds_spares: "spares family m \<Longrightarrow> adds_one p s m"
  unfolding adds_one_def by (rule disjI1, rule family_task_names, rule sparesD)

lemma adds_then:
  assumes "adds_one p s m" and "\<And>x. spares family (k x)"
  shows "adds_one p s (andthen m k)"
proof -
  obtain r u where m: "m s = (r, u)" by fastforce
  then have "task_names (snd (andthen m k s)) = task_names u"
    using family_task_names [OF sparesD [OF assms(2)]] by (cases r) (simp_all add: andthen_def)
  with assms(1) m show ?thesis by (simp add: adds_one_def)
qed

lemma then_adds:
  assumes "spares family m" and "\<And>x t. family t = family s \<Longrightarrow> adds_one p t (k x)"
  shows "adds_one p s (andthen m k)"
proof -
  obtain r u where m: "m s = (r, u)" by fastforce
  then have u: "family u = family s" by (rule spares_result [OF assms(1)])
  show ?thesis
  proof (cases r)
    case (Inl e)
    with m family_task_names [OF u] show ?thesis by (simp add: andthen_def adds_one_def)
  next
    case (Inr x)
    then have "andthen m k s = k x u" using m by (simp add: andthen_def)
    with family_task_names [OF u] assms(2) [OF u, of x] show ?thesis by (simp add: adds_one_def)
  qed
qed

lemma adds_reading [adds_intros]: "adds_one p s (k (f s)) \<Longrightarrow> adds_one p s (andthen (reading f) k)"
  unfolding adds_one_def andthen_reading .

lemma adds_or_diverge [adds_intros]:
  "(\<And>x. f s = Some x \<Longrightarrow> adds_one p s (k x)) \<Longrightarrow> adds_one p s (andthen (or_diverge f) k)"
  by (cases "f s") (simp_all add: adds_one_def or_diverge_def andthen_def reading_def fail_def give_def)

lemma adds_if [adds_intros]: "(b \<Longrightarrow> adds_one p s m) \<Longrightarrow> (\<not> b \<Longrightarrow> adds_one p s n) \<Longrightarrow> adds_one p s (if b then m else n)"
  by simp

lemma adds_case_option [adds_intros]:
  "(x = None \<Longrightarrow> adds_one p s m) \<Longrightarrow> (\<And>y. x = Some y \<Longrightarrow> adds_one p s (n y)) \<Longrightarrow>
   adds_one p s (case x of None \<Rightarrow> m | Some y \<Rightarrow> n y)"
  by (cases x) simp_all

lemma adds_case_prod [adds_intros]:
  "(\<And>a b. x = (a, b) \<Longrightarrow> adds_one p s (m a b)) \<Longrightarrow> adds_one p s (case x of (a, b) \<Rightarrow> m a b)"
  by (cases x) simp_all

lemma adds_let [adds_intros]: "(\<And>x. x = e \<Longrightarrow> adds_one p s (m x)) \<Longrightarrow> adds_one p s (let x = e in m x)"
  by simp

lemma adds_create:
  assumes "p (task_id t, task_name t)"
  shows "adds_one p s (task_create t)"
  using assms
  by (auto simp: adds_one_def task_create_def outcome_simps task_get_required_def task_names_def
      split: option.splits)

lemma adds_mono: "adds_one p s m \<Longrightarrow> (\<And>x. p x \<Longrightarrow> q x) \<Longrightarrow> adds_one q s m"
  unfolding adds_one_def by blast

subsection \<open>Fix rounds\<close>

text \<open>The next fix of a run, and a review of a round. The number of fixes and their limit are those of
  the family tree.\<close>

definition next_fix :: "router \<Rightarrow> store \<Rightarrow> run \<Rightarrow> string \<times> string \<Rightarrow> bool" where
  "next_fix ro s pr x \<longleftrightarrow> (\<exists>n original. existing_fix_count s pr = Some n \<and> n < max_fix_iterations ro pr s \<and>
     snd x = fix_task_name original (n + 1))"

definition review_of_round :: "nat \<Rightarrow> string \<times> string \<Rightarrow> bool" where
  "review_of_round no x \<longleftrightarrow> (\<exists>original. snd x = review_task_name original no)"

lemma next_fixI:
  "existing_fix_count s pr = Some n \<Longrightarrow> n < max_fix_iterations ro pr s \<Longrightarrow>
   next_fix ro s pr (i, fix_task_name original (n + 1))"
  unfolding next_fix_def by auto

lemma review_of_roundI: "review_of_round no (i, review_task_name original no)"
  unfolding review_of_round_def by auto

lemma next_fix_same: "family t = family s \<Longrightarrow> next_fix ro t pr = next_fix ro s pr"
  by (simp add: next_fix_def fun_eq_iff existing_fix_count_same [of t s] max_fix_iterations_same [of t s])

lemma adds_task:
  assumes "\<And>i. p (i, name)" "\<And>i. spares family (k i)"
  shows "adds_one p s (andthen (reading (ro_newId ro)) (\<lambda>i. andthen (task_create
    (pipeline_task i sp original name prompt agent role)) (\<lambda>_. k i)))"
  using assms by (intro adds_reading adds_then [OF adds_create]) (auto simp: pipeline_task_def)

lemma failed_review_adds: "adds_one (next_fix ro s pr) s (route_failed_review ro pr rr original q u v)"
  unfolding route_failed_review_def
  by (rule adds_or_diverge, rule adds_reading, rule adds_if)
    ((intro adds_spares spares_intros)[1], (intro adds_task next_fixI spares_intros; simp)[1])

lemma verification_fix_adds: "adds_one (next_fix ro s pr) s (dispatch_verification_fix ro pr pt cmds out)"
  unfolding dispatch_verification_fix_def Let_def
  by (rule adds_reading, rule adds_or_diverge, rule adds_or_diverge, rule adds_reading, rule adds_if)
    ((intro adds_spares spares_intros)[1], (intro adds_task next_fixI spares_intros; simp)[1])

lemma dispatch_review_adds:
  assumes "tools_spare family (ro_tools ro)" and "callbacks_spare family pc"
  shows "adds_one (review_of_round no) s (dispatch_review ro pc pr pt path cmds no v)"
  unfolding dispatch_review_def Let_def
  by (rule adds_reading, rule adds_case_prod, rule adds_case_option, (intro adds_spares spares_intros assms)[1],
    rule then_adds, (intro spares_intros assms)[1], rule adds_case_prod, rule adds_reading,
    rule then_adds, (intro spares_intros assms)[1], rule then_adds, (intro spares_intros assms)[1],
    rule adds_task, rule review_of_roundI, (intro spares_intros assms)[1])

text \<open>One step of a route: spare what comes first, then go on in a state of the same family.\<close>

lemma then_adds_same:
  assumes "spares family m" and "\<And>x t. p t = p s \<Longrightarrow> family t = family s \<Longrightarrow> adds_one (p t) t (k x)"
    and "\<And>t. family t = family s \<Longrightarrow> p t = p s"
  shows "adds_one (p s) s (andthen m k)"
proof (rule then_adds [OF assms(1)])
  fix x t
  assume f: "family t = family s"
  from assms(2) [OF assms(3) [OF f] f] assms(3) [OF f] show "adds_one (p s) t (k x)" by simp
qed

definition fix_outcome :: "router \<Rightarrow> run \<Rightarrow> nat \<Rightarrow> store \<Rightarrow> string \<times> string \<Rightarrow> bool" where
  "fix_outcome ro r no s x \<longleftrightarrow> next_fix ro s r x \<or> review_of_round (no + 1) x"

lemma fix_outcome_same: "family t = family s \<Longrightarrow> fix_outcome ro r no t = fix_outcome ro r no s"
  by (drule next_fix_same [of t s ro r]) (simp add: fix_outcome_def fun_eq_iff)

lemma escalate_fix_adds:
  assumes "tools_spare family (ro_tools ro)"
  shows "adds_one (fix_outcome ro r no s) s (escalate_fix ro pc r t path cmds v)"
  unfolding escalate_fix_def
  by (rule then_adds_same [OF _ _ fix_outcome_same], (intro spares_intros assms)[1], rule adds_if,
    (intro adds_spares spares_intros)[1], rule adds_mono [OF verification_fix_adds], simp_all add: fix_outcome_def)

lemma review_fix_adds:
  assumes "tools_spare family (ro_tools ro)" and "callbacks_spare family pc"
  shows "adds_one (fix_outcome ro r no s) s (review_fix ro pc r t path cmds no v)"
  unfolding review_fix_def
  by (rule then_adds_same [OF _ _ fix_outcome_same], (intro spares_intros assms)[1], rule adds_if,
    (intro adds_spares spares_intros)[1], rule adds_then,
    rule adds_mono [OF dispatch_review_adds [OF assms]], simp_all add: fix_outcome_def, intro spares_intros)

lemma verify_fix_adds:
  assumes "tools_spare family (ro_tools ro)" and "callbacks_spare family pc"
  shows "adds_one (fix_outcome ro r no s) s (verify_fix ro pc r t path cmds no)"
proof -
  note same = then_adds_same [OF _ _ fix_outcome_same]
  have again: "spares family (retry_final_fix_verify ro pc r path cmds)"
    unfolding retry_final_fix_verify_def by (intro spares_intros assms; simp add: run_identity_def)
  show ?thesis
    unfolding verify_fix_def
    by (rule same, (intro spares_intros assms)[1], rule same, (intro spares_intros assms)[1], rule adds_if,
      rule review_fix_adds [OF assms], rule adds_reading, rule adds_if, rule same [OF again], rule adds_if,
      rule review_fix_adds [OF assms], rule escalate_fix_adds [OF assms(1)], assumption+,
      rule escalate_fix_adds [OF assms(1)], assumption+)
qed

definition completes_fix :: "router \<Rightarrow> run \<Rightarrow> store \<Rightarrow> string \<times> string \<Rightarrow> bool" where
  "completes_fix ro r s x \<longleftrightarrow>
     (\<exists>t. task_get (run_taskId r) s = Some t \<and> fix_outcome ro r (pn_round (classify_task t)) s x)"

definition completes_review :: "router \<Rightarrow> run \<Rightarrow> store \<Rightarrow> string \<times> string \<Rightarrow> bool" where
  "completes_review ro r s x \<longleftrightarrow>
     (\<exists>t original pr. task_get (run_taskId r) s = Some t \<and> reviewed_task s t (classify_task t) = Some original \<and>
        reviewed_run s r t original = Some pr \<and> next_fix ro s pr x)"

lemma run_fix_adds:
  assumes "tools_spare family (ro_tools ro)" and "\<And>pc. ro_post ro = Some pc \<Longrightarrow> callbacks_spare family pc"
  shows "adds_one (completes_fix ro r s) s (run_fix_completion ro r)"
proof (cases "ro_post ro")
  case None
  then show ?thesis unfolding run_fix_completion_def by (simp only: option.case, intro adds_spares spares_intros)
next
  case (Some pc)
  note tools = assms(1) and calls = assms(2) [OF Some]
  show ?thesis
  proof (cases "task_get (run_taskId r) s")
    case None
    with Some show ?thesis
      unfolding run_fix_completion_def
      by (simp only: option.case, intro adds_reading) (simp, intro adds_spares spares_intros)
  next
    case (Some t)
    let ?no = "pn_round (classify_task t)"
    note same = then_adds_same [OF _ _ fix_outcome_same]
    have "adds_one (fix_outcome ro r ?no s) s (run_fix_completion ro r)"
      unfolding run_fix_completion_def \<open>ro_post ro = Some pc\<close> Let_def
      apply (simp only: option.case, rule adds_reading, simp only: Some option.case, rule adds_if)
      apply ((intro adds_spares spares_intros)[1])
      apply (rule adds_or_diverge, rule adds_if, (intro adds_spares spares_intros)[1])
      apply (rule adds_case_option, (intro adds_spares spares_intros)[1], rule adds_reading)
      apply (rule same, (intro spares_intros calls)[1], rule same, (intro spares_intros tools)[1])
      apply (rule adds_if, (intro adds_spares spares_intros)[1], rule same, (intro spares_intros tools)[1])
      apply (rule adds_if, rule verify_fix_adds [OF tools calls], rule review_fix_adds [OF tools calls])
      apply assumption+
      done
    then show ?thesis by (rule adds_mono) (use Some in \<open>auto simp: completes_fix_def\<close>)
  qed
qed

lemma run_review_adds:
  assumes "tools_spare family (ro_tools ro)" and "\<And>pc. ro_post ro = Some pc \<Longrightarrow> callbacks_spare family pc"
  shows "adds_one (completes_review ro r s) s (run_review_completion ro r)"
  unfolding run_review_completion_def
proof (rule adds_case_option)
  fix pc
  assume pc: "ro_post ro = Some pc"
  note tools = assms(1) and calls = assms(2) [OF pc]
  show "adds_one (completes_review ro r s) s (andthen (reading (task_get (run_taskId r))) (\<lambda>found.
          case found of
            None \<Rightarrow> fail_review_routing ro r None (no_context_reason r (''missing review task '' @ run_taskId r @ ''.''))
          | Some review_task \<Rightarrow>
              let parsed = classify_task review_task in
              if pn_kind parsed \<noteq> Review then give ()
              else
                andthen (or_diverge (\<lambda>s. lineage_already_shipped s r)) (\<lambda>shipped.
                if shipped
                then complete_review_task ro r review_task ''lineage already shipped; stale review closed''
                else route_review ro pc r review_task parsed)))"
    unfolding Let_def route_review_def
  proof (rule adds_reading, rule adds_case_option, (intro adds_spares spares_intros)[1], rule adds_if,
      (intro adds_spares spares_intros)[1], rule adds_or_diverge, rule adds_if, (intro adds_spares spares_intros)[1],
      rule adds_reading, rule adds_case_option, (intro adds_spares spares_intros)[1], rule adds_reading,
      rule adds_case_option, (intro adds_spares spares_intros)[1], rule adds_or_diverge, rule adds_reading)
    fix t original pr rr
    assume t: "task_get (run_taskId r) s = Some t" "reviewed_task s t (classify_task t) = Some original"
      "reviewed_run s r t original = Some pr"
    let ?v = "parse_review_result (pc_completionText pc (run_id r) s)"
    have "adds_one (next_fix ro s pr) s (andthen (pc_onReviewResult pc (run_id r) ?v None) (\<lambda>_.
        route_verdict ro pc pr rr original r t ?v))"
      unfolding route_verdict_def route_malformed_review_def Let_def retry_malformed_review_task_def
      by (rule then_adds_same [OF _ _ next_fix_same], (intro spares_intros calls)[1], rule adds_if,
        (intro adds_spares spares_intros)[1], rule adds_if, (intro adds_spares spares_intros tools calls)[1],
        rule failed_review_adds, assumption)
    then show "adds_one (completes_review ro r s) s (andthen (pc_onReviewResult pc (run_id r) ?v None) (\<lambda>_.
        route_verdict ro pc pr rr original r t ?v))"
      by (rule adds_mono) (use t in \<open>auto simp: completes_review_def\<close>)
  qed
qed ((intro adds_spares spares_intros)[1])


subsection \<open>What a review that did not pass cannot do\<close>

text \<open>The same router with another ship callback. Everything but the routes that ship behaves the same.\<close>

definition with_ship :: "(string \<Rightarrow> unit db) \<Rightarrow> router \<Rightarrow> router" where
  "with_ship ship ro = ro\<lparr>ro_post := map_option (\<lambda>pc. pc\<lparr>pc_onReadyToShip := ship\<rparr>) (ro_post ro)\<rparr>"

lemma with_ship_fields [simp]:
  "ro_config (with_ship h ro) = ro_config ro" "ro_evidenceRepo (with_ship h ro) = ro_evidenceRepo ro"
  "ro_liveSession (with_ship h ro) = ro_liveSession ro" "ro_evaluateDag (with_ship h ro) = ro_evaluateDag ro"
  "ro_fuel (with_ship h ro) = ro_fuel ro" "ro_transaction (with_ship h ro) = ro_transaction ro"
  "ro_tools (with_ship h ro) = ro_tools ro" "ro_newId (with_ship h ro) = ro_newId ro"
  "ro_post (with_ship h ro) = map_option (\<lambda>pc. pc\<lparr>pc_onReadyToShip := h\<rparr>) (ro_post ro)"
  by (simp_all add: with_ship_def)

lemma with_ship_limit [simp]: "max_fix_iterations (with_ship h ro) = max_fix_iterations ro"
  by (cases "ro_post ro") (auto simp: fun_eq_iff max_fix_iterations_def split: option.split)

lemma with_ship_closing [simp]:
  "mark_failed_if_open (with_ship h ro) = mark_failed_if_open ro"
  "mark_done_if_active (with_ship h ro) = mark_done_if_active ro"
  "maybe_evaluate (with_ship h ro) = maybe_evaluate ro"
  "close_current_run (with_ship h ro) = close_current_run ro"
  by (simp_all add: fun_eq_iff mark_failed_if_open_def mark_done_if_active_def maybe_evaluate_def close_current_run_def
      split: run_disposition.split)

lemma with_ship_lists [simp]:
  "close_lineage_runs (with_ship h ro) ids c how why rs = close_lineage_runs ro ids c how why rs"
  "close_lineage_tasks (with_ship h ro) ts = close_lineage_tasks ro ts"
  by (induction rs, simp_all) (induction ts, simp_all)

lemma with_ship_routes [simp]:
  "close_failed_lineage_descendants (with_ship h ro) = close_failed_lineage_descendants ro"
  "complete_review_task (with_ship h ro) = complete_review_task ro"
  "fail_review_task (with_ship h ro) = fail_review_task ro"
  "fail_review_routing (with_ship h ro) = fail_review_routing ro"
  "route_malformed_review (with_ship h ro) = route_malformed_review ro"
  "route_failed_review (with_ship h ro) = route_failed_review ro"
  by (simp_all add: fun_eq_iff close_failed_lineage_descendants_def complete_review_task_def complete_lineage_task_def
      fail_review_task_def fail_review_routing_def route_malformed_review_def retry_malformed_review_task_def
      route_failed_review_def Let_def cong: option.case_cong if_cong)

text \<open>C9: only a passed review ships. When the text a reviewer completed with is not read as a passed
  review (a warning, a failure or something malformed), completing the review does exactly the same
  whatever the ship callback is: it is never called, so nothing is sent to approval.\<close>

theorem only_a_passed_review_ships:
  assumes "\<And>pc. ro_post ro = Some pc \<Longrightarrow>
    \<not> rr_passed (parse_review_result (pc_completionText pc (run_id r) s))"
  shows "run_review_completion (with_ship ship ro) r s = run_review_completion ro r s"
proof (cases "ro_post ro")
  case None
  then show ?thesis by (simp add: run_review_completion_def)
next
  case (Some pc)
  let ?v = "parse_review_result (pc_completionText pc (run_id r) s)" and ?qc = "pc\<lparr>pc_onReadyToShip := ship\<rparr>"
  from assms [OF Some] have verdict: "route_verdict (with_ship ship ro) ?qc q rr o_t r t ?v = route_verdict ro pc q rr o_t r t ?v"
    for q rr o_t t
    by (simp add: route_verdict_def)
  have "route_review (with_ship ship ro) ?qc r t p s = route_review ro pc r t p s" for t p
    unfolding route_review_def
    by (auto simp: andthen_reading or_diverge_def verdict andthen_def fail_def give_def reading_def
        split: option.split prod.split sum.split)
  then show ?thesis
    by (auto simp: run_review_completion_def Some andthen_reading or_diverge_def Let_def andthen_def fail_def give_def
        reading_def split: option.split)
qed

subsection \<open>A malformed review\<close>

lemma retries_task_update_prompt [spares_intros]: "spares retry_columns (task_update_prompt i p)"
proof -
  have "retry_columns (write_tasks i (\<lambda>t. t\<lparr>task_prompt := p\<rparr>) s) = retry_columns s" for s
    by (simp add: retry_columns_def write_tasks_def map_update_where_same)
  then show ?thesis unfolding task_update_prompt_def task_write_def by (intro spares_intros spares_modify)
qed


end
