(* ===== verification/Blind_Review.thy ===== *)
theory Blind_Review
  imports Routes
begin

text \<open>
  The route of a best-of-n blind review (\<open>post-completion-router-route-blind-review.ts\<close>): the verdict is
  checked against the candidates and the operator's policy, the selected candidate is reopened for
  approval, and the outcome of every candidate is recorded once. A strategy configuration is the
  typed value; keys a reviewer adds to the verdict are not kept.
\<close>

subsection \<open>Evidence written once\<close>

definition has_evidence :: "(payload \<Rightarrow> bool) \<Rightarrow> router \<Rightarrow> string \<Rightarrow> store \<Rightarrow> bool" where
  "has_evidence p ro i s \<longleftrightarrow> ro_evidenceRepo ro \<and> list_ex (\<lambda>e. p (ev_payload e)) (evidence_list s i)"

definition record_once :: "(payload \<Rightarrow> bool) \<Rightarrow> router \<Rightarrow> string \<Rightarrow> payload \<Rightarrow> unit db" where
  "record_once p ro i payload =
     andthen (reading (has_evidence p ro i)) (\<lambda>exists. if exists then give () else record_custom ro i payload)"

definition same_outcome :: "payload \<Rightarrow> payload \<Rightarrow> bool" where
  "same_outcome new old \<longleftrightarrow> jis old ''kind'' ''bakeoff-candidate-outcome'' \<and>
     jget old ''blindReviewTaskId'' = jget new ''blindReviewTaskId'' \<and>
     jget old ''winnerTaskId'' = jget new ''winnerTaskId'' \<and> jget old ''outcome'' = jget new ''outcome''"

definition create_candidate_outcome_once :: "router \<Rightarrow> run \<Rightarrow> payload \<Rightarrow> unit db" where
  "create_candidate_outcome_once ro r payload = record_once (same_outcome payload) ro (run_id r) payload"

definition is_array :: "json option \<Rightarrow> bool" where
  "is_array v = (case v of Some (JArr _) \<Rightarrow> True | _ \<Rightarrow> False)"

definition same_verdict :: "best_of_n \<Rightarrow> payload \<Rightarrow> bool" where
  "same_verdict v old \<longleftrightarrow> jis old ''kind'' ''best-of-n-verdict'' \<and>
     jis old ''winnerTaskId'' (bn_winnerTaskId v) \<and> jis old ''policy'' (policy_name (bn_policy v)) \<and>
     is_array (jget old ''scores'')"

definition score_payload :: "review_score \<Rightarrow> json" where
  "score_payload x = JObj ([(''taskId'', JStr (rs_taskId x)), (''passed'', JBool (rs_passed x))] @
     (case rs_confidence x of None \<Rightarrow> [] | Some c \<Rightarrow> [(''confidence'', JNum c)]) @
     (case rs_notes x of None \<Rightarrow> [] | Some n \<Rightarrow> [(''notes'', JStr n)]))"

definition verdict_payload :: "best_of_n \<Rightarrow> payload" where
  "verdict_payload v =
     [(''kind'', JStr ''best-of-n-verdict''), (''winnerTaskId'', JStr (bn_winnerTaskId v)),
      (''scores'', JArr (map score_payload (bn_scores v))), (''policy'', JStr (policy_name (bn_policy v))),
      (''reason'', JStr (bn_reason v))]"

definition create_verdict_once :: "router \<Rightarrow> run \<Rightarrow> best_of_n \<Rightarrow> unit db" where
  "create_verdict_once ro r v = record_once (same_verdict v) ro (run_id r) (verdict_payload v)"

subsection \<open>Reopening the selected candidate\<close>

definition current_run :: "run \<Rightarrow> store \<Rightarrow> run" where
  "current_run r s = (case run_get (run_id r) s of Some q \<Rightarrow> q | None \<Rightarrow> r)"

definition is_pending_approval :: "run \<Rightarrow> store \<Rightarrow> bool" where
  "is_pending_approval r s \<longleftrightarrow> run_stage (current_run r s) = Ship \<and> run_pendingApproval (current_run r s)"

definition has_winner_reopen_evidence :: "router \<Rightarrow> run \<Rightarrow> store \<Rightarrow> bool" where
  "has_winner_reopen_evidence ro r = has_evidence (\<lambda>p. jis p ''kind'' ''bakeoff-winner-reopened-for-approval'') ro (run_id r)"

definition can_route_to_approval :: "router \<Rightarrow> store \<Rightarrow> run \<Rightarrow> bool" where
  "can_route_to_approval ro s r \<longleftrightarrow> run_stage r = StageDone \<or>
     (run_stage r = Implement \<and> has_winner_reopen_evidence ro r s) \<or>
     (is_pending_approval r s \<and> has_winner_reopen_evidence ro r s)"

definition reopened_payload :: "run \<Rightarrow> task \<Rightarrow> payload" where
  "reopened_payload review_run review_task =
     [(''kind'', JStr ''bakeoff-winner-reopened-for-approval''), (''source'', JStr ''blind-review-router''),
      (''blindReviewRunId'', JStr (run_id review_run)), (''blindReviewTaskId'', JStr (task_id review_task))]"

definition reopen_done_candidate :: "router \<Rightarrow> run \<Rightarrow> run \<Rightarrow> task \<Rightarrow> unit db" where
  "reopen_done_candidate ro r review_run review_task =
     andthen (run_update_stage (ro_config ro) (run_id r) Implement (Some ''bakeoff winner selected for approval'')) (\<lambda>_.
     andthen (run_update_workflow_state (ro_config ro) (run_id r) no_block) (\<lambda>_.
     andthen (record_stage_reset (ro_config ro) (run_id r) ''done'' Implement
       (Some (''bakeoff blind review '' @ take 8 (task_id review_task) @ '' selected this candidate for approval'')) unfenced) (\<lambda>_.
     record_custom ro (run_id r) (reopened_payload review_run review_task))))"

definition reopen_candidate_for_approval :: "router \<Rightarrow> run \<Rightarrow> run \<Rightarrow> task \<Rightarrow> unit db" where
  "reopen_candidate_for_approval ro winner_run review_run review_task =
     andthen (reading (\<lambda>s. let q = current_run winner_run s in (q, has_winner_reopen_evidence ro q s, is_pending_approval q s)))
       (\<lambda>(q, reopened, pending).
     if run_stage q = Implement \<and> reopened
     then ignore (run_update_workflow_state (ro_config ro) (run_id q) no_block)
     else if pending \<and> reopened then give ()
     else if run_stage q \<noteq> StageDone
     then fail (RoutingFailed (''bakeoff winner approval requires done run stage: '' @ run_id q))
     else reopen_done_candidate ro q review_run review_task)"

definition ship_failed_payload :: "run \<Rightarrow> task \<Rightarrow> string \<Rightarrow> payload" where
  "ship_failed_payload review_run review_task reason =
     [(''kind'', JStr ''bakeoff-ready-to-ship-failed''), (''source'', JStr ''blind-review-router''),
      (''blindReviewRunId'', JStr (run_id review_run)), (''blindReviewTaskId'', JStr (task_id review_task)),
      (''reason'', JStr reason)]"

definition undo_reopen :: "router \<Rightarrow> run \<Rightarrow> task \<Rightarrow> unit db" where
  "undo_reopen ro r review_task =
     andthen (run_update_stage (ro_config ro) (run_id r) StageDone (Some ''bakeoff winner approval entry failed'')) (\<lambda>_.
     andthen (run_update_workflow_state (ro_config ro) (run_id r) no_block) (\<lambda>_.
     record_stage_reset (ro_config ro) (run_id r) ''implement'' StageDone
       (Some (''bakeoff blind review '' @ take 8 (task_id review_task) @ '' failed to enter approval'')) unfenced))"

definition rollback_approval_reopen :: "router \<Rightarrow> run \<Rightarrow> run \<Rightarrow> task \<Rightarrow> string \<Rightarrow> unit db" where
  "rollback_approval_reopen ro winner_run review_run review_task reason =
     andthen (reading (\<lambda>s. (current_run winner_run s, is_pending_approval winner_run s))) (\<lambda>(q, reached).
     if reached then give ()
     else commit_atomically ro (
       andthen (reading (\<lambda>s. (q, has_winner_reopen_evidence ro q s))) (\<lambda>(latest, reopened).
       andthen (when_do (run_stage latest = Implement \<and> \<not> run_pendingApproval latest \<and> reopened)
         (undo_reopen ro latest review_task)) (\<lambda>_.
       record_custom ro (run_id latest) (ship_failed_payload review_run review_task reason)))))"

subsection \<open>The candidates\<close>

definition same_group :: "string \<Rightarrow> task \<Rightarrow> bool" where
  "same_group g t = (case task_strategyGroup t of None \<Rightarrow> False | Some h \<Rightarrow> trim h = g)"

definition bakeoff_candidates :: "spec option \<Rightarrow> task \<Rightarrow> string \<Rightarrow> store \<Rightarrow> task list" where
  "bakeoff_candidates sp review_task g s =
     filter (\<lambda>t. is_bakeoff_candidate_task sp t \<and> same_group g t) (task_list (task_specId review_task) s)"

fun terminal_candidates :: "store \<Rightarrow> task list \<Rightarrow> string + candidate_run list" where
  "terminal_candidates s [] = Inr []"
| "terminal_candidates s (t # ts) =
     (if task_status t \<noteq> TaskDone \<and> task_status t \<noteq> TaskFailed then Inl (''candidate '' @ task_name t @ '' is not terminal'')
      else case get_latest_run (task_id t) s of
          None \<Rightarrow> Inl (''candidate '' @ task_name t @ '' has no run for outcome evidence'')
        | Some r \<Rightarrow> (case terminal_candidates s ts of Inl why \<Rightarrow> Inl why | Inr cs \<Rightarrow> Inr ((t, r) # cs)))"

definition outcome_payload ::
    "run \<Rightarrow> task \<Rightarrow> task \<Rightarrow> task \<Rightarrow> bool \<Rightarrow> best_of_n \<Rightarrow> string \<Rightarrow> payload" where
  "outcome_payload review_run review_task selected judged over v outcome =
     [(''kind'', JStr ''bakeoff-candidate-outcome''), (''outcome'', JStr outcome), (''reason'', JStr (bn_reason v)),
      (''source'', JStr ''blind-review-router''), (''blindReviewRunId'', JStr (run_id review_run)),
      (''blindReviewTaskId'', JStr (task_id review_task)), (''winnerTaskName'', JStr (task_name selected)),
      (''winnerTaskId'', JStr (task_id selected)), (''judgeWinnerTaskId'', JStr (task_id judged)),
      (''policySelected'', JBool over)]"

fun record_outcomes :: "router \<Rightarrow> (string \<Rightarrow> payload) \<Rightarrow> string \<Rightarrow> task \<Rightarrow> candidate_run list \<Rightarrow> unit db" where
  "record_outcomes ro payload accepted selected [] = give ()"
| "record_outcomes ro payload accepted selected ((t, r) # cs) =
     andthen (create_candidate_outcome_once ro r (payload (if task_id t = task_id selected then accepted else ''rejected''))) (\<lambda>_.
     record_outcomes ro payload accepted selected cs)"

subsection \<open>The route\<close>

text \<open>\<open>onReadyToShip\<close> may throw; what it threw is caught, except that it does not return.\<close>

definition caught :: "'a db \<Rightarrow> error option db" where
  "caught m s = (case m s of (Inl NotReturning, t) \<Rightarrow> (Inl NotReturning, t) | (Inl e, t) \<Rightarrow> (Inr (Some e), t)
     | (Inr _, t) \<Rightarrow> (Inr None, t))"

definition enter_approval :: "router \<Rightarrow> post_completion \<Rightarrow> run \<Rightarrow> run \<Rightarrow> task \<Rightarrow> bool db" where
  "enter_approval ro pc selected review_run review_task =
     andthen (reading (is_pending_approval selected)) (\<lambda>pending.
     if pending then give True
     else
       andthen (caught (pc_onReadyToShip pc (run_id selected))) (\<lambda>thrown.
       case thrown of None \<Rightarrow> give True
       | Some e \<Rightarrow>
           andthen (rollback_approval_reopen ro selected review_run review_task (ro_errorText ro e)) (\<lambda>_.
           andthen (fail_review_task ro review_run review_task
             (''bakeoff winner failed to enter approval flow: '' @ ro_errorText ro e)) (\<lambda>_.
           andthen (maybe_evaluate ro (task_specId review_task)) (\<lambda>_.
           give False)))))"

definition approve_selection ::
    "router \<Rightarrow> post_completion \<Rightarrow> run \<Rightarrow> task \<Rightarrow> best_of_n \<Rightarrow> task \<Rightarrow> string \<Rightarrow> candidate_run list \<Rightarrow>
      task \<Rightarrow> run \<Rightarrow> bool \<Rightarrow> unit db" where
  "approve_selection ro pc review_run review_task v judged accepted cs selected r over =
     andthen (commit_atomically ro (andthen (create_verdict_once ro review_run v) (\<lambda>_.
       reopen_candidate_for_approval ro r review_run review_task))) (\<lambda>_.
     andthen (enter_approval ro pc r review_run review_task) (\<lambda>entered.
     if \<not> entered then give ()
     else
       andthen (commit_atomically ro (
         andthen (record_outcomes ro (outcome_payload review_run review_task selected judged over v) accepted selected cs) (\<lambda>_.
         complete_review_task ro review_run review_task (''blind review selected '' @ task_name selected)))) (\<lambda>_.
       maybe_evaluate ro (task_specId review_task))))"

definition select_and_approve ::
    "router \<Rightarrow> post_completion \<Rightarrow> run \<Rightarrow> task \<Rightarrow> task list \<Rightarrow> best_of_n \<Rightarrow> task \<Rightarrow> best_policy \<Rightarrow> review_verdict \<Rightarrow> unit db" where
  "select_and_approve ro pc review_run review_task candidates v judged policy verdict =
     andthen (reading (\<lambda>s. terminal_candidates s candidates)) (\<lambda>found.
     case found of Inl why \<Rightarrow> fail_review_task ro review_run review_task why
     | Inr cs \<Rightarrow>
         andthen (guard_or (ro_evidenceRepo ro)
           (RoutingFailed ''bakeoff blind review requires an evidence repository'')) (\<lambda>_.
         andthen (reading (\<lambda>s. select_bakeoff_winner judged v policy cs (can_route_to_approval ro s))) (\<lambda>choice.
         case choice of NotSelected why \<Rightarrow> fail_review_task ro review_run review_task why
         | Selected t r over \<Rightarrow>
             approve_selection ro pc review_run review_task v judged (bakeoff_winner_outcome verdict) cs t r over)))"

definition blind_malformed :: "router \<Rightarrow> post_completion \<Rightarrow> run \<Rightarrow> task \<Rightarrow> review_result \<Rightarrow> winner_resolution \<Rightarrow> unit db" where
  "blind_malformed ro pc review_run review_task parsed w =
     (let feedback = join_strings (newline @ newline) (filter (\<lambda>p. p \<noteq> [])
        [rr_feedback parsed, case wr_reason w of None \<Rightarrow> [] | Some r \<Rightarrow> ''Blind review winner resolution: '' @ r]) in
      andthen (pc_onReviewResult pc (run_id review_run) parsed None) (\<lambda>_.
      route_malformed_review ro review_run review_task feedback))"

text \<open>Why a resolved winner is refused before the candidates are looked at; the winner and the verdict otherwise.\<close>

definition winner_or_refusal :: "winner_resolution \<Rightarrow> strategy_config option \<Rightarrow> string + (task \<times> best_of_n \<times> best_policy)" where
  "winner_or_refusal w config =
     (case wr_task w of
        None \<Rightarrow> Inl (case wr_reason w of None \<Rightarrow> ''blind review did not resolve a winner'' | Some r \<Rightarrow> r)
      | Some t \<Rightarrow>
          (case wr_verdict w of
             None \<Rightarrow> Inl ''blind review did not include structured verdict evidence''
           | Some v \<Rightarrow>
               if task_status t \<noteq> TaskDone then Inl (''structured verdict winner is not done: '' @ task_name t)
               else case config of
                   None \<Rightarrow> Inl ''blind review requires Best-of-N spec policy metadata''
                 | Some c \<Rightarrow>
                     if bn_policy v \<noteq> stc_policy c
                     then Inl (''structured verdict policy mismatch: expected '' @ policy_name (stc_policy c) @ '', got '' @
                       policy_name (bn_policy v))
                     else Inr (t, v, stc_policy c)))"

definition blind_winner ::
    "router \<Rightarrow> post_completion \<Rightarrow> run \<Rightarrow> task \<Rightarrow> task list \<Rightarrow> strategy_config option \<Rightarrow> review_result \<Rightarrow> winner_resolution \<Rightarrow>
      unit db" where
  "blind_winner ro pc review_run review_task candidates config parsed w =
     (case winner_or_refusal w config of Inl why \<Rightarrow> fail_review_task ro review_run review_task why
      | Inr (t, v, policy) \<Rightarrow>
          andthen (pc_onReviewResult pc (run_id review_run) parsed None) (\<lambda>_.
          if rr_verdict parsed = FailVerdict then fail_review_task ro review_run review_task (rr_feedback parsed)
          else select_and_approve ro pc review_run review_task candidates v t policy (rr_verdict parsed)))"

definition evidence_payloads :: "router \<Rightarrow> string \<Rightarrow> store \<Rightarrow> payload list" where
  "evidence_payloads ro i s = (if ro_evidenceRepo ro then map ev_payload (evidence_list s i) else [])"

definition judge_candidates :: "router \<Rightarrow> post_completion \<Rightarrow> run \<Rightarrow> task \<Rightarrow> task list \<Rightarrow> strategy_config option \<Rightarrow> string \<Rightarrow> unit db" where
  "judge_candidates ro pc review_run review_task candidates config text =
     andthen (reading (\<lambda>s. resolve_bakeoff_winner text candidates (evidence_payloads ro (run_id review_run) s))) (\<lambda>w.
     if rr_malformed (parse_review_result text)
     then blind_malformed ro pc review_run review_task (parse_review_result text) w
     else blind_winner ro pc review_run review_task candidates config (parse_review_result text) w)"

definition run_blind_review_completion :: "router \<Rightarrow> run \<Rightarrow> unit db" where
  "run_blind_review_completion ro review_run =
     (case ro_post ro of None \<Rightarrow> give ()
      | Some pc \<Rightarrow>
          andthen (reading (task_get (run_taskId review_run))) (\<lambda>found.
          case found of None \<Rightarrow> give ()
          | Some t \<Rightarrow>
              andthen (reading (spec_get (task_specId t))) (\<lambda>sp.
              if \<not> is_bakeoff_blind_review_task sp t then give ()
              else
                andthen (reading (pc_completionText pc (run_id review_run))) (\<lambda>text.
                case Option.bind (task_strategyGroup t) (\<lambda>g. if trim g = [] then None else Some (trim g)) of
                  None \<Rightarrow> fail_review_task ro review_run t ''blind review requires a strategy group''
                | Some g \<Rightarrow>
                    andthen (reading (bakeoff_candidates sp t g)) (\<lambda>candidates.
                    if length candidates < 2
                    then fail_review_task ro review_run t ''blind review requires at least two bakeoff candidates''
                    else
                      let config = Option.bind sp spec_strategyConfig in
                      if (case config of None \<Rightarrow> False | Some c \<Rightarrow> stc_reviewerAgentId c \<in> set (stc_builderAgentIds c))
                      then fail_review_task ro review_run t ''blind review reviewer agent must differ from every builder agent''
                      else judge_candidates ro pc review_run t candidates config text)))))"

end
