(* ===== verification/Route_Witnesses.thy ===== *)
theory Route_Witnesses
  imports Samples Route_Facts Blind_Review
begin

text \<open>
  The properties of the post-completion routes at concrete inputs: an implementation run and its
  review, with tools and callbacks that do nothing.
\<close>

definition idle_tools :: worktree_tools where
  "idle_tools = \<lparr>wt_exists = (\<lambda>_. False), wt_gitEntry = (\<lambda>_. False), wt_git = (\<lambda>_ _. give (Inr ([], []))),
     wt_shell = (\<lambda>_ _. give (Inr ([], []))),
     wt_autoCommit = (\<lambda>_ _. give \<lparr>ac_dirty = False, ac_committed = False, ac_sha = None, ac_error = None\<rparr>),
     wt_isoNow = (\<lambda>_. [])\<rparr>"

definition idle_post :: "string \<Rightarrow> post_completion" where
  "idle_post text = \<lparr>pc_verifyCommands = (\<lambda>_ _. give []), pc_reviewer = (\<lambda>_ _. None),
     pc_onVerificationResult = (\<lambda>_ _. give ()), pc_onReadyToShip = (\<lambda>_. give ()), pc_completionText = (\<lambda>_ _. text),
     pc_onReviewResult = (\<lambda>_ _ _. give ()), pc_maxFixIterations = None, pc_maxReviewRounds = None, pc_rebaseBase = None\<rparr>"

definition sample_router :: "string \<Rightarrow> router" where
  "sample_router text = \<lparr>ro_config = sample_config, ro_post = Some (idle_post text), ro_evidenceRepo = True,
     ro_liveSession = (\<lambda>_. False), ro_evaluateDag = False, ro_fuel = 10, ro_transaction = True, ro_tools = idle_tools,
     ro_newId = (\<lambda>_. ''new''), ro_redact = id, ro_digest = (\<lambda>_ _. []), ro_projectName = (\<lambda>_. None),
     ro_errorText = (\<lambda>_. []), ro_dash = ''-''\<rparr>"

definition review_run :: run where
  "review_run = (sample_run ''run2'')\<lparr>run_taskId := ''task2'', run_parentRunId := Some ''run1''\<rparr>"

definition review_of_build :: task where
  "review_of_build = (sample_task ''task2'')\<lparr>task_name := ''review-P1-BUILD'', task_requiredRole := Some Reviewer\<rparr>"

definition reviewed_store :: store where
  "reviewed_store = (sample_store [sample_run ''run1'', review_run])\<lparr>st_tasks := [sample_task ''task1'', review_of_build]\<rparr>"

definition failing_review :: string where
  "failing_review = ''{\"kind\":\"ductum-review-result\",\"verdict\":\"fail\",\"summary\":\"bad\",\"findings\":[]}''"

lemma idle_spares:
  "tools_spare family (ro_tools (sample_router text))"
  "ro_post (sample_router text) = Some pc \<Longrightarrow> callbacks_spare family pc"
  by (auto simp: tools_spare_def callbacks_spare_def sample_router_def idle_tools_def idle_post_def intro!: spares_intros)

lemma failing_review_read: "rr_passed (parse_review_result failing_review) = False"
  by code_simp


lemma only_a_passed_review_ships_witness:
  "run_review_completion (with_ship (\<lambda>_. fail NotReturning) (sample_router failing_review)) review_run reviewed_store =
     run_review_completion (sample_router failing_review) review_run reviewed_store"
  by (rule only_a_passed_review_ships) (simp add: sample_router_def idle_post_def failing_review_read)


definition done_task :: "string \<Rightarrow> task" where
  "done_task i = (sample_task i)\<lparr>task_status := TaskDone\<rparr>"

definition priced_candidate :: "string \<Rightarrow> rat \<Rightarrow> task \<times> run" where
  "priced_candidate i cost = (done_task i, (sample_run (i @ ''-run''))\<lparr>run_costUsd := cost\<rparr>)"

definition judged :: best_of_n where
  "judged = \<lparr>bn_winnerTaskId = ''c1'',
     bn_scores = [\<lparr>rs_taskId = ''c1'', rs_passed = True, rs_confidence = None, rs_notes = None\<rparr>,
       \<lparr>rs_taskId = ''c2'', rs_passed = True, rs_confidence = None, rs_notes = None\<rparr>],
     bn_policy = CheapestVerified, bn_reason = ''best''\<rparr>"

lemma selection_follows_policy_witness:
  "(\<exists>r. select_bakeoff_winner (done_task ''c1'') judged CheapestVerified
      [priced_candidate ''c1'' 3, priced_candidate ''c2'' 2] (\<lambda>_. True) = Selected (done_task ''c2'') r True \<and>
    0 < run_costUsd r)"
proof -
  let ?cs = "[priced_candidate ''c1'' 3, priced_candidate ''c2'' 2]"
  have "select_bakeoff_winner (done_task ''c1'') judged CheapestVerified ?cs (\<lambda>_. True) =
      Selected (done_task ''c2'') (snd (priced_candidate ''c2'' 2)) True"
    by code_simp
  with selection_follows_policy [OF this] show ?thesis by simp
qed

text \<open>A stray closing brace before a valid result makes the reader miss it.\<close>

lemma stray_brace_hides_contract:
  "rr_malformed (parse_review_result failing_review) = False"
  "rr_malformed (parse_review_result (''} '' @ failing_review)) = True"
  by code_simp+

end
