(* ===== verification/Model_Registry.thy ===== *)
theory Model_Registry
  imports Ductum_Types Regex "HOL-Library.Char_ord" "HOL-Library.List_Lexorder"
begin

text \<open>
  The model registry (\<open>model-registry.ts\<close>, \<open>model-registry-data.ts\<close>): what each model costs per token, how
  an id an operator wrote finds its entry, and which rates are in force on a day. The list of models is
  the code's, without its texts for readers (\<open>sourceUrl\<close>, \<open>note\<close>, \<open>pricingNote\<close>, \<open>lastVerifiedAt\<close>).
\<close>

datatype model_provider = OpenAi | Anthropic | ZAi

datatype model_availability =
  ApiModel | SubscriptionModel | CodexModel | CodingPlanModel | ResearchPreview | DeprecatedModel

datatype scanner_kind = CodexScanner | ClaudeScanner | NoScanner

record registry_rates =
  ra_input :: rat
  ra_output :: rat
  ra_cachedRead :: "rat option"
  ra_cachedReadUsesInputRate :: bool
  ra_cacheCreation :: "rat option"

record rate_window =
  rw_startsAt :: string
  rw_endsBefore :: "string option"
  rw_rates :: registry_rates

record model_entry =
  me_id :: string
  me_label :: string
  me_providerModelId :: "string option"
  me_provider :: model_provider
  me_availability :: model_availability
  me_supportedHarnesses :: "harness list"
  me_supportedEfforts :: "agent_effort list option"
  me_aliases :: "string list"
  me_defaultCostTier :: rat
  me_promptRejectionThresholdTokens :: "rat option"
  me_scannerKind :: scanner_kind
  me_rates :: "registry_rates option"
  me_rateSchedule :: "rate_window list"

subsection \<open>The list of models\<close>

definition rates :: "rat \<Rightarrow> rat \<Rightarrow> rat option \<Rightarrow> rat option \<Rightarrow> registry_rates" where
  "rates i out cached creation =
     \<lparr>ra_input = i / 1000000, ra_output = out / 1000000, ra_cachedRead = map_option (\<lambda>x. x / 1000000) cached,
      ra_cachedReadUsesInputRate = False, ra_cacheCreation = map_option (\<lambda>x. x / 1000000) creation\<rparr>"

definition rates_with_cached_read_at_input_rate :: "rat \<Rightarrow> rat \<Rightarrow> registry_rates" where
  "rates_with_cached_read_at_input_rate i out =
     \<lparr>ra_input = i / 1000000, ra_output = out / 1000000, ra_cachedRead = None,
      ra_cachedReadUsesInputRate = True, ra_cacheCreation = None\<rparr>"

definition z_ai_measured :: "rat \<Rightarrow> rat \<Rightarrow> rat \<Rightarrow> registry_rates" where
  "z_ai_measured i out cached = rates i out (Some cached) (Some 0)"

definition rates_from :: "string \<Rightarrow> string option \<Rightarrow> registry_rates \<Rightarrow> rate_window" where
  "rates_from starts_at ends_before r = \<lparr>rw_startsAt = starts_at, rw_endsBefore = ends_before, rw_rates = r\<rparr>"

definition seed :: "string \<Rightarrow> string \<Rightarrow> model_provider \<Rightarrow> model_availability \<Rightarrow> harness list \<Rightarrow> agent_effort list option \<Rightarrow>
    string list \<Rightarrow> rat \<Rightarrow> scanner_kind \<Rightarrow> registry_rates option \<Rightarrow> rate_window list \<Rightarrow> model_entry" where
  "seed i label provider availability harnesses efforts aliases tier kind r schedule =
     \<lparr>me_id = i, me_label = label, me_providerModelId = None, me_provider = provider, me_availability = availability,
      me_supportedHarnesses = harnesses, me_supportedEfforts = efforts, me_aliases = aliases, me_defaultCostTier = tier,
      me_promptRejectionThresholdTokens = None, me_scannerKind = kind, me_rates = r, me_rateSchedule = schedule\<rparr>"

text \<open>\<open>String.prototype.includes\<close>.\<close>

fun includes_text :: "string \<Rightarrow> string \<Rightarrow> bool" where
  "includes_text p [] = (p = [])"
| "includes_text p (c # cs) = (starts_with p (c # cs) \<or> includes_text p cs)"

definition default_prompt_rejection_threshold_tokens :: "model_entry \<Rightarrow> rat" where
  "default_prompt_rejection_threshold_tokens m =
     (if me_id m = ''glm-5.2'' \<or> list_ex (\<lambda>a. includes_text ''[1m]'' (lower_case a)) (me_aliases m) then 1000000
      else if me_provider m = ZAi then 128000
      else if me_provider m = Anthropic then 200000
      else if me_id m \<in> set [''gpt-5.5'', ''gpt-5.5-pro'', ''gpt-5.4'', ''gpt-5.4-pro''] then 1050000
      else if me_id m \<in> set [''o3'', ''o3-mini''] then 200000
      else 400000)"

definition model :: "model_entry \<Rightarrow> model_entry" where
  "model m = m\<lparr>me_promptRejectionThresholdTokens :=
     Some (case me_promptRejectionThresholdTokens m of Some n \<Rightarrow> n | None \<Rightarrow> default_prompt_rejection_threshold_tokens m)\<rparr>"

definition openai_efforts :: "agent_effort list" where "openai_efforts = [Low, Medium, High, XHigh]"

definition openai_gpt5_efforts :: "agent_effort list" where "openai_gpt5_efforts = [Minimal, Low, Medium, High]"

definition openai_pro_efforts :: "agent_effort list" where "openai_pro_efforts = [Medium, High, XHigh]"

definition claude_efforts :: "agent_effort list" where "claude_efforts = [Low, Medium, High, XHigh, MaxEffort]"

definition claude_high_max_efforts :: "agent_effort list" where "claude_high_max_efforts = [Low, Medium, High, MaxEffort]"

definition codex_harnesses :: "harness list" where "codex_harnesses = [CodexSdk, CodexAppServer]"

definition claude_harnesses :: "harness list" where "claude_harnesses = [ClaudeAgentSdk]"

definition openai_models :: "model_entry list" where
  "openai_models =
    [model (seed ''gpt-5.5'' ''GPT-5.5'' OpenAi CodexModel codex_harnesses
       (Some openai_efforts) [''openai/gpt-5.5''] 95 CodexScanner
       (Some (rates 5 30 (Some (1 / 2)) None)) []),
     model (seed ''gpt-5.5-pro'' ''GPT-5.5 Pro'' OpenAi ApiModel []
       None [''openai/gpt-5.5-pro''] 100 NoScanner
       (Some (rates_with_cached_read_at_input_rate 30 180)) []),
     model (seed ''gpt-5.4'' ''GPT-5.4'' OpenAi CodexModel codex_harnesses
       (Some openai_efforts) [''openai/gpt-5.4''] 85 CodexScanner
       (Some (rates (5 / 2) 15 (Some (1 / 4)) None)) []),
     model (seed ''gpt-5.4-pro'' ''GPT-5.4 Pro'' OpenAi ApiModel []
       (Some openai_pro_efforts) [''openai/gpt-5.4-pro''] 98 NoScanner
       (Some (rates_with_cached_read_at_input_rate 30 180)) []),
     model (seed ''gpt-5.4-mini'' ''GPT-5.4 mini'' OpenAi CodexModel codex_harnesses
       (Some openai_efforts) [''openai/gpt-5.4-mini''] 55 NoScanner
       (Some (rates (3 / 4) (9 / 2) (Some (3 / 40)) None)) []),
     model (seed ''gpt-5.4-nano'' ''GPT-5.4 nano'' OpenAi ApiModel codex_harnesses
       (Some openai_efforts) [''openai/gpt-5.4-nano''] 25 NoScanner
       (Some (rates (1 / 5) (5 / 4) (Some (1 / 50)) None)) []),
     model (seed ''gpt-5.3-codex'' ''GPT-5.3 Codex'' OpenAi DeprecatedModel codex_harnesses
       (Some openai_efforts) [''openai/gpt-5.3-codex''] 75 CodexScanner
       (Some (rates (7 / 4) 14 (Some (7 / 40)) None)) []),
     model (seed ''gpt-5.3-codex-spark'' ''GPT-5.3 Codex Spark'' OpenAi ResearchPreview codex_harnesses
       (Some openai_efforts) [''openai/gpt-5.3-codex-spark''] 58 CodexScanner
       None []),
     model (seed ''gpt-5.2'' ''GPT-5.2'' OpenAi DeprecatedModel codex_harnesses
       (Some openai_efforts) [''openai/gpt-5.2''] 65 CodexScanner
       (Some (rates (7 / 4) 14 (Some (7 / 40)) None)) []),
     model (seed ''gpt-5.1'' ''GPT-5.1'' OpenAi ApiModel codex_harnesses
       (Some [Low, Medium, High]) [''openai/gpt-5.1''] 62 CodexScanner
       (Some (rates (5 / 4) 10 (Some (1 / 8)) None)) []),
     model (seed ''gpt-5'' ''GPT-5'' OpenAi ApiModel codex_harnesses
       (Some openai_gpt5_efforts) [''openai/gpt-5''] 60 CodexScanner
       (Some (rates (5 / 4) 10 (Some (1 / 8)) None)) []),
     model (seed ''gpt-5-mini'' ''GPT-5 mini'' OpenAi ApiModel codex_harnesses
       (Some openai_gpt5_efforts) [''openai/gpt-5-mini''] 30 CodexScanner
       (Some (rates (1 / 4) 2 (Some (1 / 40)) None)) []),
     model (seed ''gpt-5-nano'' ''GPT-5 nano'' OpenAi ApiModel codex_harnesses
       (Some openai_gpt5_efforts) [''openai/gpt-5-nano''] 15 CodexScanner
       (Some (rates (1 / 20) (2 / 5) (Some (1 / 200)) None)) []),
     model (seed ''o3'' ''o3'' OpenAi ApiModel codex_harnesses
       (Some openai_efforts) [''openai/o3''] 50 CodexScanner
       (Some (rates 2 8 (Some (1 / 2)) None)) []),
     model (seed ''o3-mini'' ''o3-mini'' OpenAi ApiModel codex_harnesses
       (Some openai_efforts) [''openai/o3-mini''] 35 CodexScanner
       (Some (rates (11 / 10) (22 / 5) (Some (11 / 20)) None)) [])]"

definition anthropic_models :: "model_entry list" where
  "anthropic_models =
    [model (seed ''claude-fable-5'' ''Claude Fable 5'' Anthropic DeprecatedModel []
       (Some claude_efforts) [''claude-fable-5''] 96 ClaudeScanner
       (Some (rates 10 50 (Some 1) (Some (25 / 2)))) []),
     model (seed ''claude-opus-4-8'' ''Claude Opus 4.8'' Anthropic SubscriptionModel claude_harnesses
       (Some claude_efforts) [''claude-opus-4.8''] 92 ClaudeScanner
       (Some (rates 5 25 (Some (1 / 2)) (Some (25 / 4)))) []),
     model (seed ''claude-opus-4-7'' ''Claude Opus 4.7'' Anthropic SubscriptionModel claude_harnesses
       (Some claude_efforts) [''claude-opus-4.7''] 90 ClaudeScanner
       (Some (rates 5 25 (Some (1 / 2)) (Some (25 / 4)))) []),
     model (seed ''claude-opus-4-6'' ''Claude Opus 4.6'' Anthropic SubscriptionModel claude_harnesses
       (Some claude_high_max_efforts) [''claude-opus-4.6''] 88 ClaudeScanner
       (Some (rates 5 25 (Some (1 / 2)) (Some (25 / 4)))) []),
     model (seed ''claude-opus-4-5'' ''Claude Opus 4.5'' Anthropic SubscriptionModel claude_harnesses
       None [''claude-opus-4.5''] 86 ClaudeScanner
       (Some (rates 5 25 (Some (1 / 2)) (Some (25 / 4)))) []),
     model (seed ''claude-sonnet-5'' ''Claude Sonnet 5'' Anthropic SubscriptionModel claude_harnesses
       (Some claude_efforts) [''claude-sonnet-5'', ''anthropic/claude-sonnet-5''] 72 ClaudeScanner
       (Some (rates 3 15 (Some (3 / 10)) (Some (15 / 4)))) [rates_from ''2026-07-01'' (Some ''2026-09-01'') (rates 2 10 (Some (1 / 5)) (Some (5 / 2)))]),
     model (seed ''claude-sonnet-4-6'' ''Claude Sonnet 4.6'' Anthropic SubscriptionModel claude_harnesses
       (Some claude_high_max_efforts) [''claude-sonnet-4.6''] 70 ClaudeScanner
       (Some (rates 3 15 (Some (3 / 10)) (Some (15 / 4)))) []),
     model (seed ''claude-sonnet-4-5'' ''Claude Sonnet 4.5'' Anthropic SubscriptionModel claude_harnesses
       None [''claude-sonnet-4.5''] 68 ClaudeScanner
       (Some (rates 3 15 (Some (3 / 10)) (Some (15 / 4)))) []),
     model (seed ''claude-haiku-4-5'' ''Claude Haiku 4.5'' Anthropic SubscriptionModel claude_harnesses
       None [''claude-haiku-4.5''] 32 ClaudeScanner
       (Some (rates 1 5 (Some (1 / 10)) (Some (5 / 4)))) [])]"

definition zai_models :: "model_entry list" where
  "zai_models =
    [model (seed ''glm-5.2'' ''GLM-5.2'' ZAi CodingPlanModel claude_harnesses
       (Some claude_efforts) [''GLM-5.2'', ''glm-5.2[1m]'', ''GLM-5.2[1m]''] 82 ClaudeScanner
       (Some (z_ai_measured (7 / 5) (22 / 5) (13 / 50))) []),
     model (seed ''glm-5.1'' ''GLM-5.1'' ZAi CodingPlanModel claude_harnesses
       None [''GLM-5.1''] 40 ClaudeScanner
       (Some (z_ai_measured (7 / 5) (22 / 5) (13 / 50))) []),
     model (seed ''glm-5-turbo'' ''GLM-5-Turbo'' ZAi CodingPlanModel claude_harnesses
       None [''GLM-5-Turbo''] 34 ClaudeScanner
       (Some (z_ai_measured (6 / 5) 4 (6 / 25))) []),
     model (seed ''glm-4.7'' ''GLM-4.7'' ZAi CodingPlanModel claude_harnesses
       None [''GLM-4.7''] 28 ClaudeScanner
       (Some (z_ai_measured (3 / 5) (11 / 5) (11 / 100))) []),
     model (seed ''glm-4.5-air'' ''GLM-4.5-Air'' ZAi CodingPlanModel claude_harnesses
       None [''GLM-4.5-Air''] 12 ClaudeScanner
       (Some (z_ai_measured (1 / 5) (11 / 10) (3 / 100))) []),
     model (seed ''glm-5'' ''GLM-5'' ZAi ApiModel []
       None [''GLM-5''] 30 NoScanner
       (Some (z_ai_measured 1 (16 / 5) (1 / 5))) []),
     model (seed ''glm-5v-turbo'' ''GLM-5V-Turbo'' ZAi ApiModel []
       None [''GLM-5V-Turbo''] 45 NoScanner
       (Some (z_ai_measured (6 / 5) 4 (6 / 25))) []),
     model (seed ''glm-4.6'' ''GLM-4.6'' ZAi ApiModel []
       None [''GLM-4.6''] 24 NoScanner
       (Some (z_ai_measured (3 / 5) (11 / 5) (11 / 100))) []),
     model (seed ''glm-4.5'' ''GLM-4.5'' ZAi ApiModel []
       None [''GLM-4.5''] 20 NoScanner
       (Some (z_ai_measured (3 / 5) (11 / 5) (11 / 100))) [])]"

definition model_registry :: "model_entry list" where
  "model_registry = openai_models @ anthropic_models @ zai_models"

subsection \<open>Finding an entry\<close>

definition strip_prefix :: "string \<Rightarrow> string \<Rightarrow> string" where
  "strip_prefix p s = (if starts_with p s then drop (length p) s else s)"

definition strip_anthropic :: "string \<Rightarrow> string" where
  "strip_anthropic s =
     (if list_ex (\<lambda>p. starts_with p s) [''anthropic.'', ''anthropic/'', ''anthropic-''] then drop 10 s else s)"

text \<open>The shapes of a date at the end of an id: \<open>d\<close> stands for a digit.\<close>

definition fits_shape :: "string \<Rightarrow> string \<Rightarrow> bool" where
  "fits_shape shape s \<longleftrightarrow> length s = length shape \<and>
     list_all (\<lambda>(p, c). if p = CHR ''d'' then is_digit c else c = p) (zip shape s)"

definition strip_suffix :: "string \<Rightarrow> string \<Rightarrow> string" where
  "strip_suffix shape s =
     (let n = length s - length shape in if fits_shape shape (drop n s) then take n s else s)"

definition normalize_for_lookup :: "string \<Rightarrow> string" where
  "normalize_for_lookup m =
     strip_suffix ''-dddddddd'' (strip_suffix ''-dddd-dd-dd'' (strip_anthropic (strip_prefix ''openai/'' (trim (lower_case m)))))"

definition dots_to_dashes :: "string \<Rightarrow> string" where
  "dots_to_dashes s = map (\<lambda>c. if c = CHR ''.'' then CHR ''-'' else c) s"

definition normalize_id_loose :: "string \<Rightarrow> string" where
  "normalize_id_loose m = dots_to_dashes (normalize_for_lookup m)"

definition entry_keys :: "model_entry \<Rightarrow> string list" where
  "entry_keys m = me_id m # (case me_providerModelId m of None \<Rightarrow> [] | Some p \<Rightarrow> [p]) @ me_aliases m"

text \<open>The first entry that claims a key keeps it.\<close>

definition build_index :: "(string \<Rightarrow> string) \<Rightarrow> model_entry list \<Rightarrow> (string \<times> model_entry) list" where
  "build_index f ms = concat (map (\<lambda>m. map (\<lambda>k. (f k, m)) (entry_keys m)) ms)"

definition exact_index :: "(string \<times> model_entry) list" where
  "exact_index = build_index normalize_for_lookup model_registry"

definition loose_index :: "(string \<times> model_entry) list" where
  "loose_index = build_index normalize_id_loose model_registry"

definition resolve_model_entry :: "string \<Rightarrow> model_entry option" where
  "resolve_model_entry m =
     (if m = [] then None
      else case map_of exact_index (normalize_for_lookup m) of Some e \<Rightarrow> Some e
           | None \<Rightarrow> map_of loose_index (normalize_id_loose m))"

definition provider_model_id_for_entry :: "model_entry \<Rightarrow> string" where
  "provider_model_id_for_entry m = (case me_providerModelId m of Some p \<Rightarrow> p | None \<Rightarrow> me_id m)"

subsection \<open>The rates in force\<close>

text \<open>\<open>toISOString().slice(0, 10)\<close>: the day of an instant, by the proleptic Gregorian calendar.\<close>

definition pad_left :: "nat \<Rightarrow> string \<Rightarrow> string" where
  "pad_left n s = replicate (n - length s) (CHR ''0'') @ s"

definition civil_from_days :: "int \<Rightarrow> int \<times> int \<times> int" where
  "civil_from_days n =
     (let z = n + 719468; era = z div 146097; doe = z mod 146097;
          yoe = (doe - doe div 1460 + doe div 36524 - doe div 146096) div 365;
          doy = doe - (365 * yoe + yoe div 4 - yoe div 100);
          mp = (5 * doy + 2) div 153;
          m = (if mp < 10 then mp + 3 else mp - 9) in
      (yoe + era * 400 + (if m \<le> 2 then 1 else 0), m, doy - (153 * mp + 2) div 5 + 1))"

definition year_text :: "int \<Rightarrow> string" where
  "year_text y = (if 0 \<le> y \<and> y \<le> 9999 then pad_left 4 (show_nat (nat y))
     else (if y < 0 then ''-'' else ''+'') @ pad_left 6 (show_nat (nat \<bar>y\<bar>)))"

definition rate_date_key :: "instant \<Rightarrow> string" where
  "rate_date_key t = (case civil_from_days (t div 86400000) of (y, m, d) \<Rightarrow>
     take 10 (year_text y @ ''-'' @ pad_left 2 (show_nat (nat m)) @ ''-'' @ pad_left 2 (show_nat (nat d))))"

text \<open>\<open>DUCTUM_MODEL_RATE_DATE\<close> names the day when it has the shape of a date; a date that \<open>Date\<close> refuses
  makes \<open>toISOString\<close> throw, None here.\<close>

definition default_rate_date :: "(string \<Rightarrow> instant option) \<Rightarrow> string option \<Rightarrow> instant \<Rightarrow> instant option" where
  "default_rate_date read_date override now =
     (case override of None \<Rightarrow> Some now
      | Some d \<Rightarrow> if fits_shape ''dddd-dd-dd'' d then read_date (d @ ''T00:00:00.000Z'') else Some now)"

definition window_open :: "string \<Rightarrow> rate_window \<Rightarrow> bool" where
  "window_open key w \<longleftrightarrow> rw_startsAt w \<le> key \<and> (case rw_endsBefore w of None \<Rightarrow> True | Some e \<Rightarrow> key < e)"

definition effective_rates_for_entry :: "model_entry \<Rightarrow> instant \<Rightarrow> registry_rates option" where
  "effective_rates_for_entry m at_time =
     (case find (window_open (rate_date_key at_time)) (me_rateSchedule m) of
        Some w \<Rightarrow> Some (rw_rates w) | None \<Rightarrow> me_rates m)"

datatype pricing_state = MeasuredPricing | UnmeasuredPricing

definition pricing_state_for_entry :: "model_entry \<Rightarrow> instant \<Rightarrow> pricing_state" where
  "pricing_state_for_entry m at_time =
     (if effective_rates_for_entry m at_time = None then UnmeasuredPricing else MeasuredPricing)"

datatype cached_read_state = Discounted | NoDiscount | DefaultHeuristic

definition cached_read_pricing_state_for_rates :: "registry_rates \<Rightarrow> cached_read_state" where
  "cached_read_pricing_state_for_rates r =
     (if ra_cachedReadUsesInputRate r then NoDiscount
      else case ra_cachedRead r of Some c \<Rightarrow> if c = ra_input r then NoDiscount else Discounted
           | None \<Rightarrow> DefaultHeuristic)"

definition resolve_cached_read_per_token :: "registry_rates \<Rightarrow> rat" where
  "resolve_cached_read_per_token r =
     (if ra_cachedReadUsesInputRate r then ra_input r
      else case ra_cachedRead r of Some c \<Rightarrow> c | None \<Rightarrow> ra_input r / 10)"

subsection \<open>Lookups are strict\<close>

lemma resolved_key:
  assumes "resolve_model_entry m = Some e"
  shows "m \<noteq> [] \<and> (\<exists>k. e \<in> set model_registry \<and> k \<in> set (entry_keys e) \<and> normalize_id_loose k = normalize_id_loose m)"
proof -
  have ne: "m \<noteq> []" using assms by (auto simp: resolve_model_entry_def)
  have key: "\<exists>k. e \<in> set model_registry \<and> k \<in> set (entry_keys e) \<and> f k = f m"
    if "map_of (build_index f model_registry) (f m) = Some e" for f :: "string \<Rightarrow> string"
    using map_of_SomeD [OF that] by (auto simp: build_index_def)
  show ?thesis
  proof (cases "map_of exact_index (normalize_for_lookup m)")
    case None
    with assms ne have "map_of loose_index (normalize_id_loose m) = Some e" by (simp add: resolve_model_entry_def)
    with ne key show ?thesis by (simp add: loose_index_def)
  next
    case (Some x)
    with assms ne have "map_of exact_index (normalize_for_lookup m) = Some e" by (simp add: resolve_model_entry_def)
    then obtain k where "e \<in> set model_registry" "k \<in> set (entry_keys e)" "normalize_for_lookup k = normalize_for_lookup m"
      using key unfolding exact_index_def by blast
    with ne show ?thesis by (auto simp: normalize_id_loose_def)
  qed
qed

lemma known_key_resolves:
  assumes "m \<noteq> []" "e \<in> set model_registry" "k \<in> set (entry_keys e)" "normalize_id_loose k = normalize_id_loose m"
  shows "\<exists>x. resolve_model_entry m = Some x"
proof -
  have "(normalize_id_loose k, e) \<in> set loose_index"
    using assms(2,3) by (auto simp: loose_index_def build_index_def)
  then have "(normalize_id_loose m, e) \<in> set loose_index" by (simp add: assms(4))
  then have "map_of loose_index (normalize_id_loose m) \<noteq> None"
    by (metis fst_conv imageI map_of_eq_None_iff)
  with assms(1) show ?thesis by (auto simp: resolve_model_entry_def split: option.splits)
qed

text \<open>C40: A model id resolves exactly when it is written like one of the keys of some entry, up to letter
  case, blanks, a provider prefix, a date at the end and dots for dashes; the entry found is one with such a
  key. No id inherits the entry of a longer or shorter name.\<close>

theorem resolution_is_strict:
  "resolve_model_entry m \<in> {None} \<union> {Some e | e k. e \<in> set model_registry \<and> k \<in> set (entry_keys e) \<and>
      normalize_id_loose k = normalize_id_loose m} \<and>
   (\<exists>x. resolve_model_entry m = Some x) = (m \<noteq> [] \<and> (\<exists>e k. e \<in> set model_registry \<and> k \<in> set (entry_keys e) \<and>
      normalize_id_loose k = normalize_id_loose m))"
proof (cases "resolve_model_entry m")
  case None
  then show ?thesis using known_key_resolves [of m] by auto
next
  case (Some e)
  then show ?thesis using resolved_key [OF Some] by auto
qed

subsection \<open>Rates of the registry\<close>

definition sane_rates :: "registry_rates \<Rightarrow> bool" where
  "sane_rates r \<longleftrightarrow> 0 \<le> ra_input r \<and> 0 \<le> ra_output r \<and> 0 \<le> resolve_cached_read_per_token r \<and>
     resolve_cached_read_per_token r \<le> ra_input r \<and> (case ra_cacheCreation r of None \<Rightarrow> True | Some c \<Rightarrow> 0 \<le> c)"

definition sane_entry :: "model_entry \<Rightarrow> bool" where
  "sane_entry m \<longleftrightarrow> (case me_rates m of None \<Rightarrow> True | Some r \<Rightarrow> sane_rates r) \<and>
     list_all (\<lambda>w. sane_rates (rw_rates w)) (me_rateSchedule m)"

lemma sane_model_seed:
  "sane_entry (model (seed i l p a h ef al t k r ws)) \<longleftrightarrow>
     (case r of None \<Rightarrow> True | Some x \<Rightarrow> sane_rates x) \<and> list_all (\<lambda>w. sane_rates (rw_rates w)) ws"
  by (simp add: sane_entry_def model_def seed_def)

lemma sane_rates_rates:
  "sane_rates (rates i out c d) \<longleftrightarrow> 0 \<le> i \<and> 0 \<le> out \<and> (case c of None \<Rightarrow> True | Some x \<Rightarrow> 0 \<le> x \<and> x \<le> i) \<and>
     (case d of None \<Rightarrow> True | Some x \<Rightarrow> 0 \<le> x)"
  by (auto simp: sane_rates_def rates_def resolve_cached_read_per_token_def divide_right_mono zero_le_divide_iff
      divide_le_cancel split: option.splits)

lemma sane_rates_input_rate: "sane_rates (rates_with_cached_read_at_input_rate i out) \<longleftrightarrow> 0 \<le> i \<and> 0 \<le> out"
  by (auto simp: sane_rates_def rates_with_cached_read_at_input_rate_def resolve_cached_read_per_token_def zero_le_divide_iff)

lemmas sane_simps = sane_model_seed sane_rates_rates sane_rates_input_rate z_ai_measured_def rates_from_def

lemma registry_is_sane: "list_all sane_entry model_registry"
  by (simp add: model_registry_def openai_models_def anthropic_models_def zai_models_def sane_simps)

lemma effective_rates_sane:
  assumes "resolve_model_entry m = Some e" "effective_rates_for_entry e t = Some r"
  shows "sane_rates r"
proof -
  have "sane_entry e"
    using resolved_key [OF assms(1)] registry_is_sane by (auto simp: list_all_iff)
  with assms(2) show ?thesis
    by (auto simp: effective_rates_for_entry_def sane_entry_def list_all_iff find_Some_iff split: option.splits)
qed

end
