(* ===== verification/Pricing.thy ===== *)
theory Pricing
  imports Model_Registry Json_Text
begin

text \<open>
  What tokens cost (\<open>model-pricing.ts\<close>): the rates an agent carries, the list prices fetched from
  OpenRouter, and the registry, in that order. The cache of fetched prices is a list of keys and prices in
  the order a \<open>Map\<close> keeps them; the day that selects a rate window is an argument. Prices are dollars for a
  million tokens, input and output. The warnings that are only logged are left out.
\<close>

type_synonym model_pricing = "rat \<times> rat"
type_synonym live_pricing = "(string \<times> model_pricing) list"

definition rates_to_pricing :: "registry_rates \<Rightarrow> model_pricing" where
  "rates_to_pricing r = (ra_input r * 1000000, ra_output r * 1000000)"

definition entry_to_pricing :: "model_entry \<Rightarrow> instant \<Rightarrow> model_pricing option" where
  "entry_to_pricing m day = map_option rates_to_pricing (effective_rates_for_entry m day)"

definition model_pricing_table :: "instant \<Rightarrow> (string \<times> model_pricing) list" where
  "model_pricing_table day = List.map_filter (\<lambda>m. map_option (\<lambda>p. (me_id m, p)) (entry_to_pricing m day)) model_registry"

subsection \<open>Prices fetched\<close>

definition normalize_live_key :: "string \<Rightarrow> string" where
  "normalize_live_key m = dots_to_dashes (lower_case m)"

text \<open>\<open>Map.set\<close>: a key that is there keeps its place.\<close>

fun map_set :: "string \<Rightarrow> 'a \<Rightarrow> (string \<times> 'a) list \<Rightarrow> (string \<times> 'a) list" where
  "map_set k v [] = [(k, v)]"
| "map_set k v ((i, x) # xs) = (if i = k then (k, v) # xs else (i, x) # map_set k v xs)"

text \<open>\<open>key.slice(key.indexOf('/') + 1)\<close> when there is a slash.\<close>

definition after_slash :: "string \<Rightarrow> string option" where
  "after_slash s = (case dropWhile (\<lambda>c. c \<noteq> CHR ''/'') s of [] \<Rightarrow> None | _ # r \<Rightarrow> Some r)"

text \<open>\<open>Number(text)\<close>, None where it is not a finite number.\<close>

definition radix_value :: "nat \<Rightarrow> string \<Rightarrow> rat option" where
  "radix_value b ds =
     (if ds \<noteq> [] \<and> list_all (\<lambda>c. case hex_value c of None \<Rightarrow> False | Some v \<Rightarrow> v < b) ds
      then Some (of_nat (foldl (\<lambda>n c. n * b + the (hex_value c)) 0 ds)) else None)"

definition decimal_value :: "string \<Rightarrow> rat option" where
  "decimal_value s =
     (let whole = takeWhile is_digit s; r = drop (length whole) s; dot = starts_with ''.'' r;
          frac = (if dot then takeWhile is_digit (tl r) else []); u = (if dot then drop (length frac) (tl r) else r) in
      if whole = [] \<and> frac = [] then None
      else case read_exponent (digits_value whole + digits_value frac / 10 ^ length frac, u) of
          Some (n, []) \<Rightarrow> Some n | _ \<Rightarrow> None)"

definition text_to_number :: "string \<Rightarrow> rat option" where
  "text_to_number text =
     (let s = trim text; p = lower_case (take 2 s) in
      if s = [] then Some 0
      else if p = ''0x'' then radix_value 16 (drop 2 s)
      else if p = ''0o'' then radix_value 8 (drop 2 s)
      else if p = ''0b'' then radix_value 2 (drop 2 s)
      else if starts_with ''-'' s then map_option uminus (decimal_value (tl s))
      else decimal_value (if starts_with ''+'' s then tl s else s))"

datatype price_text = PriceNumber rat | PriceText string

definition price_per_token :: "price_text option \<Rightarrow> rat option" where
  "price_per_token p = (case p of None \<Rightarrow> Some 0 | Some (PriceNumber n) \<Rightarrow> Some n | Some (PriceText s) \<Rightarrow> text_to_number s)"

text \<open>One model of the answer, as the type the code casts it to: an id and the two prices, each of which may
  be missing.\<close>

record live_model =
  lm_id :: "string option"
  lm_pricing :: "(price_text option \<times> price_text option) option"

definition add_live_model :: "live_model \<Rightarrow> live_pricing \<times> nat \<Rightarrow> live_pricing \<times> nat" where
  "add_live_model m acc =
     (case (acc, lm_id m, lm_pricing m) of
        ((live, n), Some i, Some (prompt, completion)) \<Rightarrow>
          (case (price_per_token prompt, price_per_token completion) of
             (Some p, Some c) \<Rightarrow>
               if i = [] then (live, n)
               else
                 let price = (p * 1000000, c * 1000000); key = normalize_live_key i; live' = map_set key price live in
                 (case after_slash key of None \<Rightarrow> live' | Some k \<Rightarrow> map_set k price live', n + 1)
           | _ \<Rightarrow> (live, n))
      | _ \<Rightarrow> acc)"

text \<open>The answer of the fetch: an error, a status that is not a success, or the models of its body.\<close>

datatype live_answer = FetchFailed | BadStatus | LiveModels "live_model list"

definition refresh_open_router_pricing :: "live_answer \<Rightarrow> live_pricing \<Rightarrow> nat \<times> live_pricing" where
  "refresh_open_router_pricing answer live =
     (case answer of LiveModels ms \<Rightarrow> (case fold add_live_model ms (live, 0) of (l, n) \<Rightarrow> (n, l))
      | _ \<Rightarrow> (length live, live))"

subsection \<open>Prices looked up\<close>

definition lookup_pricing :: "live_pricing \<Rightarrow> instant \<Rightarrow> string option \<Rightarrow> model_pricing option" where
  "lookup_pricing live day m =
     (case m of None \<Rightarrow> None
      | Some i \<Rightarrow>
          if i = [] then None
          else case map_of live (normalize_live_key i) of Some p \<Rightarrow> Some p
          | None \<Rightarrow>
              (case Option.bind (after_slash (normalize_live_key i)) (map_of live) of Some p \<Rightarrow> Some p
               | None \<Rightarrow> Option.bind (resolve_model_entry i) (\<lambda>e. entry_to_pricing e day)))"

definition token_cost :: "model_pricing \<Rightarrow> rat \<Rightarrow> rat \<Rightarrow> rat" where
  "token_cost p i out = i * fst p / 1000000 + out * snd p / 1000000"

definition compute_cost ::
    "live_pricing \<Rightarrow> instant \<Rightarrow> string option \<Rightarrow> rat \<Rightarrow> rat \<Rightarrow> model_pricing option \<Rightarrow> rat" where
  "compute_cost live day m i out override =
     (if i \<le> 0 \<and> out \<le> 0 then 0
      else case (case override of Some p \<Rightarrow> Some p | None \<Rightarrow> lookup_pricing live day m) of
          None \<Rightarrow> 0 | Some p \<Rightarrow> token_cost p i out)"

datatype unknown_cost = Unpriced | Unmeasured

datatype measured_cost = Measured rat | NotMeasured unknown_cost

definition compute_measured_cost ::
    "live_pricing \<Rightarrow> instant \<Rightarrow> string option \<Rightarrow> rat \<Rightarrow> rat \<Rightarrow> model_pricing option \<Rightarrow> measured_cost" where
  "compute_measured_cost live day m i out override =
     (if i \<le> 0 \<and> out \<le> 0 then NotMeasured Unmeasured
      else case (case override of Some p \<Rightarrow> Some p | None \<Rightarrow> lookup_pricing live day m) of
          None \<Rightarrow> NotMeasured Unpriced | Some p \<Rightarrow> Measured (token_cost p i out))"

definition lookup_scanner_rates :: "instant \<Rightarrow> string option \<Rightarrow> registry_rates option" where
  "lookup_scanner_rates day m =
     (case m of None \<Rightarrow> None
      | Some i \<Rightarrow>
          (case resolve_model_entry i of None \<Rightarrow> None
           | Some e \<Rightarrow> if me_scannerKind e = NoScanner then None else effective_rates_for_entry e day))"

definition cached_cost :: "registry_rates \<Rightarrow> rat \<Rightarrow> rat \<Rightarrow> rat \<Rightarrow> rat \<Rightarrow> rat" where
  "cached_cost r uncached cached creation out =
     uncached * ra_input r + cached * resolve_cached_read_per_token r +
     creation * (case ra_cacheCreation r of Some c \<Rightarrow> c | None \<Rightarrow> ra_input r) + out * ra_output r"

definition compute_cache_aware_cost ::
    "live_pricing \<Rightarrow> instant \<Rightarrow> string option \<Rightarrow> rat \<Rightarrow> rat \<Rightarrow> rat \<Rightarrow> rat \<Rightarrow> model_pricing option \<Rightarrow> rat" where
  "compute_cache_aware_cost live day m i out cached creation override =
     (let gross = max 0 i; o' = max 0 out; c = max 0 (min cached gross); w = max 0 (min creation (gross - c)) in
      if gross = 0 \<and> o' = 0 then 0
      else if override \<noteq> None then compute_cost live day m gross o' override
      else case lookup_scanner_rates day m of
          None \<Rightarrow> compute_cost live day m gross o' None
        | Some r \<Rightarrow>
            if c = 0 \<and> w = 0 then compute_cost live day m gross o' None
            else cached_cost r (max 0 (gross - c - w)) c w o')"

subsection \<open>Costs\<close>

definition fair_price :: "model_pricing option \<Rightarrow> bool" where
  "fair_price p \<longleftrightarrow> (case p of None \<Rightarrow> True | Some (i, out) \<Rightarrow> 0 \<le> i \<and> 0 \<le> out)"

definition fair_live :: "live_pricing \<Rightarrow> bool" where
  "fair_live live \<longleftrightarrow> list_all (\<lambda>(_, i, out). 0 \<le> i \<and> 0 \<le> out) live"

lemma fair_map_of: "fair_live live \<Longrightarrow> fair_price (map_of live k)"
  by (induction live) (auto simp: fair_live_def fair_price_def)

lemma lookup_pricing_fair: "fair_live live \<Longrightarrow> fair_price (lookup_pricing live day m)"
proof (cases "lookup_pricing live day m")
  case (Some p)
  assume fair: "fair_live live"
  from Some obtain i where i: "m = Some i" "i \<noteq> []" by (auto simp: lookup_pricing_def split: option.splits if_splits)
  consider "\<exists>k. map_of live k = Some p"
    | e r where "resolve_model_entry i = Some e" "effective_rates_for_entry e day = Some r" "p = rates_to_pricing r"
    using Some i by (auto simp: lookup_pricing_def entry_to_pricing_def split: option.splits bind_splits)
  then show ?thesis
  proof cases
    case 1
    then show ?thesis using fair_map_of [OF fair] Some by metis
  next
    case 2
    with effective_rates_sane [OF 2(1,2)] Some show ?thesis
      by (simp add: fair_price_def rates_to_pricing_def sane_rates_def)
  qed
qed (simp add: fair_price_def)

lemma token_cost_mono:
  assumes "fair_price (Some p)" "i \<le> j" "x \<le> y"
  shows "token_cost p i x \<le> token_cost p j y"
  using assms by (auto simp: token_cost_def fair_price_def intro!: add_mono divide_right_mono mult_right_mono)

lemma compute_cost_nonneg:
  assumes "fair_live live" "fair_price override" "0 \<le> i" "0 \<le> out"
  shows "0 \<le> compute_cost live day m i out override"
proof -
  have "0 \<le> token_cost p i out" if "fair_price (Some p)" for p
    using token_cost_mono [OF that assms(3,4)] by (simp add: token_cost_def)
  then show ?thesis
    using assms(2) lookup_pricing_fair [OF assms(1), of day m] by (auto simp: compute_cost_def split: option.splits)
qed

text \<open>The cost the run records and the cost with its measurement state agree: the plain cost is the
  measured one, and 0 exactly stands in where the usage or the price is unknown.\<close>

theorem cost_agrees_with_measurement:
  "compute_cost live day m i out override =
     (case compute_measured_cost live day m i out override of Measured usd \<Rightarrow> usd | NotMeasured _ \<Rightarrow> 0)"
  by (simp add: compute_cost_def compute_measured_cost_def split: option.splits)

lemma scanner_rates_sane:
  assumes "lookup_scanner_rates day m = Some r"
  shows "sane_rates r"
proof -
  from assms obtain i e where "resolve_model_entry i = Some e" "effective_rates_for_entry e day = Some r"
    by (auto simp: lookup_scanner_rates_def split: option.splits if_splits)
  then show ?thesis by (rule effective_rates_sane)
qed

text \<open>A cache-aware cost is never negative, whatever the counts reported and whichever of the agent's own
  price, the fetched prices and the registry's cache rates apply, as long as those fetched or set are not.\<close>

theorem cache_aware_cost_bounds:
  assumes "fair_live live" "fair_price override"
  shows "0 \<le> compute_cache_aware_cost live day m i out cached creation override"
proof -
  define g where "g = max 0 i"
  define x where "x = max 0 out"
  define c where "c = max 0 (min cached g)"
  define w where "w = max 0 (min creation (g - c))"
  define u where "u = max 0 (g - c - w)"
  have pos: "0 \<le> g" "0 \<le> x" "0 \<le> c" "0 \<le> w" "0 \<le> u" by (simp_all add: g_def x_def c_def w_def u_def)
  have plain: "0 \<le> compute_cost live day m g x p" if "fair_price p" for p
    using compute_cost_nonneg [OF assms(1) that pos(1,2)] .
  have cached: "0 \<le> cached_cost r u c w x" if "lookup_scanner_rates day m = Some r" for r
    using scanner_rates_sane [OF that] pos
    unfolding cached_cost_def by (auto simp: sane_rates_def intro!: add_nonneg_nonneg mult_nonneg_nonneg split: option.splits)
  have body: "compute_cache_aware_cost live day m i out cached creation override =
      (if g = 0 \<and> x = 0 then 0
       else if override \<noteq> None then compute_cost live day m g x override
       else case lookup_scanner_rates day m of
           None \<Rightarrow> compute_cost live day m g x None
         | Some r \<Rightarrow> if c = 0 \<and> w = 0 then compute_cost live day m g x None else cached_cost r u c w x)"
    unfolding compute_cache_aware_cost_def Let_def g_def x_def c_def w_def u_def ..
  have none: "fair_price None" by (simp add: fair_price_def)
  show ?thesis
    unfolding body using plain [OF assms(2)] plain [OF none] cached
    by (cases "lookup_scanner_rates day m") (simp_all split: if_split)
qed

end
