(* ===== verification/Session_Cost.thy ===== *)
theory Session_Cost
  imports Pricing Agents Router
begin

text \<open>
  What a session that ended adds to its run (\<open>dispatcher-session-cost.ts\<close>). The provider reports absolute
  usage of the session; the run's totals at the session's start are the baseline, and only what the run
  does not hold yet is added. The price is the scanner's when it measured one, else what the harness
  reported, else the price of the tokens. Parameters: the scanner's snapshot of a run, the agent found for
  it, the fetched prices and the day of the rates.
\<close>

subsection \<open>Fenced evidence\<close>

definition evidence_create_fenced ::
    "router \<Rightarrow> string \<Rightarrow> string \<Rightarrow> evidence_type \<Rightarrow> payload \<Rightarrow> nat \<Rightarrow> instant \<Rightarrow> evidence db" where
  "evidence_create_fenced ro i r ty p tok now =
     andthen (run_assert_fence (ro_config ro) r tok now) (\<lambda>_. evidence_create ro i r ty p)"

definition evidence_list_by_run_ids :: "string list \<Rightarrow> store \<Rightarrow> evidence list" where
  "evidence_list_by_run_ids ids s = sort_key (\<lambda>e. case ev_createdAt e of None \<Rightarrow> 0 | Some t \<Rightarrow> t)
     (filter (\<lambda>e. ev_runId e \<in> set ids) (st_evidence s))"

text \<open>A custom payload under a fresh id, fenced when the caller holds a token.\<close>

definition record_custom_fenced :: "router \<Rightarrow> string \<Rightarrow> payload \<Rightarrow> (nat \<times> instant) option \<Rightarrow> unit db" where
  "record_custom_fenced ro r p fw =
     (if \<not> ro_evidenceRepo ro then give ()
      else andthen (reading (ro_newId ro)) (\<lambda>i.
        andthen (case fw of Some (tok, now) \<Rightarrow> evidence_create_fenced ro i r EvCustom p tok now
                 | None \<Rightarrow> evidence_create ro i r EvCustom p) (\<lambda>_. give ())))"

subsection \<open>Usage not recorded yet\<close>

record cost_snapshot =
  cs_inputTokens :: int
  cs_cachedInputTokens :: int
  cs_cacheCreationInputTokens :: int
  cs_outputTokens :: int
  cs_costUsd :: usd
  cs_measured :: bool

text \<open>What an \<open>ActiveDispatchSession\<close> holds that matters here: its agent and the run's totals when it began.\<close>

record session_start =
  ss_agent :: agent
  ss_initialTokensIn :: "int option"
  ss_initialTokensOut :: "int option"
  ss_initialCostUsd :: "usd option"

record cost_deps =
  cd_router :: router
  cd_snapshot :: "string \<Rightarrow> store \<Rightarrow> cost_snapshot option"
  cd_agentOf :: "run \<Rightarrow> store \<Rightarrow> agent option"
  cd_live :: live_pricing
  cd_rateDay :: instant

definition non_negative :: "'a::linordered_idom \<Rightarrow> 'a option" where
  "non_negative x = (if 0 \<le> x then Some x else None)"

definition or_zero :: "'a::linordered_idom option \<Rightarrow> 'a" where
  "or_zero v = (case v of None \<Rightarrow> 0 | Some x \<Rightarrow> x)"

record baseline =
  bl_tokensIn :: int
  bl_tokensOut :: int
  bl_costUsd :: usd

definition session_baseline :: "run \<Rightarrow> session_start option \<Rightarrow> baseline" where
  "session_baseline r active =
     \<lparr>bl_tokensIn = or_value (Option.bind (Option.bind active ss_initialTokensIn) non_negative) (or_zero (non_negative (run_tokensIn r))),
      bl_tokensOut = or_value (Option.bind (Option.bind active ss_initialTokensOut) non_negative) (or_zero (non_negative (run_tokensOut r))),
      bl_costUsd = or_value (Option.bind (Option.bind active ss_initialCostUsd) non_negative) (or_zero (non_negative (run_costUsd r)))\<rparr>"

definition unrecorded_from_absolute :: "'a::linordered_idom \<Rightarrow> 'a \<Rightarrow> 'a \<Rightarrow> 'a" where
  "unrecorded_from_absolute absolute current base =
     (let c = or_zero (non_negative current); b = or_zero (non_negative base); a = or_zero (non_negative absolute);
          already = max 0 (c - b) in
      max 0 (a - already))"

definition should_preserve_live_recorded_cost :: "run \<Rightarrow> baseline \<Rightarrow> int \<Rightarrow> int \<Rightarrow> bool" where
  "should_preserve_live_recorded_cost r b ti to \<longleftrightarrow>
     ti = 0 \<and> to = 0 \<and> or_zero (non_negative (run_costUsd r)) > bl_costUsd b"

subsection \<open>The price of a session\<close>

datatype cost_source = FromScanner | FromRuntime | FromComputed | FromNone

fun cost_source_name :: "cost_source \<Rightarrow> string" where
  "cost_source_name FromScanner = ''scanner''"
| "cost_source_name FromRuntime = ''runtime''"
| "cost_source_name FromComputed = ''computed''"
| "cost_source_name FromNone = ''none''"

definition agent_cost :: "cost_deps \<Rightarrow> agent option \<Rightarrow> int \<Rightarrow> int \<Rightarrow> usd" where
  "agent_cost d a ti to =
     compute_cost (cd_live d) (cd_rateDay d) (map_option ag_model a) (of_int ti) (of_int to) (Option.bind a ag_pricing)"

definition computed_delta :: "run \<Rightarrow> baseline \<Rightarrow> int \<Rightarrow> int \<Rightarrow> usd \<Rightarrow> usd" where
  "computed_delta r b ti to computed =
     (if should_preserve_live_recorded_cost r b ti to then 0
      else unrecorded_from_absolute computed (run_costUsd r) (bl_costUsd b))"

text \<open>\<open>priceScannerSnapshot\<close>, and \<open>priceResultDelta\<close>, which also keeps the delta of the price of the tokens,
  the delta of what the harness reported, and whether that is used.\<close>

record priced =
  pr_tokensIn :: int
  pr_tokensOut :: int
  pr_computedCostUsd :: usd
  pr_storedCostDeltaUsd :: usd
  pr_cumulativeCostUsd :: usd
  pr_source :: cost_source

record priced_result = priced +
  pr_runtimeCostUsd :: "usd option"
  pr_useRuntimeCost :: bool

definition price_result_delta :: "cost_deps \<Rightarrow> run \<Rightarrow> harness_result \<Rightarrow> agent option \<Rightarrow> session_start option \<Rightarrow> priced_result" where
  "price_result_delta d r res a active =
     (let b = session_baseline r active; abs_in = max 0 (hr_tokensIn res); abs_out = max 0 (hr_tokensOut res);
          ti = unrecorded_from_absolute abs_in (run_tokensIn r) (bl_tokensIn b);
          to = unrecorded_from_absolute abs_out (run_tokensOut r) (bl_tokensOut b);
          computed = agent_cost d a abs_in abs_out;
          delta = computed_delta r b ti to computed;
          runtime = non_negative (hr_costUsd res);
          use = (case runtime of None \<Rightarrow> False | Some c \<Rightarrow> c > 0 \<or> hr_costState res = Some ''measured'') in
      if use then
        let rt = unrecorded_from_absolute (hr_costUsd res) (run_costUsd r) (bl_costUsd b) in
        \<lparr>pr_tokensIn = ti, pr_tokensOut = to, pr_computedCostUsd = computed, pr_storedCostDeltaUsd = delta,
         pr_cumulativeCostUsd = run_costUsd r + rt, pr_source = FromRuntime, pr_runtimeCostUsd = Some rt, pr_useRuntimeCost = True\<rparr>
      else
        \<lparr>pr_tokensIn = ti, pr_tokensOut = to, pr_computedCostUsd = computed, pr_storedCostDeltaUsd = delta,
         pr_cumulativeCostUsd = run_costUsd r + delta,
         pr_source = (if ti > 0 \<or> to > 0 \<or> delta > 0 then FromComputed else FromNone),
         pr_runtimeCostUsd = runtime, pr_useRuntimeCost = False\<rparr>)"

definition price_scanner_snapshot :: "cost_deps \<Rightarrow> run \<Rightarrow> cost_snapshot \<Rightarrow> agent option \<Rightarrow> session_start option \<Rightarrow> priced" where
  "price_scanner_snapshot d r snap a active =
     (let b = session_baseline r active;
          abs_in = cs_inputTokens snap + cs_cachedInputTokens snap + cs_cacheCreationInputTokens snap;
          abs_out = cs_outputTokens snap;
          ti = unrecorded_from_absolute abs_in (run_tokensIn r) (bl_tokensIn b);
          to = unrecorded_from_absolute abs_out (run_tokensOut r) (bl_tokensOut b);
          computed = agent_cost d a abs_in abs_out;
          delta = computed_delta r b ti to computed in
      if cs_measured snap then
        let sc = unrecorded_from_absolute (cs_costUsd snap) (run_costUsd r) (bl_costUsd b) in
        \<lparr>pr_tokensIn = ti, pr_tokensOut = to, pr_computedCostUsd = computed, pr_storedCostDeltaUsd = sc,
         pr_cumulativeCostUsd = run_costUsd r + sc, pr_source = FromScanner\<rparr>
      else if ti > 0 \<or> to > 0 \<or> delta > 0 then
        \<lparr>pr_tokensIn = ti, pr_tokensOut = to, pr_computedCostUsd = computed, pr_storedCostDeltaUsd = delta,
         pr_cumulativeCostUsd = run_costUsd r + delta, pr_source = FromComputed\<rparr>
      else
        \<lparr>pr_tokensIn = ti, pr_tokensOut = to, pr_computedCostUsd = computed, pr_storedCostDeltaUsd = 0,
         pr_cumulativeCostUsd = run_costUsd r, pr_source = FromNone\<rparr>)"

text \<open>The agent of the session, or the one found for the run.\<close>

definition session_agent :: "cost_deps \<Rightarrow> run \<Rightarrow> session_start option \<Rightarrow> store \<Rightarrow> agent option" where
  "session_agent d r active s = (case active of Some x \<Rightarrow> Some (ss_agent x) | None \<Rightarrow> cd_agentOf d r s)"

definition resolve_session_cost_for_ceiling ::
    "cost_deps \<Rightarrow> string \<Rightarrow> run \<Rightarrow> harness_result \<Rightarrow> session_start option \<Rightarrow> store \<Rightarrow> usd \<times> cost_source" where
  "resolve_session_cost_for_ceiling d i r res active s =
     (case cd_snapshot d i s of
        Some snap \<Rightarrow> let p = price_scanner_snapshot d r snap (session_agent d r active s) active in
          (pr_cumulativeCostUsd p, pr_source p)
      | None \<Rightarrow> let p = price_result_delta d r res (session_agent d r active s) active in
          (pr_cumulativeCostUsd p, pr_source p))"

subsection \<open>The record\<close>

definition result_json :: "harness_result \<Rightarrow> json" where
  "result_json res = JObj ([(''exitReason'', JStr (exit_reason_name (hr_exitReason res))),
     (''tokensIn'', JNum (of_int (hr_tokensIn res))), (''tokensOut'', JNum (of_int (hr_tokensOut res))),
     (''costUsd'', JNum (hr_costUsd res))] @
     (case hr_costState res of None \<Rightarrow> [] | Some c \<Rightarrow> [(''costState'', JStr c)]) @
     (case hr_turns res of None \<Rightarrow> [] | Some n \<Rightarrow> [(''turns'', JNum (of_nat n))]) @
     (case hr_maxInputTokensInTurn res of None \<Rightarrow> [] | Some n \<Rightarrow> [(''maxInputTokensInTurn'', JNum (of_int n))]) @
     (case hr_failReason res of None \<Rightarrow> [] | Some x \<Rightarrow> [(''failReason'', JStr x)]) @
     (case hr_failureEvidence res of None \<Rightarrow> [] | Some p \<Rightarrow> [(''failureEvidence'', JObj p)]) @
     (case hr_pauseDetail res of None \<Rightarrow> []
      | Some (d, c) \<Rightarrow> [(''pauseDetail'', JObj [(''detail'', JStr d), (''cap'', JNum c)])]))"

definition snapshot_json :: "cost_snapshot \<Rightarrow> json" where
  "snapshot_json x = JObj [(''inputTokens'', JNum (of_int (cs_inputTokens x))),
     (''cachedInputTokens'', JNum (of_int (cs_cachedInputTokens x))),
     (''cacheCreationInputTokens'', JNum (of_int (cs_cacheCreationInputTokens x))),
     (''outputTokens'', JNum (of_int (cs_outputTokens x))), (''costUsd'', JNum (cs_costUsd x)),
     (''measured'', JBool (cs_measured x))]"

definition accounting_payload ::
    "harness_result \<Rightarrow> usd \<Rightarrow> usd \<Rightarrow> int \<Rightarrow> int \<Rightarrow> cost_source \<Rightarrow> cost_snapshot option \<Rightarrow> payload" where
  "accounting_payload res computed stored ti to source snap =
     (let reported = non_negative (hr_costUsd res) in
      [(''kind'', JStr ''attempt.runtime_accounting''), (''schemaVersion'', JNum 1),
       (''source'', JStr (cost_source_name source)), (''result'', result_json res),
       (''runtimeReportedCostUsd'', case reported of None \<Rightarrow> JNull | Some c \<Rightarrow> JNum c),
       (''computedCostUsd'', JNum computed), (''storedCostUsd'', JNum stored),
       (''storedTokensIn'', JNum (of_int ti)), (''storedTokensOut'', JNum (of_int to))] @
      (case snap of None \<Rightarrow> [] | Some x \<Rightarrow> [(''scannerSnapshot'', snapshot_json x)]) @
      (case reported of None \<Rightarrow> []
       | Some c \<Rightarrow>
           if source \<noteq> FromRuntime \<and> hr_costState res = Some ''measured'' \<and> \<bar>c - stored\<bar> > 1 / 1000000
           then [(''mismatch'', JObj [(''kind'', JStr ''db_runtime_cost''), (''runtimeReportedCostUsd'', JNum c),
                  (''storedCostUsd'', JNum stored), (''differenceUsd'', JNum (stored - c))])]
           else []))"

definition record_accounting_evidence :: "cost_deps \<Rightarrow> string \<Rightarrow> payload \<Rightarrow> (nat \<times> instant) option \<Rightarrow> unit db" where
  "record_accounting_evidence d i p fw = record_custom_fenced (cd_router d) i p fw"

text \<open>\<open>updateTokens\<close>, fenced when the caller holds a token.\<close>

definition add_tokens :: "cost_deps \<Rightarrow> string \<Rightarrow> int \<Rightarrow> int \<Rightarrow> usd \<Rightarrow> (nat \<times> instant) option \<Rightarrow> run db" where
  "add_tokens d i ti to cost fw =
     (case fw of Some (tok, now) \<Rightarrow> run_update_tokens_fenced (ro_config (cd_router d)) i ti to cost tok now
      | None \<Rightarrow> run_update_tokens i ti to cost)"

definition record_scanned ::
    "cost_deps \<Rightarrow> string \<Rightarrow> run \<Rightarrow> harness_result \<Rightarrow> cost_snapshot \<Rightarrow> priced \<Rightarrow> (nat \<times> instant) option \<Rightarrow> unit db" where
  "record_scanned d i r res snap p fw =
     (if pr_tokensIn p > 0 \<or> pr_tokensOut p > 0 \<or> pr_storedCostDeltaUsd p > 0 then
        andthen (add_tokens d i (pr_tokensIn p) (pr_tokensOut p) (pr_storedCostDeltaUsd p) fw) (\<lambda>_.
        record_accounting_evidence d i (accounting_payload res (pr_computedCostUsd p)
          (run_costUsd r + pr_storedCostDeltaUsd p) (run_tokensIn r + pr_tokensIn p) (run_tokensOut r + pr_tokensOut p)
          (pr_source p) (Some snap)) fw)
      else
        record_accounting_evidence d i (accounting_payload res (pr_computedCostUsd p) (run_costUsd r)
          (run_tokensIn r) (run_tokensOut r) (pr_source p) (Some snap)) fw)"

definition record_reported ::
    "cost_deps \<Rightarrow> string \<Rightarrow> run \<Rightarrow> harness_result \<Rightarrow> priced_result \<Rightarrow> (nat \<times> instant) option \<Rightarrow> unit db" where
  "record_reported d i r res p fw =
     (let ti = pr_tokensIn p; to = pr_tokensOut p; computed = pr_computedCostUsd p; delta = pr_storedCostDeltaUsd p in
      case (if pr_useRuntimeCost p then pr_runtimeCostUsd p else None) of
        Some rt \<Rightarrow>
          andthen (if ti > 0 \<or> to > 0 \<or> rt > 0 then ignore (add_tokens d i ti to rt fw) else give ()) (\<lambda>_.
          record_accounting_evidence d i (accounting_payload res computed (pr_cumulativeCostUsd p)
            (run_tokensIn r + ti) (run_tokensOut r + to) FromRuntime None) fw)
      | None \<Rightarrow>
          if ti > 0 \<or> to > 0 \<or> delta > 0 then
            andthen (add_tokens d i ti to delta fw) (\<lambda>_.
            record_accounting_evidence d i (accounting_payload res computed (run_costUsd r + delta)
              (run_tokensIn r + ti) (run_tokensOut r + to) FromComputed None) fw)
          else
            record_accounting_evidence d i (accounting_payload res computed (run_costUsd r)
              (run_tokensIn r) (run_tokensOut r) FromNone None) fw)"

definition record_session_cost ::
    "cost_deps \<Rightarrow> string \<Rightarrow> run \<Rightarrow> harness_result \<Rightarrow> session_start option \<Rightarrow> (nat \<times> instant) option \<Rightarrow> unit db" where
  "record_session_cost d i r res active fw =
     andthen (reading (\<lambda>s. (cd_snapshot d i s, session_agent d r active s))) (\<lambda>(snap, a).
     case snap of
       Some x \<Rightarrow> record_scanned d i r res x (price_scanner_snapshot d r x a active) fw
     | None \<Rightarrow> record_reported d i r res (price_result_delta d r res a active) fw)"

end
