(* ===== verification/Cost_Facts.thy ===== *)
theory Cost_Facts
  imports Session_Cost Frame
begin

text \<open>
  What a session adds to its run is counted once: the totals become the larger of what they were and the
  baseline with the session's usage, and the same report recorded again adds nothing.
\<close>

subsection \<open>Usage not recorded yet\<close>

lemma unrecorded_nonneg [simp]: "0 \<le> unrecorded_from_absolute a c b"
  by (simp add: unrecorded_from_absolute_def Let_def)

lemma unrecorded_total:
  assumes "0 \<le> b" "b \<le> c"
  shows "c + unrecorded_from_absolute a c b = max c (b + max 0 a)"
  using assms by (auto simp: unrecorded_from_absolute_def or_zero_def non_negative_def max_def)

lemma unrecorded_again:
  assumes "0 \<le> b" "b \<le> c"
  shows "unrecorded_from_absolute a (c + unrecorded_from_absolute a c b) b = 0"
  unfolding unrecorded_total [OF assms]
  using assms by (auto simp: unrecorded_from_absolute_def or_zero_def non_negative_def max_def)

text \<open>What a session adds to the columns of its run.\<close>

definition session_delta ::
    "cost_deps \<Rightarrow> run \<Rightarrow> harness_result \<Rightarrow> cost_snapshot option \<Rightarrow> agent option \<Rightarrow> session_start option \<Rightarrow> int \<times> int \<times> usd" where
  "session_delta d r res snap a active =
     (case snap of
        Some x \<Rightarrow> let p = price_scanner_snapshot d r x a active in (pr_tokensIn p, pr_tokensOut p, pr_storedCostDeltaUsd p)
      | None \<Rightarrow> let p = price_result_delta d r res a active in
          (pr_tokensIn p, pr_tokensOut p,
           case (if pr_useRuntimeCost p then pr_runtimeCostUsd p else None) of Some c \<Rightarrow> c | None \<Rightarrow> pr_storedCostDeltaUsd p))"

definition absolute_usage :: "harness_result \<Rightarrow> cost_snapshot option \<Rightarrow> int \<times> int" where
  "absolute_usage res snap =
     (case snap of
        Some x \<Rightarrow> (cs_inputTokens x + cs_cachedInputTokens x + cs_cacheCreationInputTokens x, cs_outputTokens x)
      | None \<Rightarrow> (hr_tokensIn res, hr_tokensOut res))"

lemma computed_delta_nonneg [simp]: "0 \<le> computed_delta r b ti to c"
  by (simp add: computed_delta_def)

lemma scanner_price_nonneg [simp]:
  "0 \<le> pr_tokensIn (price_scanner_snapshot d r x a active)" "0 \<le> pr_tokensOut (price_scanner_snapshot d r x a active)"
  "0 \<le> pr_storedCostDeltaUsd (price_scanner_snapshot d r x a active)"
  by (simp_all add: price_scanner_snapshot_def Let_def)

lemma result_price_nonneg [simp]:
  "0 \<le> pr_tokensIn (price_result_delta d r res a active)" "0 \<le> pr_tokensOut (price_result_delta d r res a active)"
  "0 \<le> pr_storedCostDeltaUsd (price_result_delta d r res a active)"
  "0 \<le> (case (if pr_useRuntimeCost (price_result_delta d r res a active)
       then pr_runtimeCostUsd (price_result_delta d r res a active) else None) of
     Some c \<Rightarrow> c | None \<Rightarrow> pr_storedCostDeltaUsd (price_result_delta d r res a active))"
  by (simp_all add: price_result_delta_def Let_def)

lemma session_delta_nonneg:
  assumes "session_delta d r res snap a active = (x, y, z)"
  shows "0 \<le> x" "0 \<le> y" "0 \<le> z"
proof -
  have "0 \<le> fst u \<and> 0 \<le> fst (snd u) \<and> 0 \<le> snd (snd u)" if "u = session_delta d r res snap a active" for u
    unfolding that session_delta_def Let_def by (cases snap) simp_all
  from this [OF assms [symmetric]] show "0 \<le> x" "0 \<le> y" "0 \<le> z" by simp_all
qed

lemma unrecorded_clamped: "unrecorded_from_absolute (max 0 n) c b = unrecorded_from_absolute n c b"
  by (auto simp: unrecorded_from_absolute_def or_zero_def non_negative_def max_def)

lemma session_delta_tokens:
  "fst (session_delta d r res snap a active) =
     unrecorded_from_absolute (fst (absolute_usage res snap)) (run_tokensIn r) (bl_tokensIn (session_baseline r active))"
  "fst (snd (session_delta d r res snap a active)) =
     unrecorded_from_absolute (snd (absolute_usage res snap)) (run_tokensOut r) (bl_tokensOut (session_baseline r active))"
  by (cases snap; simp add: session_delta_def price_scanner_snapshot_def price_result_delta_def absolute_usage_def Let_def
      unrecorded_clamped)+

text \<open>The cost a source reports, and the price of the tokens otherwise; neither depends on the run.\<close>

definition reported_cost :: "harness_result \<Rightarrow> cost_snapshot option \<Rightarrow> usd option" where
  "reported_cost res snap =
     (case snap of
        Some x \<Rightarrow> if cs_measured x then Some (cs_costUsd x) else None
      | None \<Rightarrow> if 0 < hr_costUsd res \<or> (hr_costUsd res = 0 \<and> hr_costState res = Some ''measured'') then Some (hr_costUsd res) else None)"

definition token_price :: "cost_deps \<Rightarrow> agent option \<Rightarrow> harness_result \<Rightarrow> cost_snapshot option \<Rightarrow> usd" where
  "token_price d a res snap =
     (case snap of
        Some x \<Rightarrow> agent_cost d a (fst (absolute_usage res snap)) (snd (absolute_usage res snap))
      | None \<Rightarrow> agent_cost d a (max 0 (hr_tokensIn res)) (max 0 (hr_tokensOut res)))"

lemma session_delta_cost:
  "snd (snd (session_delta d r res snap a active)) =
     (case reported_cost res snap of
        Some c \<Rightarrow> unrecorded_from_absolute c (run_costUsd r) (bl_costUsd (session_baseline r active))
      | None \<Rightarrow> computed_delta r (session_baseline r active) (fst (session_delta d r res snap a active))
          (fst (snd (session_delta d r res snap a active))) (token_price d a res snap))"
proof (cases snap)
  case None
  then show ?thesis
    by (cases "hr_costUsd res > 0"; cases "hr_costUsd res = 0"; cases "hr_costState res = Some ''measured''")
      (simp_all add: session_delta_def price_result_delta_def reported_cost_def token_price_def Let_def non_negative_def)
next
  case (Some x)
  have pos: "computed_delta r b ti to c = 0" if "\<not> computed_delta r b ti to c > 0" for b ti to c
    using that computed_delta_nonneg [of r b ti to c] by linarith
  show ?thesis unfolding Some
    by (cases "cs_measured x")
      (auto simp: session_delta_def price_scanner_snapshot_def reported_cost_def token_price_def absolute_usage_def Let_def
        dest: pos)
qed

definition adds_usage :: "run \<Rightarrow> int \<times> int \<times> usd \<Rightarrow> run \<Rightarrow> bool" where
  "adds_usage r u q \<longleftrightarrow> run_tokensIn q = run_tokensIn r + fst u \<and> run_tokensOut q = run_tokensOut r + fst (snd u) \<and>
     run_costUsd q = run_costUsd r + snd (snd u)"

subsection \<open>What is written\<close>

lemma evidence_spares_runs: "spares st_runs (record_custom_fenced ro i p fw)"
proof -
  have create: "spares st_runs (evidence_create ro j i ty p)" for j ty
    unfolding evidence_create_def by (intro spares_intros spares_modify) simp
  have fence: "spares st_runs (run_assert_fence c i tok now)" for c tok now
    by (rule sparesI) (simp add: outcome_simps)
  show ?thesis
    unfolding record_custom_fenced_def evidence_create_fenced_def by (intro spares_intros create fence)
qed

lemma accounting_runs:
  assumes "record_accounting_evidence d i p fw s = (x, t)"
  shows "run_get i t = run_get i s"
  using spares_result [OF evidence_spares_runs assms [unfolded record_accounting_evidence_def]]
  by (simp add: run_get_def)

lemma add_tokens_adds:
  assumes "add_tokens d i x y z fw s = (Inr q', t)" "run_get i s = Some r"
  shows "\<exists>q. run_get i t = Some q \<and> adds_usage r (x, y, z) q"
proof -
  have plain: "\<exists>q. run_get i t = Some q \<and> adds_usage r (x, y, z) q"
    if "run_update_tokens i x y z u = (Inr q', t)" "run_get i u = Some r" for u
    using that by (auto simp: run_update_tokens_def run_write_eq table_simps adds_usage_def split: option.splits)
  show ?thesis
  proof (cases fw)
    case None
    with assms plain [of s] show ?thesis by (simp add: add_tokens_def)
  next
    case (Some f)
    obtain tok now where f: "f = (tok, now)" by fastforce
    obtain u where u: "run_update_tokens i x y z u = (Inr q', t)" and g: "run_get i u = run_get i s"
      using assms(1) unfolding Some f add_tokens_def run_update_tokens_fenced_def
      by (auto simp: andthen_Inr_iff run_assert_fence_eq table_simps split: if_splits)
    with plain [OF u] assms(2) show ?thesis by simp
  qed
qed

lemma added_and_noted:
  assumes "andthen (add_tokens d i x y z fw) (\<lambda>_. record_accounting_evidence d i p fw) s = (Inr (), t)"
    and "run_get i s = Some r"
  shows "\<exists>q. run_get i t = Some q \<and> adds_usage r (x, y, z) q"
proof -
  obtain q' u where add: "add_tokens d i x y z fw s = (Inr q', u)"
    and noted: "record_accounting_evidence d i p fw u = (Inr (), t)"
    using assms(1) by (auto simp: andthen_Inr_iff)
  show ?thesis using add_tokens_adds [OF add assms(2)] accounting_runs [OF noted] by simp
qed

lemma only_noted:
  assumes "record_accounting_evidence d i p fw s = (Inr (), t)" "run_get i s = Some r"
  shows "\<exists>q. run_get i t = Some q \<and> adds_usage r (0, 0, 0) q"
  using accounting_runs [OF assms(1)] assms(2) by (simp add: adds_usage_def)

lemma andthen_ignore: "andthen (ignore m) (\<lambda>_. k) s = andthen m (\<lambda>_. k) s"
  by (simp add: ignore_def andthen_def give_def split: prod.split sum.split)

lemma scanned_adds:
  assumes "record_scanned d i r res x p fw s = (Inr (), t)" "run_get i s = Some r"
    and "0 \<le> pr_tokensIn p" "0 \<le> pr_tokensOut p" "0 \<le> pr_storedCostDeltaUsd p"
  shows "\<exists>q. run_get i t = Some q \<and> adds_usage r (pr_tokensIn p, pr_tokensOut p, pr_storedCostDeltaUsd p) q"
proof (cases "pr_tokensIn p > 0 \<or> pr_tokensOut p > 0 \<or> pr_storedCostDeltaUsd p > 0")
  case True
  show ?thesis using assms(1) unfolding record_scanned_def if_P [OF True] by (rule added_and_noted [OF _ assms(2)])
next
  case False
  with assms(3-5) have z: "pr_tokensIn p = 0" "pr_tokensOut p = 0" "pr_storedCostDeltaUsd p = 0" by auto
  have "\<exists>q. run_get i t = Some q \<and> adds_usage r (0, 0, 0) q"
    using assms(1) unfolding record_scanned_def if_not_P [OF False] by (rule only_noted [OF _ assms(2)])
  then show ?thesis by (simp add: z)
qed

lemma reported_adds:
  assumes "record_reported d i r res p fw s = (Inr (), t)" "run_get i s = Some r"
    and c: "c = (if pr_useRuntimeCost p then pr_runtimeCostUsd p else None)"
    and z: "z = (case c of Some c \<Rightarrow> c | None \<Rightarrow> pr_storedCostDeltaUsd p)"
    and "0 \<le> pr_tokensIn p" "0 \<le> pr_tokensOut p" "0 \<le> z"
  shows "\<exists>q. run_get i t = Some q \<and> adds_usage r (pr_tokensIn p, pr_tokensOut p, z) q"
proof (cases "pr_tokensIn p > 0 \<or> pr_tokensOut p > 0 \<or> z > 0")
  case True
  show ?thesis
  proof (cases c)
    case None
    then have v: "z = pr_storedCostDeltaUsd p" by (simp add: z)
    show ?thesis using assms(1)
      unfolding record_reported_def Let_def c [symmetric] None option.case if_P [OF True [unfolded v]] v
      by (rule added_and_noted [OF _ assms(2)])
  next
    case (Some w)
    then have v: "z = w" by (simp add: z)
    show ?thesis using assms(1)
      unfolding record_reported_def Let_def c [symmetric] Some option.case if_P [OF True [unfolded v]] v andthen_ignore
      by (rule added_and_noted [OF _ assms(2)])
  qed
next
  case False
  with assms(5-7) have zero: "pr_tokensIn p = 0" "pr_tokensOut p = 0" "z = 0" by auto
  have "\<exists>q. run_get i t = Some q \<and> adds_usage r (0, 0, 0) q"
  proof (cases c)
    case None
    then have v: "z = pr_storedCostDeltaUsd p" by (simp add: z)
    show ?thesis using assms(1)
      unfolding record_reported_def Let_def c [symmetric] None option.case if_not_P [OF False [unfolded v]]
      by (rule only_noted [OF _ assms(2)])
  next
    case (Some w)
    then have v: "z = w" by (simp add: z)
    show ?thesis using assms(1)
      unfolding record_reported_def Let_def c [symmetric] Some option.case if_not_P [OF False [unfolded v]] andthen_give
      by (rule only_noted [OF _ assms(2)])
  qed
  then show ?thesis by (simp add: zero)
qed

lemma recorded_usage:
  assumes "record_session_cost d i r res active fw s = (Inr (), t)" "run_get i s = Some r"
  shows "\<exists>q. run_get i t = Some q \<and>
    adds_usage r (session_delta d r res (cd_snapshot d i s) (session_agent d r active s) active) q"
proof (cases "cd_snapshot d i s")
  case (Some x)
  define p where "p = price_scanner_snapshot d r x (session_agent d r active s) active"
  have u: "session_delta d r res (cd_snapshot d i s) (session_agent d r active s) active =
      (pr_tokensIn p, pr_tokensOut p, pr_storedCostDeltaUsd p)"
    unfolding p_def by (simp add: session_delta_def Some Let_def)
  have rec: "record_scanned d i r res x p fw s = (Inr (), t)"
    using assms(1) unfolding p_def by (simp add: record_session_cost_def andthen_reading Some)
  show ?thesis unfolding u by (rule scanned_adds [OF rec assms(2) session_delta_nonneg [OF u]])
next
  case None
  define p where "p = price_result_delta d r res (session_agent d r active s) active"
  define c where "c = (if pr_useRuntimeCost p then pr_runtimeCostUsd p else None)"
  define z where "z = (case c of Some c \<Rightarrow> c | None \<Rightarrow> pr_storedCostDeltaUsd p)"
  have u: "session_delta d r res (cd_snapshot d i s) (session_agent d r active s) active =
      (pr_tokensIn p, pr_tokensOut p, z)"
    unfolding z_def c_def p_def by (simp add: session_delta_def None Let_def)
  have rec: "record_reported d i r res p fw s = (Inr (), t)"
    using assms(1) unfolding p_def by (simp add: record_session_cost_def andthen_reading None)
  show ?thesis unfolding u by (rule reported_adds [OF rec assms(2) c_def z_def session_delta_nonneg [OF u]])
qed

subsection \<open>Counted once\<close>

text \<open>The session's start is known and the run's totals have not gone below it.\<close>

definition started_within :: "run \<Rightarrow> session_start \<Rightarrow> int \<Rightarrow> int \<Rightarrow> usd \<Rightarrow> bool" where
  "started_within r x b1 b2 b3 \<longleftrightarrow>
     ss_initialTokensIn x = Some b1 \<and> 0 \<le> b1 \<and> b1 \<le> run_tokensIn r \<and>
     ss_initialTokensOut x = Some b2 \<and> 0 \<le> b2 \<and> b2 \<le> run_tokensOut r \<and>
     ss_initialCostUsd x = Some b3 \<and> 0 \<le> b3 \<and> b3 \<le> run_costUsd r"

lemma started_baseline:
  assumes "started_within r x b1 b2 b3"
  shows "session_baseline r (Some x) = \<lparr>bl_tokensIn = b1, bl_tokensOut = b2, bl_costUsd = b3\<rparr>"
  using assms by (simp add: started_within_def session_baseline_def or_value_def non_negative_def)

lemma started_later:
  assumes "started_within r x b1 b2 b3" "adds_usage r u q" "0 \<le> fst u" "0 \<le> fst (snd u)" "0 \<le> snd (snd u)"
  shows "started_within q x b1 b2 b3"
  using assms by (simp add: started_within_def adds_usage_def)

text \<open>The cost delta the second time, whichever way the session is priced.\<close>

lemma computed_delta_again:
  assumes "0 \<le> bl_costUsd b" "bl_costUsd b \<le> run_costUsd r" "run_costUsd q = run_costUsd r + computed_delta r b ti to c"
  shows "computed_delta q b 0 0 c = 0"
proof (cases "run_costUsd q > bl_costUsd b")
  case True
  with assms show ?thesis
    by (simp add: computed_delta_def should_preserve_live_recorded_cost_def or_zero_def non_negative_def)
next
  case False
  with assms computed_delta_nonneg [of r b ti to c] have e: "run_costUsd r = bl_costUsd b" "run_costUsd q = bl_costUsd b"
    "computed_delta r b ti to c = 0" by linarith+
  then have "unrecorded_from_absolute c (run_costUsd r) (bl_costUsd b) = 0"
    using assms(1) by (simp add: computed_delta_def should_preserve_live_recorded_cost_def or_zero_def non_negative_def split: if_splits)
  with e show ?thesis by (simp add: computed_delta_def)
qed

lemma session_delta_again:
  assumes "started_within r x b1 b2 b3" "adds_usage r (session_delta d r res snap a (Some x)) q"
  shows "session_delta d q res snap a (Some x) = (0, 0, 0)"
proof -
  let ?u = "session_delta d r res snap a (Some x)"
  have nn: "0 \<le> fst ?u" "0 \<le> fst (snd ?u)" "0 \<le> snd (snd ?u)"
    using session_delta_nonneg [of d r res snap a "Some x"] by (metis prod.collapse)+
  note start = assms(1) started_later [OF assms(1,2) nn]
  note base = started_baseline [OF start(1)] started_baseline [OF start(2)]
  have first: "run_tokensIn q = run_tokensIn r + fst ?u" "run_tokensOut q = run_tokensOut r + fst (snd ?u)"
    "run_costUsd q = run_costUsd r + snd (snd ?u)"
    using assms(2) by (simp_all add: adds_usage_def)
  have within: "0 \<le> b1" "b1 \<le> run_tokensIn r" "0 \<le> b2" "b2 \<le> run_tokensOut r" "0 \<le> b3" "b3 \<le> run_costUsd r"
    using assms(1) by (simp_all add: started_within_def)
  have tokens: "fst (session_delta d q res snap a (Some x)) = 0" "fst (snd (session_delta d q res snap a (Some x))) = 0"
    unfolding session_delta_tokens first base by (simp_all add: unrecorded_again within)
  have "snd (snd (session_delta d q res snap a (Some x))) = 0"
  proof (cases "reported_cost res snap")
    case None
    show ?thesis
      unfolding session_delta_cost tokens None option.case base
      by (rule computed_delta_again [where r = r]) (simp_all add: within first session_delta_cost None base)
  next
    case (Some c)
    show ?thesis unfolding session_delta_cost Some option.case first(3) base by (simp add: unrecorded_again within)
  qed
  with tokens show ?thesis by (metis prod.collapse)
qed

lemma recorded_total:
  assumes "record_session_cost d i r res (Some x) fw s = (Inr (), t)" "run_get i s = Some r"
    and "started_within r x b1 b2 b3"
  shows "\<exists>q. run_get i t = Some q \<and>
    run_tokensIn q = max (run_tokensIn r) (b1 + max 0 (fst (absolute_usage res (cd_snapshot d i s)))) \<and>
    run_tokensOut q = max (run_tokensOut r) (b2 + max 0 (snd (absolute_usage res (cd_snapshot d i s)))) \<and>
    run_costUsd r \<le> run_costUsd q"
proof -
  obtain q where q: "run_get i t = Some q"
    and u: "adds_usage r (session_delta d r res (cd_snapshot d i s) (session_agent d r (Some x) s) (Some x)) q"
    using recorded_usage [OF assms(1,2)] by blast
  have "0 \<le> snd (snd (session_delta d r res (cd_snapshot d i s) (session_agent d r (Some x) s) (Some x)))"
    using session_delta_nonneg(3) by (metis prod.collapse)
  with u q assms(3) show ?thesis
    by (simp add: adds_usage_def session_delta_tokens started_baseline [OF assms(3)] unrecorded_total started_within_def)
qed


end
