(* ===== verification/Ceilings.thy ===== *)
theory Ceilings
  imports Session_Cost
begin

text \<open>
  The ceilings of one attempt (\<open>attempt-resource-ceilings.ts\<close>): input tokens in a turn, cumulative cost and
  turns. A result that exceeds one becomes a pause by policy, with the hit kept as evidence. Number
  printing is a parameter; dollars are printed with four digits.
\<close>

subsection \<open>Settings\<close>

text \<open>A key that is not there, or one that is, with a number or with null.\<close>

datatype ceiling_setting = NotGiven | Given "rat option"

record ceiling_settings =
  ce_enabled :: "bool option"
  ce_maxInputTokensPerTurn :: ceiling_setting
  ce_maxCumulativeCostUsd :: ceiling_setting
  ce_maxTurns :: ceiling_setting

record ceilings =
  ci_maxInputTokensPerTurn :: "rat option"
  ci_maxCumulativeCostUsd :: "rat option"
  ci_maxTurns :: "rat option"

datatype ceiling_key = MaxInputTokensPerTurn | MaxCumulativeCostUsd | MaxTurns

fun ceiling_key_name :: "ceiling_key \<Rightarrow> string" where
  "ceiling_key_name MaxInputTokensPerTurn = ''maxInputTokensPerTurn''"
| "ceiling_key_name MaxCumulativeCostUsd = ''maxCumulativeCostUsd''"
| "ceiling_key_name MaxTurns = ''maxTurns''"

fun setting_of :: "ceiling_settings \<Rightarrow> ceiling_key \<Rightarrow> ceiling_setting" where
  "setting_of x MaxInputTokensPerTurn = ce_maxInputTokensPerTurn x"
| "setting_of x MaxCumulativeCostUsd = ce_maxCumulativeCostUsd x"
| "setting_of x MaxTurns = ce_maxTurns x"

fun default_ceiling :: "ceiling_key \<Rightarrow> rat" where
  "default_ceiling MaxInputTokensPerTurn = 2000000"
| "default_ceiling MaxCumulativeCostUsd = 100"
| "default_ceiling MaxTurns = 200"

definition model_prompt_rejection_threshold_tokens :: "string option \<Rightarrow> rat option" where
  "model_prompt_rejection_threshold_tokens m =
     Option.bind (Option.bind m resolve_model_entry) me_promptRejectionThresholdTokens"

definition default_max_input_tokens_per_turn_for_model :: "string option \<Rightarrow> rat" where
  "default_max_input_tokens_per_turn_for_model m =
     (case model_prompt_rejection_threshold_tokens m of
        None \<Rightarrow> default_ceiling MaxInputTokensPerTurn
      | Some n \<Rightarrow> max 1 (of_int \<lfloor>n * (9 / 10)\<rfloor>))"

definition positive_value :: "rat option \<Rightarrow> rat option" where
  "positive_value v = (case v of None \<Rightarrow> None | Some n \<Rightarrow> if n > 0 then Some n else None)"

definition normalize_ceiling_value :: "ceiling_settings \<Rightarrow> ceiling_key \<Rightarrow> string option \<Rightarrow> rat option" where
  "normalize_ceiling_value x k m =
     (case setting_of x k of
        Given v \<Rightarrow> positive_value v
      | NotGiven \<Rightarrow> if k = MaxInputTokensPerTurn then Some (default_max_input_tokens_per_turn_for_model m)
          else Some (default_ceiling k))"

definition normalize_attempt_resource_ceilings :: "ceiling_settings option \<Rightarrow> string option \<Rightarrow> ceilings option" where
  "normalize_attempt_resource_ceilings inp m =
     (case inp of None \<Rightarrow> None
      | Some x \<Rightarrow>
          if ce_enabled x = Some False then None
          else
            let c = \<lparr>ci_maxInputTokensPerTurn = normalize_ceiling_value x MaxInputTokensPerTurn m,
                     ci_maxCumulativeCostUsd = normalize_ceiling_value x MaxCumulativeCostUsd m,
                     ci_maxTurns = normalize_ceiling_value x MaxTurns m\<rparr> in
            if ci_maxInputTokensPerTurn c \<noteq> None \<or> ci_maxCumulativeCostUsd c \<noteq> None \<or> ci_maxTurns c \<noteq> None
            then Some c else None)"

definition resolve_attempt_resource_ceilings :: "ceiling_settings option \<Rightarrow> string option \<Rightarrow> ceilings option" where
  "resolve_attempt_resource_ceilings inp m =
     (if inp = None then
        Some \<lparr>ci_maxInputTokensPerTurn = Some (default_max_input_tokens_per_turn_for_model m),
              ci_maxCumulativeCostUsd = Some (default_ceiling MaxCumulativeCostUsd),
              ci_maxTurns = Some (default_ceiling MaxTurns)\<rparr>
      else normalize_attempt_resource_ceilings inp m)"

datatype ceiling_source = DefaultCeilings | ConfiguredCeilings | DisabledCeilings

definition describe_attempt_resource_ceilings ::
    "ceiling_settings option \<Rightarrow> string option \<Rightarrow> bool \<times> ceiling_source \<times> ceilings" where
  "describe_attempt_resource_ceilings inp m =
     (case resolve_attempt_resource_ceilings inp m of
        None \<Rightarrow> (False, DisabledCeilings,
          \<lparr>ci_maxInputTokensPerTurn = None, ci_maxCumulativeCostUsd = None, ci_maxTurns = None\<rparr>)
      | Some c \<Rightarrow> (True, if inp = None then DefaultCeilings else ConfiguredCeilings, c))"

definition effective_attempt_ceilings_for_task ::
    "ceiling_settings option \<Rightarrow> task option \<Rightarrow> string option \<Rightarrow> ceiling_settings" where
  "effective_attempt_ceilings_for_task inp t m =
     (case resolve_attempt_resource_ceilings inp m of
        None \<Rightarrow> \<lparr>ce_enabled = Some False, ce_maxInputTokensPerTurn = NotGiven, ce_maxCumulativeCostUsd = NotGiven,
                 ce_maxTurns = NotGiven\<rparr>
      | Some c \<Rightarrow>
          \<lparr>ce_enabled = None, ce_maxInputTokensPerTurn = Given (ci_maxInputTokensPerTurn c),
           ce_maxCumulativeCostUsd = Given (map_option
             (\<lambda>n. n + max 0 (case t of None \<Rightarrow> 0 | Some x \<Rightarrow> task_budgetExtraUsd x)) (ci_maxCumulativeCostUsd c)),
           ce_maxTurns = Given (map_option
             (\<lambda>n. n + max 0 (case t of None \<Rightarrow> 0 | Some x \<Rightarrow> of_int (task_turnExtraCount x))) (ci_maxTurns c))\<rparr>)"

definition remaining_ceiling_budget :: "rat option \<Rightarrow> rat option \<Rightarrow> rat option" where
  "remaining_ceiling_budget limit spent =
     map_option (\<lambda>c. max 0 (c - or_zero (Option.bind spent non_negative))) limit"

record spawn_limits =
  sl_maxTurns :: "rat option"
  sl_maxBudgetUsd :: "rat option"
  sl_maxInputTokensPerTurn :: "rat option"

fun given_value :: "ceiling_setting \<Rightarrow> rat option" where
  "given_value NotGiven = None"
| "given_value (Given v) = v"

definition attempt_ceiling_spawn_options ::
    "ceiling_settings option \<Rightarrow> task option \<Rightarrow> rat option \<Rightarrow> string option \<Rightarrow> spawn_limits" where
  "attempt_ceiling_spawn_options inp t spent m =
     (let c = effective_attempt_ceilings_for_task inp t m in
      \<lparr>sl_maxTurns = given_value (ce_maxTurns c),
       sl_maxBudgetUsd = remaining_ceiling_budget (given_value (ce_maxCumulativeCostUsd c)) spent,
       sl_maxInputTokensPerTurn = given_value (ce_maxInputTokensPerTurn c)\<rparr>)"

subsection \<open>Hits\<close>

record ceiling_telemetry =
  te_tokensIn :: int
  te_tokensOut :: int
  te_costUsd :: usd
  te_turns :: "rat option"
  te_maxInputTokensInTurn :: "rat option"
  te_failReason :: "string option"

record ceiling_hit =
  hit_ceiling :: ceiling_key
  hit_observed :: rat
  hit_cap :: rat
  hit_originalExitReason :: exit_reason
  hit_nextExitReason :: exit_reason
  hit_detail :: string
  hit_observedTelemetry :: ceiling_telemetry

definition overflow_reason_pattern :: rx where
  "overflow_reason_pattern = rx ''prompt[_ -]?overflow''"

definition overflow_text_pattern :: rx where
  "overflow_text_pattern = rx ''prompt[_ -]?overflow|prompt is too long''"

text \<open>A text anywhere in the evidence, four levels deep: the first argument is the number of levels left.\<close>

fun prompt_overflow_evidence_value :: "nat \<Rightarrow> json \<Rightarrow> bool" where
  "prompt_overflow_evidence_value 0 v = False"
| "prompt_overflow_evidence_value (Suc n) (JStr s) = test fl_ci overflow_text_pattern s"
| "prompt_overflow_evidence_value (Suc n) (JArr vs) = list_ex (prompt_overflow_evidence_value n) vs"
| "prompt_overflow_evidence_value (Suc n) (JObj fs) = list_ex (\<lambda>(_, v). prompt_overflow_evidence_value n v) fs"
| "prompt_overflow_evidence_value (Suc n) v = False"

definition provider_prompt_overflow :: "harness_result \<Rightarrow> bool" where
  "provider_prompt_overflow res \<longleftrightarrow> hr_exitReason res = HarnessFailed \<and>
     (test fl_ci overflow_reason_pattern (case hr_failReason res of None \<Rightarrow> [] | Some x \<Rightarrow> x) \<or>
      (case hr_failureEvidence res of None \<Rightarrow> False | Some p \<Rightarrow> prompt_overflow_evidence_value 5 (JObj p)))"

definition turn_input :: "harness_result \<Rightarrow> rat option" where
  "turn_input res = Option.bind (map_option of_int (hr_maxInputTokensInTurn res)) non_negative"

definition reliable_turn_input :: "harness_result \<Rightarrow> string option \<Rightarrow> rat option" where
  "reliable_turn_input res harness = (if harness = Some ''codex-app-server'' then None else turn_input res)"

definition ceiling_telemetry_of :: "harness_result \<Rightarrow> ceiling_telemetry" where
  "ceiling_telemetry_of res =
     \<lparr>te_tokensIn = hr_tokensIn res, te_tokensOut = hr_tokensOut res, te_costUsd = hr_costUsd res,
      te_turns = map_option of_nat (hr_turns res), te_maxInputTokensInTurn = turn_input res, te_failReason = hr_failReason res\<rparr>"

text \<open>\<open>toFixed(4)\<close>: the nearest multiple of a ten-thousandth, the larger of two.\<close>

definition format_usd :: "rat \<Rightarrow> string" where
  "format_usd v =
     (let n = nat \<lfloor>\<bar>v\<bar> * 10000 + 1 / 2\<rfloor> in
      ''$'' @ (if v < 0 then ''-'' else []) @ show_nat (n div 10000) @ ''.'' @ pad_left 4 (show_nat (n mod 10000)))"

fun format_ceiling_detail :: "(rat \<Rightarrow> string) \<Rightarrow> ceiling_key \<Rightarrow> rat \<Rightarrow> rat \<Rightarrow> string" where
  "format_ceiling_detail num MaxCumulativeCostUsd observed cap =
     ''attempt cumulative cost '' @ format_usd observed @ '' exceeded cap '' @ format_usd cap"
| "format_ceiling_detail num MaxTurns observed cap = ''attempt turns '' @ num observed @ '' exceeded cap '' @ num cap"
| "format_ceiling_detail num MaxInputTokensPerTurn observed cap =
     ''attempt input tokens per turn '' @ num observed @ '' exceeded cap '' @ num cap"

definition build_ceiling_hit ::
    "(rat \<Rightarrow> string) \<Rightarrow> ceiling_key \<Rightarrow> rat \<Rightarrow> rat \<Rightarrow> harness_result \<Rightarrow> exit_reason \<Rightarrow> ceiling_hit" where
  "build_ceiling_hit num k observed cap res next_reason =
     \<lparr>hit_ceiling = k, hit_observed = observed, hit_cap = cap, hit_originalExitReason = hr_exitReason res,
      hit_nextExitReason = next_reason, hit_detail = format_ceiling_detail num k observed cap,
      hit_observedTelemetry = ceiling_telemetry_of res\<rparr>"

definition to_policy_pause :: "harness_result \<Rightarrow> ceiling_hit \<Rightarrow> harness_result" where
  "to_policy_pause res h =
     res\<lparr>hr_exitReason := hit_nextExitReason h, hr_failReason := Some (ceiling_key_name (hit_ceiling h)),
         hr_failureEvidence := Some (fold (\<lambda>(k, v). put_field k v)
           [(''category'', JStr ''policy''), (''ceiling'', JStr (ceiling_key_name (hit_ceiling h))),
            (''observed'', JNum (hit_observed h)), (''cap'', JNum (hit_cap h))]
           (case hr_failureEvidence res of None \<Rightarrow> [] | Some p \<Rightarrow> p)),
         hr_pauseDetail := Some (hit_detail h, hit_cap h)\<rparr>"

definition cost_observed :: "harness_result \<Rightarrow> rat option \<Rightarrow> rat option" where
  "cost_observed res cumulative =
     (case Option.bind cumulative non_negative of Some c \<Rightarrow> Some c | None \<Rightarrow> non_negative (hr_costUsd res))"

definition ceiling_checks ::
    "harness_result \<Rightarrow> ceilings \<Rightarrow> rat option \<Rightarrow> string option \<Rightarrow> (ceiling_key \<times> rat option \<times> rat option \<times> exit_reason) list" where
  "ceiling_checks res c cumulative harness =
     [(MaxInputTokensPerTurn, reliable_turn_input res harness, ci_maxInputTokensPerTurn c, PausedMaxTurns),
      (MaxCumulativeCostUsd, cost_observed res cumulative, ci_maxCumulativeCostUsd c, PausedCostBudget),
      (MaxTurns, map_option of_nat (hr_turns res), ci_maxTurns c, PausedMaxTurns)]"

definition exceeds :: "rat option \<Rightarrow> rat option \<Rightarrow> bool" where
  "exceeds observed cap = (case (observed, cap) of (Some n, Some c) \<Rightarrow> n > c | _ \<Rightarrow> False)"

definition apply_attempt_resource_ceilings ::
    "(rat \<Rightarrow> string) \<Rightarrow> harness_result \<Rightarrow> ceiling_settings option \<Rightarrow> rat option \<Rightarrow> string option \<Rightarrow> string option \<Rightarrow>
      harness_result \<times> ceiling_hit option" where
  "apply_attempt_resource_ceilings num res inp cumulative m harness =
     (case resolve_attempt_resource_ceilings inp m of
        None \<Rightarrow> (res, None)
      | Some c \<Rightarrow>
          (case (if provider_prompt_overflow res then ci_maxInputTokensPerTurn c else None) of
             Some cap \<Rightarrow>
               let h = build_ceiling_hit num MaxInputTokensPerTurn
                   (max (or_zero (reliable_turn_input res harness)) (cap + 1)) cap res PausedMaxTurns in
               (to_policy_pause res h, Some h)
           | None \<Rightarrow>
               (case find (\<lambda>(_, observed, cap, _). exceeds observed cap) (ceiling_checks res c cumulative harness) of
                  Some (k, Some observed, Some cap, next_reason) \<Rightarrow>
                    let h = build_ceiling_hit num k observed cap res next_reason in (to_policy_pause res h, Some h)
                | _ \<Rightarrow> (res, None))))"

definition telemetry_json :: "ceiling_telemetry \<Rightarrow> json" where
  "telemetry_json x = JObj ([(''tokensIn'', JNum (of_int (te_tokensIn x))), (''tokensOut'', JNum (of_int (te_tokensOut x))),
     (''costUsd'', JNum (te_costUsd x)),
     (''turns'', case te_turns x of None \<Rightarrow> JNull | Some n \<Rightarrow> JNum n),
     (''maxInputTokensInTurn'', case te_maxInputTokensInTurn x of None \<Rightarrow> JNull | Some n \<Rightarrow> JNum n)] @
     (case te_failReason x of None \<Rightarrow> [] | Some r \<Rightarrow> [(''failReason'', JStr r)]))"

definition ceiling_hit_payload :: "ceiling_hit \<Rightarrow> payload" where
  "ceiling_hit_payload h =
     [(''kind'', JStr ''attempt.resource_ceiling''), (''schemaVersion'', JNum 1), (''retryable'', JBool True),
      (''ceiling'', JStr (ceiling_key_name (hit_ceiling h))), (''observed'', JNum (hit_observed h)),
      (''cap'', JNum (hit_cap h)), (''originalExitReason'', JStr (exit_reason_name (hit_originalExitReason h))),
      (''nextExitReason'', JStr (exit_reason_name (hit_nextExitReason h))), (''detail'', JStr (hit_detail h)),
      (''observedTelemetry'', telemetry_json (hit_observedTelemetry h))]"

definition record_attempt_resource_ceiling_evidence ::
    "router \<Rightarrow> string \<Rightarrow> ceiling_hit \<Rightarrow> (nat \<times> instant) option \<Rightarrow> unit db" where
  "record_attempt_resource_ceiling_evidence ro i h fw = record_custom_fenced ro i (ceiling_hit_payload h) fw"

subsection \<open>What a ceiling guarantees\<close>

text \<open>The caps the settings leave in force, and what is observed of each.\<close>

definition over_cap :: "harness_result \<Rightarrow> ceilings \<Rightarrow> rat option \<Rightarrow> string option \<Rightarrow> bool" where
  "over_cap res c cumulative harness \<longleftrightarrow>
     (provider_prompt_overflow res \<and> ci_maxInputTokensPerTurn c \<noteq> None) \<or>
     exceeds (reliable_turn_input res harness) (ci_maxInputTokensPerTurn c) \<or>
     exceeds (cost_observed res cumulative) (ci_maxCumulativeCostUsd c) \<or>
     exceeds (map_option of_nat (hr_turns res)) (ci_maxTurns c)"

lemma pause_is_policy:
  assumes "hit_nextExitReason h \<in> {PausedMaxTurns, PausedCostBudget}"
  shows "ho_kind (classify_harness_outcome num (to_policy_pause res h)) = Policy"
    "ho_detail (classify_harness_outcome num (to_policy_pause res h)) = hit_detail h"
  using assms by (auto simp: classify_harness_outcome_def to_policy_pause_def)

lemma applied_ceilings:
  assumes "resolve_attempt_resource_ceilings inp m = Some c"
  shows "(\<not> over_cap res c cumulative harness \<longrightarrow>
      apply_attempt_resource_ceilings num res inp cumulative m harness = (res, None)) \<and>
    (over_cap res c cumulative harness \<longrightarrow>
      (\<exists>h. apply_attempt_resource_ceilings num res inp cumulative m harness = (to_policy_pause res h, Some h) \<and>
        hit_observed h > hit_cap h \<and> hit_nextExitReason h \<in> {PausedMaxTurns, PausedCostBudget} \<and>
        hit_originalExitReason h = hr_exitReason res))"
  using assms
  by (auto simp: apply_attempt_resource_ceilings_def over_cap_def ceiling_checks_def exceeds_def Let_def build_ceiling_hit_def
      split: option.splits if_splits)


text \<open>What a session may still spend and what was spent stay within the ceiling raised by the task's extra.\<close>

lemma spawn_budget_within_ceiling:
  assumes "sl_maxBudgetUsd (attempt_ceiling_spawn_options inp t (Some spent) m) = Some b"
    and "resolve_attempt_resource_ceilings inp m = Some c" "ci_maxCumulativeCostUsd c = Some cap" "0 \<le> spent"
  shows "b = max 0 (cap + max 0 (case t of None \<Rightarrow> 0 | Some x \<Rightarrow> task_budgetExtraUsd x) - spent)"
  using assms
  by (simp add: attempt_ceiling_spawn_options_def effective_attempt_ceilings_for_task_def Let_def
      remaining_ceiling_budget_def or_zero_def non_negative_def)

end
