(* ===== verification/Cost_Scanner.thy ===== *)
theory Cost_Scanner
  imports Pricing
begin

text \<open>
  The cost of a session read from the log its agent keeps (\<open>cost-scanner.ts\<close>). Codex logs totals that
  grow over the session, Claude logs the usage of each message. A file that cannot be read, or whose parse
  throws, is left out of the index. The file system is a tree with the directories in the order they are
  listed; reading a date is a parameter, as is the day that selects the rates of an entry without one.
\<close>

subsection \<open>Rates\<close>

definition scanner_table :: "scanner_kind \<Rightarrow> instant \<Rightarrow> (string \<times> registry_rates) list" where
  "scanner_table kind day = List.map_filter (\<lambda>m. if me_scannerKind m = kind
     then map_option (\<lambda>r. (me_id m, r)) (effective_rates_for_entry m day) else None) model_registry"

definition scanner_rates_for_model :: "string \<Rightarrow> scanner_kind \<Rightarrow> instant \<Rightarrow> registry_rates option" where
  "scanner_rates_for_model k kind day =
     (case resolve_model_entry k of None \<Rightarrow> None
      | Some e \<Rightarrow> if me_scannerKind e \<noteq> kind then None else effective_rates_for_entry e day)"

definition normalize_scanner_model :: "scanner_kind \<Rightarrow> string option \<Rightarrow> string option" where
  "normalize_scanner_model kind m =
     (case Option.bind m resolve_model_entry of None \<Rightarrow> None
      | Some e \<Rightarrow> if me_scannerKind e \<noteq> kind then None else Some (me_id e))"

record scan_clock =
  sk_readDate :: "string \<Rightarrow> instant option"
  sk_defaultDay :: instant

definition usage_date_from_timestamp :: "scan_clock \<Rightarrow> string option \<Rightarrow> instant" where
  "usage_date_from_timestamp k ts =
     (case Option.bind ts (sk_readDate k) of Some t \<Rightarrow> t | None \<Rightarrow> sk_defaultDay k)"

record session_totals =
  tt_sessionId :: string
  tt_cwd :: "string option"
  tt_model :: "string option"
  tt_inputTokens :: rat
  tt_cachedInputTokens :: rat
  tt_cacheCreationInputTokens :: rat
  tt_outputTokens :: rat
  tt_costUsd :: usd
  tt_measured :: bool
  tt_lastUpdated :: "string option"
  tt_sourcePath :: string

subsection \<open>Lines of a log\<close>

definition read_text :: "payload \<Rightarrow> string \<Rightarrow> string option" where
  "read_text p k = (case jstr (jget p k) of None \<Rightarrow> None | Some s \<Rightarrow> if s = [] then None else Some s)"

definition read_count :: "payload \<Rightarrow> string \<Rightarrow> rat" where
  "read_count p k = (case jget p k of Some (JNum n) \<Rightarrow> n | _ \<Rightarrow> 0)"

text \<open>The fields of a value of type \<open>object\<close>; an array has none of those the scanner asks for.\<close>

fun object_fields :: "json option \<Rightarrow> payload option" where
  "object_fields (Some (JObj p)) = Some p"
| "object_fields (Some (JArr _)) = Some []"
| "object_fields _ = None"

definition first_some :: "'a option \<Rightarrow> 'a option \<Rightarrow> 'a option" where
  "first_some a b = (case a of Some x \<Rightarrow> Some x | None \<Rightarrow> b)"

text \<open>\<open>split('\n')\<close>.\<close>

fun log_lines :: "string \<Rightarrow> string list" where
  "log_lines [] = [[]]"
| "log_lines (c # cs) =
     (if c = char_of (10::nat) then [] # log_lines cs
      else case log_lines cs of [] \<Rightarrow> [[c]] | l # ls \<Rightarrow> (c # l) # ls)"

text \<open>A line is skipped when it is empty or no JSON; the value null makes the parse of the file throw.\<close>

datatype log_line = Skipped | Throws | Entry payload

definition read_line :: "string \<Rightarrow> log_line" where
  "read_line l =
     (if l = [] then Skipped
      else case parse_json l of
          None \<Rightarrow> Skipped | Some JNull \<Rightarrow> Throws | Some (JObj p) \<Rightarrow> Entry p | Some _ \<Rightarrow> Entry [])"

fun scan_lines :: "(payload \<Rightarrow> 's \<Rightarrow> 's) \<Rightarrow> string list \<Rightarrow> 's \<Rightarrow> 's option" where
  "scan_lines f [] s = Some s"
| "scan_lines f (l # ls) s =
     (case read_line l of Skipped \<Rightarrow> scan_lines f ls s | Throws \<Rightarrow> None | Entry p \<Rightarrow> scan_lines f ls (f p s))"

subsection \<open>Codex\<close>

record codex_total =
  ct_input :: rat
  ct_cached :: rat
  ct_output :: rat

definition zero_total :: codex_total where
  "zero_total = \<lparr>ct_input = 0, ct_cached = 0, ct_output = 0\<rparr>"

record codex_scan =
  cx_sessionId :: "string option"
  cx_cwd :: "string option"
  cx_model :: "string option"
  cx_lastUpdated :: "string option"
  cx_sawTotal :: bool
  cx_perModel :: "(string \<times> codex_total) list"
  cx_prevTotal :: codex_total
  cx_costUsd :: usd
  cx_anyUnmeasured :: bool

definition empty_codex_scan :: codex_scan where
  "empty_codex_scan = \<lparr>cx_sessionId = None, cx_cwd = None, cx_model = None, cx_lastUpdated = None, cx_sawTotal = False,
     cx_perModel = [], cx_prevTotal = zero_total, cx_costUsd = 0, cx_anyUnmeasured = False\<rparr>"

definition codex_model_key :: "string option \<Rightarrow> string" where
  "codex_model_key m = (case first_some (normalize_scanner_model CodexScanner m) m of Some k \<Rightarrow> k | None \<Rightarrow> ''(unknown)'')"

text \<open>A delta of the totals is credited to the model of the turn and priced at its date; a counter that went
  down has been reset, and only moves the baseline.\<close>

definition credit_codex :: "string \<Rightarrow> registry_rates option \<Rightarrow> codex_total \<Rightarrow> codex_scan \<Rightarrow> codex_scan" where
  "credit_codex key r tot x =
     (let prev = cx_prevTotal x; d_in = ct_input tot - ct_input prev; d_cached = ct_cached tot - ct_cached prev;
          d_out = ct_output tot - ct_output prev;
          y = (if d_in \<ge> 0 \<and> d_out \<ge> 0 then
            let cached = max 0 (min d_cached d_in);
                acc = (case map_of (cx_perModel x) key of Some a \<Rightarrow> a | None \<Rightarrow> zero_total);
                acc' = \<lparr>ct_input = ct_input acc + d_in, ct_cached = ct_cached acc + cached, ct_output = ct_output acc + d_out\<rparr>;
                z = x\<lparr>cx_perModel := map_set key acc' (cx_perModel x)\<rparr> in
            case r of
              None \<Rightarrow> if d_in + d_out > 0 then z\<lparr>cx_anyUnmeasured := True\<rparr> else z
            | Some rs \<Rightarrow> z\<lparr>cx_costUsd := cx_costUsd x + max 0 (d_in - cached) * ra_input rs +
                cached * resolve_cached_read_per_token rs + d_out * ra_output rs\<rparr>
            else x) in
      y\<lparr>cx_prevTotal := tot, cx_sawTotal := True\<rparr>)"

definition codex_usage :: "scan_clock \<Rightarrow> payload \<Rightarrow> payload \<Rightarrow> codex_scan \<Rightarrow> codex_scan" where
  "codex_usage k entry usage x =
     (let tot = \<lparr>ct_input = read_count usage ''input_tokens'', ct_cached = read_count usage ''cached_input_tokens'',
                   ct_output = read_count usage ''output_tokens''\<rparr>;
          ts = jstr (jget entry ''timestamp''); key = codex_model_key (cx_model x) in
      credit_codex key (scanner_rates_for_model key CodexScanner (usage_date_from_timestamp k ts)) tot
        (x\<lparr>cx_lastUpdated := first_some ts (cx_lastUpdated x)\<rparr>))"

definition codex_line :: "scan_clock \<Rightarrow> payload \<Rightarrow> codex_scan \<Rightarrow> codex_scan" where
  "codex_line k entry x =
     (case (jstr (jget entry ''type''), object_fields (jget entry ''payload'')) of
        (Some ty, Some p) \<Rightarrow>
          if ty = ''session_meta'' then
            x\<lparr>cx_sessionId := first_some (cx_sessionId x)
                (first_some (read_text p ''id'') (first_some (read_text p ''session_id'') (read_text p ''sessionId''))),
              cx_cwd := first_some (read_text p ''cwd'') (cx_cwd x)\<rparr>
          else if ty = ''turn_context'' then x\<lparr>cx_model := first_some (read_text p ''model'') (cx_model x)\<rparr>
          else if ty = ''event_msg'' \<and> read_text p ''type'' = Some ''token_count'' then
            (case Option.bind (object_fields (jget p ''info'')) (\<lambda>info. object_fields (jget info ''total_token_usage'')) of
               None \<Rightarrow> x | Some usage \<Rightarrow> codex_usage k entry usage x)
          else x
      | _ \<Rightarrow> x)"

definition codex_sum :: "(codex_total \<Rightarrow> rat) \<Rightarrow> codex_scan \<Rightarrow> rat" where
  "codex_sum f x = sum_list (map (\<lambda>(_, a). f a) (cx_perModel x))"

definition codex_totals :: "string \<Rightarrow> codex_scan \<Rightarrow> session_totals option" where
  "codex_totals path x =
     (case cx_sessionId x of None \<Rightarrow> None
      | Some i \<Rightarrow>
          if \<not> cx_sawTotal x then None
          else Some \<lparr>tt_sessionId = i, tt_cwd = cx_cwd x, tt_model = cx_model x,
            tt_inputTokens = codex_sum (\<lambda>a. max 0 (ct_input a - ct_cached a)) x,
            tt_cachedInputTokens = codex_sum ct_cached x, tt_cacheCreationInputTokens = 0,
            tt_outputTokens = codex_sum ct_output x, tt_costUsd = cx_costUsd x, tt_measured = (\<not> cx_anyUnmeasured x),
            tt_lastUpdated = cx_lastUpdated x, tt_sourcePath = path\<rparr>)"

text \<open>None when it throws, Some None when the file holds no session.\<close>

definition parse_codex_session_file :: "scan_clock \<Rightarrow> string \<Rightarrow> string \<Rightarrow> session_totals option option" where
  "parse_codex_session_file k path text =
     map_option (codex_totals path) (scan_lines (codex_line k) (log_lines text) empty_codex_scan)"

subsection \<open>Claude\<close>

record claude_total =
  cl_input :: rat
  cl_cacheRead :: rat
  cl_cacheCreation :: rat
  cl_output :: rat

record claude_scan =
  cu_sessionId :: "string option"
  cu_cwd :: "string option"
  cu_lastModel :: "string option"
  cu_lastUpdated :: "string option"
  cu_perModel :: "(string \<times> claude_total) list"
  cu_costUsd :: usd
  cu_anyUnmeasured :: bool

definition empty_claude_scan :: claude_scan where
  "empty_claude_scan = \<lparr>cu_sessionId = None, cu_cwd = None, cu_lastModel = None, cu_lastUpdated = None, cu_perModel = [],
     cu_costUsd = 0, cu_anyUnmeasured = False\<rparr>"

definition claude_model_key :: "string option \<Rightarrow> string option \<Rightarrow> string" where
  "claude_model_key m latest =
     (case first_some (normalize_scanner_model ClaudeScanner m)
        (first_some (normalize_scanner_model ClaudeScanner latest) (first_some m latest)) of
        Some k \<Rightarrow> k | None \<Rightarrow> ''(unknown)'')"

definition credit_claude :: "string \<Rightarrow> registry_rates option \<Rightarrow> claude_total \<Rightarrow> claude_scan \<Rightarrow> claude_scan" where
  "credit_claude key r u x =
     (let acc = (case map_of (cu_perModel x) key of Some a \<Rightarrow> a
                 | None \<Rightarrow> \<lparr>cl_input = 0, cl_cacheRead = 0, cl_cacheCreation = 0, cl_output = 0\<rparr>);
          acc' = \<lparr>cl_input = cl_input acc + cl_input u, cl_cacheRead = cl_cacheRead acc + cl_cacheRead u,
                  cl_cacheCreation = cl_cacheCreation acc + cl_cacheCreation u, cl_output = cl_output acc + cl_output u\<rparr>;
          z = x\<lparr>cu_perModel := map_set key acc' (cu_perModel x)\<rparr> in
      case r of
        None \<Rightarrow> if cl_input u + cl_cacheRead u + cl_cacheCreation u + cl_output u > 0
          then z\<lparr>cu_anyUnmeasured := True\<rparr> else z
      | Some rs \<Rightarrow> z\<lparr>cu_costUsd := cu_costUsd x + cl_input u * ra_input rs +
          cl_cacheRead u * resolve_cached_read_per_token rs +
          cl_cacheCreation u * (case ra_cacheCreation rs of Some c \<Rightarrow> c | None \<Rightarrow> ra_input rs * (5 / 4)) +
          cl_output u * ra_output rs\<rparr>)"

definition claude_message :: "scan_clock \<Rightarrow> string option \<Rightarrow> payload \<Rightarrow> claude_scan \<Rightarrow> claude_scan" where
  "claude_message k ts msg x =
     (let m = read_text msg ''model''; y = x\<lparr>cu_lastModel := first_some m (cu_lastModel x)\<rparr> in
      case object_fields (jget msg ''usage'') of None \<Rightarrow> y
      | Some u \<Rightarrow>
          let key = claude_model_key m (cu_lastModel y) in
          credit_claude key (scanner_rates_for_model key ClaudeScanner (usage_date_from_timestamp k ts))
            \<lparr>cl_input = read_count u ''input_tokens'', cl_cacheRead = read_count u ''cache_read_input_tokens'',
             cl_cacheCreation = read_count u ''cache_creation_input_tokens'', cl_output = read_count u ''output_tokens''\<rparr> y)"

definition claude_line :: "scan_clock \<Rightarrow> payload \<Rightarrow> claude_scan \<Rightarrow> claude_scan" where
  "claude_line k entry x =
     (let ts = read_text entry ''timestamp'';
          y = x\<lparr>cu_sessionId := first_some (cu_sessionId x) (read_text entry ''sessionId''),
                cu_cwd := first_some (read_text entry ''cwd'') (cu_cwd x),
                cu_lastUpdated := first_some ts (cu_lastUpdated x)\<rparr> in
      if \<not> jis entry ''type'' ''assistant'' then y
      else case object_fields (jget entry ''message'') of None \<Rightarrow> y | Some msg \<Rightarrow> claude_message k ts msg y)"

definition claude_sum :: "(claude_total \<Rightarrow> rat) \<Rightarrow> claude_scan \<Rightarrow> rat" where
  "claude_sum f x = sum_list (map (\<lambda>(_, a). f a) (cu_perModel x))"

definition claude_totals :: "string \<Rightarrow> claude_scan \<Rightarrow> session_totals option" where
  "claude_totals path x =
     (case cu_sessionId x of None \<Rightarrow> None
      | Some i \<Rightarrow>
          if cu_perModel x = [] then None
          else Some \<lparr>tt_sessionId = i, tt_cwd = cu_cwd x, tt_model = cu_lastModel x,
            tt_inputTokens = claude_sum cl_input x, tt_cachedInputTokens = claude_sum cl_cacheRead x,
            tt_cacheCreationInputTokens = claude_sum cl_cacheCreation x, tt_outputTokens = claude_sum cl_output x,
            tt_costUsd = cu_costUsd x, tt_measured = (\<not> cu_anyUnmeasured x), tt_lastUpdated = cu_lastUpdated x,
            tt_sourcePath = path\<rparr>)"

definition parse_claude_session_file :: "scan_clock \<Rightarrow> string \<Rightarrow> string \<Rightarrow> session_totals option option" where
  "parse_claude_session_file k path text =
     map_option (claude_totals path) (scan_lines (claude_line k) (log_lines text) empty_claude_scan)"

subsection \<open>The index\<close>

text \<open>A directory entry: a directory, a file with its modification time and its text (None when it cannot be
  read), or anything else. A directory whose listing fails has None.\<close>

datatype fs_entry =
    FsDir string "fs_entry list option"
  | FsFile string instant "string option"
  | FsOther string

definition ends_with :: "string \<Rightarrow> string \<Rightarrow> bool" where
  "ends_with p s \<longleftrightarrow> length p \<le> length s \<and> drop (length s - length p) s = p"

definition path_join :: "string \<Rightarrow> string \<Rightarrow> string" where
  "path_join a b = a @ ''/'' @ b"

fun walk_jsonl :: "string \<Rightarrow> instant \<Rightarrow> fs_entry list \<Rightarrow> (string \<times> string option) list" where
  "walk_jsonl dir cutoff [] = []"
| "walk_jsonl dir cutoff (FsDir n (Some sub) # es) =
     walk_jsonl (path_join dir n) cutoff sub @ walk_jsonl dir cutoff es"
| "walk_jsonl dir cutoff (FsFile n modified text # es) =
     (if ends_with ''.jsonl'' (path_join dir n) \<and> modified \<ge> cutoff
      then [(path_join dir n, text)] else []) @ walk_jsonl dir cutoff es"
| "walk_jsonl dir cutoff (e # es) = walk_jsonl dir cutoff es"

record cost_scanner =
  sn_homeDir :: string
  sn_cacheTtlMs :: int
  sn_maxAgeDays :: int
  sn_codexCache :: "(instant \<times> (string \<times> session_totals) list) option"
  sn_claudeCache :: "(instant \<times> (string \<times> session_totals) list) option"

definition new_cost_scanner :: "string \<Rightarrow> cost_scanner" where
  "new_cost_scanner home = \<lparr>sn_homeDir = home, sn_cacheTtlMs = 60000, sn_maxAgeDays = 14, sn_codexCache = None, sn_claudeCache = None\<rparr>"

definition discover_files ::
    "cost_scanner \<Rightarrow> (string \<Rightarrow> fs_entry list option) \<Rightarrow> scanner_kind \<Rightarrow> instant \<Rightarrow> (string \<times> string option) list" where
  "discover_files sn tree kind now =
     (let cutoff = now - sn_maxAgeDays sn * 86400000;
          walk = (\<lambda>dir. case tree dir of None \<Rightarrow> [] | Some es \<Rightarrow> walk_jsonl dir cutoff es) in
      if kind = CodexScanner
      then walk (sn_homeDir sn @ ''/.codex/sessions'') @ walk (sn_homeDir sn @ ''/.codex/archived_sessions'')
      else walk (sn_homeDir sn @ ''/.claude/projects''))"

text \<open>A session found in several files is the one with more input and output tokens, the first of equals.\<close>

definition index_session :: "session_totals \<Rightarrow> (string \<times> session_totals) list \<Rightarrow> (string \<times> session_totals) list" where
  "index_session x idx =
     (case map_of idx (tt_sessionId x) of
        None \<Rightarrow> map_set (tt_sessionId x) x idx
      | Some y \<Rightarrow>
          if tt_inputTokens x + tt_outputTokens x > tt_inputTokens y + tt_outputTokens y
          then map_set (tt_sessionId x) x idx else idx)"

definition index_file ::
    "scan_clock \<Rightarrow> scanner_kind \<Rightarrow> string \<times> string option \<Rightarrow> (string \<times> session_totals) list \<Rightarrow> (string \<times> session_totals) list" where
  "index_file k kind file idx =
     (case snd file of None \<Rightarrow> idx
      | Some text \<Rightarrow>
          (case (if kind = CodexScanner then parse_codex_session_file k (fst file) text
                 else parse_claude_session_file k (fst file) text) of
             Some (Some x) \<Rightarrow> index_session x idx | _ \<Rightarrow> idx))"

definition scanner_cache :: "scanner_kind \<Rightarrow> cost_scanner \<Rightarrow> (instant \<times> (string \<times> session_totals) list) option" where
  "scanner_cache kind sn = (if kind = CodexScanner then sn_codexCache sn else sn_claudeCache sn)"

definition set_scanner_cache ::
    "scanner_kind \<Rightarrow> (instant \<times> (string \<times> session_totals) list) option \<Rightarrow> cost_scanner \<Rightarrow> cost_scanner" where
  "set_scanner_cache kind c sn = (if kind = CodexScanner then sn\<lparr>sn_codexCache := c\<rparr> else sn\<lparr>sn_claudeCache := c\<rparr>)"

definition get_index ::
    "scan_clock \<Rightarrow> (string \<Rightarrow> fs_entry list option) \<Rightarrow> scanner_kind \<Rightarrow> instant \<Rightarrow> cost_scanner \<Rightarrow>
      (string \<times> session_totals) list \<times> cost_scanner" where
  "get_index k tree kind now sn =
     (case (case scanner_cache kind sn of None \<Rightarrow> None
            | Some (loaded, idx) \<Rightarrow> if now - loaded < sn_cacheTtlMs sn then Some idx else None) of
        Some idx \<Rightarrow> (idx, sn)
      | None \<Rightarrow>
          let idx = fold (index_file k kind) (discover_files sn tree kind now) [] in
          (idx, set_scanner_cache kind (Some (now, idx)) sn))"

definition get_scanned_session ::
    "scan_clock \<Rightarrow> (string \<Rightarrow> fs_entry list option) \<Rightarrow> scanner_kind \<Rightarrow> string \<Rightarrow> instant \<Rightarrow> cost_scanner \<Rightarrow>
      session_totals option \<times> cost_scanner" where
  "get_scanned_session k tree kind i now sn =
     (case get_index k tree kind now sn of (idx, sn') \<Rightarrow> (map_of idx i, sn'))"

definition invalidate_scanner :: "scanner_kind option \<Rightarrow> cost_scanner \<Rightarrow> cost_scanner" where
  "invalidate_scanner kind sn =
     (case kind of None \<Rightarrow> sn\<lparr>sn_codexCache := None, sn_claudeCache := None\<rparr>
      | Some k \<Rightarrow> set_scanner_cache k None sn)"

definition scanner_size ::
    "scan_clock \<Rightarrow> (string \<Rightarrow> fs_entry list option) \<Rightarrow> scanner_kind \<Rightarrow> instant \<Rightarrow> cost_scanner \<Rightarrow> nat \<times> cost_scanner" where
  "scanner_size k tree kind now sn = (case get_index k tree kind now sn of (idx, sn') \<Rightarrow> (length idx, sn'))"

definition measured_cost_from_session :: "session_totals option \<Rightarrow> measured_cost" where
  "measured_cost_from_session x =
     (case x of None \<Rightarrow> NotMeasured Unmeasured
      | Some t \<Rightarrow> if tt_measured t then Measured (tt_costUsd t) else NotMeasured Unpriced)"

subsection \<open>Totals that only grow\<close>

lemma map_set_sum:
  fixes f :: "'a \<Rightarrow> rat"
  shows "sum_list (map (\<lambda>(_, a). f a) (map_set k v xs)) =
    sum_list (map (\<lambda>(_, a). f a) xs) + f v - (case map_of xs k of Some a \<Rightarrow> f a | None \<Rightarrow> 0)"
  by (induction xs) (auto split: option.splits)

definition grows_to :: "codex_total \<Rightarrow> codex_total \<Rightarrow> bool" where
  "grows_to a b \<longleftrightarrow> ct_input a \<le> ct_input b \<and> ct_output a \<le> ct_output b"

lemma credit_codex_prev [simp]: "cx_prevTotal (credit_codex k r tot x) = tot"
  by (simp add: credit_codex_def Let_def)

lemma credit_codex_sums:
  assumes "grows_to (cx_prevTotal x) tot"
  shows "codex_sum ct_input (credit_codex k r tot x) = codex_sum ct_input x + ct_input tot - ct_input (cx_prevTotal x)"
    and "codex_sum ct_output (credit_codex k r tot x) = codex_sum ct_output x + ct_output tot - ct_output (cx_prevTotal x)"
  using assms
  by (simp_all add: credit_codex_def codex_sum_def grows_to_def Let_def map_set_sum zero_total_def split: option.split)

definition credit_all :: "(string \<times> registry_rates option \<times> codex_total) list \<Rightarrow> codex_scan \<Rightarrow> codex_scan" where
  "credit_all = fold (\<lambda>(k, r, tot). credit_codex k r tot)"

text \<open>However a session's usage is spread over models, while its counters grow the tokens credited are the last
  totals less the first: no token is counted twice or lost.\<close>

lemma codex_usage_telescopes:
  assumes "sorted_wrt grows_to (cx_prevTotal x # map (\<lambda>(_, _, tot). tot) es)"
  shows "codex_sum ct_input (credit_all es x) =
      codex_sum ct_input x + ct_input (last (cx_prevTotal x # map (\<lambda>(_, _, tot). tot) es)) - ct_input (cx_prevTotal x) \<and>
    codex_sum ct_output (credit_all es x) =
      codex_sum ct_output x + ct_output (last (cx_prevTotal x # map (\<lambda>(_, _, tot). tot) es)) - ct_output (cx_prevTotal x)"
  using assms
proof (induction es arbitrary: x)
  case (Cons e es)
  obtain k r tot where e: "e = (k, r, tot)" by (cases e)
  have g: "grows_to (cx_prevTotal x) tot" using Cons.prems by (simp add: e)
  have "sorted_wrt grows_to (cx_prevTotal (credit_codex k r tot x) # map (\<lambda>(_, _, tot). tot) es)"
    using Cons.prems by (simp add: e)
  from Cons.IH [OF this] show ?case
    by (simp add: e credit_all_def credit_codex_sums [OF g])
qed (simp add: credit_all_def)

end
