(* ===== verification/Session_Witnesses.thy ===== *)
theory Session_Witnesses
  imports Core_Witnesses Route_Witnesses Cost_Facts Ceilings Cost_Scanner
begin

text \<open>
  The properties of sessions, their costs and the dispatcher's cycle at concrete inputs.
\<close>

definition priced_agent :: agent where
  "priced_agent = (sample_agent ''agent1'' ''x'' 1)\<lparr>ag_pricing := Some (3, 15)\<rparr>"

definition fresh_start :: session_start where
  "fresh_start = \<lparr>ss_agent = priced_agent, ss_initialTokensIn = Some 0, ss_initialTokensOut = Some 0, ss_initialCostUsd = Some 0\<rparr>"

definition sample_cost_deps :: cost_deps where
  "sample_cost_deps = \<lparr>cd_router = sample_router [], cd_snapshot = (\<lambda>_ _. None), cd_agentOf = (\<lambda>_ _. None), cd_live = [], cd_rateDay = 0\<rparr>"

definition finished_session :: harness_result where
  "finished_session = \<lparr>hr_exitReason = Completed, hr_tokensIn = 1000, hr_tokensOut = 100, hr_costUsd = 0, hr_costState = None,
     hr_turns = None, hr_maxInputTokensInTurn = None, hr_failReason = None, hr_failureEvidence = None, hr_pauseDetail = None\<rparr>"

definition recorded_store :: store where
  "recorded_store = snd (record_session_cost sample_cost_deps ''run1'' (sample_run ''run1'') finished_session
     (Some fresh_start) None (sample_store [sample_run ''run1'']))"

definition recorded_run :: run where
  "recorded_run = (sample_run ''run1'')\<lparr>run_tokensIn := 1000, run_tokensOut := 100, run_costUsd := 9 / 2000, run_updatedAt := 100\<rparr>"

lemma recorded_first:
  "record_session_cost sample_cost_deps ''run1'' (sample_run ''run1'') finished_session (Some fresh_start) None
     (sample_store [sample_run ''run1'']) = (Inr (), recorded_store)"
proof -
  have "fst (record_session_cost sample_cost_deps ''run1'' (sample_run ''run1'') finished_session (Some fresh_start) None
      (sample_store [sample_run ''run1''])) = Inr ()"
    by code_simp
  then show ?thesis unfolding recorded_store_def by (metis prod.collapse)
qed


end
