(* ===== verification/Orphan_Worker.thy ===== *)
theory Orphan_Worker
  imports Prelude
begin

text \<open>
  Ending the worker process that a dead server left behind (\<open>orphan-worker-process-cleanup.ts\<close>). The row
  of the session says which process it was and when it started; the operating system is asked whether
  that is still the process with this id before anything is sent to it.

  The calls of the operating system are parameters over a state of their own. \<open>Date.parse\<close> is a
  parameter, and so is the number of times the wait polls before its deadline has passed.
\<close>

subsection \<open>The system\<close>

datatype ownership = ProcessGroup | DirectChild

datatype worker_signal = ProbeSignal | TermSignal | KillSignal

record kill_failure =
  kf_missing :: bool
  kf_text :: string

record worker_mapping =
  wm_pid :: "int option"
  wm_ownership :: "ownership option"
  wm_startedAt :: "string option"
  wm_unsupported :: "string option"

definition no_worker :: worker_mapping where
  "no_worker = \<lparr>wm_pid = None, wm_ownership = None, wm_startedAt = None, wm_unsupported = None\<rparr>"

record 's os =
  os_kill :: "int \<Rightarrow> worker_signal \<Rightarrow> 's \<Rightarrow> kill_failure option \<times> 's"
  os_ps :: "int \<Rightarrow> 's \<Rightarrow> string option \<times> 's"
  os_polls :: "'s \<Rightarrow> nat"
  os_date :: "string \<Rightarrow> int option"

datatype worker_outcome = WorkerCleaned | WorkerSkipped | WorkerFailed

record orphan_result =
  oc_attempted :: bool
  oc_outcome :: worker_outcome
  oc_reason :: string
  oc_pid :: "int option"
  oc_ownership :: "ownership option"
  oc_startedAt :: "string option"
  oc_escalated :: "bool option"
  oc_exited :: "bool option"

subsection \<open>The steps\<close>

definition normalize_pid :: "int option \<Rightarrow> int option" where
  "normalize_pid v = (case v of Some n \<Rightarrow> if n > 1 then Some n else None | None \<Rightarrow> None)"

definition skipped_worker :: "string \<Rightarrow> int option \<Rightarrow> ownership option \<Rightarrow> string option \<Rightarrow> orphan_result" where
  "skipped_worker reason pid owner started =
     \<lparr>oc_attempted = False, oc_outcome = WorkerSkipped, oc_reason = reason, oc_pid = pid, oc_ownership = owner,
      oc_startedAt = started, oc_escalated = None, oc_exited = None\<rparr>"

definition cleaned_worker :: "int \<Rightarrow> ownership \<Rightarrow> string \<Rightarrow> bool \<Rightarrow> bool \<Rightarrow> orphan_result" where
  "cleaned_worker pid owner started escalated exited =
     \<lparr>oc_attempted = True, oc_outcome = WorkerCleaned,
      oc_reason = (if exited then ''worker process terminated'' else ''worker signal sent but exit was not observed''),
      oc_pid = Some pid, oc_ownership = Some owner, oc_startedAt = Some started, oc_escalated = Some escalated,
      oc_exited = Some exited\<rparr>"

definition signal_failed :: "int \<Rightarrow> ownership \<Rightarrow> string \<Rightarrow> string \<Rightarrow> orphan_result" where
  "signal_failed pid owner started text =
     \<lparr>oc_attempted = True, oc_outcome = WorkerFailed, oc_reason = text, oc_pid = Some pid, oc_ownership = Some owner,
      oc_startedAt = Some started, oc_escalated = None, oc_exited = None\<rparr>"

definition is_process_alive :: "'s os \<Rightarrow> int \<Rightarrow> 's \<Rightarrow> bool \<times> 's" where
  "is_process_alive os pid s =
     (case os_kill os pid ProbeSignal s of (None, t) \<Rightarrow> (True, t) | (Some e, t) \<Rightarrow> (\<not> kf_missing e, t))"

text \<open>The group of a process is addressed by its negated id.\<close>

definition signal_target :: "int \<Rightarrow> ownership \<Rightarrow> int" where
  "signal_target pid owner = (case owner of ProcessGroup \<Rightarrow> - pid | DirectChild \<Rightarrow> pid)"

definition send_owned_signal :: "'s os \<Rightarrow> int \<Rightarrow> ownership \<Rightarrow> worker_signal \<Rightarrow> 's \<Rightarrow> kill_failure option \<times> 's" where
  "send_owned_signal os pid owner sig = os_kill os (signal_target pid owner) sig"

fun wait_polls :: "'s os \<Rightarrow> int \<Rightarrow> nat \<Rightarrow> 's \<Rightarrow> bool \<times> 's" where
  "wait_polls os pid n s =
     (case is_process_alive os pid s of
        (False, t) \<Rightarrow> (True, t)
      | (True, t) \<Rightarrow> (case n of 0 \<Rightarrow> (False, t) | Suc m \<Rightarrow> wait_polls os pid m t))"

declare wait_polls.simps [simp del]

definition wait_for_exit :: "'s os \<Rightarrow> int \<Rightarrow> 's \<Rightarrow> bool \<times> 's" where
  "wait_for_exit os pid s = wait_polls os pid (os_polls os s) s"

definition read_process_started_at :: "'s os \<Rightarrow> int \<Rightarrow> 's \<Rightarrow> int option \<times> 's" where
  "read_process_started_at os pid s =
     (case os_ps os pid s of (out, t) \<Rightarrow> (Option.bind out (\<lambda>x. os_date os (trim x)), t))"

definition start_time_tolerance_ms :: int where
  "start_time_tolerance_ms = 5000"

definition matches_started_at :: "'s os \<Rightarrow> string \<Rightarrow> int \<Rightarrow> bool" where
  "matches_started_at os recorded actual \<longleftrightarrow>
     (case os_date os recorded of None \<Rightarrow> False | Some x \<Rightarrow> \<bar>x - actual\<bar> \<le> start_time_tolerance_ms)"

text \<open>\<open>SIGTERM\<close>, a wait, and \<open>SIGKILL\<close> if the process is still there.\<close>

definition terminate_worker :: "'s os \<Rightarrow> int \<Rightarrow> ownership \<Rightarrow> string \<Rightarrow> 's \<Rightarrow> orphan_result \<times> 's" where
  "terminate_worker os pid owner started s =
     (case send_owned_signal os pid owner TermSignal s of
        (Some e, t) \<Rightarrow> (signal_failed pid owner started (kf_text e), t)
      | (None, t) \<Rightarrow>
          (case wait_for_exit os pid t of
             (True, u) \<Rightarrow> (cleaned_worker pid owner started False True, u)
           | (False, u) \<Rightarrow>
               (case send_owned_signal os pid owner KillSignal u of
                  (Some e, v) \<Rightarrow> (signal_failed pid owner started (kf_text e), v)
                | (None, v) \<Rightarrow>
                    (case wait_for_exit os pid v of (gone, x) \<Rightarrow> (cleaned_worker pid owner started True gone, x)))))"

definition verify_and_terminate :: "'s os \<Rightarrow> int \<Rightarrow> ownership \<Rightarrow> string \<Rightarrow> 's \<Rightarrow> orphan_result \<times> 's" where
  "verify_and_terminate os pid owner started s =
     (case is_process_alive os pid s of
        (False, t) \<Rightarrow> (skipped_worker ''worker process already exited'' (Some pid) (Some owner) (Some started), t)
      | (True, t) \<Rightarrow>
          (case read_process_started_at os pid t of
             (None, u) \<Rightarrow> (skipped_worker ''worker live start-time unavailable; refusing to kill unverified process''
                 (Some pid) (Some owner) (Some started), u)
           | (Some live, u) \<Rightarrow>
               if \<not> matches_started_at os started live
               then (skipped_worker ''worker start-time mismatch; refusing to kill unrelated process''
                   (Some pid) (Some owner) (Some started), u)
               else terminate_worker os pid owner started u))"

definition given_text :: "string option \<Rightarrow> string option" where
  "given_text v = (case v of None \<Rightarrow> None | Some x \<Rightarrow> if trim x = [] then None else Some x)"

definition cleanup_orphan_worker_process :: "'s os \<Rightarrow> worker_mapping \<Rightarrow> 's \<Rightarrow> orphan_result \<times> 's" where
  "cleanup_orphan_worker_process os m s =
     (let pid = normalize_pid (wm_pid m); owner = wm_ownership m; started = wm_startedAt m in
      case (pid, owner) of
        (Some p, Some w) \<Rightarrow>
          (case given_text (wm_unsupported m) of
             Some reason \<Rightarrow> (skipped_worker (trim reason) pid owner started, s)
           | None \<Rightarrow>
               (case given_text started of
                  None \<Rightarrow> (skipped_worker ''worker start-time metadata missing'' pid owner started, s)
                | Some at_text \<Rightarrow> verify_and_terminate os p w at_text s))
      | _ \<Rightarrow> (skipped_worker ''worker ownership metadata missing'' pid owner started, s))"

subsection \<open>What is signalled\<close>

text \<open>A system that keeps a log: a probe and \<open>ps\<close> leave it alone, and a signal is appended to it.\<close>

definition logs_signals :: "('s \<Rightarrow> (int \<times> worker_signal) list) \<Rightarrow> 's os \<Rightarrow> bool" where
  "logs_signals sent os \<longleftrightarrow>
     (\<forall>p s. sent (snd (os_kill os p ProbeSignal s)) = sent s) \<and>
     (\<forall>p s. sent (snd (os_ps os p s)) = sent s) \<and>
     (\<forall>p g s. g \<noteq> ProbeSignal \<longrightarrow> sent (snd (os_kill os p g s)) = sent s @ [(p, g)])"

lemma logs_signalsD:
  assumes "logs_signals sent os"
  shows "os_kill os p ProbeSignal s = (x, t) \<Longrightarrow> sent t = sent s"
    and "os_ps os p s = (y, t) \<Longrightarrow> sent t = sent s"
    and "os_kill os p g s = (x, t) \<Longrightarrow> g \<noteq> ProbeSignal \<Longrightarrow> sent t = sent s @ [(p, g)]"
  using assms unfolding logs_signals_def by (metis snd_conv)+

lemma alive_silent: "logs_signals sent os \<Longrightarrow> is_process_alive os p s = (b, t) \<Longrightarrow> sent t = sent s"
  by (auto simp: is_process_alive_def dest: logs_signalsD(1) split: prod.splits option.splits)

lemma wait_silent: "logs_signals sent os \<Longrightarrow> wait_polls os p n s = (b, t) \<Longrightarrow> sent t = sent s"
proof (induction n arbitrary: s b t)
  case 0
  then show ?case
    by (subst (asm) wait_polls.simps) (auto dest: alive_silent split: prod.splits bool.splits)
next
  case (Suc n)
  obtain a u where u: "is_process_alive os p s = (a, u)" by (cases "is_process_alive os p s")
  with Suc.prems(1) have "sent u = sent s" by (rule alive_silent)
  moreover have "sent t = sent u"
    using Suc.prems(2) u Suc.IH [OF Suc.prems(1)]
    by (subst (asm) wait_polls.simps) (auto split: bool.splits)
  ultimately show ?case by simp
qed

lemma wait_for_exit_silent: "logs_signals sent os \<Longrightarrow> wait_for_exit os p s = (b, t) \<Longrightarrow> sent t = sent s"
  unfolding wait_for_exit_def by (rule wait_silent)

lemma ps_silent: "logs_signals sent os \<Longrightarrow> read_process_started_at os p s = (x, t) \<Longrightarrow> sent t = sent s"
  by (auto simp: read_process_started_at_def dest: logs_signalsD(2) split: prod.splits)

lemma signal_logged:
  "logs_signals sent os \<Longrightarrow> send_owned_signal os p w g s = (x, t) \<Longrightarrow> g \<noteq> ProbeSignal \<Longrightarrow>
     sent t = sent s @ [(signal_target p w, g)]"
  unfolding send_owned_signal_def by (rule logs_signalsD(3))

text \<open>At most two signals, the second one only after the first.\<close>

lemma terminate_worker_signals:
  assumes "logs_signals sent os" and "terminate_worker os p w st s = (res, t)"
  shows "oc_attempted res \<and>
    (\<exists>sigs \<in> {[TermSignal], [TermSignal, KillSignal]}. sent t = sent s @ map (Pair (signal_target p w)) sigs)"
proof -
  obtain e a where a: "send_owned_signal os p w TermSignal s = (e, a)" by (metis prod.exhaust)
  obtain b c where c: "wait_for_exit os p a = (b, c)" by (metis prod.exhaust)
  obtain f d where d: "send_owned_signal os p w KillSignal c = (f, d)" by (metis prod.exhaust)
  obtain g h where h: "wait_for_exit os p d = (g, h)" by (metis prod.exhaust)
  have log: "sent a = sent s @ [(signal_target p w, TermSignal)]" "sent c = sent a"
    "sent d = sent c @ [(signal_target p w, KillSignal)]" "sent h = sent d"
    using signal_logged [OF assms(1) a] wait_for_exit_silent [OF assms(1) c] signal_logged [OF assms(1) d]
      wait_for_exit_silent [OF assms(1) h] by simp_all
  show ?thesis
    using assms(2) log
    by (auto simp: terminate_worker_def a c d h cleaned_worker_def signal_failed_def split: option.splits bool.splits)
qed

text \<open>A process is the recorded one when \<open>ps\<close> gives a start close to the recorded start.\<close>

definition is_recorded_worker :: "'s os \<Rightarrow> int \<Rightarrow> string \<Rightarrow> 's \<Rightarrow> bool" where
  "is_recorded_worker os p started s \<longleftrightarrow>
     (case (os_date os started, fst (read_process_started_at os p s)) of
        (Some x, Some y) \<Rightarrow> \<bar>x - y\<bar> \<le> 5000 | _ \<Rightarrow> False)"

lemma verify_signals:
  assumes "logs_signals sent os" and "verify_and_terminate os p w st s = (res, t)"
  shows "(\<not> oc_attempted res \<and> sent t = sent s) \<or>
    (oc_attempted res \<and> (\<exists>u. sent u = sent s \<and> is_recorded_worker os p st u) \<and>
     (\<exists>sigs \<in> {[TermSignal], [TermSignal, KillSignal]}. sent t = sent s @ map (Pair (signal_target p w)) sigs))"
proof -
  obtain b u where u: "is_process_alive os p s = (b, u)" by (metis prod.exhaust)
  obtain x v where v: "read_process_started_at os p u = (x, v)" by (metis prod.exhaust)
  have log: "sent u = sent s" "sent v = sent u"
    using alive_silent [OF assms(1) u] ps_silent [OF assms(1) v] by simp_all
  show ?thesis
  proof (cases "b \<and> (\<exists>y. x = Some y \<and> matches_started_at os st y)")
    case False
    with assms(2) log show ?thesis
      by (auto simp: verify_and_terminate_def u v skipped_worker_def split: option.splits bool.splits if_splits)
  next
    case True
    then obtain y where y: "b" "x = Some y" "matches_started_at os st y" by blast
    then have "is_recorded_worker os p st u"
      by (simp add: is_recorded_worker_def matches_started_at_def start_time_tolerance_ms_def v split: option.splits)
    moreover have "terminate_worker os p w st v = (res, t)"
      using assms(2) y by (simp add: verify_and_terminate_def u v)
    ultimately show ?thesis using terminate_worker_signals [OF assms(1)] log by metis
  qed
qed

text \<open>C13: only the worker on record is signalled. Of an operating system in which looking at processes sends
  nothing, the cleanup of an orphan sends a signal only when the row names a process and who owns it, does
  not declare the ownership unsupported, and \<open>ps\<close> reports for that very process a start within five
  seconds of the recorded one, asked before the first signal. It then goes to that process or to its
  group and to nothing else: \<open>SIGTERM\<close>, followed by \<open>SIGKILL\<close> at most once. The result says
  \<open>attempted\<close> exactly when something was sent.\<close>

theorem only_the_recorded_worker_is_signalled:
  assumes "logs_signals sent os" and "cleanup_orphan_worker_process os m s = (res, t)"
  shows "if \<not> oc_attempted res then sent t = sent s
    else \<exists>p w st u. wm_pid m = Some p \<and> p > 1 \<and> wm_ownership m = Some w \<and> given_text (wm_unsupported m) = None \<and>
      wm_startedAt m = Some st \<and> sent u = sent s \<and> is_recorded_worker os p st u \<and>
      (\<exists>sigs \<in> {[TermSignal], [TermSignal, KillSignal]}. sent t = sent s @ map (Pair (signal_target p w)) sigs)"
proof (cases "\<exists>p w st. normalize_pid (wm_pid m) = Some p \<and> wm_ownership m = Some w \<and>
    given_text (wm_unsupported m) = None \<and> given_text (wm_startedAt m) = Some st")
  case False
  with assms(2) show ?thesis
    by (auto simp: cleanup_orphan_worker_process_def Let_def skipped_worker_def split: option.splits)
next
  case True
  then obtain p w st where m: "normalize_pid (wm_pid m) = Some p" "wm_ownership m = Some w"
    "given_text (wm_unsupported m) = None" "given_text (wm_startedAt m) = Some st" by blast
  have row: "wm_pid m = Some p" "p > 1" "wm_startedAt m = Some st"
    using m by (auto simp: normalize_pid_def given_text_def split: option.splits if_splits)
  have "verify_and_terminate os p w st s = (res, t)"
    using assms(2) m by (simp add: cleanup_orphan_worker_process_def Let_def)
  from verify_signals [OF assms(1) this] row m show ?thesis by auto
qed

text \<open>A measure of the state that no call of the system raises is not raised by the cleanup.\<close>

lemma alive_sheds: "(\<And>p g s. f (snd (os_kill os p g s)) \<le> f s) \<Longrightarrow> f (snd (is_process_alive os p s)) \<le> (f s :: nat)"
  by (auto simp: is_process_alive_def split: prod.splits option.splits) (metis snd_conv)+

lemma cleanup_sheds:
  assumes kill: "\<And>p g s. f (snd (os_kill os p g s)) \<le> (f s :: nat)" and ps: "\<And>p s. f (snd (os_ps os p s)) \<le> f s"
  shows "f (snd (cleanup_orphan_worker_process os m s)) \<le> f s"
proof -
  have alive: "f t \<le> f s" if "is_process_alive os p s = (b, t)" for p s b t
    using alive_sheds [of f os p s, OF kill] that by simp
  have polls: "f t \<le> f s" if "wait_polls os p n s = (b, t)" for p n s b t
    using that
  proof (induction n arbitrary: s b t)
    case 0
    then show ?case by (subst (asm) wait_polls.simps) (auto dest: alive split: prod.splits bool.splits)
  next
    case (Suc n)
    obtain a u where u: "is_process_alive os p s = (a, u)" by (cases "is_process_alive os p s")
    then have "f u \<le> f s" by (rule alive)
    moreover have "f t \<le> f u"
      using Suc.prems u Suc.IH by (subst (asm) wait_polls.simps) (auto split: bool.splits)
    ultimately show ?case by simp
  qed
  have sent: "f t \<le> f s" if "send_owned_signal os p w g s = (x, t)" for p w g s x t
    using kill [of "signal_target p w" g s] that by (simp add: send_owned_signal_def)
  have read: "f t \<le> f s" if "read_process_started_at os p s = (x, t)" for p s x t
    using ps [of p s] that by (auto simp: read_process_started_at_def split: prod.splits)
  have waited: "f t \<le> f s" if "wait_for_exit os p s = (b, t)" for p s b t
    using that unfolding wait_for_exit_def by (rule polls)
  have "f (snd (terminate_worker os p w st s)) \<le> f s" for p w st s
    by (auto simp: terminate_worker_def dest!: sent waited split: prod.splits option.splits bool.splits)
  note stop = this
  have "f (snd (verify_and_terminate os p w st s)) \<le> f s" for p w st s
    by (auto simp: verify_and_terminate_def dest!: alive read intro: order_trans [OF stop]
        split: prod.splits option.splits bool.splits if_splits)
  then show ?thesis
    by (auto simp: cleanup_orphan_worker_process_def Let_def split: option.splits)
qed

text \<open>A system with one process, started at the recorded time, that ignores \<open>SIGTERM\<close>.\<close>

definition one_process :: "((int \<times> worker_signal) list) os" where
  "one_process = \<lparr>os_kill = (\<lambda>p g s.
       if g = ProbeSignal then (if (p, KillSignal) \<in> set s then Some \<lparr>kf_missing = True, kf_text = ''ESRCH''\<rparr> else None, s)
       else (None, s @ [(p, g)])),
     os_ps = (\<lambda>_ s. (Some ''now'', s)), os_polls = (\<lambda>_. 2), os_date = (\<lambda>_. Some 0)\<rparr>"

definition recorded_row :: worker_mapping where
  "recorded_row = \<lparr>wm_pid = Some 77, wm_ownership = Some DirectChild, wm_startedAt = Some ''then'', wm_unsupported = None\<rparr>"

lemma only_the_recorded_worker_is_signalled_witness:
  "is_recorded_worker one_process 77 ''then'' [] \<and>
     snd (cleanup_orphan_worker_process one_process recorded_row []) = [(77, TermSignal), (77, KillSignal)]"
proof -
  let ?run = "cleanup_orphan_worker_process one_process recorded_row []"
  have run: "?run = (cleaned_worker 77 DirectChild ''then'' True True, [(77, TermSignal), (77, KillSignal)])"
    by code_simp
  have "logs_signals id one_process" by (simp add: logs_signals_def one_process_def)
  from only_the_recorded_worker_is_signalled [OF this run] have "is_recorded_worker one_process 77 ''then'' []"
    by (auto simp: cleaned_worker_def recorded_row_def)
  with run show ?thesis by simp
qed

end
