(* ===== verification/Dispatch_World.thy ===== *)
theory Dispatch_World
  imports Ceilings Blind_Review Startup Orphan_Worker
begin

text \<open>
  The dispatcher as a process: its memory beside the database (\<open>dispatcher-base.ts\<close>), the sessions it
  holds, how one is released (\<open>dispatcher-release-session.ts\<close>, \<open>dispatcher-completion-release.ts\<close>) and
  the small steps its handlers share.

  A handler is a computation over the world. What the process awaits (harness adapters, MCP servers,
  sandboxes, worktrees, watchers) is a parameter that may change the whole world, because other
  handlers run in the meantime. One instant is read for a whole handler. An object of a session is
  kept by the id of its run: a run has one session.
\<close>

subsection \<open>Memory\<close>

record active_session =
  ae_start :: session_start
  ae_sessionId :: string
  ae_lease :: "lease option"

record world =
  w_store :: store
  w_disp :: dispatcher
  w_sessions :: "(string \<times> active_session) list"
  w_released :: "string set"
  w_starting :: "string set"
  w_finishing :: "string set"
  w_handled :: "string set"
  w_routed :: "string set"
  w_fallbacks :: "string set"
  w_lastErrors :: "string \<Rightarrow> string option"
  w_running :: bool
  w_cycleInFlight :: bool
  w_pendingCycle :: bool
  w_ticks :: nat
  w_cycleCount :: nat
  w_lastCycleAt :: "instant option"
  w_forceCleanup :: bool

type_synonym 'a act = "(world, error, 'a) comp"

record settings =
  se_router :: router
  se_enabled :: bool
  se_maxConcurrentRuns :: nat
  se_retry :: retry_settings
  se_ceilings :: "ceiling_settings option"
  se_maxAutoWaitMs :: "rat option"
  se_heartbeatTimeoutSeconds :: int
  se_ownerProcessId :: string
  se_worktreeManager :: bool
  se_worktreesEnabled :: bool
  se_cleanupOnFailure :: bool
  se_number :: "rat \<Rightarrow> string"
  se_readDate :: "string \<Rightarrow> instant option"
  se_snapshot :: "string \<Rightarrow> store \<Rightarrow> cost_snapshot option"
  se_live :: live_pricing
  se_rateDay :: instant
  se_localeSort :: "string list \<Rightarrow> string list"

definition on_db :: "'a db \<Rightarrow> 'a act" where
  "on_db = on_part w_store (\<lambda>s w. w\<lparr>w_store := s\<rparr>)"

text \<open>The memory as the choice of agents sees it.\<close>

definition dispatcher_of :: "world \<Rightarrow> dispatcher" where
  "dispatcher_of w = (w_disp w)\<lparr>dp_active := map (\<lambda>(i, a). (i, ag_id (ss_agent (ae_start a)))) (w_sessions w)\<rparr>"

definition on_dispatcher :: "(store \<Rightarrow> dispatcher \<Rightarrow> (error + 'a) \<times> dispatcher) \<Rightarrow> 'a act" where
  "on_dispatcher f w = (case f (w_store w) (dispatcher_of w) of (r, d) \<Rightarrow> (r, w\<lparr>w_disp := d\<rparr>))"

definition now_of :: "world \<Rightarrow> instant" where
  "now_of w = dp_now (w_disp w)"

definition config_of :: "settings \<Rightarrow> config" where
  "config_of se = ro_config (se_router se)"

definition session_of :: "string \<Rightarrow> world \<Rightarrow> active_session option" where
  "session_of i w = map_of (w_sessions w) i"

definition has_active_session :: "string \<Rightarrow> world \<Rightarrow> bool" where
  "has_active_session i w \<longleftrightarrow> session_of i w \<noteq> None"

text \<open>\<open>Map.set\<close> keeps the place of a key that is there.\<close>

definition set_session :: "string \<Rightarrow> active_session \<Rightarrow> world \<Rightarrow> world" where
  "set_session i a w = w\<lparr>w_sessions :=
     (if session_of i w = None then w_sessions w @ [(i, a)]
      else map (\<lambda>(j, b). (j, if j = i then a else b)) (w_sessions w))\<rparr>"

definition forget_session :: "string \<Rightarrow> world \<Rightarrow> world" where
  "forget_session i w = w\<lparr>w_sessions := filter (\<lambda>e. fst e \<noteq> i) (w_sessions w)\<rparr>"

text \<open>The router looks up live sessions in the dispatcher's map, and the accounting asks it for the
  agent of a run.\<close>

definition router_of :: "settings \<Rightarrow> world \<Rightarrow> router" where
  "router_of se w = (se_router se)\<lparr>ro_liveSession := (\<lambda>i. has_active_session i w)\<rparr>"

definition cost_deps_of :: "settings \<Rightarrow> world \<Rightarrow> cost_deps" where
  "cost_deps_of se w =
     \<lparr>cd_router = se_router se, cd_snapshot = se_snapshot se,
      cd_agentOf = (\<lambda>r s. resolve_runtime_agent_for_run r (dispatcher_of w)),
      cd_live = se_live se, cd_rateDay = se_rateDay se\<rparr>"

text \<open>A handler with variables of its own works on the world and the variables.\<close>

definition on_world :: "'a act \<Rightarrow> (world \<times> 'l, error, 'a) comp" where
  "on_world = on_part fst (\<lambda>w (_, l). (w, l))"

subsection \<open>Exceptions\<close>

text \<open>\<open>try\<close> with a \<open>catch\<close> and with a \<open>finally\<close>. A computation that does not return runs neither.\<close>

definition attempted :: "('s, error, 'a) comp \<Rightarrow> ('s, error, error option) comp" where
  "attempted m s = (case m s of (Inl e, t) \<Rightarrow> (if e = NotReturning then (Inl e, t) else (Inr (Some e), t))
     | (Inr _, t) \<Rightarrow> (Inr None, t))"

definition rescued :: "('s, error, 'a) comp \<Rightarrow> (error \<Rightarrow> ('s, error, 'a) comp) \<Rightarrow> ('s, error, 'a) comp" where
  "rescued m h s = (case m s of (Inl e, t) \<Rightarrow> (if e = NotReturning then (Inl e, t) else h e t)
     | (Inr x, t) \<Rightarrow> (Inr x, t))"

definition finally_do :: "('s, error, 'a) comp \<Rightarrow> ('s, error, unit) comp \<Rightarrow> ('s, error, 'a) comp" where
  "finally_do m f s = (case m s of (r, t) \<Rightarrow>
     if r = Inl NotReturning then (r, t)
     else case f t of (Inl e, u) \<Rightarrow> (Inl e, u) | (Inr _, u) \<Rightarrow> (r, u))"

definition done_with :: "('s, error, 'a) comp \<Rightarrow> ('s, error, unit) comp" where
  "done_with m = andthen m (\<lambda>_. give ())"

fun for_each :: "('a \<Rightarrow> ('s, error, unit) comp) \<Rightarrow> 'a list \<Rightarrow> ('s, error, unit) comp" where
  "for_each f [] = give ()"
| "for_each f (x # xs) = andthen (f x) (\<lambda>_. for_each f xs)"

subsection \<open>The outside\<close>

record spawned =
  sp_sessionId :: string
  sp_harnessSessionId :: "string option"

record outside =
  ou_kill :: "string \<Rightarrow> string option \<Rightarrow> unit act"
  ou_isAlive :: "string \<Rightarrow> bool act"
  ou_teardown :: "string \<Rightarrow> unit act"
  ou_releaseInTime :: "string \<Rightarrow> world \<Rightarrow> bool"
  ou_createMcp :: "string \<Rightarrow> unit act"
  ou_closeMcp :: "string \<Rightarrow> unit act"
  ou_stopWatchers :: "string \<Rightarrow> string \<Rightarrow> unit act"
  ou_removeWorktree :: "string \<Rightarrow> unit act"
  ou_cleanupStale :: "string set \<Rightarrow> bool \<Rightarrow> nat act"
  ou_cleanupContainers :: "string list \<Rightarrow> unit act"
  ou_os :: "world os"
  ou_worker :: "string \<Rightarrow> world \<Rightarrow> worker_mapping"

text \<open>The worker's columns of a session's row are read outside; a run without a row has none.\<close>

definition cleanup_worker :: "outside \<Rightarrow> string option \<Rightarrow> orphan_result act" where
  "cleanup_worker ou mapping w =
     (case cleanup_orphan_worker_process (ou_os ou) (case mapping of None \<Rightarrow> no_worker | Some sid \<Rightarrow> ou_worker ou sid w) w of
        (res, w') \<Rightarrow> (Inr res, w'))"

subsection \<open>Releasing a session\<close>

definition release_session :: "settings \<Rightarrow> outside \<Rightarrow> string \<Rightarrow> unit act" where
  "release_session se ou i =
     andthen (reading w_released) (\<lambda>released.
     if i \<in> released then give ()
     else
       andthen (attempted (ou_teardown ou i)) (\<lambda>thrown.
       andthen (attempted (ou_closeMcp ou i)) (\<lambda>_.
       case thrown of
         Some e \<Rightarrow> fail (DispatchFailed (''sandbox teardown failed during dispatcher release: '' @
           ro_errorText (se_router se) e))
       | None \<Rightarrow> modify (\<lambda>w. w\<lparr>w_released := insert i (w_released w)\<rparr>))))"

definition release_lease :: "settings \<Rightarrow> lease option \<Rightarrow> unit act" where
  "release_lease se l =
     andthen (reading now_of) (\<lambda>now. on_db (on_leases (release_dispatch_lease (cfg_leaseRepo (config_of se)) l now)))"

text \<open>A fence for the writes of a handler: the token of the session's lease and the time.\<close>

definition fence_of :: "active_session option \<Rightarrow> instant \<Rightarrow> fenced_options" where
  "fence_of a now = \<lparr>fo_token = map_option lease_fenceToken (Option.bind a ae_lease), fo_now = now\<rparr>"

definition fence_pair :: "fenced_options \<Rightarrow> (nat \<times> instant) option" where
  "fence_pair f = map_option (\<lambda>t. (t, fo_now f)) (fo_token f)"

definition record_fenced :: "settings \<Rightarrow> string \<Rightarrow> payload \<Rightarrow> fenced_options \<Rightarrow> unit act" where
  "record_fenced se i p f = on_db (record_custom_fenced (se_router se) i p (fence_pair f))"

subsection \<open>Releasing before the completion is routed\<close>

text \<open>What the handler of a session's end keeps in its variables.\<close>

record ending =
  en_completed :: bool
  en_scheduledResume :: bool
  en_routed :: bool
  en_releaseAttempted :: bool
  en_activeRemoved :: bool
  en_leaseReleased :: bool

definition fresh_ending :: ending where
  "fresh_ending = \<lparr>en_completed = False, en_scheduledResume = False, en_routed = False,
     en_releaseAttempted = False, en_activeRemoved = False, en_leaseReleased = False\<rparr>"

type_synonym 'a handler = "(world \<times> ending, error, 'a) comp"

definition note_ending :: "(ending \<Rightarrow> ending) \<Rightarrow> unit handler" where
  "note_ending f = modify (\<lambda>(w, e). (w, f e))"

definition forget_active :: "string \<Rightarrow> active_session option \<Rightarrow> unit handler" where
  "forget_active i active = modify (\<lambda>(w, e).
     if active = None \<or> en_activeRemoved e then (w, e)
     else (forget_session i w, e\<lparr>en_activeRemoved := True\<rparr>))"

definition release_lease_once :: "settings \<Rightarrow> active_session option \<Rightarrow> unit handler" where
  "release_lease_once se active =
     andthen (reading (\<lambda>(w, e). en_leaseReleased e)) (\<lambda>released.
     case active of None \<Rightarrow> give ()
     | Some a \<Rightarrow>
         if released then give ()
         else andthen (on_world (release_lease se (ae_lease a))) (\<lambda>_. note_ending (\<lambda>e. e\<lparr>en_leaseReleased := True\<rparr>)))"

definition record_completion_cleanup_failure ::
    "settings \<Rightarrow> string \<Rightarrow> fenced_options \<Rightarrow> error \<Rightarrow> unit act" where
  "record_completion_cleanup_failure se i f thrown =
     (let reason = ''sandbox_cleanup_failed: '' @ ro_errorText (se_router se) thrown; c = config_of se in
      andthen (reading (\<lambda>w. run_get i (w_store w))) (\<lambda>latest.
      andthen (case latest of
          None \<Rightarrow> give ()
        | Some r \<Rightarrow>
            if run_stage r \<noteq> StageDone \<and> run_terminalState r = None
            then done_with (on_db (mark_failed c i (Some reason) f))
            else andthen (on_db (run_update_failure c i (Some reason) False)) (\<lambda>_.
                 done_with (on_db (run_update_workflow_state c i no_block)))) (\<lambda>_.
      record_fenced se i [(''kind'', JStr ''sandbox.cleanup_failure''), (''reason'', JStr reason),
        (''phase'', JStr ''completion_release'')] f)))"

text \<open>A release that takes too long is reported as failed; what it does later is not part of the handler.\<close>

definition completion_release_timeout_ms :: nat where
  "completion_release_timeout_ms = 5000"

definition release_in_time :: "settings \<Rightarrow> outside \<Rightarrow> string \<Rightarrow> unit act" where
  "release_in_time se ou i =
     andthen (reading (ou_releaseInTime ou i)) (\<lambda>ok.
     if ok then release_session se ou i
     else fail (DispatchFailed (''completion release timed out after '' @
       show_nat completion_release_timeout_ms @ ''ms'')))"

definition release_before_completion_routing ::
    "settings \<Rightarrow> outside \<Rightarrow> string \<Rightarrow> active_session option \<Rightarrow> fenced_options \<Rightarrow> bool handler" where
  "release_before_completion_routing se ou i active f =
     (if active = None then give True
      else
        andthen (note_ending (\<lambda>e. e\<lparr>en_releaseAttempted := True\<rparr>)) (\<lambda>_.
        andthen (attempted (on_world (release_in_time se ou i))) (\<lambda>thrown.
        andthen (case thrown of None \<Rightarrow> give ()
            | Some e \<Rightarrow> on_world (record_completion_cleanup_failure se i f e)) (\<lambda>_.
        andthen (forget_active i active) (\<lambda>_.
        andthen (release_lease_once se active) (\<lambda>_.
        give (thrown = None)))))))"

end
