(* ===== verification/Dispatch_Spawn.thy ===== *)
theory Dispatch_Spawn
  imports Dispatch_World
begin

text \<open>
  Starting a run (\<open>dispatcher-spawn.ts\<close>): the prerequisites, the row of the run, its worktree, the lease,
  the session of the harness, and what is taken back when any of it throws. The table of sessions is
  \<open>repos/session.ts\<close>, an inherited worktree \<open>dispatcher-inherited-worktree.ts\<close>.

  Which model, harness, sandbox and workflow profile a task runs with is looked up in the configuration
  resources; that lookup, the checks of the workspace and the text of the prompt are parameters here.
\<close>

record plan =
  pl_agent :: agent
  pl_sandboxProfile :: "sandbox_profile option"
  pl_workflow :: "workflow_profile option"
  pl_workflowJson :: "json option"
  pl_harnessSnapshot :: "json option"
  pl_workingDir :: "string option"
  pl_spawnDir :: "string option"
  pl_snapshot :: "(string option \<Rightarrow> string list option \<Rightarrow> json) option"

record prepared_sandbox =
  sx_workingDir :: string
  sx_worktreePaths :: "string list"
  sx_agentExecution :: json
  sx_sandbox :: json

record preflight_result =
  pf_failure :: "string option"
  pf_evidence :: "payload option"

record spawner =
  sw_prerequisites :: "task \<Rightarrow> agent \<Rightarrow> world \<Rightarrow> string option"
  sw_plan :: "task \<Rightarrow> agent \<Rightarrow> dispatch_options \<Rightarrow> string \<Rightarrow> plan act"
  sw_newRunId :: "world \<Rightarrow> string"
  sw_adapter :: "string \<Rightarrow> bool"
  sw_preflight :: "run \<Rightarrow> task \<Rightarrow> string option \<Rightarrow> bool \<Rightarrow> world \<Rightarrow> preflight_result"
  sw_prepareSandbox :: "run \<Rightarrow> task \<Rightarrow> plan \<Rightarrow> prepared_sandbox act"
  sw_confirmSandbox :: "prepared_sandbox \<Rightarrow> spawned \<Rightarrow> json"
  sw_exists :: "world \<Rightarrow> string \<Rightarrow> bool"
  sw_isGitRepo :: "world \<Rightarrow> string \<Rightarrow> bool"
  sw_createWorktree :: "string \<Rightarrow> task \<Rightarrow> string \<Rightarrow> string act"
  sw_restoreWorktree :: "string \<Rightarrow> string \<Rightarrow> string \<Rightarrow> string act"
  sw_seedStage :: "(string \<Rightarrow> workflow_stage \<Rightarrow> unit act) option"
  sw_prompt :: "task \<Rightarrow> run \<Rightarrow> prior_attempt_failure option \<Rightarrow> string option \<Rightarrow> (string \<times> json option) act"
  sw_spawn :: "run \<Rightarrow> task \<Rightarrow> string \<Rightarrow> string option \<Rightarrow> spawn_limits \<Rightarrow> spawned act"

subsection \<open>The table of sessions\<close>

definition mapping_create :: "string \<Rightarrow> string \<Rightarrow> unit db" where
  "mapping_create sid i =
     andthen (reading (\<lambda>s. sid \<notin> fst ` set (st_sessions s) \<and> i \<in> run_id ` set (st_runs s))) (\<lambda>ok.
     andthen (guard_or ok ConstraintFailed) (\<lambda>_.
     modify (\<lambda>s. s\<lparr>st_sessions := st_sessions s @ [(sid, i)]\<rparr>)))"

definition mapping_update_session_id :: "string \<Rightarrow> string \<Rightarrow> unit db" where
  "mapping_update_session_id sid new_sid =
     andthen (reading (\<lambda>s. fst ` set (st_sessions s))) (\<lambda>ids.
     andthen (guard_or (sid \<in> ids) (SessionNotFound sid)) (\<lambda>_.
     andthen (guard_or (new_sid = sid \<or> new_sid \<notin> ids) ConstraintFailed) (\<lambda>_.
     modify (\<lambda>s. s\<lparr>st_sessions := map (\<lambda>(x, i). (if x = sid then new_sid else x, i)) (st_sessions s)\<rparr>))))"

definition mapping_delete :: "string \<Rightarrow> unit db" where
  "mapping_delete sid = modify (\<lambda>s. s\<lparr>st_sessions := filter (\<lambda>x. fst x \<noteq> sid) (st_sessions s)\<rparr>)"

subsection \<open>An inherited worktree\<close>

definition restore_ref :: "run option \<Rightarrow> string option" where
  "restore_ref reuse = (case reuse of None \<Rightarrow> None | Some r \<Rightarrow> or_else (run_branch r) (run_commitSha r))"

definition missing_inherited_worktree_message :: "string \<Rightarrow> run option \<Rightarrow> string" where
  "missing_inherited_worktree_message path reuse =
     ''Inherited worktree is missing for '' @
     (case reuse of None \<Rightarrow> ''unknown source run'' | Some r \<Rightarrow> ''source run '' @ run_id r) @ '': '' @ path"

definition inherited_worktree_available :: "settings \<Rightarrow> spawner \<Rightarrow> string option \<Rightarrow> string \<Rightarrow> run option \<Rightarrow> world \<Rightarrow> bool" where
  "inherited_worktree_available se sw base path reuse w \<longleftrightarrow>
     sw_exists sw w path \<or>
     (se_worktreeManager se \<and> se_worktreesEnabled se \<and> base \<noteq> None \<and> restore_ref reuse \<noteq> None)"

definition ensure_inherited_worktree_dispatch ::
    "settings \<Rightarrow> spawner \<Rightarrow> task \<Rightarrow> plan \<Rightarrow> string list option \<Rightarrow> run option \<Rightarrow> unit act" where
  "ensure_inherited_worktree_dispatch se sw t pl inherited reuse =
     (case (pl_sandboxProfile pl, inherited, reuse) of
        (None, Some (path # _), Some r) \<Rightarrow>
          if run_terminalState r = None then give ()
          else
            andthen (reading (\<lambda>w. (inherited_worktree_available se sw (pl_workingDir pl) path reuse w,
              dp_skipRepo (w_disp w)))) (\<lambda>(ok, skips).
            if ok then give ()
            else
              andthen (on_db (block_task_for_prerequisites skips (task_id t))) (\<lambda>_.
              fail (PrerequisitesMissing (missing_inherited_worktree_message path reuse))))
      | _ \<Rightarrow> give ())"

definition resolve_inherited_worktree :: "settings \<Rightarrow> spawner \<Rightarrow> string option \<Rightarrow> string \<Rightarrow> run option \<Rightarrow> string act" where
  "resolve_inherited_worktree se sw base path reuse =
     andthen (reading (\<lambda>w. sw_exists sw w path)) (\<lambda>there.
     if there then give path
     else if \<not> (se_worktreeManager se \<and> se_worktreesEnabled se) then give path
     else case (base, restore_ref reuse) of
         (Some b, Some ref) \<Rightarrow>
           andthen (sw_restoreWorktree sw b path ref) (\<lambda>restored.
           andthen (reading (\<lambda>w. sw_exists sw w restored)) (\<lambda>ok.
           if ok then give restored
           else fail (DispatchFailed (''Inherited worktree restore did not recreate '' @ restored))))
       | _ \<Rightarrow> fail (DispatchFailed (missing_inherited_worktree_message path reuse)))"

subsection \<open>Preparing the runtime\<close>

definition record_runtime :: "settings \<Rightarrow> string \<Rightarrow> string \<Rightarrow> (string \<times> json) list \<Rightarrow> unit act" where
  "record_runtime se i kind more_fields = on_db (record_custom (se_router se) i ((''kind'', JStr kind) # more_fields))"

definition record_when :: "settings \<Rightarrow> string \<Rightarrow> string \<Rightarrow> string \<Rightarrow> json option \<Rightarrow> unit act" where
  "record_when se i kind field v =
     (case v of None \<Rightarrow> give () | Some j \<Rightarrow> record_runtime se i kind [(field, j)])"

definition set_worktree_paths :: "string \<Rightarrow> string list \<Rightarrow> unit act" where
  "set_worktree_paths i ps = done_with (on_db (run_update_worktree_paths i (Some ps)))"

definition prepare_sandbox :: "settings \<Rightarrow> spawner \<Rightarrow> run \<Rightarrow> task \<Rightarrow> plan \<Rightarrow> prepared_sandbox act" where
  "prepare_sandbox se sw r t pl =
     andthen (sw_prepareSandbox sw r t pl) (\<lambda>sx.
     andthen (if sx_worktreePaths sx = [] then give () else set_worktree_paths (run_id r) (sx_worktreePaths sx)) (\<lambda>_.
     andthen (record_runtime se (run_id r) ''runtime.sandbox.prepared''
       [(''agentExecution'', sx_agentExecution sx), (''sandbox'', sx_sandbox sx)]) (\<lambda>_.
     give sx)))"

definition prepare_spawn_runtime ::
    "settings \<Rightarrow> spawner \<Rightarrow> run \<Rightarrow> task \<Rightarrow> plan \<Rightarrow> string list option \<Rightarrow> run option \<Rightarrow>
      (string option \<times> prepared_sandbox option) act" where
  "prepare_spawn_runtime se sw r t pl inherited reuse =
     andthen (record_when se (run_id r) ''runtime.harness.resolved'' ''harness'' (pl_harnessSnapshot pl)) (\<lambda>_.
     andthen (record_when se (run_id r) ''runtime.workflow_profile.resolved'' ''workflowProfile'' (pl_workflowJson pl)) (\<lambda>_.
     if pl_sandboxProfile pl \<noteq> None then
       andthen (prepare_sandbox se sw r t pl) (\<lambda>sx. give (Some (sx_workingDir sx), Some sx))
     else case inherited of
       Some (path # _) \<Rightarrow>
         andthen (resolve_inherited_worktree se sw (pl_workingDir pl) path reuse) (\<lambda>dir.
         andthen (set_worktree_paths (run_id r) [dir]) (\<lambda>_.
         give (Some dir, None)))
     | _ \<Rightarrow>
         (case pl_workingDir pl of
            None \<Rightarrow> give (None, None)
          | Some base \<Rightarrow>
              andthen (reading (\<lambda>w. sw_isGitRepo sw w base)) (\<lambda>git.
              if se_worktreeManager se \<and> se_worktreesEnabled se \<and> git then
                andthen (sw_createWorktree sw base t (run_id r)) (\<lambda>path.
                if path \<noteq> base
                then andthen (set_worktree_paths (run_id r) [path]) (\<lambda>_. give (Some path, None))
                else give (Some base, None))
              else give (Some base, None)))))"

definition run_workspace_preflight ::
    "settings \<Rightarrow> spawner \<Rightarrow> run \<Rightarrow> task \<Rightarrow> string option \<Rightarrow> bool \<Rightarrow> payload option act" where
  "run_workspace_preflight se sw r t dir setup =
     andthen (reading (\<lambda>w. (sw_preflight sw r t dir setup w, dp_skipRepo (w_disp w)))) (\<lambda>(res, skips).
     case pf_failure res of
       None \<Rightarrow> give (pf_evidence res)
     | Some detail \<Rightarrow>
         andthen (on_db (block_task_for_prerequisites skips (task_id t))) (\<lambda>_.
         fail (PrerequisitesMissing detail)))"

subsection \<open>The session\<close>

text \<open>What has to be taken back when the rest of a dispatch throws.\<close>

record progress =
  sg_lease :: "lease option"
  sg_provisional :: "string option"
  sg_sandbox :: bool
  sg_spawned :: "string option"

definition no_progress :: progress where
  "no_progress = \<lparr>sg_lease = None, sg_provisional = None, sg_sandbox = False, sg_spawned = None\<rparr>"

definition note_progress :: "(progress \<Rightarrow> progress) \<Rightarrow> (world \<times> progress, error, unit) comp" where
  "note_progress f = modify (\<lambda>(w, p). (w, f p))"

definition write_checkpoint :: "settings \<Rightarrow> run \<Rightarrow> lease option \<Rightarrow> unit act" where
  "write_checkpoint se r l =
     (let c = config_of se; cp = build_checkpoint_input r None in
      if \<not> cfg_checkpointRepo c then give ()
      else andthen (reading now_of) (\<lambda>now.
        done_with (on_db (case l of Some x \<Rightarrow> checkpoint_upsert_fenced c cp (lease_fenceToken x) now
          | None \<Rightarrow> checkpoint_upsert cp))))"

definition record_spawned_session ::
    "settings \<Rightarrow> run \<Rightarrow> agent \<Rightarrow> spawned \<Rightarrow> string \<Rightarrow> string option \<Rightarrow> lease option \<Rightarrow> unit act" where
  "record_spawned_session se r a x provisional reused l =
     andthen (on_db (mapping_update_session_id provisional (sp_sessionId x))) (\<lambda>_.
     andthen (on_db (run_update_session (run_id r) (Some (sp_sessionId x)))) (\<lambda>_.
     andthen (if reused \<noteq> None \<or> run_stage r \<noteq> Understand then
         andthen (write_checkpoint se r l) (\<lambda>_.
         case reused of None \<Rightarrow> give ()
         | Some old \<Rightarrow> if old \<noteq> run_id r \<and> cfg_checkpointRepo (config_of se) then on_db (checkpoint_delete old) else give ())
       else give ()) (\<lambda>_.
     andthen (modify (set_session (run_id r)
       \<lparr>ae_start = \<lparr>ss_agent = a, ss_initialTokensIn = Some (run_tokensIn r), ss_initialTokensOut = Some (run_tokensOut r),
          ss_initialCostUsd = Some (run_costUsd r)\<rparr>, ae_sessionId = sp_sessionId x, ae_lease = l\<rparr>)) (\<lambda>_.
     andthen (modify (\<lambda>w. w\<lparr>w_starting := w_starting w - {run_id r}\<rparr>)) (\<lambda>_.
     on_db (emit (RunDispatched (run_id r) (run_taskId r) (ag_id a) (ag_name a) (run_stage r))))))))"

definition set_resolved :: "string \<Rightarrow> agent option \<Rightarrow> world \<Rightarrow> world" where
  "set_resolved i a w = w\<lparr>w_disp := (w_disp w)\<lparr>dp_resolved := (dp_resolved (w_disp w))(i := a)\<rparr>\<rparr>"

definition note_agent_failure :: "run \<Rightarrow> string \<Rightarrow> unit act" where
  "note_agent_failure r reason = modify (\<lambda>w. w\<lparr>w_disp := record_agent_failure r reason (w_disp w)\<rparr>)"

definition mark_dispatch_stalled :: "settings \<Rightarrow> run \<Rightarrow> string \<Rightarrow> unit act" where
  "mark_dispatch_stalled se r reason =
     andthen (note_agent_failure r reason) (\<lambda>_.
     andthen (on_db (run_update_failure (config_of se) (run_id r) (Some reason) True)) (\<lambda>_.
     andthen (on_db (run_update_terminal_state (run_id r) (Some Stalled))) (\<lambda>_.
     on_db (emit (RunStageChanged (run_id r) (stage_name (run_stage r)) ''stalled'' (Some reason))))))"

subsection \<open>Dispatching\<close>

definition new_run :: "settings \<Rightarrow> string \<Rightarrow> task \<Rightarrow> plan \<Rightarrow> dispatch_options \<Rightarrow> dispatch_start \<Rightarrow> string list option \<Rightarrow> instant \<Rightarrow> run" where
  "new_run se i t pl opts start inherited now =
     \<lparr>run_id = i, run_taskId = task_id t, run_agentId = ag_id (pl_agent pl), run_parentRunId = do_parentRunId opts,
      run_stage = start_stage start, run_terminalState = None, run_resetCount = 0,
      run_completedStages = start_completedStages start, run_blockedReason = None, run_pendingApproval = False,
      run_sessionId = None, run_branch = None, run_commitSha = None, run_prNumber = None, run_prUrl = None,
      run_worktreePaths = inherited, run_runtimeModel = Some (ag_model (pl_agent pl)),
      run_runtimeHarness = Some (ag_harness (pl_agent pl)), run_runtimeSandboxProfile = pl_sandboxProfile pl,
      run_runtimeWorkflowProfile = pl_workflow pl,
      run_attemptSnapshot = map_option (\<lambda>f. f (pl_workingDir pl) inherited) (pl_snapshot pl),
      run_ciStatus = None, run_reviewStatus = None, run_failReason = None, run_recoverable = True,
      run_tokensIn = 0, run_tokensOut = 0, run_costUsd = 0, run_lastHeartbeat = Some now,
      run_heartbeatTimeoutSeconds = se_heartbeatTimeoutSeconds se, run_verifyRetries = 0,
      run_completionSummary = None, run_createdAt = now, run_updatedAt = now\<rparr>"

text \<open>The session of a prepared run: prompt, lease, the provisional row, the harness.\<close>

definition start_session ::
    "settings \<Rightarrow> spawner \<Rightarrow> run \<Rightarrow> task \<Rightarrow> plan \<Rightarrow> dispatch_options \<Rightarrow> string option \<Rightarrow> prepared_sandbox option \<Rightarrow>
      (world \<times> progress, error, unit) comp" where
  "start_session se sw r t pl opts dir sandbox =
     (let a = pl_agent pl; wired = cfg_leaseRepo (config_of se) in
      andthen (on_world (sw_prompt sw t r (do_priorAttemptFailure opts) dir)) (\<lambda>(prompt, found).
      andthen (on_world (record_when se (run_id r) ''runtime.agent_system_prompt.resolved'' ''systemPrompt'' found)) (\<lambda>_.
      andthen (on_world (reading (\<lambda>w. (now_of w, run_get (run_id r) (w_store w) \<noteq> None, st_clock (w_store w))))) (\<lambda>(now, there, dbnow).
      andthen (on_world (on_db (on_leases (acquire_dispatch_lease wired there dbnow r (se_ownerProcessId se) now)))) (\<lambda>l.
      andthen (note_progress (\<lambda>p. p\<lparr>sg_lease := l, sg_provisional := Some (''pending:'' @ run_id r)\<rparr>)) (\<lambda>_.
      andthen (on_world (on_db (mapping_create (''pending:'' @ run_id r) (run_id r)))) (\<lambda>_.
      andthen (on_world (sw_spawn sw r t prompt dir
        (attempt_ceiling_spawn_options (se_ceilings se) (Some t) (Some (run_costUsd r)) (Some (ag_model a))))) (\<lambda>x.
      andthen (note_progress (\<lambda>p. p\<lparr>sg_spawned := Some (sp_sessionId x)\<rparr>)) (\<lambda>_.
      andthen (case sandbox of None \<Rightarrow> give ()
        | Some sx \<Rightarrow> on_world (record_runtime se (run_id r) ''runtime.sandbox.agent_execution''
            [(''agentExecution'', sw_confirmSandbox sw sx x), (''sandbox'', sx_sandbox sx)])) (\<lambda>_.
      andthen (on_world (on_db (on_leases (attach_dispatch_lease_session wired dbnow l (sp_sessionId x))))) (\<lambda>l'.
      andthen (note_progress (\<lambda>p. p\<lparr>sg_lease := l'\<rparr>)) (\<lambda>_.
      andthen (on_world (record_spawned_session se r a x (''pending:'' @ run_id r) (do_reuseWorktreeFromRunId opts) l')) (\<lambda>_.
      note_progress (\<lambda>p. p\<lparr>sg_provisional := None\<rparr>))))))))))))))"

definition or_dir :: "string option \<Rightarrow> string option \<Rightarrow> string option" where
  "or_dir a b = (case a of Some x \<Rightarrow> Some x | None \<Rightarrow> b)"

definition spawn_run ::
    "settings \<Rightarrow> spawner \<Rightarrow> run \<Rightarrow> task \<Rightarrow> plan \<Rightarrow> dispatch_options \<Rightarrow> dispatch_start \<Rightarrow> string list option \<Rightarrow> run option \<Rightarrow>
      (world \<times> progress, error, run) comp" where
  "spawn_run se sw r t pl opts start inherited reuse =
     andthen (if inherited = None \<or> inherited = Some []
         then done_with (on_world (run_workspace_preflight se sw r t (or_dir (pl_spawnDir pl) (pl_workingDir pl)) True))
         else give ()) (\<lambda>_.
     andthen (on_world (prepare_spawn_runtime se sw r t pl inherited reuse)) (\<lambda>(found, sandbox).
     andthen (note_progress (\<lambda>p. p\<lparr>sg_sandbox := (sandbox \<noteq> None)\<rparr>)) (\<lambda>_.
     let dir = or_dir found (pl_spawnDir pl) in
     andthen (case (start_seedStage start, sw_seedStage sw) of
         (Some g, Some hook) \<Rightarrow> on_world (hook (run_id r) g)
       | _ \<Rightarrow> give ()) (\<lambda>_.
     andthen (case pl_snapshot pl of
         None \<Rightarrow> give r
       | Some f \<Rightarrow>
           andthen (on_world (reading (\<lambda>w. Option.bind (run_get (run_id r) (w_store w)) run_worktreePaths))) (\<lambda>paths.
           on_world (on_db (run_update_attempt_snapshot (run_id r) (f dir (or_else paths inherited)))))) (\<lambda>rs.
     andthen (on_world (run_workspace_preflight se sw rs t
         (case inherited of Some (p # _) \<Rightarrow> Some p | _ \<Rightarrow> dir) False)) (\<lambda>found_evidence.
     andthen (case found_evidence of None \<Rightarrow> give ()
       | Some p \<Rightarrow> on_world (on_db (record_custom (se_router se) (run_id rs) p))) (\<lambda>_.
     andthen (start_session se sw rs t pl opts dir sandbox) (\<lambda>_.
     give rs))))))))"

text \<open>The \<open>catch\<close>: whatever was started is stopped, and the run is stalled.\<close>

definition undo_spawn :: "settings \<Rightarrow> outside \<Rightarrow> run \<Rightarrow> progress \<Rightarrow> error \<Rightarrow> unit act" where
  "undo_spawn se ou r p thrown =
     andthen (modify (\<lambda>w. w\<lparr>w_starting := w_starting w - {run_id r}\<rparr>)) (\<lambda>_.
     andthen (case sg_spawned p of None \<Rightarrow> give () | Some sid \<Rightarrow> done_with (attempted (ou_kill ou sid None))) (\<lambda>_.
     andthen (if sg_sandbox p then done_with (attempted (ou_teardown ou (run_id r))) else give ()) (\<lambda>_.
     andthen (modify (set_resolved (run_id r) None)) (\<lambda>_.
     andthen (case sg_provisional p of None \<Rightarrow> give () | Some sid \<Rightarrow> on_db (mapping_delete sid)) (\<lambda>_.
     andthen (release_lease se (sg_lease p)) (\<lambda>_.
     andthen (ou_closeMcp ou (run_id r)) (\<lambda>_.
     andthen (mark_dispatch_stalled se r (ro_errorText (se_router se) thrown)) (\<lambda>_.
     fail thrown))))))))"

definition spawn_or_undo ::
    "settings \<Rightarrow> outside \<Rightarrow> spawner \<Rightarrow> run \<Rightarrow> task \<Rightarrow> plan \<Rightarrow> dispatch_options \<Rightarrow> dispatch_start \<Rightarrow> string list option \<Rightarrow>
      run option \<Rightarrow> run act" where
  "spawn_or_undo se ou sw r t pl opts start inherited reuse w =
     (case spawn_run se sw r t pl opts start inherited reuse (w, no_progress) of
        (Inr x, w', _) \<Rightarrow> (Inr x, w')
      | (Inl e, w', p) \<Rightarrow>
          if e = NotReturning then (Inl e, w')
          else (case undo_spawn se ou r p e w' of
              (Inl e', w'') \<Rightarrow> (Inl e', w'') | (Inr _, w'') \<Rightarrow> (Inl e, w'')))"

definition no_adapter_text :: "agent \<Rightarrow> string" where
  "no_adapter_text a = ''No harness adapter for: '' @ ag_harness a"

text \<open>The row of the run and everything after it.\<close>

definition dispatch_run ::
    "settings \<Rightarrow> outside \<Rightarrow> spawner \<Rightarrow> string \<Rightarrow> task \<Rightarrow> plan \<Rightarrow> dispatch_options \<Rightarrow> dispatch_start \<Rightarrow> run option \<Rightarrow> run act" where
  "dispatch_run se ou sw i t pl opts start reuse =
     (let inherited = Option.bind reuse run_worktreePaths in
      andthen (reading now_of) (\<lambda>now.
      andthen (on_db (run_create (new_run se i t pl opts start inherited now))) (\<lambda>r.
      andthen (modify (set_resolved (run_id r) (Some (pl_agent pl)))) (\<lambda>_.
      andthen (on_db (task_update_status (task_id t) Active)) (\<lambda>_.
      andthen (ou_createMcp ou (run_id r)) (\<lambda>_.
      if \<not> sw_adapter sw (ag_harness (pl_agent pl)) then
        andthen (ou_closeMcp ou (run_id r)) (\<lambda>_.
        andthen (mark_dispatch_stalled se r (no_adapter_text (pl_agent pl))) (\<lambda>_.
        fail (DispatchFailed (no_adapter_text (pl_agent pl)))))
      else
        andthen (modify (\<lambda>w. w\<lparr>w_starting := insert (run_id r) (w_starting w)\<rparr>)) (\<lambda>_.
        spawn_or_undo se ou sw r t pl opts start inherited reuse)))))))"

definition clear_skip_row :: "string \<Rightarrow> unit act" where
  "clear_skip_row i = andthen (reading (\<lambda>w. dp_skipRepo (w_disp w))) (\<lambda>wired.
     if wired then on_db (modify (\<lambda>s. s\<lparr>st_skips := filter (\<lambda>x. ds_taskId x \<noteq> i) (st_skips s)\<rparr>)) else give ())"

definition dispatch :: "settings \<Rightarrow> outside \<Rightarrow> spawner \<Rightarrow> task \<Rightarrow> agent \<Rightarrow> dispatch_options \<Rightarrow> run act" where
  "dispatch se ou sw t a opts =
     andthen (reading (\<lambda>w. (sw_prerequisites sw t a w, dp_skipRepo (w_disp w)))) (\<lambda>(issues, skips).
     case issues of
       Some detail \<Rightarrow>
         andthen (on_db (block_task_for_prerequisites skips (task_id t))) (\<lambda>_.
         fail (PrerequisitesMissing detail))
     | None \<Rightarrow>
         andthen (clear_skip_row (task_id t)) (\<lambda>_.
         andthen (reading (sw_newRunId sw)) (\<lambda>i.
         andthen (sw_plan sw t a opts i) (\<lambda>pl.
         andthen (reading (\<lambda>w. (Option.bind (do_reuseWorktreeFromRunId opts) (\<lambda>j. run_get j (w_store w)),
           resolve_dispatch_start (dp_checkpointRepo (w_disp w)) (do_resumeFromStage opts) (do_reuseWorktreeFromRunId opts)
             (w_store w)))) (\<lambda>(reuse, start).
         andthen (ensure_inherited_worktree_dispatch se sw t pl (Option.bind reuse run_worktreePaths) reuse) (\<lambda>_.
         dispatch_run se ou sw i t pl opts start reuse))))))"

definition manual_dispatch :: "settings \<Rightarrow> outside \<Rightarrow> spawner \<Rightarrow> string \<Rightarrow> string \<Rightarrow> run act" where
  "manual_dispatch se ou sw ti ai =
     andthen (reading (\<lambda>w. (task_get ti (w_store w), agent_get (dispatcher_of w) ai,
       list_ex is_live (run_list ti (w_store w))))) (\<lambda>(found, agent, busy).
     case found of None \<Rightarrow> fail (TaskNotFound ti)
     | Some t \<Rightarrow>
         (case agent of None \<Rightarrow> fail (DispatchFailed (''Agent not found: '' @ ai))
          | Some a \<Rightarrow>
              if busy then fail (DispatchFailed (''Task '' @ ti @ '' already has an active run''))
              else
                andthen (reading (\<lambda>w. resolve_dispatch_options (w_store w) t (dispatcher_of w))) (\<lambda>opts.
                rescued (dispatch se ou sw t a opts) (\<lambda>e.
                  andthen (if is_runtime_resolution e then done_with (on_db (task_update_status (task_id t) TaskFailed)) else give ())
                    (\<lambda>_. fail e)))))"

end
