(* ===== verification/Dispatch_Recovery.thy ===== *)
theory Dispatch_Recovery
  imports Dispatch_Spawn
begin

text \<open>
  Pausing, resuming and what follows a provider's limit (\<open>dispatcher-recovery.ts\<close>): a run waits and is
  tried again, is handed to an agent of another provider, or is frozen for the operator.
\<close>

subsection \<open>Evidence\<close>

fun outcome_kind_name :: "outcome_kind \<Rightarrow> string" where
  "outcome_kind_name Transient = ''transient''"
| "outcome_kind_name RecoverableExternal = ''recoverable-external''"
| "outcome_kind_name Policy = ''policy''"
| "outcome_kind_name TerminalOutcome = ''terminal''"

definition nullable :: "('a \<Rightarrow> json) \<Rightarrow> 'a option \<Rightarrow> json" where
  "nullable f v = (case v of None \<Rightarrow> JNull | Some x \<Rightarrow> f x)"

definition outcome_fields :: "harness_outcome \<Rightarrow> (string \<times> json) list" where
  "outcome_fields h =
     [(''kind'', JStr (outcome_kind_name (ho_kind h))), (''detail'', JStr (ho_detail h)),
      (''retryAfterMs'', nullable JNum (ho_retryAfterMs h)), (''resetAt'', nullable JStr (ho_resetAt h))]"

text \<open>The payload is spread over the kind: a kind of its own replaces the one given here.\<close>

definition record_recovery_evidence ::
    "settings \<Rightarrow> string \<Rightarrow> string \<Rightarrow> (string \<times> json) list \<Rightarrow> fenced_options \<Rightarrow> unit act" where
  "record_recovery_evidence se i kind given_fields f =
     record_fenced se i (fold (\<lambda>(k, v). put_field k v) given_fields [(''kind'', JStr kind)]) f"

subsection \<open>Pausing\<close>

definition pause_checkpoint :: "settings \<Rightarrow> run \<Rightarrow> fenced_options \<Rightarrow> unit act" where
  "pause_checkpoint se r f =
     (let c = config_of se; cp = build_checkpoint_input r None in
      if \<not> cfg_checkpointRepo c then give ()
      else done_with (on_db (case fo_token f of Some tok \<Rightarrow> checkpoint_upsert_fenced c cp tok (fo_now f)
             | None \<Rightarrow> checkpoint_upsert cp)))"

definition pause_live :: "settings \<Rightarrow> outside \<Rightarrow> run \<Rightarrow> string \<Rightarrow> run act" where
  "pause_live se ou r reason =
     (let i = run_id r in
      andthen (reading (\<lambda>w. (session_of i w, fence_of (session_of i w) (now_of w)))) (\<lambda>(active, f).
      andthen (pause_checkpoint se r f) (\<lambda>_.
      andthen (if active \<noteq> None then modify (forget_session i) else give ()) (\<lambda>_.
      andthen (ou_stopWatchers ou i ''operator paused'') (\<lambda>_.
      andthen (on_db (mark_paused (config_of se) i reason f)) (\<lambda>_.
      andthen (record_recovery_evidence se i ''operator.pause'' [(''reason'', JStr reason)] f) (\<lambda>_.
      andthen (case active of None \<Rightarrow> give ()
        | Some a \<Rightarrow>
            andthen (attempted (ou_kill ou (ae_sessionId a) (Some ''killed''))) (\<lambda>_.
            andthen (release_session se ou i) (\<lambda>_.
            release_lease se (ae_lease a)))) (\<lambda>_.
      on_db (run_get_required i)))))))))"

definition pause :: "settings \<Rightarrow> outside \<Rightarrow> string \<Rightarrow> string \<Rightarrow> run act" where
  "pause se ou i reason =
     andthen (reading (\<lambda>w. run_get i (w_store w))) (\<lambda>found.
     case found of None \<Rightarrow> fail (RunNotFound i)
     | Some r \<Rightarrow>
         if run_stage r = StageDone then fail (DispatchFailed (''Run '' @ i @ '' is already done''))
         else (case run_terminalState r of
             Some t \<Rightarrow>
               if is_resumable_state r then give r
               else fail (DispatchFailed (''Run '' @ i @ '' is already '' @ terminal_name t))
           | None \<Rightarrow> pause_live se ou r reason))"

subsection \<open>Resuming\<close>

definition resumable_text :: "run \<Rightarrow> string" where
  "resumable_text r = ''Run '' @ run_id r @ '' is not resumable (state: '' @
     (case run_terminalState r of None \<Rightarrow> ''active'' | Some t \<Rightarrow> terminal_name t) @ '')''"

definition resume_on :: "settings \<Rightarrow> outside \<Rightarrow> spawner \<Rightarrow> run \<Rightarrow> task \<Rightarrow> run act" where
  "resume_on se ou sw r t =
     andthen (on_dispatcher (\<lambda>s. match_resume_agent s t r)) (\<lambda>agent.
     case agent of None \<Rightarrow> fail (DispatchFailed (''No agent available to resume run '' @ run_id r))
     | Some a \<Rightarrow>
         andthen (reading (\<lambda>w. build_operator_resume_options (w_store w) r (dispatcher_of w))) (\<lambda>opts.
         andthen (dispatch se ou sw t a opts) (\<lambda>q.
         andthen (on_db (emit (RunResumed (run_id q) (run_id r) (run_stage q)))) (\<lambda>_.
         andthen (record_recovery_evidence se (run_id q) ''operator.resume''
           [(''fromRunId'', JStr (run_id r)), (''stage'', JStr (stage_name (run_stage q)))] unfenced) (\<lambda>_.
         give q)))))"

definition resume :: "settings \<Rightarrow> outside \<Rightarrow> spawner \<Rightarrow> string \<Rightarrow> run act" where
  "resume se ou sw i =
     andthen (reading (\<lambda>w. run_get i (w_store w))) (\<lambda>found.
     case found of None \<Rightarrow> fail (RunNotFound i)
     | Some r \<Rightarrow>
         if \<not> is_resumable_state r then fail (DispatchFailed (resumable_text r))
         else
           andthen (reading (\<lambda>w. (task_get (run_taskId r) (w_store w),
             find (\<lambda>q. run_id q \<noteq> run_id r \<and> is_live q) (run_list (run_taskId r) (w_store w))))) (\<lambda>(task, other).
           case task of None \<Rightarrow> fail (DispatchFailed (''Task not found for run '' @ i))
           | Some t \<Rightarrow>
               if task_status t = TaskDone then fail (DispatchFailed (''Task '' @ task_id t @ '' is already done''))
               else (case other of
                   Some q \<Rightarrow> fail (DispatchFailed (''Task '' @ task_id t @ '' already has an active run: '' @ run_id q))
                 | None \<Rightarrow> resume_on se ou sw r t)))"

subsection \<open>Limits\<close>

definition retry_settings_of :: "settings \<Rightarrow> world \<Rightarrow> retry_settings" where
  "retry_settings_of se w = (se_retry se)\<lparr>rt_now := now_of w\<rparr>"

definition retry_or_fail :: "settings \<Rightarrow> string \<Rightarrow> retry_cause \<Rightarrow> int option \<Rightarrow> retry_extra option \<Rightarrow> bool act" where
  "retry_or_fail se i cause override extra =
     andthen (reading (retry_settings_of se)) (\<lambda>c.
     on_db (retry_or_fail_stalled_task (config_of se) c i cause override extra))"

text \<open>A date keeps whole milliseconds.\<close>

definition wait_and_resume :: "settings \<Rightarrow> run \<Rightarrow> rat option \<Rightarrow> fenced_options \<Rightarrow> unit act" where
  "wait_and_resume se r wait f =
     andthen (if run_terminalState r = None then done_with (on_db (mark_stalled (config_of se) (run_id r) f)) else give ()) (\<lambda>_.
     done_with (retry_or_fail se (run_id r) CrashCause (map_option floor wait)
       (Some \<lparr>rx_failReason = None, rx_forceTransient = True\<rparr>)))"

definition freeze_run :: "settings \<Rightarrow> run \<Rightarrow> string \<Rightarrow> fenced_options \<Rightarrow> unit act" where
  "freeze_run se r reason f =
     (if run_terminalState r \<noteq> None then give ()
      else done_with (on_db (mark_frozen (config_of se) (run_id r) reason f)))"

definition format_policy_pause_reason :: "string \<Rightarrow> string \<Rightarrow> string \<Rightarrow> string" where
  "format_policy_pause_reason prefix detail i =
     (let action = (if prefix = ''cost_budget_paused'' then ''adjust Factory Settings budgets or split the Task''
        else ''raise the turn limit or split the Task'') in
      prefix @ '': '' @ detail @ ''. Operator: inspect with ductum status '' @ i @ ''; '' @ action @
      '', then ductum retry '' @ i @ ''.'')"

definition action_field :: "string \<Rightarrow> string \<times> json" where
  "action_field x = (''action'', JStr x)"

text \<open>Retries are used up: the count is kept and the run frozen. Otherwise the run is frozen, and a run
  of the fallback agent takes its place; when that cannot be dispatched the run stays frozen.\<close>

definition failover_exhausted ::
    "settings \<Rightarrow> run \<Rightarrow> task \<Rightarrow> harness_outcome \<Rightarrow> nat \<Rightarrow> fenced_options \<Rightarrow> bool act" where
  "failover_exhausted se r t h n f =
     (let most = rt_maxTaskRetries (se_retry se) in
      andthen (on_db (task_update_retry (task_id t) n None)) (\<lambda>_.
      andthen (freeze_run se r (''provider unavailable (retry budget exhausted '' @ show_nat (task_retryCount t) @ ''/'' @
        show_nat most @ ''): '' @ ho_detail h) f) (\<lambda>_.
      andthen (record_recovery_evidence se (run_id r) ''limits.failover''
        ([action_field ''freeze'', (''retryCount'', JNum (of_nat n)), (''maxRetries'', JNum (of_nat most))] @ outcome_fields h) f) (\<lambda>_.
      give True))))"

definition failover_dispatch ::
    "settings \<Rightarrow> outside \<Rightarrow> spawner \<Rightarrow> run \<Rightarrow> task \<Rightarrow> agent \<Rightarrow> agent \<Rightarrow> dispatch_options \<Rightarrow> harness_outcome \<Rightarrow>
      fenced_options \<Rightarrow> bool act" where
  "failover_dispatch se ou sw r t failed fallback opts h f =
     rescued
       (andthen (dispatch se ou sw t fallback opts) (\<lambda>q.
        andthen (on_db (mark_failed (config_of se) (run_id r)
          (Some (''recoverable_external: failover to '' @ ag_name fallback)) f)) (\<lambda>_.
        andthen (on_db (emit (RunFailedOver (run_id q) (run_id r) (ag_id failed) (ag_id fallback) (ho_detail h)))) (\<lambda>_.
        andthen (record_recovery_evidence se (run_id q) ''limits.failover''
          ([(''fromRunId'', JStr (run_id r)), (''fromAgent'', JStr (ag_name failed)), (''toAgent'', JStr (ag_name fallback))] @
           outcome_fields h) unfenced) (\<lambda>_.
        give True)))))
       (\<lambda>e. andthen (record_recovery_evidence se (run_id r) ''limits.failover''
          ([action_field ''dispatch-failed'', (''toAgent'', JStr (ag_name fallback)),
            (''error'', JStr (ro_errorText (se_router se) e))] @ outcome_fields h) f) (\<lambda>_.
        give True))"

definition failover :: "settings \<Rightarrow> outside \<Rightarrow> spawner \<Rightarrow> run \<Rightarrow> harness_outcome \<Rightarrow> fenced_options \<Rightarrow> bool act" where
  "failover se ou sw r h f =
     andthen (reading (\<lambda>w. (source_agent r (dispatcher_of w), task_get (run_taskId r) (w_store w)))) (\<lambda>found.
     case found of
       (Some failed, Some t) \<Rightarrow>
         let n = task_retryCount t + 1 in
         if n > rt_maxTaskRetries (se_retry se) then failover_exhausted se r t h n f
         else
           andthen (on_dispatcher (\<lambda>s d. case match_failover_agent s t failed d of (a, d') \<Rightarrow> (Inr a, d'))) (\<lambda>candidate.
           case candidate of None \<Rightarrow> give False
           | Some fallback \<Rightarrow>
               andthen (on_db (task_update_retry (task_id t) n None)) (\<lambda>_.
               andthen (freeze_run se r (''recoverable_external: failover pending to '' @ ag_name fallback) f) (\<lambda>_.
               andthen (reading (\<lambda>w. build_operator_resume_options (w_store w)
                 (case run_get (run_id r) (w_store w) of None \<Rightarrow> r | Some q \<Rightarrow> q) (dispatcher_of w))) (\<lambda>opts.
               failover_dispatch se ou sw r t failed fallback opts h f))))
     | _ \<Rightarrow> give False)"

text \<open>A transient or external limit whose wait is known and short.\<close>

definition wait_evidence :: "string \<Rightarrow> rat option \<Rightarrow> harness_outcome \<Rightarrow> (string \<times> json) list" where
  "wait_evidence action wait h = [action_field action, (''waitMs'', nullable JNum wait)] @ outcome_fields h"

definition pause_prefix :: "harness_result \<Rightarrow> string" where
  "pause_prefix res = (if hr_exitReason res = PausedCostBudget then ''cost_budget_paused'' else ''max_turns_paused'')"

definition apply_policy_pause ::
    "settings \<Rightarrow> run \<Rightarrow> harness_result \<Rightarrow> harness_outcome \<Rightarrow> fenced_options \<Rightarrow> bool act" where
  "apply_policy_pause se r res h f =
     andthen (freeze_run se r (format_policy_pause_reason (pause_prefix res) (ho_detail h) (run_id r)) f) (\<lambda>_.
     andthen (record_recovery_evidence se (run_id r) ''limits.policy'' (action_field ''freeze'' # outcome_fields h) f) (\<lambda>_.
     give True))"

definition apply_transient :: "settings \<Rightarrow> run \<Rightarrow> harness_outcome \<Rightarrow> rat option \<Rightarrow> fenced_options \<Rightarrow> bool act" where
  "apply_transient se r h wait f =
     andthen (wait_and_resume se r wait f) (\<lambda>_.
     andthen (record_recovery_evidence se (run_id r) ''limits.transient''
       (wait_evidence (if wait \<noteq> None then ''wait-resume'' else ''backoff-resume'') wait h) f) (\<lambda>_.
     give True))"

definition apply_external ::
    "settings \<Rightarrow> outside \<Rightarrow> spawner \<Rightarrow> run \<Rightarrow> harness_outcome \<Rightarrow> rat option \<Rightarrow> fenced_options \<Rightarrow> bool act" where
  "apply_external se ou sw r h wait f =
     (if wait \<noteq> None then
        andthen (wait_and_resume se r wait f) (\<lambda>_.
        andthen (record_recovery_evidence se (run_id r) ''limits.external'' (wait_evidence ''wait-resume'' wait h) f) (\<lambda>_.
        give True))
      else
        andthen (failover se ou sw r h f) (\<lambda>handled.
        if handled then give True
        else
          andthen (freeze_run se r (''provider unavailable (no fallback): '' @ ho_detail h) f) (\<lambda>_.
          andthen (record_recovery_evidence se (run_id r) ''limits.external'' (action_field ''freeze'' # outcome_fields h) f) (\<lambda>_.
          give True))))"

definition apply_limits_policy ::
    "settings \<Rightarrow> outside \<Rightarrow> spawner \<Rightarrow> run \<Rightarrow> harness_result \<Rightarrow> fenced_options \<Rightarrow> bool act" where
  "apply_limits_policy se ou sw r res f =
     (let h = classify_harness_outcome (se_number se) res in
      case ho_kind h of
        TerminalOutcome \<Rightarrow> give False
      | Policy \<Rightarrow> apply_policy_pause se r res h f
      | Transient \<Rightarrow>
          andthen (reading now_of) (\<lambda>now.
          apply_transient se r h (resolve_auto_wait_ms (se_readDate se) h now (or_value (se_maxAutoWaitMs se) default_max_auto_wait_ms)) f)
      | RecoverableExternal \<Rightarrow>
          andthen (reading now_of) (\<lambda>now.
          apply_external se ou sw r h (resolve_auto_wait_ms (se_readDate se) h now (or_value (se_maxAutoWaitMs se) default_max_auto_wait_ms)) f))"

end
