(* ===== verification/Session_End.thy ===== *)
theory Session_End
  imports Dispatch_Recovery Cost_Scanner
begin

text \<open>
  The end of a session (\<open>dispatcher-session.ts\<close>) and everything it calls: what is recorded of a failure
  (\<open>dispatcher-harness-failure.ts\<close>, \<open>dispatcher-dirty-worktree.ts\<close>, \<open>worktree-dirty.ts\<close>), the worktrees
  that are removed (\<open>dispatcher-worktree-cleanup.ts\<close>), the routing of a completed run
  (\<open>dispatcher-route-completion.ts\<close>, \<open>-stored-completion.ts\<close>) and the fallback when a session does not
  end by itself (\<open>dispatcher-completion-fallback.ts\<close>). The order of paths (\<open>localeCompare\<close>) is a parameter.
\<close>

subsection \<open>Dirty worktrees\<close>

record dirty_snapshot =
  dw_worktreePath :: string
  dw_trackedPaths :: "string list"
  dw_untrackedPaths :: "string list"
  dw_relevantPaths :: "string list"
  dw_ignoredPaths :: "string list"

text \<open>\<open>split(' -> ').at(-1)\<close>.\<close>

function after_last_arrow :: "string \<Rightarrow> string \<Rightarrow> string" where
  "after_last_arrow best [] = best"
| "after_last_arrow best (c # cs) =
     (if starts_with '' -> '' (c # cs) then after_last_arrow (drop 3 cs) (drop 3 cs) else after_last_arrow best cs)"
  by pat_completeness auto
termination by (relation "measure (\<lambda>(_, s). length s)") auto

definition quoted_path_pattern :: rx where
  "quoted_path_pattern = rx (''^'' @ [CHR 0x22] @ ''(.*)'' @ [CHR 0x22] @ ''$'')"

definition normalize_status_path :: "string \<Rightarrow> string option" where
  "normalize_status_path v =
     (let trimmed = trim v; renamed = after_last_arrow trimmed trimmed;
          path = trim (replace_first fl_none quoted_path_pattern (\<lambda>b g a. capture 1 g) renamed) in
      if trimmed = [] then None else if path = [] then None else Some path)"

definition parse_porcelain_line :: "string \<Rightarrow> (string \<times> bool) option" where
  "parse_porcelain_line l =
     (if trim l = [] \<or> length l < 4 then None
      else map_option (\<lambda>p. (p, take 2 l = ''??'')) (normalize_status_path (drop 3 l)))"

definition ignored_dir_prefixes :: "string list" where
  "ignored_dir_prefixes = [''.pnpm-store/'']"

definition is_ignored_dirty_path :: "string \<Rightarrow> bool" where
  "is_ignored_dirty_path v \<longleftrightarrow> list_ex (\<lambda>p. v = butlast p \<or> starts_with p v) ignored_dir_prefixes"

definition unique_sorted :: "settings \<Rightarrow> string list \<Rightarrow> string list" where
  "unique_sorted se xs = se_localeSort se (rev (remdups (rev xs)))"

definition inspect_dirty_worktree :: "settings \<Rightarrow> string \<Rightarrow> dirty_snapshot option db" where
  "inspect_dirty_worktree se path =
     andthen (wt_git (ro_tools (se_router se)) path [''status'', ''--porcelain'', ''--untracked-files=all'']) (\<lambda>res.
     give (case res of Inl _ \<Rightarrow> None
       | Inr (out, _) \<Rightarrow>
           let entries = List.map_filter parse_porcelain_line (split_at_char CHR 0x0A [] out); paths = map fst entries in
           Some \<lparr>dw_worktreePath = path,
             dw_trackedPaths = unique_sorted se (map fst (filter (\<lambda>e. \<not> snd e) entries)),
             dw_untrackedPaths = unique_sorted se (map fst (filter snd entries)),
             dw_relevantPaths = unique_sorted se (filter (\<lambda>p. \<not> is_ignored_dirty_path p) paths),
             dw_ignoredPaths = unique_sorted se (filter is_ignored_dirty_path paths)\<rparr>))"

fun inspect_dirty_worktrees :: "settings \<Rightarrow> string list \<Rightarrow> dirty_snapshot list db" where
  "inspect_dirty_worktrees se [] = give []"
| "inspect_dirty_worktrees se (p # ps) =
     andthen (inspect_dirty_worktree se p) (\<lambda>found.
     andthen (inspect_dirty_worktrees se ps) (\<lambda>more_found.
     give (case found of None \<Rightarrow> more_found
       | Some x \<Rightarrow> if dw_trackedPaths x \<noteq> [] \<or> dw_untrackedPaths x \<noteq> [] then x # more_found else more_found)))"

definition has_relevant_dirty_worktree :: "dirty_snapshot list \<Rightarrow> bool" where
  "has_relevant_dirty_worktree xs = list_ex (\<lambda>x. dw_relevantPaths x \<noteq> []) xs"

definition quote_shell_arg :: "string \<Rightarrow> string" where
  "quote_shell_arg v = [CHR 0x27] @ concat (map (\<lambda>c. if c = CHR 0x27 then [CHR 0x27, CHR 0x5C, CHR 0x27, CHR 0x27] else [c]) v) @ [CHR 0x27]"

definition build_patch_command :: "string \<Rightarrow> dirty_snapshot \<Rightarrow> string option" where
  "build_patch_command i x =
     (let wt = quote_shell_arg (dw_worktreePath x); file = quote_shell_arg (''attempt-'' @ take 8 i @ ''-partial.patch'');
          relevant = filter (\<lambda>p. p \<in> set (dw_relevantPaths x)) (dw_untrackedPaths x) in
      if trim (dw_worktreePath x) = [] then None
      else Some (join_strings '' && ''
        ([''git -C '' @ wt @ '' diff --binary --cached > '' @ file, ''git -C '' @ wt @ '' diff --binary >> '' @ file] @
         map (\<lambda>p. ''git -C '' @ wt @ '' diff --binary --no-index -- /dev/null '' @ quote_shell_arg p @ '' >> '' @ file @
           '' || test $? -eq 1'') relevant)))"

definition strings_json :: "string list \<Rightarrow> json" where
  "strings_json xs = JArr (map JStr xs)"

definition build_dirty_partial_worktree_evidence :: "run \<Rightarrow> terminal_state \<Rightarrow> dirty_snapshot \<Rightarrow> payload" where
  "build_dirty_partial_worktree_evidence r t x =
     (let relevant = (\<lambda>p. p \<in> set (dw_relevantPaths x)); i = run_id r in
      [(''kind'', JStr ''worktree.dirty_partial''), (''terminalState'', JStr (terminal_name t)),
       (''failReason'', nullable JStr (run_failReason r)), (''worktreePath'', JStr (dw_worktreePath x)),
       (''paths'', strings_json (dw_relevantPaths x)),
       (''trackedPaths'', strings_json (filter relevant (dw_trackedPaths x))),
       (''untrackedPaths'', strings_json (filter relevant (dw_untrackedPaths x))),
       (''ignoredPaths'', strings_json (dw_ignoredPaths x)),
       (''recovery'', JObj
         [(''statusCommand'', JStr (''ductum status '' @ i)), (''logsCommand'', JStr (''ductum logs '' @ i @ '' --limit 80'')),
          (''resumeCommand'', if t = Paused
            then JStr (''ductum attempt resume '' @ i @ '' --reason '' @ [CHR 0x22] @ ''continue preserved worktree'' @ [CHR 0x22]) else JNull),
          (''retryBlocked'', JBool True), (''patchCommand'', nullable JStr (build_patch_command i x)),
          (''cleanupNote'', JStr (''Save a patch or branch first. After a trusted external outcome exists, run ductum attempt cleanup '' @
            i @ '' --worktree to remove the preserved worktree.''))])])"

definition record_dirty_partial_worktree_evidence :: "settings \<Rightarrow> run \<Rightarrow> fenced_options \<Rightarrow> unit db" where
  "record_dirty_partial_worktree_evidence se r f =
     (let paths = paths_or_none (run_worktreePaths r) in
      case (ro_evidenceRepo (se_router se), run_terminalState r, paths) of
        (True, Some t, _ # _) \<Rightarrow>
          andthen (inspect_dirty_worktrees se paths) (\<lambda>found.
          case find (\<lambda>x. dw_relevantPaths x \<noteq> []) found of
            None \<Rightarrow> give ()
          | Some x \<Rightarrow> record_custom_fenced (se_router se) (run_id r) (build_dirty_partial_worktree_evidence r t x) (fence_pair f))
      | _ \<Rightarrow> give ())"

subsection \<open>Failures and worktrees of an ended session\<close>

definition record_harness_failure_evidence :: "settings \<Rightarrow> string \<Rightarrow> harness_result \<Rightarrow> fenced_options \<Rightarrow> unit act" where
  "record_harness_failure_evidence se i res f =
     (if hr_exitReason res \<noteq> HarnessFailed then give ()
      else record_fenced se i
        [(''kind'', JStr ''harness.failure''), (''reason'', JStr (or_value (hr_failReason res) ''harness_failed'')),
         (''exitReason'', JStr (exit_reason_name (hr_exitReason res))),
         (''evidence'', nullable JObj (hr_failureEvidence res))] f)"

definition budget_pause_prefixes :: "string list" where
  "budget_pause_prefixes = [''cost_budget_paused'', ''spec_cost_budget_paused'', ''max_turns_paused'']"

definition removes_own_worktrees :: "settings \<Rightarrow> run \<Rightarrow> harness_result \<Rightarrow> bool" where
  "removes_own_worktrees se r res \<longleftrightarrow>
     se_worktreeManager se \<and> hr_exitReason res \<notin> {PausedMaxTurns, PausedCostBudget} \<and>
     (case run_failReason r of None \<Rightarrow> True | Some x \<Rightarrow> \<not> list_ex (\<lambda>p. starts_with p x) budget_pause_prefixes) \<and>
     hr_exitReason res \<in> {Crashed, Timeout} \<and> se_cleanupOnFailure se \<and> run_parentRunId r = None"

definition cleanup_failed_own_worktrees :: "settings \<Rightarrow> outside \<Rightarrow> run \<Rightarrow> harness_result \<Rightarrow> unit act" where
  "cleanup_failed_own_worktrees se ou r res =
     (if removes_own_worktrees se r res
      then for_each (\<lambda>p. done_with (attempted (ou_removeWorktree ou p))) (paths_or_none (run_worktreePaths r))
      else give ())"

subsection \<open>Routing\<close>

definition route_completed_run :: "settings \<Rightarrow> run \<Rightarrow> unit act" where
  "route_completed_run se r =
     (if run_terminalState r \<noteq> None then give ()
      else
        andthen (reading (\<lambda>w. (task_get (run_taskId r) (w_store w), w_store w, router_of se w))) (\<lambda>(found, s, ro).
        case found of None \<Rightarrow> give ()
        | Some t \<Rightarrow>
            on_db (if is_bakeoff_blind_review_task (spec_get (task_specId t) s) t then run_blind_review_completion ro r
                   else case pn_kind (classify_task t) of
                     task_kind.Review \<Rightarrow> run_review_completion ro r
                   | task_kind.Fix \<Rightarrow> run_fix_completion ro r
                   | task_kind.Impl \<Rightarrow> run_impl_completion ro r)))"

text \<open>\<open>kick\<close> starts a cycle of its own, which is counted here; one that finds another in flight is put off.\<close>

definition kick :: "settings \<Rightarrow> world \<Rightarrow> world" where
  "kick se w =
     (if \<not> w_running w \<or> \<not> se_enabled se then w
      else if w_cycleInFlight w then w\<lparr>w_pendingCycle := True\<rparr>
      else w\<lparr>w_ticks := Suc (w_ticks w)\<rparr>)"

definition request_follow_up_cycle :: "settings \<Rightarrow> world \<Rightarrow> world" where
  "request_follow_up_cycle se w = (if \<not> w_running w \<or> \<not> se_enabled se then w else kick se w)"

definition route_stored_completion :: "settings \<Rightarrow> string \<Rightarrow> unit act" where
  "route_stored_completion se i =
     andthen (reading (\<lambda>w. (i \<in> w_routed w \<or> i \<in> w_finishing w, run_get i (w_store w)))) (\<lambda>(taken, found).
     case found of None \<Rightarrow> give ()
     | Some r \<Rightarrow>
         if taken \<or> run_terminalState r \<noteq> None \<or> run_stage r = StageDone then give ()
         else
           andthen (modify (\<lambda>w. w\<lparr>w_finishing := insert i (w_finishing w)\<rparr>)) (\<lambda>_.
           andthen (finally_do
             (andthen (route_completed_run se r) (\<lambda>_.
              modify (\<lambda>w. w\<lparr>w_routed := insert i (w_routed w), w_handled := insert i (w_handled w)\<rparr>)))
             (modify (\<lambda>w. w\<lparr>w_finishing := w_finishing w - {i}\<rparr>))) (\<lambda>_.
           modify (request_follow_up_cycle se))))"

subsection \<open>The end of a session\<close>

definition session_agent_of :: "run \<Rightarrow> active_session option \<Rightarrow> world \<Rightarrow> agent option" where
  "session_agent_of r active w =
     (case active of Some a \<Rightarrow> Some (ss_agent (ae_start a)) | None \<Rightarrow> source_agent r (dispatcher_of w))"

text \<open>The ceilings of the attempt against what the session reports: the result as it is handled from
  here on, and the ceiling that was hit.\<close>

definition ceiled_result ::
    "settings \<Rightarrow> run \<Rightarrow> harness_result \<Rightarrow> active_session option \<Rightarrow> world \<Rightarrow> harness_result \<times> ceiling_hit option" where
  "ceiled_result se r res active w =
     (let a = session_agent_of r active w; m = map_option ag_model a; s = w_store w;
          cost = fst (resolve_session_cost_for_ceiling (cost_deps_of se w) (run_id r) r res (map_option ae_start active) s) in
      apply_attempt_resource_ceilings (se_number se) res
        (Some (effective_attempt_ceilings_for_task (se_ceilings se) (task_get (run_taskId r) s) m))
        (Some cost) m (map_option ag_harness a))"

definition apply_ceilings ::
    "settings \<Rightarrow> run \<Rightarrow> harness_result \<Rightarrow> exit_reason \<Rightarrow> active_session option \<Rightarrow> fenced_options \<Rightarrow>
      (harness_result \<times> exit_reason) act" where
  "apply_ceilings se r res reason active f =
     andthen (reading (ceiled_result se r res active)) (\<lambda>(res', hit).
     case hit of None \<Rightarrow> give (res, reason)
     | Some h \<Rightarrow>
         andthen (on_db (record_attempt_resource_ceiling_evidence (se_router se) (run_id r) h (fence_pair f))) (\<lambda>_.
         give (res', hr_exitReason res')))"

definition harness_failed :: "harness_result \<Rightarrow> string" where
  "harness_failed res = or_value (hr_failReason res) ''harness_failed''"

definition handle_failure ::
    "settings \<Rightarrow> outside \<Rightarrow> spawner \<Rightarrow> run \<Rightarrow> harness_result \<Rightarrow> fenced_options \<Rightarrow> unit act" where
  "handle_failure se ou sw r res f =
     andthen (apply_limits_policy se ou sw r res f) (\<lambda>handled.
     if handled then give ()
     else
       andthen (on_db (mark_failed (config_of se) (run_id r) (Some (harness_failed res)) f)) (\<lambda>_.
       andthen (if hr_failReason res = Some ''max_turns_reached''
           then done_with (on_db (run_update_failure (config_of se) (run_id r) (hr_failReason res) True)) else give ()) (\<lambda>_.
       andthen (note_agent_failure r (harness_failed res)) (\<lambda>_.
       record_harness_failure_evidence se (run_id r) res f))))"

text \<open>What the way a session ended means for its run; the result says whether a retry is scheduled that
  resumes from the checkpoint.\<close>

definition settle_run ::
    "settings \<Rightarrow> outside \<Rightarrow> spawner \<Rightarrow> run \<Rightarrow> harness_result \<Rightarrow> exit_reason \<Rightarrow> fenced_options \<Rightarrow> bool act" where
  "settle_run se ou sw r res reason f =
     (if run_terminalState r \<noteq> None then give False
      else if reason = PausedMaxTurns \<or> reason = PausedCostBudget then
        andthen (apply_limits_policy se ou sw r res f) (\<lambda>_. give False)
      else if (reason = Crashed \<or> reason = Timeout) \<and> run_stage r \<noteq> StageDone then
        andthen (on_db (mark_stalled (config_of se) (run_id r) f)) (\<lambda>_.
        andthen (case hr_failReason res of None \<Rightarrow> give () | Some x \<Rightarrow> note_agent_failure r x) (\<lambda>_.
        retry_or_fail se (run_id r) CrashCause None (Some \<lparr>rx_failReason = hr_failReason res, rx_forceTransient = False\<rparr>)))
      else if reason = HarnessFailed then andthen (handle_failure se ou sw r res f) (\<lambda>_. give False)
      else give False)"

text \<open>A completed session is released before its run is routed; when that fails nothing is routed.\<close>

definition complete_session ::
    "settings \<Rightarrow> outside \<Rightarrow> string \<Rightarrow> run \<Rightarrow> active_session option \<Rightarrow> fenced_options \<Rightarrow> bool handler" where
  "complete_session se ou i r active f =
     andthen (release_before_completion_routing se ou i active f) (\<lambda>ok.
     if \<not> ok then give False
     else
       andthen (on_world (route_completed_run se r)) (\<lambda>_.
       andthen (on_world (modify (\<lambda>w. w\<lparr>w_routed := insert i (w_routed w)\<rparr>))) (\<lambda>_.
       andthen (note_ending (\<lambda>e. e\<lparr>en_routed := True\<rparr>)) (\<lambda>_.
       give True))))"

definition account_session ::
    "settings \<Rightarrow> run \<Rightarrow> harness_result \<Rightarrow> active_session option \<Rightarrow> fenced_options \<Rightarrow> unit act" where
  "account_session se r res active f =
     andthen (on_db (record_dirty_partial_worktree_evidence se r f)) (\<lambda>_.
     andthen (reading (cost_deps_of se)) (\<lambda>d.
     on_db (record_session_cost d (run_id r) r res (map_option ae_start active) (fence_pair f))))"

definition set_completed :: "unit handler" where
  "set_completed = note_ending (\<lambda>e. e\<lparr>en_completed := True\<rparr>)"

text \<open>The \<open>try\<close>: from the run as it is found to the worktrees it leaves.\<close>

definition session_end_body ::
    "settings \<Rightarrow> outside \<Rightarrow> spawner \<Rightarrow> string \<Rightarrow> harness_result \<Rightarrow> exit_reason \<Rightarrow> active_session option \<Rightarrow> unit handler" where
  "session_end_body se ou sw i res reason active =
     andthen (on_world (reading (\<lambda>w. (run_get i (w_store w), fence_of active (now_of w))))) (\<lambda>(found, f).
     case found of None \<Rightarrow> give ()
     | Some r \<Rightarrow>
         andthen (on_world (apply_ceilings se r res reason active f)) (\<lambda>(res, reason).
         andthen (on_world (settle_run se ou sw r res reason f)) (\<lambda>resumes.
         andthen (on_world (reading (\<lambda>w. run_get i (w_store w)))) (\<lambda>latest.
         case latest of None \<Rightarrow> give ()
         | Some current \<Rightarrow>
             andthen (on_world (account_session se current res active f)) (\<lambda>_.
             andthen (if reason = Completed then complete_session se ou i current active f else give True) (\<lambda>routed.
             if \<not> routed then set_completed
             else
               andthen (if resumes then give () else on_world (cleanup_failed_own_worktrees se ou current res)) (\<lambda>_.
               set_completed)))))))"

text \<open>The \<open>finally\<close>.\<close>

definition session_end_cleanup :: "settings \<Rightarrow> outside \<Rightarrow> string \<Rightarrow> active_session option \<Rightarrow> unit handler" where
  "session_end_cleanup se ou i active =
     andthen (reading snd) (\<lambda>e.
     andthen (on_world (modify (\<lambda>w. if en_completed e
       then set_resolved i None (w\<lparr>w_handled := insert i (w_handled w)\<rparr>) else w))) (\<lambda>_.
     andthen (on_world (modify (\<lambda>w. w\<lparr>w_finishing := w_finishing w - {i}\<rparr>))) (\<lambda>_.
     andthen (if active = None then give ()
       else
         andthen (forget_active i active) (\<lambda>_.
         andthen (release_lease_once se active) (\<lambda>_.
         if en_releaseAttempted e then give () else on_world (release_session se ou i)))) (\<lambda>_.
     on_world (modify (\<lambda>w. if en_completed e \<and> en_routed e then request_follow_up_cycle se w else w))))))"

definition clear_completion_fallback :: "string \<Rightarrow> world \<Rightarrow> world" where
  "clear_completion_fallback i w = w\<lparr>w_fallbacks := w_fallbacks w - {i}\<rparr>"

definition handle_session_end :: "settings \<Rightarrow> outside \<Rightarrow> spawner \<Rightarrow> string \<Rightarrow> harness_result \<Rightarrow> unit act" where
  "handle_session_end se ou sw i res w =
     (if i \<in> w_handled w \<or> i \<in> w_finishing w then (Inr (), w)
      else
        let reason = (if i \<in> w_fallbacks w then Completed else hr_exitReason res);
            active = session_of i w;
            begun = (clear_completion_fallback i w)\<lparr>w_finishing := insert i (w_finishing w)\<rparr> in
        case finally_do (session_end_body se ou sw i res reason active) (session_end_cleanup se ou i active)
            (begun, fresh_ending) of
          (r, w', _) \<Rightarrow> (r, w'))"

subsection \<open>Ending a session\<close>

definition empty_completion :: harness_result where
  "empty_completion = \<lparr>hr_exitReason = Completed, hr_tokensIn = 0, hr_tokensOut = 0, hr_costUsd = 0, hr_costState = None,
     hr_turns = None, hr_maxInputTokensInTurn = None, hr_failReason = None, hr_failureEvidence = None, hr_pauseDetail = None\<rparr>"

definition forget_handled :: "string \<Rightarrow> world \<Rightarrow> world" where
  "forget_handled i w = w\<lparr>w_handled := w_handled w - {i}\<rparr>"

definition schedule_completion_fallback :: "string \<Rightarrow> world \<Rightarrow> world" where
  "schedule_completion_fallback i w =
     (if i \<in> w_routed w then w else w\<lparr>w_fallbacks := insert i (w_fallbacks w)\<rparr>)"

text \<open>The timer of a fallback, and the end of a session asked for by the agent. The harness is told to stop
  without waiting for it.\<close>

definition completion_fallback_fired :: "settings \<Rightarrow> outside \<Rightarrow> spawner \<Rightarrow> string \<Rightarrow> unit act" where
  "completion_fallback_fired se ou sw i =
     andthen (modify (clear_completion_fallback i)) (\<lambda>_.
     andthen (reading (\<lambda>w. (i \<in> w_routed w, run_get i (w_store w)))) (\<lambda>(routed, found).
     case found of None \<Rightarrow> give ()
     | Some r \<Rightarrow>
         if routed \<or> run_terminalState r \<noteq> None \<or> run_stage r = StageDone then give ()
         else andthen (modify (forget_handled i)) (\<lambda>_. handle_session_end se ou sw i empty_completion)))"

definition end_session :: "settings \<Rightarrow> outside \<Rightarrow> spawner \<Rightarrow> string \<Rightarrow> unit act" where
  "end_session se ou sw i =
     andthen (modify (schedule_completion_fallback i)) (\<lambda>_.
     andthen (reading (session_of i)) (\<lambda>active.
     andthen (case active of None \<Rightarrow> give ()
       | Some a \<Rightarrow> done_with (attempted (ou_kill ou (ae_sessionId a) (Some ''completed'')))) (\<lambda>_.
     andthen (reading (\<lambda>w. i \<in> w_routed w)) (\<lambda>routed.
     if routed then give ()
     else andthen (modify (forget_handled i)) (\<lambda>_. handle_session_end se ou sw i empty_completion)))))"

definition kill_run :: "settings \<Rightarrow> outside \<Rightarrow> string \<Rightarrow> string \<Rightarrow> unit act" where
  "kill_run se ou i reason =
     andthen (reading (session_of i)) (\<lambda>active.
     case active of None \<Rightarrow> give ()
     | Some a \<Rightarrow>
         andthen (attempted (ou_kill ou (ae_sessionId a) (Some reason))) (\<lambda>thrown.
         andthen (modify (forget_session i)) (\<lambda>_.
         andthen (release_lease se (ae_lease a)) (\<lambda>_.
         andthen (release_session se ou i) (\<lambda>_.
         andthen (ou_stopWatchers ou i ''killed by operator'') (\<lambda>_.
         case thrown of None \<Rightarrow> give () | Some e \<Rightarrow> fail e))))))"

end
