(* ===== verification/Dispatch_Cycle.thy ===== *)
theory Dispatch_Cycle
  imports Session_End
begin

text \<open>
  One turn of the dispatcher (\<open>dispatcher-cycle.ts\<close>): the sweeps over sessions that are no longer alive
  (\<open>dispatcher-session.ts\<close>, \<open>dispatcher-stale-slot-gc.ts\<close>, \<open>dispatcher-stale-worktree-cleanup.ts\<close>), the
  tasks that are ready, and what is remembered of errors.
\<close>

subsection \<open>Heartbeats\<close>

definition set_lease :: "string \<Rightarrow> lease option \<Rightarrow> world \<Rightarrow> world" where
  "set_lease i l w = w\<lparr>w_sessions := map (\<lambda>(j, a). (j, if j = i then a\<lparr>ae_lease := l\<rparr> else a)) (w_sessions w)\<rparr>"

definition is_stale_fence_error :: "error \<Rightarrow> bool" where
  "is_stale_fence_error e = (case e of StaleFence _ _ \<Rightarrow> True | ExpiredFence _ _ \<Rightarrow> True | _ \<Rightarrow> False)"

definition refresh_heartbeat :: "settings \<Rightarrow> outside \<Rightarrow> string \<Rightarrow> active_session \<Rightarrow> unit act" where
  "refresh_heartbeat se ou i a =
     andthen (ou_isAlive ou (ae_sessionId a)) (\<lambda>alive.
     if \<not> alive then give ()
     else
       andthen (reading (\<lambda>w. (run_get i (w_store w), now_of w))) (\<lambda>(found, now).
       case found of None \<Rightarrow> give ()
       | Some r \<Rightarrow>
           andthen (on_db (on_leases (renew_dispatch_lease (cfg_leaseRepo (config_of se)) r
             (map_option lease_fenceToken (ae_lease a)) now))) (\<lambda>l.
           andthen (modify (set_lease i l)) (\<lambda>_.
           done_with (on_db (run_update_heartbeat i))))))"

definition refresh_session :: "settings \<Rightarrow> outside \<Rightarrow> string \<times> active_session \<Rightarrow> unit act" where
  "refresh_session se ou held =
     (case held of (i, a) \<Rightarrow>
      andthen (reading (\<lambda>w. i \<in> w_finishing w)) (\<lambda>finishing.
      if finishing then give ()
      else
        andthen (attempted (refresh_heartbeat se ou i a)) (\<lambda>thrown.
        case thrown of None \<Rightarrow> give ()
        | Some e \<Rightarrow>
            if is_stale_fence_error e then
              andthen (modify (forget_session i)) (\<lambda>_.
              andthen (attempted (ou_kill ou (ae_sessionId a) None)) (\<lambda>_.
              release_session se ou i))
            else give ())))"

definition refresh_live_session_heartbeats :: "settings \<Rightarrow> outside \<Rightarrow> unit act" where
  "refresh_live_session_heartbeats se ou =
     andthen (reading w_sessions) (\<lambda>entries. for_each (refresh_session se ou) entries)"

subsection \<open>Stale slots\<close>

definition is_stale_slot :: "run \<Rightarrow> instant \<Rightarrow> bool" where
  "is_stale_slot r now \<longleftrightarrow>
     (case run_lastHeartbeat r of None \<Rightarrow> False | Some h \<Rightarrow> h + run_heartbeatTimeoutSeconds r * 2000 < now)"

text \<open>A cleanup that throws is one that failed.\<close>

definition failed_cleanup :: "string \<Rightarrow> orphan_result" where
  "failed_cleanup reason =
     \<lparr>oc_attempted = True, oc_outcome = WorkerFailed, oc_reason = reason, oc_pid = None, oc_ownership = None,
      oc_startedAt = None, oc_escalated = None, oc_exited = None\<rparr>"

definition cleanup_stale_slot_worker :: "settings \<Rightarrow> outside \<Rightarrow> run \<Rightarrow> orphan_result act" where
  "cleanup_stale_slot_worker se ou r =
     andthen (reading (\<lambda>w. session_of_run (w_store w) (run_id r))) (\<lambda>mapping.
     rescued (cleanup_worker ou mapping)
       (\<lambda>e. give (failed_cleanup (cfg_redact (config_of se) (ro_errorText (se_router se) e)))))"

definition cleanup_orphan_worker :: "outside \<Rightarrow> string \<Rightarrow> orphan_result option act" where
  "cleanup_orphan_worker ou i =
     andthen (reading (\<lambda>w. session_of_run (w_store w) i)) (\<lambda>mapping.
     case mapping of None \<Rightarrow> give None | Some _ \<Rightarrow> andthen (cleanup_worker ou mapping) (\<lambda>res. give (Some res)))"

definition close_stale_slot :: "settings \<Rightarrow> outside \<Rightarrow> run \<Rightarrow> unit act" where
  "close_stale_slot se ou r =
     andthen (cleanup_stale_slot_worker se ou r) (\<lambda>_.
     andthen (on_db (mark_stalled (config_of se) (run_id r) unfenced)) (\<lambda>_.
     andthen (on_db (run_update_failure (config_of se) (run_id r) (Some ''stale_slot_gc'') True)) (\<lambda>_.
     andthen (ou_stopWatchers ou (run_id r) ''stale slot auto-closed'') (\<lambda>_.
     on_db (emit (SlotAutoClosed (run_id r) ''stale_slot_gc''))))))"

fun close_stale_slots :: "settings \<Rightarrow> outside \<Rightarrow> (string \<Rightarrow> bool) \<Rightarrow> instant \<Rightarrow> run list \<Rightarrow> string list act" where
  "close_stale_slots se ou held now [] = give []"
| "close_stale_slots se ou held now (r # rs) =
     andthen (reading (\<lambda>w. held (run_id r) \<or> is_workflow_owned_run (w_store w) r \<or> \<not> is_stale_slot r now)) (\<lambda>skip.
     if skip then close_stale_slots se ou held now rs
     else
       andthen (close_stale_slot se ou r) (\<lambda>_.
       andthen (close_stale_slots se ou held now rs) (\<lambda>closed.
       give (run_id r # closed))))"

definition expire_run_lease :: "settings \<Rightarrow> string \<Rightarrow> unit act" where
  "expire_run_lease se i =
     andthen (reading now_of) (\<lambda>now.
     if cfg_leaseRepo (config_of se) then on_db (on_leases (modify (expire_run i now))) else give ())"

definition runs_in_podman :: "run option \<Rightarrow> bool" where
  "runs_in_podman found = (case Option.bind found run_runtimeSandboxProfile of
     None \<Rightarrow> False | Some p \<Rightarrow> sp_provider p = ''podman'')"

definition gc_stale_slots :: "settings \<Rightarrow> outside \<Rightarrow> nat act" where
  "gc_stale_slots se ou =
     andthen (reading (\<lambda>w. (run_get_active (w_store w), now_of w,
       (\<lambda>i. has_active_session i w \<or> i \<in> w_starting w \<or> i \<in> w_finishing w)))) (\<lambda>(runs, now, held).
     andthen (close_stale_slots se ou held now runs) (\<lambda>closed.
     andthen (for_each (\<lambda>i. done_with (retry_or_fail se i HeartbeatCause None None)) closed) (\<lambda>_.
     andthen (for_each (expire_run_lease se) closed) (\<lambda>_.
     andthen (reading (\<lambda>w. filter (\<lambda>i. runs_in_podman (run_get i (w_store w))) closed)) (\<lambda>podman.
     andthen (ou_cleanupContainers ou podman) (\<lambda>_.
     give (length closed)))))))"

subsection \<open>Sessions that stopped reporting\<close>

definition stop_stalled_run :: "settings \<Rightarrow> outside \<Rightarrow> run \<Rightarrow> unit act" where
  "stop_stalled_run se ou r =
     andthen (reading (session_of (run_id r))) (\<lambda>active.
     andthen (case active of None \<Rightarrow> give ()
       | Some a \<Rightarrow>
           andthen (attempted (ou_kill ou (ae_sessionId a) None)) (\<lambda>_.
           andthen (modify (forget_session (run_id r))) (\<lambda>_.
           andthen (release_lease se (ae_lease a)) (\<lambda>_.
           release_session se ou (run_id r))))) (\<lambda>_.
     andthen (ou_stopWatchers ou (run_id r) ''Run stalled'') (\<lambda>_.
     done_with (retry_or_fail se (run_id r) HeartbeatCause None None))))"

definition check_stalled :: "settings \<Rightarrow> outside \<Rightarrow> unit act" where
  "check_stalled se ou =
     andthen (refresh_live_session_heartbeats se ou) (\<lambda>_.
     andthen (gc_stale_slots se ou) (\<lambda>_.
     andthen (reading (\<lambda>w. (\<lambda>i. i \<in> w_finishing w \<or> \<not> has_active_session i w, now_of w))) (\<lambda>(skip, now).
     andthen (on_db (check_stalled_runs (config_of se) skip now)) (\<lambda>runs.
     for_each (stop_stalled_run se ou) runs))))"

definition cleanup_stale_worktrees :: "settings \<Rightarrow> outside \<Rightarrow> bool \<Rightarrow> bool \<Rightarrow> nat act" where
  "cleanup_stale_worktrees se ou force strict =
     (if \<not> se_worktreeManager se then give 0
      else
        andthen (reading (\<lambda>w. set (collect_protected_worktree_short_ids (cfg_checkpointRepo (config_of se)) (w_store w)))) (\<lambda>kept.
        rescued (ou_cleanupStale ou kept force) (\<lambda>e. if strict then fail e else give 0)))"

subsection \<open>The cycle\<close>

record dispatch_result =
  dr_tasksEvaluated :: nat
  dr_tasksDispatched :: "string list"
  dr_errors :: "(string \<times> string) list"

definition no_dispatches :: dispatch_result where
  "no_dispatches = \<lparr>dr_tasksEvaluated = 0, dr_tasksDispatched = [], dr_errors = []\<rparr>"

definition on_skips :: "(dispatcher \<times> store \<Rightarrow> dispatcher \<times> store) \<Rightarrow> unit act" where
  "on_skips f = modify (\<lambda>w. case f (w_disp w, w_store w) of (d, s) \<Rightarrow> w\<lparr>w_disp := d, w_store := s\<rparr>)"

definition counted :: "dispatch_result \<Rightarrow> dispatch_result" where
  "counted d = d\<lparr>dr_tasksEvaluated := Suc (dr_tasksEvaluated d)\<rparr>"

definition with_error :: "string \<Rightarrow> string \<Rightarrow> dispatch_result \<Rightarrow> dispatch_result" where
  "with_error i text d = d\<lparr>dr_errors := dr_errors d @ [(i, text)]\<rparr>"

definition with_dispatched :: "string \<Rightarrow> dispatch_result \<Rightarrow> dispatch_result" where
  "with_dispatched i d = d\<lparr>dr_tasksDispatched := dr_tasksDispatched d @ [i]\<rparr>"

text \<open>The body of the loop over ready tasks that is inside the \<open>try\<close>, and its \<open>catch\<close>.\<close>

definition try_task ::
    "settings \<Rightarrow> outside \<Rightarrow> spawner \<Rightarrow> task \<Rightarrow> dispatch_result \<Rightarrow> dispatch_result act" where
  "try_task se ou sw t d =
     andthen (reading (\<lambda>w. resolve_dispatch_options (w_store w) t (dispatcher_of w))) (\<lambda>opts.
     andthen (on_dispatcher (\<lambda>s. match_agent_for_options s t opts)) (\<lambda>agent.
     andthen (reading (\<lambda>w. (has_busy_eligible_agent_for_options (w_store w) t opts (dispatcher_of w),
       is_worktree_contested (w_store w) t opts (dispatcher_of w)))) (\<lambda>(busy, contested).
     case agent of
       None \<Rightarrow>
         if busy then andthen (on_skips (emit_dispatch_skip (task_id t) ''agent-busy'')) (\<lambda>_. give d)
         else andthen (on_skips (clear_dispatch_skip (task_id t))) (\<lambda>_.
           give (with_error (task_id t) ''No available agent matches task'' d))
     | Some a \<Rightarrow>
         if contested then andthen (on_skips (emit_dispatch_skip (task_id t) ''worktree-contention'')) (\<lambda>_. give d)
         else andthen (dispatch se ou sw t a opts) (\<lambda>_. give (with_dispatched (task_id t) d)))))"

definition is_prerequisite_error :: "error \<Rightarrow> bool" where
  "is_prerequisite_error e = (case e of PrerequisitesMissing _ \<Rightarrow> True | _ \<Rightarrow> False)"

definition after_dispatch_error :: "settings \<Rightarrow> task \<Rightarrow> dispatch_result \<Rightarrow> error \<Rightarrow> dispatch_result act" where
  "after_dispatch_error se t d e =
     andthen (if is_prerequisite_error e then give () else on_skips (clear_dispatch_skip (task_id t))) (\<lambda>_.
     andthen (if is_runtime_resolution e then done_with (on_db (task_update_status (task_id t) TaskFailed)) else give ()) (\<lambda>_.
     give (with_error (task_id t) (ro_errorText (se_router se) e) d)))"

definition backing_off :: "task \<Rightarrow> instant \<Rightarrow> bool" where
  "backing_off t now \<longleftrightarrow> (case task_retryAfter t of None \<Rightarrow> False | Some x \<Rightarrow> x > now)"

fun dispatch_ready ::
    "settings \<Rightarrow> outside \<Rightarrow> spawner \<Rightarrow> nat \<Rightarrow> instant \<Rightarrow> task list \<Rightarrow> dispatch_result \<Rightarrow> dispatch_result act" where
  "dispatch_ready se ou sw slots now [] d = give d"
| "dispatch_ready se ou sw slots now (t # ts) d =
     (if length (dr_tasksDispatched d) \<ge> slots then give d
      else if backing_off t now then
        andthen (on_skips (emit_dispatch_skip (task_id t) ''retry-backoff'')) (\<lambda>_.
        dispatch_ready se ou sw slots now ts d)
      else
        andthen (rescued (try_task se ou sw t (counted d)) (after_dispatch_error se t (counted d))) (\<lambda>d'.
        dispatch_ready se ou sw slots now ts d'))"

definition cycle :: "settings \<Rightarrow> outside \<Rightarrow> spawner \<Rightarrow> dispatch_result act" where
  "cycle se ou sw =
     andthen (modify (\<lambda>w. w\<lparr>w_lastCycleAt := Some (now_of w), w_cycleCount := Suc (w_cycleCount w)\<rparr>)) (\<lambda>_.
     andthen (check_stalled se ou) (\<lambda>_.
     andthen (reading (\<lambda>w. (w_forceCleanup w, w_cycleCount w mod 10 = 0))) (\<lambda>(force, due).
     andthen (if force \<or> due
         then andthen (modify (\<lambda>w. w\<lparr>w_forceCleanup := False\<rparr>)) (\<lambda>_. done_with (cleanup_stale_worktrees se ou force False))
         else give ()) (\<lambda>_.
     if \<not> se_enabled se then give no_dispatches
     else
       andthen (reading (\<lambda>w. length (w_sessions w))) (\<lambda>active.
       if active \<ge> se_maxConcurrentRuns se then give no_dispatches
       else
         andthen (reading (\<lambda>w. (now_of w, task_get_ready None None (w_store w)))) (\<lambda>(now, ready).
         dispatch_ready se ou sw (se_maxConcurrentRuns se - active) now ready no_dispatches))))))"

text \<open>Of the errors, the last one of each task is kept.\<close>

definition run_managed_cycle :: "settings \<Rightarrow> outside \<Rightarrow> spawner \<Rightarrow> dispatch_result act" where
  "run_managed_cycle se ou sw =
     andthen (cycle se ou sw) (\<lambda>d.
     andthen (for_each (\<lambda>i. andthen (modify (\<lambda>w. w\<lparr>w_lastErrors := (w_lastErrors w)(i := None)\<rparr>)) (\<lambda>_.
       on_skips (clear_dispatch_skip i))) (dr_tasksDispatched d)) (\<lambda>_.
     andthen (for_each (\<lambda>(i, text). modify (\<lambda>w. w\<lparr>w_lastErrors := (w_lastErrors w)(i \<mapsto> text)\<rparr>)) (dr_errors d)) (\<lambda>_.
     give d)))"

text \<open>A caller that finds a cycle in flight waits for it, which is no step of its own. A cycle asked for
  in the meantime is started when this one is over.\<close>

definition after_cycle :: "settings \<Rightarrow> world \<Rightarrow> world" where
  "after_cycle se w =
     (let w' = w\<lparr>w_cycleInFlight := False\<rparr> in
      if w_pendingCycle w' \<and> w_running w' \<and> se_enabled se then kick se (w'\<lparr>w_pendingCycle := False\<rparr>) else w')"

definition cycle_once :: "settings \<Rightarrow> outside \<Rightarrow> spawner \<Rightarrow> dispatch_result option act" where
  "cycle_once se ou sw =
     andthen (reading w_cycleInFlight) (\<lambda>busy.
     if busy then give None
     else
       andthen (modify (\<lambda>w. w\<lparr>w_cycleInFlight := True\<rparr>)) (\<lambda>_.
       finally_do (andthen (run_managed_cycle se ou sw) (\<lambda>d. give (Some d))) (modify (after_cycle se))))"

end
