(* ===== verification/Dispatch_Facts.thy ===== *)
theory Dispatch_Facts
  imports Dispatch_Cycle
begin

text \<open>
  What the dispatcher guarantees whatever happens around it: a cycle never holds more sessions than
  the limit, and the end of a session frees its slot however its handling turns out.
\<close>

subsection \<open>What never grows\<close>

text \<open>A measure of the state that a computation does not raise, and one that it raises by one at most
  and only when it returns.\<close>

definition sheds :: "('s \<Rightarrow> nat) \<Rightarrow> ('s, 'e, 'a) comp \<Rightarrow> bool" where
  "sheds f m \<longleftrightarrow> (\<forall>s. f (snd (m s)) \<le> f s)"

definition grows_by_one :: "('s \<Rightarrow> nat) \<Rightarrow> ('s, 'e, 'a) comp \<Rightarrow> bool" where
  "grows_by_one f m \<longleftrightarrow> (\<forall>s. f (snd (m s)) \<le> f s + (if isl (fst (m s)) then 0 else 1))"

named_theorems shed_intros \<open>structural rules for measures that do not grow\<close>

lemma shedsD: "sheds f m \<Longrightarrow> f (snd (m s)) \<le> f s"
  by (simp add: sheds_def)

lemma sheds_result: "sheds f m \<Longrightarrow> m s = (r, t) \<Longrightarrow> f t \<le> f s"
  using shedsD [of f m s] by simp

lemma sheds_give [shed_intros]: "sheds f (give x)"
  by (simp add: sheds_def give_def)

lemma sheds_fail [shed_intros]: "sheds f (fail e)"
  by (simp add: sheds_def fail_def)

lemma sheds_reading [shed_intros]: "sheds f (reading g)"
  by (simp add: sheds_def reading_def)

lemma sheds_modify: "(\<And>s. f (g s) \<le> f s) \<Longrightarrow> sheds f (modify g)"
  by (simp add: sheds_def modify_def)

lemma sheds_andthen [shed_intros]:
  assumes "sheds f m" and "\<And>x. sheds f (k x)"
  shows "sheds f (andthen m k)"
  unfolding sheds_def
proof
  fix s
  show "f (snd (andthen m k s)) \<le> f s"
  proof (cases "m s")
    case (Pair r t)
    with assms(1) have t: "f t \<le> f s" by (rule sheds_result)
    show ?thesis
    proof (cases r)
      case (Inl e)
      with Pair t show ?thesis by (simp add: andthen_def)
    next
      case (Inr x)
      have "f (snd (k x t)) \<le> f t" by (rule shedsD) (rule assms(2))
      with Pair Inr t show ?thesis by (simp add: andthen_def)
    qed
  qed
qed

lemma sheds_if [shed_intros]: "(b \<Longrightarrow> sheds f m) \<Longrightarrow> (\<not> b \<Longrightarrow> sheds f n) \<Longrightarrow> sheds f (if b then m else n)"
  by simp

lemma sheds_case_option [shed_intros]:
  "sheds f m \<Longrightarrow> (\<And>y. sheds f (n y)) \<Longrightarrow> sheds f (case x of None \<Rightarrow> m | Some y \<Rightarrow> n y)"
  by (cases x) simp_all

lemma sheds_case_prod [shed_intros]: "(\<And>a b. sheds f (k a b)) \<Longrightarrow> sheds f (case x of (a, b) \<Rightarrow> k a b)"
  by (cases x) simp

lemma sheds_case_list [shed_intros]:
  "sheds f m \<Longrightarrow> (\<And>y ys. sheds f (n y ys)) \<Longrightarrow> sheds f (case x of [] \<Rightarrow> m | y # ys \<Rightarrow> n y ys)"
  by (cases x) simp_all

lemma sheds_let [shed_intros]: "(\<And>x. sheds f (k x)) \<Longrightarrow> sheds f (Let y k)"
  by simp

lemma sheds_attempted [shed_intros]:
  assumes "sheds f m"
  shows "sheds f (attempted m)"
  unfolding sheds_def
proof
  fix s
  show "f (snd (attempted m s)) \<le> f s"
    using shedsD [OF assms, of s] by (auto simp: attempted_def split: prod.splits sum.splits)
qed

lemma sheds_rescued [shed_intros]:
  assumes "sheds f m" and "\<And>e. sheds f (h e)"
  shows "sheds f (rescued m h)"
  unfolding sheds_def
proof
  fix s
  show "f (snd (rescued m h s)) \<le> f s"
  proof (cases "m s")
    case (Pair r t)
    with assms(1) have t: "f t \<le> f s" by (rule sheds_result)
    have "f (snd (h e t)) \<le> f t" for e by (rule shedsD) (rule assms(2))
    with Pair t show ?thesis by (auto simp: rescued_def split: sum.splits intro: le_trans)
  qed
qed

lemma sheds_done_with [shed_intros]: "sheds f m \<Longrightarrow> sheds f (done_with m)"
  unfolding done_with_def by (intro shed_intros)

lemma sheds_for_each [shed_intros]: "(\<And>x. sheds f (g x)) \<Longrightarrow> sheds f (for_each g xs)"
  by (induction xs) (simp_all add: shed_intros)

subsection \<open>The number of sessions\<close>

definition sessions_held :: "world \<Rightarrow> nat" where
  "sessions_held w = length (w_sessions w)"

lemma sessions_held_store [simp]: "sessions_held (w\<lparr>w_store := s\<rparr>) = sessions_held w"
  by (simp add: sessions_held_def)

lemma sheds_on_db [shed_intros]: "sheds sessions_held (on_db m)"
  by (simp add: sheds_def on_db_def on_part_def split: prod.splits)

lemma sheds_on_dispatcher [shed_intros]: "sheds sessions_held (on_dispatcher g)"
  by (simp add: sheds_def on_dispatcher_def sessions_held_def split: prod.splits)

lemma sheds_on_skips [shed_intros]: "sheds sessions_held (on_skips g)"
  unfolding on_skips_def by (rule sheds_modify) (simp add: sessions_held_def split: prod.splits)

lemma sheds_forget_session [shed_intros]: "sheds sessions_held (modify (forget_session i))"
  by (rule sheds_modify) (simp add: sessions_held_def forget_session_def)

lemma sheds_set_lease [shed_intros]: "sheds sessions_held (modify (set_lease i l))"
  by (rule sheds_modify) (simp add: sessions_held_def set_lease_def)

lemma sheds_set_resolved [shed_intros]: "sheds sessions_held (modify (set_resolved i a))"
  by (rule sheds_modify) (simp add: sessions_held_def set_resolved_def)

lemma sheds_updates [shed_intros]:
  "sheds sessions_held (modify (\<lambda>w. w\<lparr>w_released := R w\<rparr>))"
  "sheds sessions_held (modify (\<lambda>w. w\<lparr>w_starting := R w\<rparr>))"
  "sheds sessions_held (modify (\<lambda>w. w\<lparr>w_forceCleanup := b\<rparr>))"
  "sheds sessions_held (modify (\<lambda>w. w\<lparr>w_disp := D w\<rparr>))"
  "sheds sessions_held (modify (\<lambda>w. w\<lparr>w_lastErrors := E w\<rparr>))"
  "sheds sessions_held (modify (\<lambda>w. w\<lparr>w_lastCycleAt := T w, w_cycleCount := C w\<rparr>))"
  by (simp_all add: sheds_def modify_def sessions_held_def)

text \<open>What is awaited may end sessions of other runs, but starts none.\<close>

definition outside_sheds :: "outside \<Rightarrow> bool" where
  "outside_sheds ou \<longleftrightarrow>
     (\<forall>i x. sheds sessions_held (ou_kill ou i x)) \<and> (\<forall>i. sheds sessions_held (ou_isAlive ou i)) \<and>
     (\<forall>i. sheds sessions_held (ou_teardown ou i)) \<and> (\<forall>i. sheds sessions_held (ou_createMcp ou i)) \<and>
     (\<forall>i. sheds sessions_held (ou_closeMcp ou i)) \<and> (\<forall>i x. sheds sessions_held (ou_stopWatchers ou i x)) \<and>
     (\<forall>x b. sheds sessions_held (ou_cleanupStale ou x b)) \<and>
     (\<forall>xs. sheds sessions_held (ou_cleanupContainers ou xs)) \<and>
     (\<forall>p g w. sessions_held (snd (os_kill (ou_os ou) p g w)) \<le> sessions_held w) \<and>
     (\<forall>p w. sessions_held (snd (os_ps (ou_os ou) p w)) \<le> sessions_held w)"

definition spawner_sheds :: "spawner \<Rightarrow> bool" where
  "spawner_sheds sw \<longleftrightarrow>
     (\<forall>t a o1 i. sheds sessions_held (sw_plan sw t a o1 i)) \<and>
     (\<forall>r t p. sheds sessions_held (sw_prepareSandbox sw r t p)) \<and>
     (\<forall>b t i. sheds sessions_held (sw_createWorktree sw b t i)) \<and>
     (\<forall>b p x. sheds sessions_held (sw_restoreWorktree sw b p x)) \<and>
     (case sw_seedStage sw of None \<Rightarrow> True | Some hook \<Rightarrow> \<forall>i g. sheds sessions_held (hook i g)) \<and>
     (\<forall>t r f x. sheds sessions_held (sw_prompt sw t r f x)) \<and>
     (\<forall>r t p x l. sheds sessions_held (sw_spawn sw r t p x l))"

lemma outside_shedsD:
  assumes "outside_sheds ou"
  shows "sheds sessions_held (ou_kill ou i x)" "sheds sessions_held (ou_isAlive ou i)"
    "sheds sessions_held (ou_teardown ou i)" "sheds sessions_held (ou_createMcp ou i)"
    "sheds sessions_held (ou_closeMcp ou i)" "sheds sessions_held (ou_stopWatchers ou i y)"
    "sheds sessions_held (ou_cleanupStale ou ks b)" "sheds sessions_held (ou_cleanupContainers ou xs)"
  using assms by (simp_all add: outside_sheds_def)

lemma sheds_cleanup_worker:
  assumes "outside_sheds ou"
  shows "sheds sessions_held (cleanup_worker ou m)"
proof -
  have "sessions_held (snd (cleanup_orphan_worker_process (ou_os ou) x w)) \<le> sessions_held w" for x w
    by (rule cleanup_sheds) (use assms in \<open>simp_all add: outside_sheds_def\<close>)
  then show ?thesis by (auto simp: sheds_def cleanup_worker_def split: prod.splits) (metis snd_conv)
qed

lemma spawner_hook: "spawner_sheds sw \<Longrightarrow> sw_seedStage sw = Some hook \<Longrightarrow> sheds sessions_held (hook i g)"
  by (simp add: spawner_sheds_def)

lemma spawner_shedsD:
  assumes "spawner_sheds sw"
  shows "sheds sessions_held (sw_plan sw t a o1 i)" "sheds sessions_held (sw_prepareSandbox sw r t p)"
    "sheds sessions_held (sw_createWorktree sw b t i)" "sheds sessions_held (sw_restoreWorktree sw b q x)"
    "sheds sessions_held (sw_prompt sw t r f y)" "sheds sessions_held (sw_spawn sw r t z y l)"
  using assms by (simp_all add: spawner_sheds_def)

lemma sheds_release_session: "outside_sheds ou \<Longrightarrow> sheds sessions_held (release_session se ou i)"
  unfolding release_session_def by (intro shed_intros outside_shedsD)

lemma sheds_release_lease [shed_intros]: "sheds sessions_held (release_lease se l)"
  unfolding release_lease_def by (intro shed_intros)

lemma sheds_retry_or_fail [shed_intros]: "sheds sessions_held (retry_or_fail se i c b x)"
  unfolding retry_or_fail_def by (intro shed_intros)

lemma sheds_close_stale_slots:
  assumes "outside_sheds ou"
  shows "sheds sessions_held (close_stale_slots se ou held now rs)"
proof (induction rs)
  case Nil
  then show ?case by (simp add: shed_intros)
next
  case (Cons r rs)
  show ?case
    unfolding close_stale_slots.simps close_stale_slot_def cleanup_stale_slot_worker_def
    by (intro shed_intros outside_shedsD sheds_cleanup_worker Cons.IH assms)
qed

lemma sheds_check_stalled:
  assumes "outside_sheds ou"
  shows "sheds sessions_held (check_stalled se ou)"
  unfolding check_stalled_def refresh_live_session_heartbeats_def refresh_session_def refresh_heartbeat_def
    gc_stale_slots_def stop_stalled_run_def expire_run_lease_def
  by (intro shed_intros outside_shedsD sheds_release_session sheds_close_stale_slots assms)

lemma sheds_cleanup_stale_worktrees:
  assumes "outside_sheds ou"
  shows "sheds sessions_held (cleanup_stale_worktrees se ou force strict)"
  unfolding cleanup_stale_worktrees_def by (intro shed_intros outside_shedsD assms)

subsection \<open>A dispatch adds one session\<close>

definition smooth :: "('s \<Rightarrow> nat) \<Rightarrow> ('s, 'e, 'a) comp \<Rightarrow> bool" where
  "smooth f m \<longleftrightarrow> (\<forall>s. f (snd (m s)) \<le> f s \<and> \<not> isl (fst (m s)))"

named_theorems add_intros \<open>structural rules for a measure that grows by one at most\<close>

lemma grows_by_one_sheds: "sheds f m \<Longrightarrow> grows_by_one f m"
  by (auto simp: sheds_def grows_by_one_def intro: le_trans)

lemma grows_by_one_result:
  assumes "grows_by_one f m" and "m s = (r, t)"
  shows "f t \<le> f s + (if isl r then 0 else 1)"
proof -
  have "f (snd (m s)) \<le> f s + (if isl (fst (m s)) then 0 else 1)" using assms(1) by (simp add: grows_by_one_def)
  with assms(2) show ?thesis by simp
qed

lemma grows_by_one_after:
  assumes "sheds f m" and "\<And>x. grows_by_one f (k x)"
  shows "grows_by_one f (andthen m k)"
  unfolding grows_by_one_def
proof
  fix s
  show "f (snd (andthen m k s)) \<le> f s + (if isl (fst (andthen m k s)) then 0 else 1)"
  proof (cases "m s")
    case (Pair r t)
    with assms(1) have t: "f t \<le> f s" by (rule sheds_result)
    show ?thesis
    proof (cases r)
      case (Inl e)
      with Pair t show ?thesis by (simp add: andthen_def)
    next
      case (Inr x)
      have "f (snd (k x t)) \<le> f t + (if isl (fst (k x t)) then 0 else 1)"
        using assms(2) [of x] by (simp add: grows_by_one_def)
      with t have "f (snd (k x t)) \<le> f s + (if isl (fst (k x t)) then 0 else 1)" by linarith
      with Pair Inr show ?thesis by (simp add: andthen_def)
    qed
  qed
qed

lemma grows_by_one_before:
  assumes "grows_by_one f m" and "\<And>x. smooth f (k x)"
  shows "grows_by_one f (andthen m k)"
  unfolding grows_by_one_def
proof
  fix s
  show "f (snd (andthen m k s)) \<le> f s + (if isl (fst (andthen m k s)) then 0 else 1)"
  proof (cases "m s")
    case (Pair r t)
    with assms(1) have t: "f t \<le> f s + (if isl r then 0 else 1)" by (rule grows_by_one_result)
    show ?thesis
    proof (cases r)
      case (Inl e)
      with Pair t show ?thesis by (simp add: andthen_def)
    next
      case (Inr x)
      have "f (snd (k x t)) \<le> f t" "\<not> isl (fst (k x t))" using assms(2) [of x] by (simp_all add: smooth_def)
      with Pair Inr t show ?thesis by (simp add: andthen_def)
    qed
  qed
qed

lemma grows_by_one_modify: "(\<And>s. f (g s) \<le> f s + 1) \<Longrightarrow> grows_by_one f (modify g)"
  by (simp add: grows_by_one_def modify_def)

lemma grows_by_one_fail: "grows_by_one f (fail e)"
  by (simp add: grows_by_one_def fail_def)

lemma grows_by_one_if [add_intros]: "(b \<Longrightarrow> grows_by_one f m) \<Longrightarrow> (\<not> b \<Longrightarrow> grows_by_one f n) \<Longrightarrow> grows_by_one f (if b then m else n)"
  by simp

lemma grows_by_one_case_option [add_intros]:
  "grows_by_one f m \<Longrightarrow> (\<And>y. x = Some y \<Longrightarrow> grows_by_one f (n y)) \<Longrightarrow> grows_by_one f (case x of None \<Rightarrow> m | Some y \<Rightarrow> n y)"
  by (cases x) simp_all

lemma grows_by_one_case_prod [add_intros]: "(\<And>a b. grows_by_one f (k a b)) \<Longrightarrow> grows_by_one f (case x of (a, b) \<Rightarrow> k a b)"
  by (cases x) simp

lemma grows_by_one_let [add_intros]: "(\<And>x. grows_by_one f (k x)) \<Longrightarrow> grows_by_one f (Let y k)"
  by simp

lemma smooth_modify: "(\<And>s. f (g s) \<le> f s) \<Longrightarrow> smooth f (modify g)"
  by (simp add: smooth_def modify_def)

lemma smooth_give: "smooth f (give x)"
  by (simp add: smooth_def give_def)

lemma smooth_emit: "smooth sessions_held (on_db (emit e))"
  by (simp add: smooth_def on_db_def on_part_def emit_eq)

lemma smooth_andthen:
  assumes "smooth f m" and "\<And>x. smooth f (k x)"
  shows "smooth f (andthen m k)"
  unfolding smooth_def
proof
  fix s
  obtain r t where m: "m s = (r, t)" by (cases "m s")
  have "f t \<le> f s \<and> \<not> isl r" using assms(1) m unfolding smooth_def by (metis fst_conv snd_conv)
  then obtain x where x: "r = Inr x" and t: "f t \<le> f s" by (cases r) auto
  have "f (snd (k x t)) \<le> f t \<and> \<not> isl (fst (k x t))" using assms(2) [of x] by (simp add: smooth_def)
  with m x t show "f (snd (andthen m k s)) \<le> f s \<and> \<not> isl (fst (andthen m k s))" by (simp add: andthen_def)
qed

lemma set_session_grows: "sessions_held (set_session i a w) \<le> sessions_held w + 1"
  by (simp add: sessions_held_def set_session_def)

lemma sheds_write_checkpoint [shed_intros]: "sheds sessions_held (write_checkpoint se r l)"
  unfolding write_checkpoint_def by (intro shed_intros)

lemma grows_by_one_record_spawned_session: "grows_by_one sessions_held (record_spawned_session se r a x p old l)"
  unfolding record_spawned_session_def
  by (rule grows_by_one_after, (intro shed_intros; fail)[1])+
    (intro grows_by_one_before grows_by_one_modify set_session_grows smooth_andthen smooth_emit smooth_modify;
      simp add: sessions_held_def)

subsection \<open>Handlers with variables\<close>

abbreviation held_by :: "world \<times> 'l \<Rightarrow> nat" where
  "held_by \<equiv> (\<lambda>s. sessions_held (fst s))"

lemma on_world_eq: "on_world m s = (fst (m (fst s)), (snd (m (fst s)), snd s))"
  by (cases s) (simp add: on_world_def on_part_def split: prod.splits)

lemma sheds_on_world [shed_intros]: "sheds sessions_held m \<Longrightarrow> sheds held_by (on_world m)"
  by (simp add: sheds_def on_world_eq)

lemma grows_by_one_on_world: "grows_by_one sessions_held m \<Longrightarrow> grows_by_one held_by (on_world m)"
  by (simp add: grows_by_one_def on_world_eq)

lemma sheds_note_progress [shed_intros]: "sheds held_by (note_progress g)"
  by (simp add: sheds_def note_progress_def modify_def split: prod.splits)

lemma smooth_note_progress: "smooth held_by (note_progress g)"
  by (simp add: smooth_def note_progress_def modify_def split: prod.splits)

lemma sheds_record_when [shed_intros]: "sheds sessions_held (record_when se i k n v)"
  unfolding record_when_def record_runtime_def by (intro shed_intros)

lemma sheds_record_runtime [shed_intros]: "sheds sessions_held (record_runtime se i k v)"
  unfolding record_runtime_def by (intro shed_intros)

lemma sheds_set_worktree_paths [shed_intros]: "sheds sessions_held (set_worktree_paths i ps)"
  unfolding set_worktree_paths_def by (intro shed_intros)

lemma sheds_run_workspace_preflight [shed_intros]: "sheds sessions_held (run_workspace_preflight se sw r t x b)"
  unfolding run_workspace_preflight_def by (intro shed_intros)

lemma sheds_prepare_spawn_runtime:
  assumes "spawner_sheds sw"
  shows "sheds sessions_held (prepare_spawn_runtime se sw r t pl inherited reuse)"
  unfolding prepare_spawn_runtime_def prepare_sandbox_def resolve_inherited_worktree_def
  by (intro shed_intros spawner_shedsD assms)

lemma grows_by_one_start_session:
  assumes "spawner_sheds sw"
  shows "grows_by_one held_by (start_session se sw r t pl opts dir sandbox)"
  unfolding start_session_def
  by (rule grows_by_one_let grows_by_one_case_prod | (rule grows_by_one_after, (intro shed_intros spawner_shedsD assms; fail)[1]))+
    (intro grows_by_one_before grows_by_one_on_world grows_by_one_record_spawned_session smooth_note_progress)

lemma grows_by_one_spawn_run:
  assumes "spawner_sheds sw"
  shows "grows_by_one held_by (spawn_run se sw r t pl opts start inherited reuse)"
proof -
  have hook: "sheds held_by (case (start_seedStage start, sw_seedStage sw) of
      (Some g, Some hook) \<Rightarrow> on_world (hook (run_id r) g) | _ \<Rightarrow> give ())"
    using spawner_hook [OF assms] by (auto split: option.split intro!: shed_intros)
  show ?thesis
    unfolding spawn_run_def
    by (rule grows_by_one_let grows_by_one_case_prod |
        (rule grows_by_one_after, (intro hook shed_intros sheds_prepare_spawn_runtime spawner_shedsD assms; fail)[1]))+
      (intro grows_by_one_before grows_by_one_start_session smooth_give assms)
qed

lemma sheds_undo_spawn:
  assumes "outside_sheds ou"
  shows "sheds sessions_held (undo_spawn se ou r p e)"
  unfolding undo_spawn_def mark_dispatch_stalled_def note_agent_failure_def
  by (intro shed_intros outside_shedsD assms)

lemma grows_by_one_spawn_or_undo:
  assumes "outside_sheds ou" and "spawner_sheds sw"
  shows "grows_by_one sessions_held (spawn_or_undo se ou sw r t pl opts start inherited reuse)"
  unfolding grows_by_one_def
proof
  fix w
  obtain res w' p where m: "spawn_run se sw r t pl opts start inherited reuse (w, no_progress) = (res, (w', p))"
    by (metis prod.exhaust)
  have le: "sessions_held w' \<le> sessions_held w + (if isl res then 0 else 1)"
    using grows_by_one_result [OF grows_by_one_spawn_run [OF assms(2)] m] by simp
  show "sessions_held (snd (spawn_or_undo se ou sw r t pl opts start inherited reuse w)) \<le> sessions_held w +
      (if isl (fst (spawn_or_undo se ou sw r t pl opts start inherited reuse w)) then 0 else 1)"
  proof (cases res)
    case (Inr x)
    with m le show ?thesis by (simp add: spawn_or_undo_def)
  next
    case (Inl e)
    have "sessions_held (snd (undo_spawn se ou r p e w')) \<le> sessions_held w'"
      by (rule shedsD) (rule sheds_undo_spawn [OF assms(1)])
    with m le Inl show ?thesis by (auto simp: spawn_or_undo_def split: prod.splits sum.splits)
  qed
qed

lemma grows_by_one_dispatch:
  assumes "outside_sheds ou" and "spawner_sheds sw"
  shows "grows_by_one sessions_held (dispatch se ou sw t a opts)"
proof -
  have tail: "grows_by_one sessions_held (dispatch_run se ou sw i t pl opts start reuse)" for i pl start reuse
    unfolding dispatch_run_def
    apply (rule grows_by_one_let)
    apply (rule grows_by_one_after, (intro shed_intros outside_shedsD assms; fail)[1])+
    apply (rule grows_by_one_if)
     apply (rule grows_by_one_sheds)
     apply (unfold mark_dispatch_stalled_def note_agent_failure_def, intro shed_intros outside_shedsD assms)[1]
    apply (rule grows_by_one_after, (intro shed_intros outside_shedsD assms; fail)[1])
    apply (rule grows_by_one_spawn_or_undo [OF assms])
    done
  show ?thesis
    unfolding dispatch_def ensure_inherited_worktree_dispatch_def clear_skip_row_def
    by (rule grows_by_one_after grows_by_one_case_prod grows_by_one_case_option grows_by_one_fail tail shed_intros spawner_shedsD [OF assms(2)])+
qed

subsection \<open>The limit on sessions\<close>

abbreviation tried :: "dispatch_result \<Rightarrow> nat" where
  "tried d \<equiv> length (dr_tasksDispatched d)"

text \<open>Every session that a try adds is one of the tasks it counts as dispatched.\<close>

lemma try_task_counts:
  assumes "outside_sheds ou" and "spawner_sheds sw" and "try_task se ou sw t d w = (res, w')"
  shows "(case res of Inl _ \<Rightarrow> sessions_held w' \<le> sessions_held w
    | Inr d' \<Rightarrow> sessions_held w' + tried d \<le> sessions_held w + tried d' \<and> tried d' \<le> Suc (tried d))"
proof -
  let ?s = "w_store w"
  define opts where "opts = resolve_dispatch_options ?s t (dispatcher_of w)"
  obtain ra w1 where a: "on_dispatcher (\<lambda>s. match_agent_for_options s t opts) w = (ra, w1)" by (metis prod.exhaust)
  have w1: "sessions_held w1 \<le> sessions_held w" by (rule sheds_result [OF sheds_on_dispatcher a])
  show ?thesis
  proof (cases ra)
    case (Inl e)
    with assms(3) a w1 show ?thesis by (auto simp: try_task_def opts_def andthen_def reading_def)
  next
    case (Inr found)
    note skips = sheds_result [OF sheds_on_skips, of _ w1]
    show ?thesis
    proof (cases found)
      case None
      with assms(3) a Inr w1 show ?thesis
        by (auto simp: try_task_def opts_def andthen_def reading_def give_def with_error_def
            split: if_splits prod.splits sum.splits dest!: skips)
    next
      case (Some ag)
      show ?thesis
      proof (cases "is_worktree_contested (w_store w1) t opts (dispatcher_of w1)")
        case True
        with assms(3) a Inr Some w1 show ?thesis
          by (auto simp: try_task_def opts_def andthen_def reading_def give_def
              split: prod.splits sum.splits dest!: skips)
      next
        case False
        obtain rd w2 where d: "dispatch se ou sw t ag opts w1 = (rd, w2)" by (metis prod.exhaust)
        have "sessions_held w2 \<le> sessions_held w1 + (if isl rd then 0 else 1)"
          by (rule grows_by_one_result [OF grows_by_one_dispatch [OF assms(1,2)] d])
        with False assms(3) a Inr Some w1 d show ?thesis
          by (auto simp: try_task_def opts_def andthen_def reading_def give_def with_dispatched_def
              split: sum.splits)
      qed
    qed
  qed
qed

lemma after_error_counts:
  assumes "after_dispatch_error se t d e w = (res, w')"
  shows "sessions_held w' \<le> sessions_held w \<and> (\<forall>d'. res = Inr d' \<longrightarrow> tried d' = tried d)"
proof
  have "sheds sessions_held (after_dispatch_error se t d e)"
    unfolding after_dispatch_error_def by (intro shed_intros)
  then show "sessions_held w' \<le> sessions_held w" using assms by (rule sheds_result)
  show "\<forall>d'. res = Inr d' \<longrightarrow> tried d' = tried d"
    using assms by (auto simp: after_dispatch_error_def andthen_def give_def with_error_def split: prod.splits sum.splits)
qed

lemma one_task_counts:
  assumes "outside_sheds ou" and "spawner_sheds sw"
    and "rescued (try_task se ou sw t (counted d)) (after_dispatch_error se t (counted d)) w = (res, w')"
  shows "(case res of Inl _ \<Rightarrow> sessions_held w' \<le> sessions_held w
    | Inr d' \<Rightarrow> sessions_held w' + tried d \<le> sessions_held w + tried d' \<and> tried d' \<le> Suc (tried d))"
proof -
  obtain r1 w1 where m: "try_task se ou sw t (counted d) w = (r1, w1)" by (metis prod.exhaust)
  have c: "tried (counted d) = tried d" by (simp add: counted_def)
  note first = try_task_counts [OF assms(1,2) m, unfolded c]
  show ?thesis
  proof (cases r1)
    case (Inr d')
    with first assms(3) m show ?thesis by (auto simp: rescued_def)
  next
    case (Inl e)
    show ?thesis
    proof (cases "e = NotReturning")
      case True
      with Inl first assms(3) m show ?thesis by (auto simp: rescued_def)
    next
      case False
      with Inl m assms(3) have "after_dispatch_error se t (counted d) e w1 = (res, w')" by (simp add: rescued_def)
      from after_error_counts [OF this] first Inl c show ?thesis by (auto split: sum.splits)
    qed
  qed
qed

lemma dispatch_ready_counts:
  assumes "outside_sheds ou" and "spawner_sheds sw"
    and "dispatch_ready se ou sw slots now ts d w = (res, w')" and "tried d \<le> slots"
  shows "sessions_held w' + tried d \<le> sessions_held w + slots"
  using assms(3,4)
proof (induction ts arbitrary: d w)
  case Nil
  then show ?case by (simp add: give_def)
next
  case (Cons t ts)
  show ?case
  proof (cases "slots \<le> tried d")
    case True
    with Cons.prems show ?thesis by (simp add: give_def)
  next
    case False
    show ?thesis
    proof (cases "backing_off t now")
      case True
      obtain r1 w1 where m: "on_skips (emit_dispatch_skip (task_id t) ''retry-backoff'') w = (r1, w1)" by (metis prod.exhaust)
      have r1: "r1 = Inr ()" using m by (auto simp: on_skips_def modify_def)
      have w1: "sessions_held w1 \<le> sessions_held w" by (rule sheds_result [OF sheds_on_skips m])
      from False True Cons.prems(1) m r1 have "dispatch_ready se ou sw slots now ts d w1 = (res, w')"
        by (simp add: andthen_def)
      from Cons.IH [OF this Cons.prems(2)] w1 show ?thesis by simp
    next
      case nb: False
      obtain r1 w1 where m: "rescued (try_task se ou sw t (counted d)) (after_dispatch_error se t (counted d)) w = (r1, w1)"
        by (metis prod.exhaust)
      note one = one_task_counts [OF assms(1,2) m]
      show ?thesis
      proof (cases r1)
        case (Inl e)
        with False nb Cons.prems m one show ?thesis by (auto simp: andthen_def)
      next
        case (Inr d')
        from False nb Cons.prems(1) m Inr have rest: "dispatch_ready se ou sw slots now ts d' w1 = (res, w')"
          by (simp add: andthen_def)
        from one Inr False have "tried d' \<le> slots" by simp
        from Cons.IH [OF rest this] one Inr show ?thesis by simp
      qed
    qed
  qed
qed

text \<open>C14: the dispatcher never holds more sessions than it is allowed. Whatever the cycle finds (sessions that
  died, agents that are busy, tasks whose dispatch throws half way) and whatever runs while it waits,
  it leaves no more sessions than the limit or than there were before it, as long as what it waits for
  starts no session of its own. A dispatch that throws has left none behind.\<close>

theorem cycle_respects_limit:
  assumes "outside_sheds ou" and "spawner_sheds sw"
    and "cycle se ou sw w = (res, w')"
  shows "length (w_sessions w') \<le> max (length (w_sessions w)) (se_maxConcurrentRuns se)"
proof -
  let ?max = "se_maxConcurrentRuns se"
  define before where "before = andthen (modify (\<lambda>w. w\<lparr>w_lastCycleAt := Some (now_of w), w_cycleCount := Suc (w_cycleCount w)\<rparr>))
    (\<lambda>_. andthen (check_stalled se ou) (\<lambda>_. andthen (reading (\<lambda>w. (w_forceCleanup w, w_cycleCount w mod 10 = 0)))
    (\<lambda>(force, due). if force \<or> due
         then andthen (modify (\<lambda>w. w\<lparr>w_forceCleanup := False\<rparr>)) (\<lambda>_. done_with (cleanup_stale_worktrees se ou force False))
         else give ())))"
  define after where "after = (if \<not> se_enabled se then give no_dispatches
     else
       andthen (reading (\<lambda>w. length (w_sessions w))) (\<lambda>active.
       if active \<ge> ?max then give no_dispatches
       else
         andthen (reading (\<lambda>w. (now_of w, task_get_ready None None (w_store w)))) (\<lambda>(now, ready).
         dispatch_ready se ou sw (?max - active) now ready no_dispatches)))"
  have split: "cycle se ou sw = andthen before (\<lambda>_. after)"
    unfolding cycle_def before_def after_def
    by (rule ext) (auto simp: andthen_def reading_def modify_def split: prod.splits sum.splits)
  have "sheds sessions_held before"
    unfolding before_def by (intro shed_intros sheds_check_stalled sheds_cleanup_stale_worktrees assms)
  moreover obtain r1 w1 where m: "before w = (r1, w1)" by (metis prod.exhaust)
  ultimately have w1: "sessions_held w1 \<le> sessions_held w" by (rule sheds_result)
  show ?thesis
  proof (cases r1)
    case (Inl e)
    with assms(3) m w1 show ?thesis by (simp add: split andthen_def sessions_held_def)
  next
    case (Inr u)
    with assms(3) m have rest: "after w1 = (res, w')" by (simp add: split andthen_def)
    show ?thesis
    proof (cases "\<not> se_enabled se \<or> ?max \<le> sessions_held w1")
      case True
      with rest have "w' = w1" by (auto simp: after_def andthen_def reading_def give_def sessions_held_def split: if_splits)
      with w1 show ?thesis by (simp add: sessions_held_def)
    next
      case False
      with rest have "dispatch_ready se ou sw (?max - sessions_held w1) (now_of w1)
          (task_get_ready None None (w_store w1)) no_dispatches w1 = (res, w')"
        by (simp add: after_def andthen_def reading_def sessions_held_def)
      from dispatch_ready_counts [OF assms(1,2) this] False show ?thesis
        by (simp add: no_dispatches_def sessions_held_def)
    qed
  qed
qed

subsection \<open>The slot of an ended session\<close>

text \<open>A computation that leaves the sessions and the runs being finished alone.\<close>

definition slots_of :: "world \<Rightarrow> (string \<times> active_session) list \<times> string set" where
  "slots_of w = (w_sessions w, w_finishing w)"

definition calm :: "'a act \<Rightarrow> bool" where
  "calm m \<longleftrightarrow> (\<forall>w. slots_of (snd (m w)) = slots_of w)"

named_theorems calm_intros \<open>computations that leave the slots alone\<close>

lemma calmD: "calm m \<Longrightarrow> slots_of (snd (m w)) = slots_of w"
  by (simp add: calm_def)

lemma calm_give [calm_intros]: "calm (give x)"
  by (simp add: calm_def give_def)

lemma calm_fail [calm_intros]: "calm (fail e)"
  by (simp add: calm_def fail_def)

lemma calm_reading [calm_intros]: "calm (reading f)"
  by (simp add: calm_def reading_def)

lemma calm_modify: "(\<And>w. slots_of (f w) = slots_of w) \<Longrightarrow> calm (modify f)"
  by (simp add: calm_def modify_def)

lemma calm_andthen [calm_intros]:
  assumes "calm m" and "\<And>x. calm (k x)"
  shows "calm (andthen m k)"
  unfolding calm_def
proof
  fix w
  obtain r t where m: "m w = (r, t)" by (metis prod.exhaust)
  with calmD [OF assms(1), of w] have t: "slots_of t = slots_of w" by simp
  show "slots_of (snd (andthen m k w)) = slots_of w"
    using m t calmD [OF assms(2)] by (cases r) (simp_all add: andthen_def)
qed

lemma calm_if [calm_intros]: "(b \<Longrightarrow> calm m) \<Longrightarrow> (\<not> b \<Longrightarrow> calm n) \<Longrightarrow> calm (if b then m else n)"
  by simp

lemma calm_case_option [calm_intros]:
  "calm m \<Longrightarrow> (\<And>y. calm (n y)) \<Longrightarrow> calm (case x of None \<Rightarrow> m | Some y \<Rightarrow> n y)"
  by (cases x) simp_all

lemma calm_case_prod [calm_intros]: "(\<And>a b. calm (k a b)) \<Longrightarrow> calm (case x of (a, b) \<Rightarrow> k a b)"
  by (cases x) simp

lemma calm_attempted [calm_intros]:
  assumes "calm m"
  shows "calm (attempted m)"
  unfolding calm_def
proof
  fix w
  show "slots_of (snd (attempted m w)) = slots_of w"
    using calmD [OF assms, of w] by (auto simp: attempted_def split: prod.splits sum.splits)
qed

lemma calm_done_with [calm_intros]: "calm m \<Longrightarrow> calm (done_with m)"
  unfolding done_with_def by (intro calm_intros)

lemma calm_for_each [calm_intros]: "(\<And>x. calm (g x)) \<Longrightarrow> calm (for_each g xs)"
  by (induction xs) (simp_all add: calm_intros)

lemma calm_on_db [calm_intros]: "calm (on_db m)"
  by (simp add: calm_def on_db_def on_part_def slots_of_def split: prod.splits)

lemma calm_updates [calm_intros]:
  "calm (modify (\<lambda>w. w\<lparr>w_released := R w\<rparr>))" "calm (modify (\<lambda>w. w\<lparr>w_routed := R w\<rparr>))"
  by (simp_all add: calm_def modify_def slots_of_def)

lemma calm_release_lease [calm_intros]: "calm (release_lease se l)"
  unfolding release_lease_def by (intro calm_intros)

lemma calm_route_completed_run [calm_intros]: "calm (route_completed_run se r)"
  unfolding route_completed_run_def by (intro calm_intros)

definition calm_release :: "outside \<Rightarrow> string \<Rightarrow> bool" where
  "calm_release ou i \<longleftrightarrow> calm (ou_teardown ou i) \<and> calm (ou_closeMcp ou i) \<and> (\<forall>p. calm (ou_removeWorktree ou p))"

lemma calm_release_session: "calm_release ou i \<Longrightarrow> calm (release_session se ou i)"
  unfolding release_session_def calm_release_def by (intro calm_intros) simp_all

lemma calm_cleanup_failed_own_worktrees: "calm_release ou i \<Longrightarrow> calm (cleanup_failed_own_worktrees se ou r res)"
  unfolding cleanup_failed_own_worktrees_def calm_release_def by (intro calm_intros) simp_all

text \<open>The two phases of the handler: nothing removed yet, and the session forgotten.\<close>

definition not_removed :: "world \<times> ending \<Rightarrow> bool" where
  "not_removed s \<longleftrightarrow> \<not> en_activeRemoved (snd s)"

definition removed_is_gone :: "string \<Rightarrow> world \<times> ending \<Rightarrow> bool" where
  "removed_is_gone i s \<longleftrightarrow> (en_activeRemoved (snd s) \<longrightarrow> session_of i (fst s) = None)"

lemma not_removed_gone: "not_removed s \<Longrightarrow> removed_is_gone i s"
  by (simp add: not_removed_def removed_is_gone_def)

lemma keeps_not_removed [keeps_intros]: "keeps not_removed (on_world m)"
  by (simp add: keeps_def not_removed_def on_world_eq)

lemma keeps_gone_calm: "calm m \<Longrightarrow> keeps (removed_is_gone i) (on_world m)"
  using calmD by (fastforce simp: keeps_def removed_is_gone_def on_world_eq session_of_def slots_of_def)

lemma keeps_note_ending:
  "(\<And>e. en_activeRemoved (f e) = en_activeRemoved e) \<Longrightarrow> keeps not_removed (note_ending f)"
  "(\<And>e. en_activeRemoved (f e) = en_activeRemoved e) \<Longrightarrow> keeps (removed_is_gone i) (note_ending f)"
  by (auto simp: keeps_def not_removed_def removed_is_gone_def note_ending_def modify_def split: prod.splits)

lemma keeps_forget_active: "keeps (removed_is_gone i) (forget_active i active)"
  by (auto simp: keeps_def removed_is_gone_def forget_active_def modify_def forget_session_def session_of_def
      map_of_eq_None_iff split: prod.splits)

lemma keeps_release_lease_once: "keeps (removed_is_gone i) (release_lease_once se active)"
  unfolding release_lease_once_def by (intro keeps_intros keeps_gone_calm calm_intros keeps_note_ending) simp_all

text \<open>From one invariant to another.\<close>

definition leads :: "('s \<Rightarrow> bool) \<Rightarrow> ('s, 'e, 'a) comp \<Rightarrow> ('s \<Rightarrow> bool) \<Rightarrow> bool" where
  "leads P m Q \<longleftrightarrow> (\<forall>s. P s \<longrightarrow> Q (snd (m s)))"

lemma leads_keeps: "keeps Q m \<Longrightarrow> (\<And>s. P s \<Longrightarrow> Q s) \<Longrightarrow> leads P m Q"
  by (auto simp: leads_def keeps_def)

lemma leads_andthen:
  assumes "keeps P m" and "\<And>s. P s \<Longrightarrow> Q s" and "\<And>x. leads P (k x) Q"
  shows "leads P (andthen m k) Q"
  unfolding leads_def
proof (intro allI impI)
  fix s
  assume P: "P s"
  obtain r t where m: "m s = (r, t)" by (metis prod.exhaust)
  with keepsD [OF assms(1) P] have t: "P t" by simp
  show "Q (snd (andthen m k s))"
    using m t assms(2) assms(3) by (cases r) (simp_all add: andthen_def leads_def)
qed

lemma keeps_case_prod [keeps_intros]: "(\<And>a b. keeps I (k a b)) \<Longrightarrow> keeps I (case x of (a, b) \<Rightarrow> k a b)"
  by (cases x) simp

lemma keeps_attempted [keeps_intros]:
  assumes "keeps I m"
  shows "keeps I (attempted m)"
  unfolding keeps_def
proof (intro allI impI)
  fix s
  assume "I s"
  from keepsD [OF assms this] show "I (snd (attempted m s))"
    by (auto simp: attempted_def split: prod.splits sum.splits)
qed

lemma calm_release_in_time: "calm_release ou i \<Longrightarrow> calm (release_in_time se ou i)"
  unfolding release_in_time_def by (intro calm_intros calm_release_session)

lemma calm_record_completion_cleanup_failure [calm_intros]: "calm (record_completion_cleanup_failure se i f e)"
  unfolding record_completion_cleanup_failure_def record_fenced_def Let_def by (intro calm_intros)

text \<open>From the release on, all that follows is calm.\<close>

lemma keeps_complete_session:
  assumes "calm_release ou i"
  shows "keeps (removed_is_gone i) (complete_session se ou i r active f)"
  unfolding complete_session_def release_before_completion_routing_def
  by (intro keeps_intros keeps_gone_calm calm_intros calm_release_in_time assms keeps_note_ending
      keeps_forget_active keeps_release_lease_once) simp_all

lemma leads_session_end_body:
  assumes "calm_release ou i"
  shows "leads not_removed (session_end_body se ou sw i res reason active) (removed_is_gone i)"
proof -
  have finish: "keeps (removed_is_gone i) (andthen (if b then complete_session se ou i r active f else give True)
      (\<lambda>ok. if \<not> ok then set_completed
        else andthen (if c then give () else on_world (cleanup_failed_own_worktrees se ou r res')) (\<lambda>_. set_completed)))"
    for b c r f res'
    unfolding set_completed_def
    by (intro keeps_intros keeps_complete_session keeps_gone_calm calm_cleanup_failed_own_worktrees [OF assms]
        keeps_note_ending assms) simp_all
  have rest: "leads not_removed (case latest of None \<Rightarrow> give ()
      | Some current \<Rightarrow>
          andthen (on_world (account_session se current res' active f)) (\<lambda>_.
          andthen (if b then complete_session se ou i current active f else give True) (\<lambda>ok.
          if \<not> ok then set_completed
          else andthen (if c then give () else on_world (cleanup_failed_own_worktrees se ou current res')) (\<lambda>_. set_completed))))
      (removed_is_gone i)" for latest b c f res'
  proof (cases latest)
    case None
    then show ?thesis by (simp add: leads_keeps [OF keeps_give not_removed_gone])
  next
    case (Some current)
    show ?thesis
      unfolding Some option.case
      by (rule leads_andthen [OF keeps_not_removed not_removed_gone], assumption)
        (rule leads_keeps [OF finish not_removed_gone], assumption)
  qed
  show ?thesis
    unfolding session_end_body_def
    apply (rule leads_andthen [OF keeps_not_removed not_removed_gone], assumption)
    subgoal for x
      apply (cases x)
      subgoal for found f
        apply (cases found)
         apply (simp add: leads_keeps [OF keeps_give not_removed_gone])
        apply simp
        apply (rule leads_andthen [OF keeps_not_removed not_removed_gone], assumption)
        subgoal for r y
          apply (cases y)
          apply simp
          apply (rule leads_andthen [OF keeps_not_removed not_removed_gone], assumption)+
          apply (rule rest)
          done
        done
      done
    done
qed

definition slot_free :: "string \<Rightarrow> world \<times> ending \<Rightarrow> bool" where
  "slot_free i s \<longleftrightarrow> i \<notin> w_finishing (fst s) \<and> session_of i (fst s) = None"

lemma keeps_slot_free_calm: "calm m \<Longrightarrow> keeps (slot_free i) (on_world m)"
  using calmD by (fastforce simp: keeps_def slot_free_def on_world_eq session_of_def slots_of_def)

lemma keeps_slot_free_note: "keeps (slot_free i) (note_ending f)"
  by (auto simp: keeps_def slot_free_def note_ending_def modify_def split: prod.splits)

lemma keeps_slot_free_release_lease_once: "keeps (slot_free i) (release_lease_once se active)"
  unfolding release_lease_once_def
  by (intro keeps_intros keeps_slot_free_calm keeps_slot_free_note calm_intros)

lemma calm_kick: "calm (modify (\<lambda>w. if b then request_follow_up_cycle se w else w))"
  by (simp add: calm_def modify_def request_follow_up_cycle_def kick_def slots_of_def)

lemma forget_active_frees:
  assumes "removed_is_gone i (w, e)" and "i \<notin> w_finishing w"
  obtains s where "forget_active i (Some a) (w, e) = (Inr (), s)" and "slot_free i s"
proof
  show "forget_active i (Some a) (w, e) = (Inr (), snd (forget_active i (Some a) (w, e)))"
    by (simp add: forget_active_def modify_def)
  show "slot_free i (snd (forget_active i (Some a) (w, e)))"
    using assms by (auto simp: forget_active_def modify_def slot_free_def removed_is_gone_def forget_session_def
        session_of_def map_of_eq_None_iff)
qed

lemma on_world_modify_then: "andthen (on_world (modify g)) k (w, l) = k () (g w, l)"
  by (simp add: andthen_def on_world_eq modify_def)

lemma cleanup_frees_slot:
  assumes "calm_release ou i" and "removed_is_gone i s" and "session_end_cleanup se ou i active s = (r, (w', e'))"
  shows "i \<notin> w_finishing w' \<and> (active \<noteq> None \<longrightarrow> session_of i w' = None)"
proof -
  obtain w e where s: "s = (w, e)" by (cases s)
  define w1 where "w1 = (if en_completed e then set_resolved i None (w\<lparr>w_handled := insert i (w_handled w)\<rparr>) else w)"
  define w2 where "w2 = w1\<lparr>w_finishing := w_finishing w1 - {i}\<rparr>"
  define kicked :: "unit handler" where
    "kicked = on_world (modify (\<lambda>w. if en_completed e \<and> en_routed e then request_follow_up_cycle se w else w))"
  have sessions: "w_sessions w2 = w_sessions w" and finishing: "i \<notin> w_finishing w2"
    by (simp_all add: w2_def w1_def set_resolved_def)
  have eq: "session_end_cleanup se ou i active s = andthen (if active = None then give ()
      else andthen (forget_active i active) (\<lambda>_. andthen (release_lease_once se active)
        (\<lambda>_. if en_releaseAttempted e then give () else on_world (release_session se ou i)))) (\<lambda>_. kicked) (w2, e)"
    by (simp only: session_end_cleanup_def s andthen_reading snd_conv on_world_modify_then w1_def w2_def kicked_def)
  have kick: "keeps (slot_free i) kicked" unfolding kicked_def by (rule keeps_slot_free_calm) (rule calm_kick)
  show ?thesis
  proof (cases active)
    case None
    have "kicked (w2, e) = (r, (w', e'))" using assms(3) unfolding eq by (simp add: None andthen_give)
    then have "w_finishing w' = w_finishing w2"
      by (auto simp: kicked_def on_world_eq modify_def request_follow_up_cycle_def kick_def split: if_splits)
    with finishing None show ?thesis by simp
  next
    case (Some a)
    have "removed_is_gone i (w2, e)"
      using assms(2) s sessions by (simp add: removed_is_gone_def session_of_def)
    then obtain t where f: "forget_active i (Some a) (w2, e) = (Inr (), t)" and t: "slot_free i t"
      using finishing by (rule forget_active_frees)
    define rest where "rest = andthen (release_lease_once se (Some a))
      (\<lambda>_. if en_releaseAttempted e then give () else on_world (release_session se ou i))"
    have "keeps (slot_free i) (andthen rest (\<lambda>_. kicked))"
      unfolding rest_def
      by (intro keeps_intros keeps_slot_free_release_lease_once keeps_slot_free_calm kick
          calm_release_session assms(1))
    moreover have "andthen rest (\<lambda>_. kicked) t = (r, (w', e'))"
    proof -
      have "andthen (forget_active i (Some a)) (\<lambda>_. rest) (w2, e) = rest t" using f by (rule andthen_Inr)
      then have "andthen (andthen (forget_active i (Some a)) (\<lambda>_. rest)) (\<lambda>_. kicked) (w2, e) =
          andthen rest (\<lambda>_. kicked) t" by (simp add: andthen_def)
      with assms(3) show ?thesis unfolding eq rest_def by (simp add: Some)
    qed
    ultimately have "slot_free i (w', e')" using keeps_result t by fastforce
    then show ?thesis by (simp add: slot_free_def)
  qed
qed

text \<open>C15: the end of a session frees its slot, whatever happens while it is handled. The run may have gone,
  its lease may have been superseded, the sandbox may refuse to be torn down, the router may throw:
  unless the handler never returns, the dispatcher afterwards holds no session of the run and no longer
  counts it as being finished, so its agent and its place are free. It is assumed only that tearing
  down this session and removing worktrees change neither the sessions held nor the runs in hand.\<close>

theorem session_end_frees_slot:
  assumes "calm_release ou i" and "i \<notin> w_handled w" and "i \<notin> w_finishing w"
    and "handle_session_end se ou sw i res w = (r, w')" and "r \<noteq> Inl NotReturning"
  shows "i \<notin> w_finishing w' \<and> (has_active_session i w \<longrightarrow> \<not> has_active_session i w')"
proof -
  define reason where "reason = (if i \<in> w_fallbacks w then Completed else hr_exitReason res)"
  define begun where "begun = (clear_completion_fallback i w)\<lparr>w_finishing := insert i (w_finishing w)\<rparr>"
  let ?body = "session_end_body se ou sw i res reason (session_of i w)"
  let ?cleanup = "session_end_cleanup se ou i (session_of i w)"
  obtain rb sb where b: "?body (begun, fresh_ending) = (rb, sb)" by (metis prod.exhaust)
  have gone: "removed_is_gone i sb"
    using leads_session_end_body [OF assms(1)] b
    unfolding leads_def not_removed_def fresh_ending_def by (metis ending.select_convs(5) snd_conv)
  obtain rc wc ec where c: "?cleanup sb = (rc, (wc, ec))" by (metis prod.exhaust)
  have "handle_session_end se ou sw i res w =
      (case finally_do ?body ?cleanup (begun, fresh_ending) of (r, w', _) \<Rightarrow> (r, w'))"
    using assms(2,3) by (simp add: handle_session_end_def reason_def begun_def Let_def)
  with assms(4,5) b c have "w' = wc"
    by (cases sb) (auto simp: finally_do_def split: if_splits sum.splits)
  with cleanup_frees_slot [OF assms(1) gone c] show ?thesis by (simp add: has_active_session_def)
qed

end
