(* ===== verification/Reconcile.thy ===== *)
theory Reconcile
  imports Dispatch_Cycle
begin

text \<open>
  What a restarted server does with the runs that were live when the old one died
  (\<open>dispatcher-reconcile.ts\<close>): each is classified, its worker ended, and then it is routed, resumed or
  stalled; what happened is recorded with every run. The activity log and the columns of a session's
  row that the database model does not keep are parameters. The dispatcher passes no table for updates
  of a run, so a worker that cannot be ended is only noted in the summary.
\<close>

record reconciler =
  rc_activity :: "world \<Rightarrow> run_activity list option"
  rc_mappingJson :: "string \<Rightarrow> world \<Rightarrow> json"

record reconcile_entry =
  re_class :: startup_classification
  re_mapping :: json
  re_cleanup :: "orphan_result option"
  re_resumedRunId :: "string option"
  re_error :: "string option"

record reconcile_summary =
  rs_restartTime :: string
  rs_scanned :: nat
  rs_alreadyLive :: nat
  rs_resumable :: "string list"
  rs_completedButUnrecorded :: "string list"
  rs_deadClaim :: "string list"
  rs_genuinelyStalled :: "string list"
  rs_noMapping :: "string list"
  rs_resumed :: "(string \<times> string) list"
  rs_stalled :: "string list"
  rs_errors :: "(string \<times> string) list"
  rs_attempted :: nat
  rs_cleaned :: nat
  rs_skipped :: nat
  rs_failed :: nat
  rs_dispositions :: "reconcile_entry list"
  rs_dryRun :: bool

definition empty_summary :: "string \<Rightarrow> bool \<Rightarrow> reconcile_summary" where
  "empty_summary restart dry =
     \<lparr>rs_restartTime = restart, rs_scanned = 0, rs_alreadyLive = 0, rs_resumable = [], rs_completedButUnrecorded = [],
      rs_deadClaim = [], rs_genuinelyStalled = [], rs_noMapping = [], rs_resumed = [], rs_stalled = [], rs_errors = [],
      rs_attempted = 0, rs_cleaned = 0, rs_skipped = 0, rs_failed = 0, rs_dispositions = [], rs_dryRun = dry\<rparr>"

subsection \<open>Acting on a classification\<close>

definition startup_deps_of :: "settings \<Rightarrow> reconciler \<Rightarrow> instant \<Rightarrow> world \<Rightarrow> startup_deps" where
  "startup_deps_of se rc now w =
     \<lparr>su_activeSessions = fst ` set (w_sessions w), su_leaseRepo = cfg_leaseRepo (config_of se),
      su_evidenceRepo = ro_evidenceRepo (se_router se), su_checkpointRepo = dp_checkpointRepo (w_disp w),
      su_activity = rc_activity rc w, su_canSeedWorkflowStage = dp_canSeed (w_disp w),
      su_onDisk = dp_onDisk (w_disp w), su_now = now\<rparr>"

definition classified :: "settings \<Rightarrow> reconciler \<Rightarrow> instant \<Rightarrow> run \<Rightarrow> startup_classification act" where
  "classified se rc now r w =
     (case classify_startup_run (startup_deps_of se rc now w) (w_store w) r of (c, s) \<Rightarrow> (Inr c, w\<lparr>w_store := s\<rparr>))"

definition stall_for_startup_recovery :: "settings \<Rightarrow> string \<Rightarrow> string \<Rightarrow> string option \<Rightarrow> instant \<Rightarrow> unit act" where
  "stall_for_startup_recovery se i reason sid now =
     (let c = config_of se in
      andthen (reading (\<lambda>w. run_get i (w_store w))) (\<lambda>current.
      andthen (case current of None \<Rightarrow> give ()
        | Some q \<Rightarrow> if run_terminalState q = None then done_with (on_db (mark_stalled c i unfenced)) else give ()) (\<lambda>_.
      andthen (on_db (run_update_failure c i (Some reason) True)) (\<lambda>_.
      andthen (case sid of None \<Rightarrow> give () | Some x \<Rightarrow> on_db (mapping_delete x)) (\<lambda>_.
      if cfg_leaseRepo c then on_db (on_leases (modify (expire_run i now))) else give ())))))"

definition reason_for :: "startup_classification \<Rightarrow> string" where
  "reason_for c =
     (let base = (case sc_disposition c of
          NoMapping \<Rightarrow> ''harness session mapping missing across server restart''
        | DeadClaim \<Rightarrow> ''expired attempt lease across server restart''
        | _ \<Rightarrow> ''startup reconcile found no live lease or resumable checkpoint'') in
      case sc_inFlightTool c of None \<Rightarrow> base | Some tool \<Rightarrow> base @ ''; last '' @ tool)"

text \<open>The entry of the run is a variable of the handler: what was noted before a throw stays noted.\<close>

type_synonym 'a reconciling = "(world \<times> reconcile_entry, error, 'a) comp"

definition note_entry :: "(reconcile_entry \<Rightarrow> reconcile_entry) \<Rightarrow> unit reconciling" where
  "note_entry f = modify (\<lambda>(w, e). (w, f e))"

definition end_worker :: "outside \<Rightarrow> startup_classification \<Rightarrow> unit reconciling" where
  "end_worker ou c =
     andthen (on_world (cleanup_worker ou (sc_sessionId c))) (\<lambda>res. note_entry (\<lambda>e. e\<lparr>re_cleanup := Some res\<rparr>))"

definition resume_scheduled_reason :: string where
  "resume_scheduled_reason = ''checkpoint resume scheduled across server restart''"

definition take_over ::
    "settings \<Rightarrow> outside \<Rightarrow> spawner \<Rightarrow> instant \<Rightarrow> run \<Rightarrow> startup_classification \<Rightarrow> unit reconciling" where
  "take_over se ou sw now r c =
     andthen (end_worker ou c) (\<lambda>_.
     case sc_action c of
       FinalizeRun \<Rightarrow> on_world (route_stored_completion se (run_id r))
     | ResumeFromCheckpoint \<Rightarrow>
         andthen (on_world (stall_for_startup_recovery se (run_id r) resume_scheduled_reason (sc_sessionId c) now)) (\<lambda>_.
         andthen (on_world (resume se ou sw (run_id r))) (\<lambda>q.
         note_entry (\<lambda>e. e\<lparr>re_resumedRunId := Some (run_id q)\<rparr>)))
     | _ \<Rightarrow> on_world (stall_for_startup_recovery se (run_id r) (reason_for c) (sc_sessionId c) now))"

definition fresh_entry :: "json \<Rightarrow> startup_classification \<Rightarrow> reconcile_entry" where
  "fresh_entry mapping c =
     \<lparr>re_class = c, re_mapping = mapping, re_cleanup = None, re_resumedRunId = None, re_error = None\<rparr>"

definition take_over_or_note ::
    "settings \<Rightarrow> outside \<Rightarrow> spawner \<Rightarrow> instant \<Rightarrow> run \<Rightarrow> reconcile_entry \<Rightarrow> reconcile_entry act" where
  "take_over_or_note se ou sw now r e w =
     (case take_over se ou sw now r (re_class e) (w, e) of
        (Inr _, w', e') \<Rightarrow> (Inr e', w')
      | (Inl thrown, w', e') \<Rightarrow>
          if thrown = NotReturning then (Inl thrown, w')
          else (Inr (e'\<lparr>re_error := Some (cfg_redact (config_of se) (ro_errorText (se_router se) thrown))\<rparr>), w'))"

definition reconcile_run ::
    "settings \<Rightarrow> outside \<Rightarrow> spawner \<Rightarrow> reconciler \<Rightarrow> bool \<Rightarrow> instant \<Rightarrow> run \<Rightarrow> reconcile_entry act" where
  "reconcile_run se ou sw rc dry now r =
     andthen (classified se rc now r) (\<lambda>c.
     andthen (reading (\<lambda>w. fresh_entry (case sc_sessionId c of None \<Rightarrow> JNull | Some sid \<Rightarrow> rc_mappingJson rc sid w) c)) (\<lambda>e.
     if dry \<or> sc_action c = NoAction then give e else take_over_or_note se ou sw now r e))"

subsection \<open>The summary\<close>

definition add_disposition :: "reconcile_entry \<Rightarrow> reconcile_summary \<Rightarrow> reconcile_summary" where
  "add_disposition e m =
     (let i = sc_runId (re_class e); m = m\<lparr>rs_dispositions := rs_dispositions m @ [e]\<rparr> in
      case sc_disposition (re_class e) of
        AlreadyLive \<Rightarrow> m\<lparr>rs_alreadyLive := Suc (rs_alreadyLive m)\<rparr>
      | Resumable \<Rightarrow> m\<lparr>rs_resumable := rs_resumable m @ [i]\<rparr>
      | CompletedUnrecorded \<Rightarrow> m\<lparr>rs_completedButUnrecorded := rs_completedButUnrecorded m @ [i]\<rparr>
      | DeadClaim \<Rightarrow> m\<lparr>rs_deadClaim := rs_deadClaim m @ [i]\<rparr>
      | GenuinelyStalled \<Rightarrow> m\<lparr>rs_genuinelyStalled := rs_genuinelyStalled m @ [i]\<rparr>
      | NoMapping \<Rightarrow> m\<lparr>rs_noMapping := rs_noMapping m @ [i]\<rparr>)"

definition bump_cleanup :: "orphan_result option \<Rightarrow> reconcile_summary \<Rightarrow> reconcile_summary" where
  "bump_cleanup res m =
     (case map_option oc_outcome res of
        None \<Rightarrow> m
      | Some WorkerSkipped \<Rightarrow> m\<lparr>rs_skipped := Suc (rs_skipped m)\<rparr>
      | Some WorkerFailed \<Rightarrow> m\<lparr>rs_attempted := Suc (rs_attempted m), rs_failed := Suc (rs_failed m)\<rparr>
      | Some WorkerCleaned \<Rightarrow> m\<lparr>rs_attempted := Suc (rs_attempted m), rs_cleaned := Suc (rs_cleaned m)\<rparr>)"

text \<open>What the body of the loop pushes for a run that was taken over, or for the error it threw.\<close>

definition add_outcome :: "reconcile_entry \<Rightarrow> reconcile_summary \<Rightarrow> reconcile_summary" where
  "add_outcome e m =
     (let i = sc_runId (re_class e) in
      case re_error e of
        Some text \<Rightarrow> m\<lparr>rs_errors := rs_errors m @ [(i, text)]\<rparr>
      | None \<Rightarrow>
          bump_cleanup (re_cleanup e)
            (case sc_action (re_class e) of
               StallRun \<Rightarrow> m\<lparr>rs_stalled := rs_stalled m @ [i]\<rparr>
             | ResumeFromCheckpoint \<Rightarrow>
                 (case re_resumedRunId e of None \<Rightarrow> m | Some j \<Rightarrow> m\<lparr>rs_resumed := rs_resumed m @ [(i, j)]\<rparr>)
             | _ \<Rightarrow> m))"

definition add_entry :: "reconcile_entry \<Rightarrow> reconcile_summary \<Rightarrow> reconcile_summary" where
  "add_entry e m =
     (let m = add_disposition e (m\<lparr>rs_scanned := Suc (rs_scanned m)\<rparr>) in
      if rs_dryRun m \<or> sc_action (re_class e) = NoAction then m else add_outcome e m)"

fun reconcile_runs ::
    "settings \<Rightarrow> outside \<Rightarrow> spawner \<Rightarrow> reconciler \<Rightarrow> instant \<Rightarrow> run list \<Rightarrow> reconcile_summary \<Rightarrow> reconcile_summary act" where
  "reconcile_runs se ou sw rc now [] m = give m"
| "reconcile_runs se ou sw rc now (r # rs) m =
     andthen (reconcile_run se ou sw rc (rs_dryRun m) now r) (\<lambda>e. reconcile_runs se ou sw rc now rs (add_entry e m))"

subsection \<open>Evidence\<close>

fun disposition_name :: "disposition \<Rightarrow> string" where
  "disposition_name AlreadyLive = ''already-live''"
| "disposition_name Resumable = ''resumable''"
| "disposition_name CompletedUnrecorded = ''completed-but-unrecorded''"
| "disposition_name DeadClaim = ''dead-claim''"
| "disposition_name GenuinelyStalled = ''genuinely-stalled''"
| "disposition_name NoMapping = ''no-mapping''"

fun action_name :: "reconcile_action \<Rightarrow> string" where
  "action_name NoAction = ''none''"
| "action_name ResumeFromCheckpoint = ''resume-from-checkpoint''"
| "action_name StallRun = ''stall''"
| "action_name FinalizeRun = ''finalize''"

fun ownership_name :: "ownership \<Rightarrow> string" where
  "ownership_name ProcessGroup = ''process-group''"
| "ownership_name DirectChild = ''direct-child''"

fun worker_outcome_name :: "worker_outcome \<Rightarrow> string" where
  "worker_outcome_name WorkerCleaned = ''cleaned''"
| "worker_outcome_name WorkerSkipped = ''skipped''"
| "worker_outcome_name WorkerFailed = ''failed''"

definition optional_field :: "string \<Rightarrow> ('a \<Rightarrow> json) \<Rightarrow> 'a option \<Rightarrow> (string \<times> json) list" where
  "optional_field k f v = (case v of None \<Rightarrow> [] | Some x \<Rightarrow> [(k, f x)])"

definition cleanup_json :: "orphan_result \<Rightarrow> json" where
  "cleanup_json c = JObj
     ([(''attempted'', JBool (oc_attempted c)), (''outcome'', JStr (worker_outcome_name (oc_outcome c))),
       (''reason'', JStr (oc_reason c)), (''pid'', nullable (\<lambda>p. JNum (of_int p)) (oc_pid c)),
       (''ownershipKind'', nullable (\<lambda>k. JStr (ownership_name k)) (oc_ownership c)),
       (''startedAt'', nullable JStr (oc_startedAt c))] @
      optional_field ''escalated'' JBool (oc_escalated c) @ optional_field ''exited'' JBool (oc_exited c))"

fun lease_status_name :: "lease_status \<Rightarrow> string" where
  "lease_status_name LeaseActive = ''active''"
| "lease_status_name LeaseReleased = ''released''"
| "lease_status_name LeaseExpired = ''expired''"

definition entry_json :: "reconcile_entry \<Rightarrow> json" where
  "entry_json e =
     (let c = re_class e in JObj
       ([(''runId'', JStr (sc_runId c)), (''disposition'', JStr (disposition_name (sc_disposition c))),
         (''action'', JStr (action_name (sc_action c))), (''reason'', JStr (sc_reason c)), (''mapping'', re_mapping e)] @
        optional_field ''sessionId'' JStr (sc_sessionId c) @
        optional_field ''leaseStatus'' (\<lambda>x. JStr (lease_status_name x)) (sc_leaseStatus c) @
        optional_field ''fenceToken'' (\<lambda>n. JNum (of_nat n)) (sc_fenceToken c) @
        optional_field ''inFlightTool'' JStr (sc_inFlightTool c) @
        optional_field ''checkpointStage'' (\<lambda>x. JStr (stage_name x)) (sc_checkpointStage c) @
        optional_field ''workerCleanup'' cleanup_json (re_cleanup e) @
        optional_field ''resumedRunId'' JStr (re_resumedRunId e) @
        optional_field ''error'' JStr (re_error e)))"

definition count_field :: "string \<Rightarrow> nat \<Rightarrow> string \<times> json" where
  "count_field k n = (k, JNum (of_nat n))"

definition summary_counts :: "reconcile_summary \<Rightarrow> json" where
  "summary_counts m = JObj
     [count_field ''scanned'' (rs_scanned m), count_field ''alreadyLive'' (rs_alreadyLive m),
      count_field ''resumable'' (length (rs_resumable m)),
      count_field ''completedButUnrecorded'' (length (rs_completedButUnrecorded m)),
      count_field ''deadClaim'' (length (rs_deadClaim m)), count_field ''genuinelyStalled'' (length (rs_genuinelyStalled m)),
      count_field ''noMapping'' (length (rs_noMapping m)), count_field ''resumed'' (length (rs_resumed m)),
      count_field ''stalled'' (length (rs_stalled m)), count_field ''errors'' (length (rs_errors m)),
      count_field ''cleanupAttempted'' (rs_attempted m), count_field ''cleanupCleaned'' (rs_cleaned m),
      count_field ''cleanupSkipped'' (rs_skipped m), count_field ''cleanupFailed'' (rs_failed m)]"

definition summary_payload :: "reconcile_summary \<Rightarrow> payload" where
  "summary_payload m =
     [(''kind'', JStr ''state-reconcile''), (''reason'', JStr ''startup_reconcile''),
      (''message'', JStr ''startup state reconcile classified durable run state''),
      (''restartTime'', JStr (rs_restartTime m)), (''counts'', summary_counts m),
      (''dispositions'', JArr (map entry_json (rs_dispositions m))),
      (''resumed'', JArr (map (\<lambda>(i, j). JObj [(''fromRunId'', JStr i), (''toRunId'', JStr j)]) (rs_resumed m))),
      (''errors'', JArr (map (\<lambda>(i, x). JObj [(''runId'', JStr i), (''error'', JStr x)]) (rs_errors m)))]"

definition record_startup_reconcile_evidence :: "settings \<Rightarrow> reconcile_summary \<Rightarrow> unit act" where
  "record_startup_reconcile_evidence se m =
     (let ro = se_router se; p = ro_redact ro (summary_payload m) in
      if rs_dryRun m \<or> \<not> ro_evidenceRepo ro then give ()
      else for_each (\<lambda>e. let c = re_class e in
        on_db (record_custom ro (sc_runId c)
          (put_field ''disposition'' (JStr (disposition_name (sc_disposition c)))
            (put_field ''attemptId'' (JStr (sc_runId c)) p)))) (rs_dispositions m))"

definition reconcile_orphaned_sessions ::
    "settings \<Rightarrow> outside \<Rightarrow> spawner \<Rightarrow> reconciler \<Rightarrow> bool \<Rightarrow> reconcile_summary act" where
  "reconcile_orphaned_sessions se ou sw rc dry =
     andthen (reading (\<lambda>w. (now_of w, wt_isoNow (ro_tools (se_router se)) (w_store w), run_get_active (w_store w)))) (\<lambda>(now, iso, runs).
     andthen (reconcile_runs se ou sw rc now runs (empty_summary iso dry)) (\<lambda>m.
     andthen (record_startup_reconcile_evidence se m) (\<lambda>_.
     give m)))"

subsection \<open>Every run is accounted for\<close>

definition entry_run :: "reconcile_entry \<Rightarrow> string" where
  "entry_run e = sc_runId (re_class e)"

lemma on_world_snd: "snd (snd (on_world m (w, e))) = e"
  by (simp add: on_world_def on_part_def split: prod.splits)

text \<open>An entry keeps its classification.\<close>

definition same_class :: "startup_classification \<Rightarrow> (world \<times> reconcile_entry, error, 'a) comp \<Rightarrow> bool" where
  "same_class c m \<longleftrightarrow> (\<forall>w (e :: reconcile_entry). re_class e = c \<longrightarrow> re_class (snd (snd (m (w, e)))) = c)"

named_theorems class_intros \<open>what keeps the classification of an entry\<close>

lemma same_class_on_world [class_intros]: "same_class c (on_world m)"
  by (simp add: same_class_def on_world_snd)

lemma same_class_andthen [class_intros]:
  assumes "same_class c m" and "\<And>x. same_class c (k x)"
  shows "same_class c (andthen m k)"
  unfolding same_class_def
proof (intro allI impI)
  fix w and e :: reconcile_entry assume "re_class e = c"
  with assms(1) have "re_class (snd (snd (m (w, e)))) = c" by (simp add: same_class_def)
  then show "re_class (snd (snd (andthen m k (w, e)))) = c"
    using assms(2) by (cases "m (w, e)") (auto simp: andthen_def same_class_def split: sum.splits)
qed

lemma same_class_note [class_intros]: "(\<And>e. re_class (f e) = re_class e) \<Longrightarrow> same_class c (note_entry f)"
  by (simp add: same_class_def note_entry_def modify_def)

lemma same_class_take_over: "same_class c (take_over se ou sw now r d)"
  unfolding take_over_def end_worker_def
  by (cases "sc_action d") (auto intro!: class_intros)

lemma classified_run: "classified se rc now r w = (x, w') \<Longrightarrow> \<exists>c. x = Inr c \<and> sc_runId c = run_id r"
  by (auto simp: classified_def classify_startup_run_def entry_def Let_def split: prod.splits if_splits)

text \<open>An entry that was not taken over carries nothing; one that was resumed without an error names the new
  run.\<close>

definition entry_complete :: "bool \<Rightarrow> reconcile_entry \<Rightarrow> bool" where
  "entry_complete dry e \<longleftrightarrow>
     (if dry \<or> sc_action (re_class e) = NoAction then re_cleanup e = None \<and> re_resumedRunId e = None \<and> re_error e = None
      else re_error e = None \<longrightarrow> re_cleanup e \<noteq> None \<and>
        (sc_action (re_class e) = ResumeFromCheckpoint \<longrightarrow> re_resumedRunId e \<noteq> None))"

lemma on_world_result: "on_world m (w, e) = (x, t) \<Longrightarrow> \<exists>u. t = (u, e)"
  by (auto simp: on_world_def on_part_def split: prod.splits)

lemma andthen_InrE:
  assumes "andthen m k s = (Inr y, t)"
  obtains x u where "m s = (Inr x, u)" and "k x u = (Inr y, t)"
  using assms by (cases "m s") (auto simp: andthen_def split: sum.splits)

lemma end_worker_notes: "end_worker ou c (w, e) = (Inr x, (w', e')) \<Longrightarrow> \<exists>res. e' = e\<lparr>re_cleanup := Some res\<rparr>"
  by (auto simp: end_worker_def note_entry_def modify_def elim!: andthen_InrE dest!: on_world_result)

lemma take_over_notes:
  assumes "take_over se ou sw now r c (w, e) = (Inr x, (w', e'))"
  shows "re_cleanup e' \<noteq> None \<and> re_error e' = re_error e \<and>
    (sc_action c = ResumeFromCheckpoint \<longrightarrow> re_resumedRunId e' \<noteq> None)"
proof -
  obtain w1 res where 1: "end_worker ou c (w, e) = (Inr (), (w1, e\<lparr>re_cleanup := Some res\<rparr>))"
    using assms unfolding take_over_def
    by (elim andthen_InrE) (metis end_worker_notes prod.exhaust unit.exhaust)
  have one: "andthen (end_worker ou c) k (w, e) = k () (w1, e\<lparr>re_cleanup := Some res\<rparr>)" for k :: "unit \<Rightarrow> unit reconciling"
    using 1 by (rule andthen_Inr)
  show ?thesis
    using assms unfolding take_over_def
    by (cases "sc_action c")
      (auto simp: one note_entry_def modify_def elim!: andthen_InrE dest!: on_world_result)
qed

lemma reconcile_run_entry:
  assumes "reconcile_run se ou sw rc dry now r w = (x, w')"
  shows "case x of Inl e \<Rightarrow> e = NotReturning
    | Inr e \<Rightarrow> entry_run e = run_id r \<and> entry_complete dry e"
proof -
  obtain y w1 where "classified se rc now r w = (y, w1)" by (metis prod.exhaust)
  then obtain c where c: "classified se rc now r w = (Inr c, w1)" "sc_runId c = run_id r"
    by (metis classified_run)
  define e where "e = fresh_entry (case sc_sessionId c of None \<Rightarrow> JNull | Some sid \<Rightarrow> rc_mappingJson rc sid w1) c"
  have e: "re_class e = c" "re_error e = None" "re_cleanup e = None" "re_resumedRunId e = None"
    by (simp_all add: e_def fresh_entry_def)
  have run: "reconcile_run se ou sw rc dry now r w =
      (if dry \<or> sc_action c = NoAction then give e else take_over_or_note se ou sw now r e) w1"
    unfolding reconcile_run_def by (subst andthen_Inr, rule c(1)) (simp add: andthen_reading e_def)
  show ?thesis
  proof (cases "dry \<or> sc_action c = NoAction")
    case True
    with run assms have "x = Inr e" by (simp add: give_def)
    with e c True show ?thesis by (auto simp: entry_run_def entry_complete_def)
  next
    case False
    with run assms have t: "take_over_or_note se ou sw now r e w1 = (x, w')" by simp
    obtain z w2 e2 where 2: "take_over se ou sw now r c (w1, e) = (z, (w2, e2))" by (metis prod.exhaust)
    have cl: "re_class e2 = c"
      using same_class_take_over [of c se ou sw now r c] e(1) 2 unfolding same_class_def by (metis snd_conv)
    show ?thesis
    proof (cases z)
      case (Inl thrown)
      with t 2 e(1) cl c False show ?thesis
        by (auto simp: take_over_or_note_def entry_run_def entry_complete_def split: if_splits)
    next
      case (Inr u)
      from take_over_notes [OF 2 [unfolded Inr]] e(2)
      have "re_cleanup e2 \<noteq> None" "re_error e2 = None"
        "sc_action c = ResumeFromCheckpoint \<longrightarrow> re_resumedRunId e2 \<noteq> None" by simp_all
      with t 2 Inr e(1) cl c False show ?thesis
        by (auto simp: take_over_or_note_def entry_run_def entry_complete_def)
    qed
  qed
qed

lemma add_disposition_frame [simp]:
  "rs_dryRun (add_disposition e m) = rs_dryRun m" "rs_scanned (add_disposition e m) = rs_scanned m"
  "rs_dispositions (add_disposition e m) = rs_dispositions m @ [e]" "rs_errors (add_disposition e m) = rs_errors m"
  "rs_stalled (add_disposition e m) = rs_stalled m" "rs_resumed (add_disposition e m) = rs_resumed m"
  by (cases "sc_disposition (re_class e)"; simp add: add_disposition_def Let_def)+

lemma bump_cleanup_frame [simp]:
  "rs_dryRun (bump_cleanup c m) = rs_dryRun m" "rs_scanned (bump_cleanup c m) = rs_scanned m"
  "rs_dispositions (bump_cleanup c m) = rs_dispositions m" "rs_errors (bump_cleanup c m) = rs_errors m"
  "rs_stalled (bump_cleanup c m) = rs_stalled m" "rs_resumed (bump_cleanup c m) = rs_resumed m"
  by (cases c; simp add: bump_cleanup_def split: worker_outcome.splits)+

lemma add_outcome_frame [simp]:
  "rs_dryRun (add_outcome e m) = rs_dryRun m" "rs_scanned (add_outcome e m) = rs_scanned m"
  "rs_dispositions (add_outcome e m) = rs_dispositions m"
  by (cases "sc_action (re_class e)"; simp add: add_outcome_def Let_def split: option.splits)+

lemma add_outcome_lists:
  "set (rs_errors m) \<subseteq> set (rs_errors (add_outcome e m))"
  "set (rs_stalled m) \<subseteq> set (rs_stalled (add_outcome e m))"
  "set (rs_resumed m) \<subseteq> set (rs_resumed (add_outcome e m))"
  by (cases "sc_action (re_class e)"; auto simp: add_outcome_def Let_def split: option.splits)+

lemma add_entry_dry [simp]: "rs_dryRun (add_entry e m) = rs_dryRun m"
  by (simp add: add_entry_def Let_def)

lemma add_entry_dispositions:
  "rs_dispositions (add_entry e m) = rs_dispositions m @ [e]"
  "rs_scanned (add_entry e m) = Suc (rs_scanned m)"
  by (simp_all add: add_entry_def Let_def)

lemma reconcile_runs_entries:
  "reconcile_runs se ou sw rc now rs m w = (x, w') \<Longrightarrow>
   case x of Inl e \<Rightarrow> e = NotReturning
   | Inr m' \<Rightarrow> \<exists>es. m' = fold add_entry es m \<and> map entry_run es = map run_id rs \<and>
       (\<forall>e \<in> set es. entry_complete (rs_dryRun m) e)"
proof (induction rs arbitrary: m w)
  case Nil
  then show ?case by (auto simp: give_def intro: exI [of _ "[]"])
next
  case (Cons r rs)
  obtain y w1 where 1: "reconcile_run se ou sw rc (rs_dryRun m) now r w = (y, w1)" by (metis prod.exhaust)
  note entry = reconcile_run_entry [OF 1]
  show ?case
  proof (cases y)
    case (Inl e)
    with 1 entry Cons.prems show ?thesis by (auto simp: andthen_def)
  next
    case (Inr e)
    with 1 Cons.prems have rec: "reconcile_runs se ou sw rc now rs (add_entry e m) w1 = (x, w')"
      by (simp add: andthen_def)
    have dry: "rs_dryRun (add_entry e m) = rs_dryRun m" by (rule add_entry_dry)
    show ?thesis
    proof (cases x)
      case (Inl z)
      with Cons.IH [OF rec] show ?thesis by simp
    next
      case (Inr m')
      with Cons.IH [OF rec] obtain es where es: "m' = fold add_entry es (add_entry e m)"
        "map entry_run es = map run_id rs" "\<forall>e \<in> set es. entry_complete (rs_dryRun m) e"
        by (auto simp: dry)
      from \<open>y = Inr e\<close> entry have "entry_run e = run_id r" "entry_complete (rs_dryRun m) e" by simp_all
      with es Inr show ?thesis by (auto intro!: exI [of _ "e # es"])
    qed
  qed
qed

lemma fold_add_entry:
  "rs_dryRun (fold add_entry es m) = rs_dryRun m \<and>
   rs_dispositions (fold add_entry es m) = rs_dispositions m @ es \<and>
   rs_scanned (fold add_entry es m) = rs_scanned m + length es"
  by (induction es arbitrary: m) (simp_all add: add_entry_dry add_entry_dispositions)

definition reported :: "reconcile_entry \<Rightarrow> reconcile_summary \<Rightarrow> bool" where
  "reported e m \<longleftrightarrow>
     (case re_error e of
        Some x \<Rightarrow> (entry_run e, x) \<in> set (rs_errors m)
      | None \<Rightarrow>
          (sc_action (re_class e) = StallRun \<longrightarrow> entry_run e \<in> set (rs_stalled m)) \<and>
          (\<forall>j. sc_action (re_class e) = ResumeFromCheckpoint \<and> re_resumedRunId e = Some j \<longrightarrow>
             (entry_run e, j) \<in> set (rs_resumed m)))"

lemma add_entry_lists:
  "set (rs_errors m) \<subseteq> set (rs_errors (add_entry e m))"
  "set (rs_stalled m) \<subseteq> set (rs_stalled (add_entry e m))"
  "set (rs_resumed m) \<subseteq> set (rs_resumed (add_entry e m))"
  using add_outcome_lists [of "add_disposition e (m\<lparr>rs_scanned := Suc (rs_scanned m)\<rparr>)" e]
  by (simp_all add: add_entry_def Let_def)

lemma reported_stays: "reported e m \<Longrightarrow> reported e (add_entry d m)"
  using add_entry_lists [of m d] by (auto simp: reported_def split: option.splits)

lemma added_is_reported:
  assumes "\<not> rs_dryRun m" and "sc_action (re_class e) \<noteq> NoAction"
  shows "reported e (add_entry e m)"
proof -
  have "reported e (add_outcome e n)" for n
    by (cases "sc_action (re_class e)"; auto simp: reported_def entry_run_def add_outcome_def Let_def split: option.splits)
  with assms show ?thesis by (simp add: add_entry_def Let_def)
qed

lemma fold_reported: "reported e m \<Longrightarrow> reported e (fold add_entry es m)"
  by (induction es arbitrary: m) (simp_all add: reported_stays)

lemma all_reported:
  "\<not> rs_dryRun m \<Longrightarrow> e \<in> set es \<Longrightarrow> sc_action (re_class e) \<noteq> NoAction \<Longrightarrow> reported e (fold add_entry es m)"
  by (induction es arbitrary: m) (auto simp: add_entry_dry added_is_reported fold_reported)


end
