(* ===== verification/Dispatch_Witnesses.thy ===== *)
theory Dispatch_Witnesses
  imports Session_Witnesses Dispatch_Facts Reconcile
begin

text \<open>
  The properties of the dispatcher at a concrete world: one slot, one ready task and an agent, with
  everything outside the process doing nothing.
\<close>

definition quiet_outside :: outside where
  "quiet_outside = \<lparr>ou_kill = (\<lambda>_ _. give ()), ou_isAlive = (\<lambda>_. give True), ou_teardown = (\<lambda>_. give ()),
     ou_releaseInTime = (\<lambda>_ _. True), ou_createMcp = (\<lambda>_. give ()), ou_closeMcp = (\<lambda>_. give ()),
     ou_stopWatchers = (\<lambda>_ _. give ()), ou_removeWorktree = (\<lambda>_. give ()), ou_cleanupStale = (\<lambda>_ _. give 0),
     ou_cleanupContainers = (\<lambda>_. give ()), 
     ou_os = \<lparr>os_kill = (\<lambda>_ _ w. (None, w)), os_ps = (\<lambda>_ w. (None, w)), os_polls = (\<lambda>_. 0), os_date = (\<lambda>_. None)\<rparr>,
     ou_worker = (\<lambda>_ _. no_worker)\<rparr>"

definition plain_plan :: "agent \<Rightarrow> plan" where
  "plain_plan a = \<lparr>pl_agent = a, pl_sandboxProfile = None, pl_workflow = None, pl_workflowJson = None,
     pl_harnessSnapshot = None, pl_workingDir = None, pl_spawnDir = None, pl_snapshot = None\<rparr>"

definition quiet_spawner :: spawner where
  "quiet_spawner = \<lparr>sw_prerequisites = (\<lambda>_ _ _. None), sw_plan = (\<lambda>_ a _ _. give (plain_plan a)),
     sw_newRunId = (\<lambda>_. ''run9''), sw_adapter = (\<lambda>_. True),
     sw_preflight = (\<lambda>_ _ _ _ _. \<lparr>pf_failure = None, pf_evidence = None\<rparr>),
     sw_prepareSandbox = (\<lambda>_ _ _. fail NotReturning), sw_confirmSandbox = (\<lambda>_ _. JNull), sw_exists = (\<lambda>_ _. False),
     sw_isGitRepo = (\<lambda>_ _. False), sw_createWorktree = (\<lambda>b _ _. give b), sw_restoreWorktree = (\<lambda>_ p _. give p),
     sw_seedStage = None, sw_prompt = (\<lambda>_ _ _ _. give ([], None)),
     sw_spawn = (\<lambda>_ _ _ _ _. give \<lparr>sp_sessionId = ''session9'', sp_harnessSessionId = None\<rparr>)\<rparr>"

definition sample_settings :: settings where
  "sample_settings = \<lparr>se_router = sample_router [], se_enabled = True, se_maxConcurrentRuns = 1,
     se_retry = \<lparr>rt_maxTaskRetries = 2, rt_backoffScheduleMs = [], rt_canSeedWorkflowStage = False,
       rt_checkpointRepo = True, rt_onDisk = (\<lambda>_. False), rt_now = 0, rt_fuel = 10\<rparr>,
     se_ceilings = None, se_maxAutoWaitMs = None, se_heartbeatTimeoutSeconds = 60, se_ownerProcessId = ''p1'',
     se_worktreeManager = False, se_worktreesEnabled = False, se_cleanupOnFailure = False, se_number = (\<lambda>_. []),
     se_readDate = (\<lambda>_. None), se_snapshot = (\<lambda>_ _. None), se_live = [], se_rateDay = 0, se_localeSort = id\<rparr>"

definition idle_world :: "store \<Rightarrow> (string \<times> active_session) list \<Rightarrow> world" where
  "idle_world s active = \<lparr>w_store = s,
     w_disp = \<lparr>dp_now = 1000, dp_active = [], dp_agents = [priced_agent], dp_resolved = (\<lambda>_. None), dp_health = (\<lambda>_. None),
       dp_lastSkip = (\<lambda>_. None), dp_skipRepo = True, dp_checkpointRepo = True, dp_canSeed = False, dp_onDisk = (\<lambda>_. False)\<rparr>,
     w_sessions = active, w_released = {}, w_starting = {}, w_finishing = {}, w_handled = {}, w_routed = {}, w_fallbacks = {},
     w_lastErrors = (\<lambda>_. None), w_running = True, w_cycleInFlight = False, w_pendingCycle = False, w_ticks = 0,
     w_cycleCount = 0, w_lastCycleAt = None, w_forceCleanup = False\<rparr>"

definition ready_world :: world where
  "ready_world = idle_world ((sample_store [])\<lparr>st_tasks := [(sample_task ''task1'')\<lparr>task_assignedAgentId := Some ''agent1''\<rparr>]\<rparr>) []"

lemma quiet_sheds: "outside_sheds quiet_outside" "spawner_sheds quiet_spawner"
  by (simp_all add: outside_sheds_def spawner_sheds_def quiet_outside_def quiet_spawner_def shed_intros)

lemma cycle_respects_limit_witness:
  "length (w_sessions (snd (cycle sample_settings quiet_outside quiet_spawner ready_world))) \<le> 1"
  using cycle_respects_limit [OF quiet_sheds, of sample_settings ready_world
      "fst (cycle sample_settings quiet_outside quiet_spawner ready_world)"
      "snd (cycle sample_settings quiet_outside quiet_spawner ready_world)"]
  by (simp add: ready_world_def idle_world_def sample_settings_def)

text \<open>A session whose run has gone from the database.\<close>

definition busy_world :: world where
  "busy_world = idle_world (sample_store [])
     [(''run1'', \<lparr>ae_start = fresh_start, ae_sessionId = ''session1'', ae_lease = None\<rparr>)]"

lemma quiet_release: "calm_release quiet_outside i"
  by (simp add: calm_release_def quiet_outside_def calm_intros)

lemma session_end_frees_slot_witness:
  "\<not> has_active_session ''run1''
     (snd (handle_session_end sample_settings quiet_outside quiet_spawner ''run1'' finished_session busy_world))"
proof -
  let ?m = "handle_session_end sample_settings quiet_outside quiet_spawner ''run1'' finished_session busy_world"
  have held: "''run1'' \<notin> w_handled busy_world" "''run1'' \<notin> w_finishing busy_world"
    "has_active_session ''run1'' busy_world"
    by (simp_all add: busy_world_def idle_world_def has_active_session_def session_of_def)
  have "fst ?m = Inr ()"
    by (simp add: handle_session_end_def session_end_body_def session_end_cleanup_def finally_do_def fresh_ending_def
        busy_world_def idle_world_def sample_store_def run_get_def session_of_def clear_completion_fallback_def
        forget_active_def release_lease_once_def release_lease_def release_session_def note_ending_def quiet_outside_def
        attempted_def on_world_eq on_db_def on_part_def on_leases_def release_dispatch_lease_def andthen_def outcome_simps
        forget_session_def now_of_def)
  then have "?m = (Inr (), snd ?m)" by (metis prod.collapse)
  from session_end_frees_slot [OF quiet_release held(1,2) this] held(3) show ?thesis by simp
qed

text \<open>A server that keeps no evidence restarts over one live run that has no session, no lease and no checkpoint.\<close>

definition silent_settings :: settings where
  "silent_settings = sample_settings\<lparr>se_router := (sample_router [])\<lparr>ro_evidenceRepo := False\<rparr>\<rparr>"

definition restarted_world :: world where
  "restarted_world = idle_world (sample_store [sample_run ''run1'']) []"

definition quiet_reconciler :: reconciler where
  "quiet_reconciler = \<lparr>rc_activity = (\<lambda>_. None), rc_mappingJson = (\<lambda>_ _. JNull)\<rparr>"

definition restart_class :: startup_classification where
  "restart_class = entry (sample_run ''run1'') None NoMapping StallRun
     ''harness session mapping missing across server restart'' None None"

lemma restart_classified:
  "classified silent_settings quiet_reconciler 1000 (sample_run ''run1'') restarted_world =
     (Inr restart_class, restarted_world)"
proof -
  have "classify_startup_run (startup_deps_of silent_settings quiet_reconciler 1000 restarted_world)
      (w_store restarted_world) (sample_run ''run1'') = (restart_class, w_store restarted_world)" by code_simp
  then show ?thesis by (simp add: classified_def)
qed

lemma restart_stalls:
  "isl (fst (stall_for_startup_recovery silent_settings ''run1'' (reason_for restart_class) None 1000 restarted_world)) = False"
  by code_simp

lemma restart_takes_over:
  "isl (fst (take_over silent_settings quiet_outside quiet_spawner 1000 (sample_run ''run1'') restart_class
     (restarted_world, e))) = False"
  using restart_stalls
  by (simp add: take_over_def end_worker_def andthen_def on_world_eq cleanup_worker_def restart_class_def entry_def
      sample_run_def cleanup_orphan_worker_process_def no_worker_def normalize_pid_def note_entry_def modify_def Let_def)


end
