(* ===== verification/Spec2Isabelle.thy ===== *)
theory Spec2Isabelle
  imports Machine_Witnesses Gate_Witnesses Session_Witnesses Dispatch_Witnesses
begin

text \<open>
  Verification of the orchestration core of ductum.

  \<^bold>\<open>The program.\<close> Ductum is a factory that lets coding agents work on a queue of tasks. A spec owns
  a graph of tasks; the dispatcher picks a task that is ready, chooses an agent, creates a run and
  takes an attempt lease on it; the agent works in a git worktree; when it ends, the post-completion
  router verifies the work, has it reviewed, sends it back to be fixed or hands it to approval; a
  state machine keeps the stages and the terminal states of a run, and the DAG evaluator rolls the
  results up to tasks and specs. All of it meets in one SQLite database. The sources are under
  \<open>packages/core/src\<close>; file names below are relative to that directory.

  \<^bold>\<open>How it is modelled.\<close> An operation on the database is a computation \<open>('s, 'e, 'a) comp\<close>: a
  function from the state to an error or a result and the state after it (theory \<open>Prelude\<close>). Every
  throw of the source is an \<open>Inl\<close>, the effects made before it stay, and a transaction gives the state
  back that it began with. The state is the record \<open>db\<close> of theory \<open>Store\<close>: the tables as association
  lists or lists in insertion order, the events that were emitted, and the value of
  \<open>datetime('now')\<close>. Interfaces are records with the source's fields, closed unions are datatypes,
  nullable fields are options. Numbers that count are \<open>int\<close>, amounts and token counts that a payload
  may carry are rationals (the code has doubles: rounding is not modelled, and neither is \<open>NaN\<close>
  where the source's check refuses it), instants are milliseconds, strings are lists of code units
  of the Latin-1 range.

  \<^bold>\<open>The theories\<close>, in the order in which they build on each other:

  \<^item> \<open>Prelude\<close>: computations, JavaScript's string and array helpers, the named collections of rewrite
    rules. \<open>Regex\<close>: a backtracking matcher for the language's regular expressions with a reader of
    their literals. \<open>Json_Text\<close>: \<open>JSON.stringify\<close> and \<open>JSON.parse\<close>.
  \<^item> \<open>Ductum_Types\<close> (\<open>types.ts\<close>, \<open>type-values.ts\<close>, \<open>lifecycle-types.ts\<close>,
    \<open>strategy-config-types.ts\<close>): the data and the events.
  \<^item> \<open>Fencing\<close>: the locale between the lease table and the writers that carry a fence token;
    \<open>Lease\<close> (\<open>repos/attempt-lease.ts\<close>, \<open>attempt-lease.ts\<close>, \<open>dispatcher-lease.ts\<close>): leases,
    their invariant, the refinement of a lock with generations, and the interpretation \<open>lf\<close>.
  \<^item> \<open>Store\<close>, \<open>Run_Repo\<close> (\<open>repos/run.ts\<close>), \<open>Task_Repo\<close> (\<open>repos/task.ts\<close>, \<open>repos/spec.ts\<close>,
    \<open>repos/task-dispatch-skip.ts\<close>, \<open>dispatcher-prerequisite-block.ts\<close>): the database and its repositories, with the query of the tasks that are ready.
  \<^item> \<open>Checkpoint\<close> (\<open>run-checkpoint.ts\<close>, \<open>repos/run-checkpoint.ts\<close>, \<open>dispatcher-resume.ts\<close>): what a checkpoint keeps and when an attempt resumes from it.
  \<^item> \<open>State_Machine\<close> (\<open>state-machine.ts\<close>, \<open>state-machine-fenced.ts\<close>): the operations with and without
    a fence, the abstract lifecycle they refine, the reachable states and their invariant.
  \<^item> \<open>Dag_Graph\<close> and \<open>Dag\<close> (\<open>dag-cycle.ts\<close>, \<open>dag.ts\<close>, \<open>bakeoff.ts\<close>): cycles and topological order;
    evaluation of tasks and specs, reconciliation, completion, validation.
  \<^item> \<open>Frame\<close>: the locale of the parts of the database that these operations leave alone, interpreted in
    \<open>Retry\<close> for the retry columns and in \<open>Route_Facts\<close> for the family tree of runs.
  \<^item> \<open>Approval\<close> (\<open>unattended-approval-policy.ts\<close>, \<open>approval-eligibility.ts\<close>, \<open>strict-ci.ts\<close>,
    \<open>evidence-provenance.ts\<close>), \<open>Ship_Gate\<close> (\<open>external-review-gate.ts\<close>, \<open>stale-approval.ts\<close>), \<open>Integrity\<close>
    (\<open>execution-integrity*.ts\<close>): who may approve, what may ship, whether the records add up.
  \<^item> \<open>Lineage\<close> (\<open>task-lineage.ts\<close>, \<open>post-completion-router-lineage.ts\<close>), \<open>Retry\<close>
    (\<open>dispatcher-agent-health.ts\<close>, \<open>dispatcher-limits.ts\<close>, \<open>quarantine-classifier.ts\<close>,
    \<open>dispatcher-stalled-retry.ts\<close>), \<open>Agents\<close> (\<open>dispatcher-base.ts\<close>, parts of
    \<open>dispatcher-cycle.ts\<close>, \<open>dispatcher-recovery.ts\<close> and \<open>dispatcher-runtime.ts\<close>), \<open>Startup\<close>
    (\<open>dispatcher-reconcile-classifier.ts\<close>): families of tasks, failed attempts, the choice of an agent,
    the runs found after a restart.
  \<^item> \<open>Review\<close> (\<open>structured-review-contract.ts\<close>, \<open>post-completion-review-metadata.ts\<close>), \<open>Bakeoff\<close>
    (\<open>bakeoff-outcomes.ts\<close>, \<open>bakeoff-winner-selection.ts\<close>), \<open>Evidence_Kinds\<close> (\<open>evidence-kinds.ts\<close>),
    \<open>Worktree\<close> (\<open>git-artifacts.ts\<close>, \<open>worktree-dirty.ts\<close>, \<open>auto-commit.ts\<close>, \<open>post-completion.ts\<close>,
    \<open>post-completion-snapshot.ts\<close>), \<open>Router\<close>, \<open>Routes\<close> and \<open>Blind_Review\<close>
    (\<open>post-completion-router-*.ts\<close>, \<open>failed-lineage-cleanup.ts\<close>): what happens when a run completes.
    \<open>Route_Facts\<close> holds what the routes guarantee.
  \<^item> \<open>Model_Registry\<close> (\<open>model-registry.ts\<close>, \<open>model-registry-data.ts\<close>), \<open>Pricing\<close> (\<open>model-pricing.ts\<close>),
    \<open>Cost_Scanner\<close> (\<open>cost-scanner.ts\<close>), \<open>Session_Cost\<close> (\<open>dispatcher-session-cost.ts\<close>), \<open>Ceilings\<close>
    (\<open>attempt-resource-ceilings.ts\<close>): what tokens cost, what a session adds to its run, and the caps
    on an attempt. \<open>Cost_Facts\<close> shows that a session is counted once.
  \<^item> \<open>Orphan_Worker\<close> (\<open>orphan-worker-process-cleanup.ts\<close>): ending the process of a dead worker.
    \<open>Dispatch_World\<close> (\<open>dispatcher-base.ts\<close>, \<open>dispatcher-types.ts\<close>, \<open>dispatcher-release-session.ts\<close>,
    \<open>dispatcher-completion-release.ts\<close>): the dispatcher's memory beside the database, as the record
    \<open>world\<close>, and releasing a session. \<open>Dispatch_Spawn\<close> (\<open>dispatcher-spawn.ts\<close>,
    \<open>dispatcher-inherited-worktree.ts\<close>, \<open>repos/session.ts\<close>): from a task to a running session and back.
    \<open>Dispatch_Recovery\<close> (\<open>dispatcher-recovery.ts\<close>): pausing, resuming, limits and failover.
    \<open>Session_End\<close> (\<open>dispatcher-session.ts\<close>, \<open>worktree-dirty.ts\<close>, \<open>dispatcher-dirty-worktree.ts\<close>,
    \<open>dispatcher-route-completion.ts\<close>, \<open>dispatcher-stored-completion.ts\<close>,
    \<open>dispatcher-completion-fallback.ts\<close>): what an ended session leads to. \<open>Dispatch_Cycle\<close>
    (\<open>dispatcher-cycle.ts\<close>, \<open>dispatcher-stale-slot-gc.ts\<close>): one turn of the loop with its sweeps.
    \<open>Reconcile\<close> (\<open>dispatcher-reconcile.ts\<close>): the runs a restarted server finds. \<open>Dispatch_Facts\<close>: the
    limit on sessions, and the slot that is freed.
  \<^item> \<open>Samples\<close> and the theories called witnesses: the properties that have hypotheses at concrete rows.

  \<^bold>\<open>Groups of lemmas.\<close> Leases: one holder per run, generations only grow, a superseded token is
  refused for ever (an invariant and an abstraction to a lock). State machine: each operation's
  outcome on every branch, a simulation of the lifecycle, an invariant of the halted states. DAG:
  evaluation settles every task it can reach, the order it computes is a topological order exactly
  when there is no cycle, and a concrete cyclic graph on which it does not end. Queries: what is
  ready may be dispatched, and a run that was created closes the task to a second one. Approval and
  ship gate: nothing is approved on evidence of an untrusted source, over budget or without CI.
  Routing: fix rounds end, only a passed review ships, a malformed one is asked for once more.
  Dispatcher: a computation that does not raise a measure of the world (\<open>sheds\<close>), one that raises it by one
  at most, and rules for every construct carry both through whole handlers, so that a cycle never
  holds more sessions than the limit; the end of a session frees its slot on every path; a restart
  accounts for every run it finds and signals no process but the recorded worker.
  Accounting: the same usage reported twice is added once, and a session is paused exactly when a
  cap is exceeded. Readers and printers: names of derived tasks, checkpoints and structured reviews
  are read back as they were written or refused.

  \<^bold>\<open>Fuel and bounds.\<close> A recursion of the source over parent links or task dependencies, which the
  database does not promise to be free of cycles, is given as fuel the number of rows plus one where
  a seen set ends it, and then shown to have enough; \<open>evaluate_task_dag\<close> has no such guard in the
  source and is a partial function. The regular expression reader and the matcher take the length of
  the text, \<open>JSON.parse\<close> takes twice the length plus two, the search for a prompt overflow stops at
  depth five as in the source.

  \<^bold>\<open>Parameters.\<close> What is not code of the repository is an argument: git, the shell, the file system
  and the harnesses as the record \<open>tools\<close> and the callbacks in \<open>router\<close>; the digest of an evidence
  payload; fresh ids; printing a number with a fraction; reading a date; the redactor of secrets;
  the answer of the price list; the snapshot of a session's log; the tree of log files. For the
  dispatcher, \<open>outside\<close> holds what it awaits (killing and probing a harness, tearing a sandbox down,
  closing an MCP server, removing worktrees and containers, the operating system's processes) and
  \<open>spawner\<close> what a dispatch looks up (the runtime of an agent, the checks of the workspace, the prompt,
  the sandbox, the harness itself). Both may change the whole world, because other handlers run while
  one of them is awaited; a property that needs less says so in a hypothesis: \<open>outside_sheds\<close> and
  \<open>spawner_sheds\<close> that what is awaited starts no session, \<open>calm_release\<close> that tearing one session down
  touches no other, \<open>logs_signals\<close> that looking at a process sends it nothing.

  \<^bold>\<open>Not modelled.\<close> The timer that starts a cycle, and how the runtime of an agent is resolved from
  configuration resources; the workflow enforcement, whose stage moves the external package edictum
  decides; watchers, which poll external services; repair, settings, secrets and resources, which are
  configuration and reports around the core; the SQL text of the schema, whose constraints the
  repositories' models write out; and the HTTP API, the command line, the dashboard and the harness
  adapters, which print, parse and transport what the core computes. Promises are run to their end
  where they are awaited, and a timeout is an answer of a parameter. Cascading deletes and the
  activity table are left out of the repositories; nothing modelled reads what they leave.
\<close>

end
